(* ===== verification/Prelude.thy ===== *)
theory Prelude
  imports Main "HOL-Library.Word" "HOL-Library.Sublist"
begin

text \<open>
  What every component shares: the machine types, results with errors and panics as
  values, the sequencing that Rust writes with the question mark, checked arithmetic
  and slicing, little-endian integers and decimal formatting.

  The target is a 64-bit little-endian machine: \<open>usize\<close> is eight bytes wide. A length or
  a position is a \<open>nat\<close>; a value read from the wire is a word of its width.
\<close>

section \<open>Machine types\<close>

type_synonym u8 = "8 word"
type_synonym u16 = "16 word"
type_synonym u32 = "32 word"
type_synonym u64 = "64 word"
type_synonym i32 = "32 word" \<comment> \<open>two's complement, read with \<open>sint\<close>\<close>
type_synonym usize = "64 word"
type_synonym isize = "64 word"
type_synonym bytes = "u8 list"
type_synonym rstring = "u8 list" \<comment> \<open>a Rust \<open>String\<close>: its UTF-8 bytes\<close>

section \<open>Collections of facts\<close>

named_theorems result_simps \<open>computation rules of results and of sequencing\<close>
named_theorems layout_simps \<open>sizes, alignments and offsets of the C structures\<close>
named_theorems wb_intros \<open>closure of the well-behaved decoders\<close>
named_theorems roundtrip_simps \<open>reading back what a builder wrote\<close>

section \<open>Results\<close>

text \<open>A Rust \<open>Result\<close>, and the panic that ends the thread instead of returning.\<close>

datatype ('a, 'e) result = Ok 'a | Err 'e | Panic

text \<open>The question mark operator: go on with the value, or return the error.\<close>

definition and_then ::
  "('a, 'e) result \<Rightarrow> ('a \<Rightarrow> ('b, 'e) result) \<Rightarrow> ('b, 'e) result" where
  "and_then r k = (case r of Ok x \<Rightarrow> k x | Err e \<Rightarrow> Err e | Panic \<Rightarrow> Panic)"

lemma and_then_simps [simp, result_simps]:
  "and_then (Ok x) k = k x"
  "and_then (Err e) k = Err e"
  "and_then Panic k = Panic"
  by (simp_all add: and_then_def)

lemma and_then_cong [fundef_cong]:
  assumes "r = r'" and "\<And>x. r' = Ok x \<Longrightarrow> k x = k' x"
  shows "and_then r k = and_then r' k'"
  using assms by (cases r') simp_all

lemma and_then_assoc: "and_then (and_then r k) l = and_then r (\<lambda>x. and_then (k x) l)"
  by (cases r) simp_all

lemma and_then_Ok_right [simp]: "and_then r Ok = r"
  by (cases r) simp_all

lemma and_then_eq_Ok:
  "and_then r k = Ok y \<longleftrightarrow> (\<exists>x. r = Ok x \<and> k x = Ok y)"
  by (cases r) auto

lemma and_then_eq_Err:
  "and_then r k = Err e \<longleftrightarrow> r = Err e \<or> (\<exists>x. r = Ok x \<and> k x = Err e)"
  by (cases r) auto

lemma and_then_eq_Panic:
  "and_then r k = Panic \<longleftrightarrow> r = Panic \<or> (\<exists>x. r = Ok x \<and> k x = Panic)"
  by (cases r) auto

fun map_err :: "('e \<Rightarrow> 'f) \<Rightarrow> ('a, 'e) result \<Rightarrow> ('a, 'f) result" where
  "map_err f (Ok x) = Ok x"
| "map_err f (Err e) = Err (f e)"
| "map_err f Panic = Panic"

fun map_ok :: "('a \<Rightarrow> 'b) \<Rightarrow> ('a, 'e) result \<Rightarrow> ('b, 'e) result" where
  "map_ok f (Ok x) = Ok (f x)"
| "map_ok f (Err e) = Err e"
| "map_ok f Panic = Panic"

fun is_Ok :: "('a, 'e) result \<Rightarrow> bool" where
  "is_Ok (Ok x) = True"
| "is_Ok r = False"

lemma is_Ok_iff: "is_Ok r \<longleftrightarrow> (\<exists>x. r = Ok x)"
  by (cases r) simp_all

lemma map_ok_eq_Ok: "map_ok f r = Ok y \<longleftrightarrow> (\<exists>x. r = Ok x \<and> y = f x)"
  by (cases r) auto

section \<open>Arithmetic on \<open>usize\<close> and slicing\<close>

definition usize_bound :: nat where
  "usize_bound = 2 ^ 64"

text \<open>A slice never spans more than \<open>isize::MAX\<close> bytes.\<close>

definition slice_max :: nat where
  "slice_max = 2 ^ 63 - 1"

definition checked_add :: "nat \<Rightarrow> nat \<Rightarrow> nat option" where
  "checked_add a b = (if a + b < usize_bound then Some (a + b) else None)"

definition checked_sub :: "nat \<Rightarrow> nat \<Rightarrow> nat option" where
  "checked_sub a b = (if b \<le> a then Some (a - b) else None)"

text \<open>A plain \<open>+\<close> on \<open>usize\<close>, with overflow checks on: it panics.\<close>

definition usize_add :: "nat \<Rightarrow> nat \<Rightarrow> (nat, 'e) result" where
  "usize_add a b = (if a + b < usize_bound then Ok (a + b) else Panic)"

lemma usize_add_Ok [simp]: "a + b < usize_bound \<Longrightarrow> usize_add a b = Ok (a + b)"
  by (simp add: usize_add_def)

lemma usize_add_eq_Ok: "usize_add a b = Ok c \<longleftrightarrow> a + b < usize_bound \<and> c = a + b"
  by (auto simp: usize_add_def)

text \<open>The slice \<open>b[i..j]\<close>, which panics out of range.\<close>

definition slice :: "bytes \<Rightarrow> nat \<Rightarrow> nat \<Rightarrow> (bytes, 'e) result" where
  "slice b i j = (if i \<le> j \<and> j \<le> length b then Ok (take (j - i) (drop i b)) else Panic)"

lemma slice_Ok [simp]:
  "i \<le> j \<Longrightarrow> j \<le> length b \<Longrightarrow> slice b i j = Ok (take (j - i) (drop i b))"
  by (simp add: slice_def)

lemma slice_eq_Ok:
  "slice b i j = Ok s \<longleftrightarrow> i \<le> j \<and> j \<le> length b \<and> s = take (j - i) (drop i b)"
  by (auto simp: slice_def)

lemma take_drop_prefix_eq:
  assumes "take n b = take n b'" and "i + k \<le> n"
  shows "take k (drop i b) = take k (drop i b')"
proof -
  have "take k (drop i b) = take k (drop i (take n b))"
    using assms(2) by (simp add: drop_take min_def)
  also have "\<dots> = take k (drop i (take n b'))"
    using assms(1) by simp
  also have "\<dots> = take k (drop i b')"
    using assms(2) by (simp add: drop_take min_def)
  finally show ?thesis .
qed

section \<open>Little-endian integers\<close>

fun nat_le :: "nat \<Rightarrow> nat \<Rightarrow> bytes" where
  "nat_le 0 v = []"
| "nat_le (Suc k) v = word_of_nat v # nat_le k (v div 256)"

fun le_nat :: "bytes \<Rightarrow> nat" where
  "le_nat [] = 0"
| "le_nat (b # bs) = unat b + 256 * le_nat bs"

lemma length_nat_le [simp]: "length (nat_le k v) = k"
  by (induction k arbitrary: v) simp_all

lemma unat_word_of_nat_u8 [simp]: "unat (word_of_nat v :: u8) = v mod 256"
  by (simp add: unat_of_nat)

lemma le_nat_nat_le [simp]: "le_nat (nat_le k v) = v mod 256 ^ k"
proof (induction k arbitrary: v)
  case 0
  then show ?case by simp
next
  case (Suc k)
  have "le_nat (nat_le (Suc k) v) = v mod 256 + 256 * (v div 256 mod 256 ^ k)"
    by (simp add: Suc)
  also have "\<dots> = v mod (256 * 256 ^ k)"
    by (simp add: mod_mult2_eq)
  finally show ?case by simp
qed

lemma le_nat_bound: "le_nat bs < 256 ^ length bs"
proof (induction bs)
  case Nil
  then show ?case by simp
next
  case (Cons b bs)
  have "unat b < 256" using unsigned_less [of b] by simp
  moreover have "le_nat bs + 1 \<le> 256 ^ length bs" using Cons by simp
  ultimately show ?case by simp
qed

definition word_to_le :: "'a::len word \<Rightarrow> bytes" where
  "word_to_le w = nat_le (LENGTH('a) div 8) (unat w)"

definition word_from_le :: "bytes \<Rightarrow> 'a::len word" where
  "word_from_le bs = word_of_nat (le_nat bs)"

lemma length_word_to_le [simp]: "length (word_to_le (w :: 'a::len word)) = LENGTH('a) div 8"
  by (simp add: word_to_le_def)

lemma word_from_to_le:
  assumes "8 dvd LENGTH('a)"
  shows "word_from_le (word_to_le (w :: 'a::len word)) = w"
proof -
  have "(256::nat) ^ (LENGTH('a) div 8) = 2 ^ (8 * (LENGTH('a) div 8))"
    by (simp add: power_mult)
  then have "(256::nat) ^ (LENGTH('a) div 8) = 2 ^ LENGTH('a)"
    using assms by simp
  then show ?thesis
    using unsigned_less [of w] by (simp add: word_from_le_def word_to_le_def)
qed

lemma word_from_to_le_widths [simp, roundtrip_simps]:
  "word_from_le (word_to_le (a :: u8)) = a"
  "word_from_le (word_to_le (b :: u16)) = b"
  "word_from_le (word_to_le (c :: u32)) = c"
  "word_from_le (word_to_le (d :: u64)) = d"
  by (simp_all add: word_from_to_le)

text \<open>
  For evaluation only: the same on \<open>int\<close>, whose numerals the simplifier computes in binary.
\<close>

fun int_le :: "nat \<Rightarrow> int \<Rightarrow> bytes" where
  "int_le 0 v = []"
| "int_le (Suc k) v = word_of_int v # int_le k (v div 256)"

fun le_int :: "bytes \<Rightarrow> int" where
  "le_int [] = 0"
| "le_int (b # bs) = uint b + 256 * le_int bs"

lemma nat_le_int: "nat_le k v = int_le k (int v)"
  by (induction k arbitrary: v) (simp_all add: zdiv_int)

lemma le_nat_int: "int (le_nat bs) = le_int bs"
  by (induction bs) simp_all

lemma word_to_le_code [code]:
  "word_to_le (w :: 'a::len word) = int_le (LENGTH('a) div 8) (uint w)"
  by (simp add: word_to_le_def nat_le_int)

lemma word_from_le_code [code]: "word_from_le bs = word_of_int (le_int bs)"
  by (simp add: word_from_le_def le_nat_int [symmetric])

section \<open>Formatting\<close>

definition digit_char :: "nat \<Rightarrow> char" where
  "digit_char d = char_of (48 + d)"

text \<open>The decimal text of an unsigned integer, as \<open>{}\<close> prints it.\<close>

fun dec :: "nat \<Rightarrow> string" where
  "dec n = (if n < 10 then [digit_char n] else dec (n div 10) @ [digit_char (n mod 10)])"

declare dec.simps [simp del]

text \<open>A literal of the source: its bytes. Every literal is ASCII.\<close>

definition ascii :: "string \<Rightarrow> rstring" where
  "ascii s = map of_char s"

lemma length_ascii [simp]: "length (ascii s) = length s"
  by (simp add: ascii_def)

lemma ascii_append: "ascii (s @ t) = ascii s @ ascii t"
  by (simp add: ascii_def)

end
