(* ===== verification/Errors.thy ===== *)
theory Errors
  imports Prelude
begin

text \<open>
  src/error.rs: the error type of the crate and the text of each error. \<open>Protocol\<close> carries
  the message the code formats at each place where it gives up on a byte stream.
\<close>

text \<open>
  The kinds of \<open>std::io::Error\<close> that the code or the standard library's loops tell apart;
  every other kind is \<open>OsError\<close> with its number.
\<close>

datatype io_error = UnexpectedEof | WriteZero | OsError nat

datatype error =
    Io io_error
  | UnexpectedMessageType u32 u32 \<comment> \<open>expected, got\<close>
  | RequestRejected
  | Protocol string

type_synonym 'a res = "('a, error) result"

text \<open>The \<open>Display\<close> text of an error; the text of an I/O error is the system's.\<close>

fun error_text :: "(io_error \<Rightarrow> string) \<Rightarrow> error \<Rightarrow> string" where
  "error_text io (Io e) = ''I/O error talking to lldpd: '' @ io e"
| "error_text io (UnexpectedMessageType expected got) =
     ''unexpected reply from lldpd: expected message type '' @ dec (unat expected) @
     '', got '' @ dec (unat got)"
| "error_text io RequestRejected =
     ''lldpd rejected the request (interface not found, or feature disabled)''"
| "error_text io (Protocol m) = ''malformed lldpd control-protocol message: '' @ m"

text \<open>A result that is a value or a protocol error: neither a panic nor any other error.\<close>

fun ok_or_protocol :: "'a res \<Rightarrow> bool" where
  "ok_or_protocol (Ok x) = True"
| "ok_or_protocol (Err (Protocol m)) = True"
| "ok_or_protocol r = False"

lemma ok_or_protocol_iff:
  "ok_or_protocol r \<longleftrightarrow> (\<exists>x. r = Ok x) \<or> (\<exists>m. r = Err (Protocol m))"
  by (cases r rule: ok_or_protocol.cases) auto

lemma ok_or_protocol_and_then:
  assumes "ok_or_protocol r" and "\<And>x. r = Ok x \<Longrightarrow> ok_or_protocol (k x)"
  shows "ok_or_protocol (and_then r k)"
  using assms by (cases r) (auto simp: ok_or_protocol_iff)

lemma ok_or_protocol_map_ok [simp]: "ok_or_protocol (map_ok f r) = ok_or_protocol r"
  by (cases r) (auto simp: ok_or_protocol_iff)

end
