(* ===== verification/Stream.thy ===== *)
theory Stream
  imports Errors
begin

text \<open>
  The byte stream under the transport. \<open>io\<close> is what the code calls on a socket:
  \<open>read_exact\<close> and \<open>write_all\<close>. The blocking client uses the standard library's, which are
  modelled here: loops over the single reads and writes of the socket, of which the system
  decides how many bytes each moves, whether it is interrupted and whether it fails. A stream
  is the list of what the system answers: every list is a behaviour of the system, the end of
  the read list is the peer closing the connection. A list is finite, so a peer that never closes
  is a stream of another type; what holds for any type of stream is stated for any \<open>io\<close>.

  The interface \<open>byte_stream\<close> is what the transport relies on. It is the documented contract
  of both functions, for the standard library and for tokio; it is interpreted here on the
  standard library's loops.
\<close>

section \<open>What the transport calls\<close>

record 's io =
  read_exact :: "nat \<Rightarrow> 's \<Rightarrow> (bytes, io_error) result \<times> 's"
  write_all :: "bytes \<Rightarrow> 's \<Rightarrow> (unit, io_error) result \<times> 's"

text \<open>
  \<open>incoming s\<close>: the bytes the peer has sent or will send before it closes; \<open>sent s\<close>: the bytes
  written; \<open>fair s\<close>: no system error other than an interruption lies ahead, and no end before
  the last byte.
\<close>

locale byte_source =
  fixes io :: "'s io" and incoming :: "'s \<Rightarrow> bytes" and fair :: "'s \<Rightarrow> bool"
  assumes read_length: "read_exact io n s = (Ok b, s') \<Longrightarrow> length b = n"
    and read_no_panic: "fst (read_exact io n s) \<noteq> Panic"
    and read_enough: "fair s \<Longrightarrow> n \<le> length (incoming s) \<Longrightarrow>
      \<exists>s'. read_exact io n s = (Ok (take n (incoming s)), s') \<and>
        incoming s' = drop n (incoming s) \<and> fair s'"
    and read_eof: "fair s \<Longrightarrow> length (incoming s) < n \<Longrightarrow>
      fst (read_exact io n s) = Err UnexpectedEof"

text \<open>What no read changes.\<close>

locale read_preserves =
  fixes io :: "'s io" and kept :: "'s \<Rightarrow> 'v"
  assumes read_keeps: "kept (snd (read_exact io n s)) = kept s"

locale byte_stream = byte_source io incoming fair + read_preserves io sent
  for io :: "'s io" and incoming :: "'s \<Rightarrow> bytes" and fair :: "'s \<Rightarrow> bool"
    and sent :: "'s \<Rightarrow> bytes" +
  assumes write_no_panic: "fst (write_all io b s) \<noteq> Panic"
    and write_fair: "fair s \<Longrightarrow>
      \<exists>s'. write_all io b s = (Ok (), s') \<and> sent s' = sent s @ b \<and>
        incoming s' = incoming s \<and> fair s'"
    and write_prefix: "\<exists>k \<le> length b. sent (snd (write_all io b s)) = sent s @ take k b"

section \<open>The standard library's loops\<close>

datatype rx_event = Data bytes | RxInterrupted | RxError io_error
datatype tx_event = Accept nat | TxInterrupted | TxError io_error

record stream =
  rx :: "rx_event list" \<comment> \<open>the answers to the reads to come; at the end, the peer has closed\<close>
  txq :: "tx_event list" \<comment> \<open>the answers to the writes to come; at the end, all is accepted\<close>
  tx :: bytes \<comment> \<open>the bytes written\<close>

text \<open>
  \<open>Read::read_exact\<close>: read until the buffer is full; a read of no bytes (\<open>Data []\<close>, or the end
  of the script) is the end of the stream, an interrupted read is repeated, and any other error
  is returned.
\<close>

fun read_events :: "nat \<Rightarrow> rx_event list \<Rightarrow> (bytes, io_error) result \<times> rx_event list" where
  "read_events 0 evs = (Ok [], evs)"
| "read_events (Suc n) [] = (Err UnexpectedEof, [])"
| "read_events (Suc n) (RxInterrupted # evs) = read_events (Suc n) evs"
| "read_events (Suc n) (RxError e # evs) = (Err e, evs)"
| "read_events (Suc n) (Data d # evs) =
     (if d = [] then (Err UnexpectedEof, evs)
      else if Suc n < length d then (Ok (take (Suc n) d), Data (drop (Suc n) d) # evs)
      else case read_events (Suc n - length d) evs of
        (r, evs') \<Rightarrow> (map_ok (\<lambda>b. d @ b) r, evs'))"

definition std_read_exact :: "nat \<Rightarrow> stream \<Rightarrow> (bytes, io_error) result \<times> stream" where
  "std_read_exact n s = (case read_events n (rx s) of (r, evs) \<Rightarrow> (r, s\<lparr>rx := evs\<rparr>))"

text \<open>
  \<open>Write::write_all\<close>: write until nothing is left; a write of no bytes is \<open>WriteZero\<close>, an
  interrupted write is repeated, and any other error is returned.
\<close>

fun write_events ::
  "bytes \<Rightarrow> tx_event list \<Rightarrow> (unit, io_error) result \<times> tx_event list \<times> bytes" where
  "write_events b [] = (Ok (), [], b)"
| "write_events b (ev # evs) =
     (if b = [] then (Ok (), ev # evs, [])
      else case ev of
        Accept n \<Rightarrow>
          if n = 0 then (Err WriteZero, evs, [])
          else (case write_events (drop n b) evs of
            (r, evs', w) \<Rightarrow> (r, evs', take n b @ w))
      | TxInterrupted \<Rightarrow> write_events b evs
      | TxError e \<Rightarrow> (Err e, evs, []))"

definition std_write_all :: "bytes \<Rightarrow> stream \<Rightarrow> (unit, io_error) result \<times> stream" where
  "std_write_all b s =
     (case write_events b (txq s) of (r, evs, w) \<Rightarrow> (r, s\<lparr>txq := evs, tx := tx s @ w\<rparr>))"

definition std_io :: "stream io" where
  "std_io = \<lparr>read_exact = std_read_exact, write_all = std_write_all\<rparr>"

section \<open>They keep the contract\<close>

fun event_bytes :: "rx_event \<Rightarrow> bytes" where
  "event_bytes (Data d) = d"
| "event_bytes ev = []"

definition std_incoming :: "stream \<Rightarrow> bytes" where
  "std_incoming s = concat (map event_bytes (rx s))"

fun rx_fair :: "rx_event \<Rightarrow> bool" where
  "rx_fair (Data d) = (d \<noteq> [])"
| "rx_fair RxInterrupted = True"
| "rx_fair (RxError e) = False"

fun tx_fair :: "tx_event \<Rightarrow> bool" where
  "tx_fair (Accept n) = (n > 0)"
| "tx_fair TxInterrupted = True"
| "tx_fair (TxError e) = False"

definition std_fair :: "stream \<Rightarrow> bool" where
  "std_fair s \<longleftrightarrow> list_all rx_fair (rx s) \<and> list_all tx_fair (txq s)"

lemma read_events_length: "read_events n evs = (Ok b, evs') \<Longrightarrow> length b = n"
proof (induction n evs arbitrary: b evs' rule: read_events.induct)
  case (5 n d evs)
  show ?case
  proof (cases "Suc n < length d \<or> d = []")
    case True
    with "5.prems" show ?thesis by (auto split: if_splits)
  next
    case False
    obtain r evs1 where r: "read_events (Suc n - length d) evs = (r, evs1)" by fastforce
    with "5.prems" False obtain b1 where "r = Ok b1" "b = d @ b1"
      by (auto simp: map_ok_eq_Ok)
    with "5.IH" r False show ?thesis by auto
  qed
qed simp_all

lemma read_events_no_panic: "fst (read_events n evs) \<noteq> Panic"
proof (induction n evs rule: read_events.induct)
  case (5 n d evs)
  then show ?case
    by (cases "read_events (Suc n - length d) evs"; cases "fst (read_events (Suc n - length d) evs)")
      auto
qed simp_all

lemma read_events_enough:
  "list_all rx_fair evs \<Longrightarrow> n \<le> length (concat (map event_bytes evs)) \<Longrightarrow>
   \<exists>evs'. read_events n evs = (Ok (take n (concat (map event_bytes evs))), evs') \<and>
     concat (map event_bytes evs') = drop n (concat (map event_bytes evs)) \<and> list_all rx_fair evs'"
proof (induction n evs rule: read_events.induct)
  case (5 n d evs)
  show ?case
  proof (cases "Suc n < length d")
    case True
    with 5 show ?thesis by auto
  next
    case False
    have d: "d \<noteq> []" using "5.prems" by simp
    have "Suc n - length d \<le> length (concat (map event_bytes evs))" "list_all rx_fair evs"
      using "5.prems" by simp_all
    with "5.IH" [OF d False] obtain evs' where
      "read_events (Suc n - length d) evs =
         (Ok (take (Suc n - length d) (concat (map event_bytes evs))), evs')"
      "concat (map event_bytes evs') = drop (Suc n - length d) (concat (map event_bytes evs))"
      "list_all rx_fair evs'"
      by blast
    with d False show ?thesis by simp
  qed
qed simp_all

lemma read_events_eof:
  "list_all rx_fair evs \<Longrightarrow> length (concat (map event_bytes evs)) < n \<Longrightarrow>
   fst (read_events n evs) = Err UnexpectedEof"
proof (induction n evs rule: read_events.induct)
  case (5 n d evs)
  then have "\<not> Suc n < length d" "d \<noteq> []"
    and "fst (read_events (Suc n - length d) evs) = Err UnexpectedEof"
    by auto
  then show ?case by (cases "read_events (Suc n - length d) evs") simp
qed simp_all

lemma write_events_no_panic: "fst (write_events b evs) \<noteq> Panic"
  by (induction b evs rule: write_events.induct) (auto split: tx_event.splits prod.splits)

lemma write_events_fair:
  "list_all tx_fair evs \<Longrightarrow> \<exists>evs'. write_events b evs = (Ok (), evs', b) \<and> list_all tx_fair evs'"
proof (induction b evs rule: write_events.induct)
  case (2 b ev evs)
  then show ?case by (cases ev) (fastforce split: prod.splits)+
qed simp

lemma write_events_prefix: "\<exists>k \<le> length b. snd (snd (write_events b evs)) = take k b"
proof (induction b evs rule: write_events.induct)
  case (2 b ev evs)
  show ?case
  proof (cases "b = []")
    case True
    then show ?thesis by simp
  next
    case False
    show ?thesis
    proof (cases ev)
      case (Accept n)
      show ?thesis
      proof (cases "n = 0")
        case True
        with False Accept show ?thesis by (intro exI [of _ 0]) simp
      next
        case n: False
        with 2(1) [OF False Accept] obtain k where k: "k \<le> length (drop n b)"
            "snd (snd (write_events (drop n b) evs)) = take k (drop n b)"
          by auto
        have "take n b @ take k (drop n b) = take (min n (length b) + k) b"
          by (simp add: take_add min_def)
        with k n False Accept show ?thesis
          by (intro exI [of _ "min n (length b) + k"]) (auto split: prod.splits)
      qed
    next
      case TxInterrupted
      with 2(2) [OF False] False show ?thesis by simp
    next
      case (TxError e)
      with False show ?thesis by (intro exI [of _ 0]) simp
    qed
  qed
qed (auto intro: exI [where x = "length b" for b :: bytes])

interpretation std: byte_stream std_io std_incoming std_fair tx
proof
  fix n s b s'
  show "read_exact std_io n s = (Ok b, s') \<Longrightarrow> length b = n"
    by (auto simp: std_io_def std_read_exact_def split: prod.splits dest: read_events_length)
  show "fst (read_exact std_io n s) \<noteq> Panic"
    using read_events_no_panic [of n "rx s"]
    by (cases "read_events n (rx s)") (simp add: std_io_def std_read_exact_def)
  show "std_fair s \<Longrightarrow> n \<le> length (std_incoming s) \<Longrightarrow>
      \<exists>s'. read_exact std_io n s = (Ok (take n (std_incoming s)), s') \<and>
        std_incoming s' = drop n (std_incoming s) \<and> std_fair s'"
    using read_events_enough [of "rx s" n]
    by (auto simp: std_io_def std_read_exact_def std_incoming_def std_fair_def)
  show "std_fair s \<Longrightarrow> length (std_incoming s) < n \<Longrightarrow>
      fst (read_exact std_io n s) = Err UnexpectedEof"
    using read_events_eof [of "rx s" n]
    by (auto simp: std_io_def std_read_exact_def std_incoming_def std_fair_def split: prod.splits)
  show "tx (snd (read_exact std_io n s)) = tx s"
    by (simp add: std_io_def std_read_exact_def split: prod.splits)
next
  fix b s
  show "fst (write_all std_io b s) \<noteq> Panic"
    using write_events_no_panic [of b "txq s"]
    by (cases "write_events b (txq s)") (simp add: std_io_def std_write_all_def)
  show "std_fair s \<Longrightarrow> \<exists>s'. write_all std_io b s = (Ok (), s') \<and> tx s' = tx s @ b \<and>
      std_incoming s' = std_incoming s \<and> std_fair s'"
    using write_events_fair [of "txq s" b]
    by (auto simp: std_io_def std_write_all_def std_incoming_def std_fair_def)
  show "\<exists>k \<le> length b. tx (snd (write_all std_io b s)) = tx s @ take k b"
    using write_events_prefix [of b "txq s"]
    by (auto simp: std_io_def std_write_all_def split: prod.splits)
qed

end
