(* ===== verification/Layout.thy ===== *)
theory Layout
  imports Prelude
begin

text \<open>
  The layout rules of C structures, as \<open>#[repr(C)]\<close> applies them: the alignment and the
  size of a type, the offset of every field, the padding between and after the fields.
  \<open>align_up\<close> is the function of src/transport.rs, which the decoder and the encoder also
  use for the padding of chunks. \<open>pack\<close> writes a structure, \<open>field_bytes\<close> reads one of its
  fields; \<open>field_bytes_pack\<close> says that what is read is what was written.
\<close>

section \<open>Alignment\<close>

definition align_up :: "nat \<Rightarrow> nat \<Rightarrow> nat" where
  "align_up len align = len + (align - len mod align) mod align"

lemma align_up_ge: "n \<le> align_up n a"
  by (simp add: align_up_def)

lemma align_up_less: "0 < a \<Longrightarrow> align_up n a < n + a"
  by (simp add: align_up_def)

lemma align_up_dvd: "0 < a \<Longrightarrow> a dvd align_up n a"
proof (cases "n mod a = 0")
  case True
  then show ?thesis by (simp add: align_up_def mod_eq_0_iff_dvd)
next
  case False
  assume "0 < a"
  with False have "align_up n a = n + (a - n mod a)"
    by (simp add: align_up_def)
  also have "\<dots> = n div a * a + a"
  proof -
    have "n = n div a * a + n mod a" by simp
    moreover have "n mod a \<le> a" using \<open>0 < a\<close> by (simp add: less_imp_le)
    ultimately show ?thesis by linarith
  qed
  finally show ?thesis by simp
qed

lemma align_up_id: "a dvd n \<Longrightarrow> align_up n a = n"
  by (cases "a = 0") (auto simp: align_up_def)

lemma align_up_least:
  assumes "0 < a" "a dvd m" "n \<le> m"
  shows "align_up n a \<le> m"
proof (rule ccontr)
  assume "\<not> align_up n a \<le> m"
  then have "m < align_up n a" by simp
  moreover have "align_up n a < n + a" using assms(1) by (rule align_up_less)
  ultimately have "0 < align_up n a - m" "align_up n a - m < a" using assms(3) by auto
  moreover have "a dvd align_up n a - m"
    using align_up_dvd [OF assms(1)] assms(2) by (rule dvd_diff_nat)
  ultimately show False by (auto dest: dvd_imp_le)
qed

section \<open>C types\<close>

text \<open>A primitive type of \<open>n\<close> bytes is aligned to \<open>n\<close> on the target.\<close>

datatype ctype = Prim nat | Arr ctype nat | Struct "(string \<times> ctype) list"

abbreviation (input) "u8_t \<equiv> Prim 1"
abbreviation (input) "u16_t \<equiv> Prim 2"
abbreviation (input) "u32_t \<equiv> Prim 4"
abbreviation (input) "i32_t \<equiv> Prim 4"
abbreviation (input) "u64_t \<equiv> Prim 8"
abbreviation (input) "usize_t \<equiv> Prim 8"
abbreviation (input) "isize_t \<equiv> Prim 8"

fun align_of :: "ctype \<Rightarrow> nat" and aligns_of :: "(string \<times> ctype) list \<Rightarrow> nat" where
  "align_of (Prim n) = n"
| "align_of (Arr t n) = align_of t"
| "align_of (Struct fs) = aligns_of fs"
| "aligns_of [] = 1"
| "aligns_of (f # fs) = max (align_of (snd f)) (aligns_of fs)"

fun size_of :: "ctype \<Rightarrow> nat" and end_of :: "nat \<Rightarrow> (string \<times> ctype) list \<Rightarrow> nat" where
  "size_of (Prim n) = n"
| "size_of (Arr t n) = size_of t * n"
| "size_of (Struct fs) = align_up (end_of 0 fs) (aligns_of fs)"
| "end_of off [] = off"
| "end_of off (f # fs) = end_of (align_up off (align_of (snd f)) + size_of (snd f)) fs"

fun fields_of :: "ctype \<Rightarrow> (string \<times> ctype) list" where
  "fields_of (Struct fs) = fs"
| "fields_of t = []"

text \<open>
  Every field with its offset and its size: a field starts at the next offset after the
  previous one that its alignment allows.
\<close>

fun place :: "nat \<Rightarrow> (string \<times> ctype) list \<Rightarrow> (string \<times> nat \<times> nat) list" where
  "place off [] = []"
| "place off (f # fs) =
     (let here = align_up off (align_of (snd f)); n = size_of (snd f)
      in (fst f, here, n) # place (here + n) fs)"

definition placed :: "ctype \<Rightarrow> (string \<times> nat \<times> nat) list" where
  "placed t = place 0 (fields_of t)"

definition offset_of :: "ctype \<Rightarrow> string \<Rightarrow> nat" where
  "offset_of t nm = (case map_of (placed t) nm of Some (off, n) \<Rightarrow> off | None \<Rightarrow> 0)"

definition field_bytes :: "ctype \<Rightarrow> bytes \<Rightarrow> string \<Rightarrow> bytes" where
  "field_bytes t b nm =
     (case map_of (placed t) nm of Some (off, n) \<Rightarrow> take n (drop off b) | None \<Rightarrow> [])"

text \<open>An integer field, in the width of the type it is read at.\<close>

definition field :: "ctype \<Rightarrow> bytes \<Rightarrow> string \<Rightarrow> 'a::len word" where
  "field t b nm = word_from_le (field_bytes t b nm)"

text \<open>The elements of an array of \<open>n\<close> elements of \<open>w\<close> bytes.\<close>

fun elements :: "nat \<Rightarrow> nat \<Rightarrow> bytes \<Rightarrow> bytes list" where
  "elements w 0 b = []"
| "elements w (Suc n) b = take w b # elements w n (drop w b)"

section \<open>Writing a structure\<close>

definition zeros :: "nat \<Rightarrow> bytes" where
  "zeros n = replicate n 0"

lemma length_zeros [simp]: "length (zeros n) = n"
  by (simp add: zeros_def)

fun pack_from :: "nat \<Rightarrow> (string \<times> ctype) list \<Rightarrow> bytes list \<Rightarrow> bytes" where
  "pack_from off (f # fs) (x # xs) =
     (let here = align_up off (align_of (snd f))
      in zeros (here - off) @ x @ pack_from (here + size_of (snd f)) fs xs)"
| "pack_from off fs xs = []"

definition pack :: "ctype \<Rightarrow> bytes list \<Rightarrow> bytes" where
  "pack t xs = (let b = pack_from 0 (fields_of t) xs in b @ zeros (size_of t - length b))"

definition fits :: "(string \<times> ctype) list \<Rightarrow> bytes list \<Rightarrow> bool" where
  "fits fs xs \<longleftrightarrow> list_all2 (\<lambda>f x. length x = size_of (snd f)) fs xs"

lemma fits_simps [simp]:
  "fits [] []"
  "\<not> fits (f # fs) []"
  "\<not> fits [] (x # xs)"
  "fits (f # fs) (x # xs) \<longleftrightarrow> length x = size_of (snd f) \<and> fits fs xs"
  by (simp_all add: fits_def)

lemma place_ge: "(nm, o', n) \<in> set (place off fs) \<Longrightarrow> off \<le> o'"
proof (induction fs arbitrary: off)
  case Nil
  then show ?case by simp
next
  case (Cons f fs)
  have "off \<le> align_up off (align_of (snd f))" by (rule align_up_ge)
  with Cons.IH [of "align_up off (align_of (snd f)) + size_of (snd f)"] Cons.prems
  show ?case by (auto simp: Let_def)
qed

lemma place_names [simp]: "map fst (place off fs) = map fst fs"
  by (induction fs arbitrary: off) (simp_all add: Let_def)

lemma end_of_ge: "off \<le> end_of off fs"
proof (induction fs arbitrary: off)
  case Nil
  then show ?case by simp
next
  case (Cons f fs)
  have "off \<le> align_up off (align_of (snd f))" by (rule align_up_ge)
  with Cons [of "align_up off (align_of (snd f)) + size_of (snd f)"] show ?case by simp
qed

lemma length_pack_from: "fits fs xs \<Longrightarrow> length (pack_from off fs xs) = end_of off fs - off"
proof (induction fs arbitrary: off xs)
  case Nil
  then show ?case by (cases xs) simp_all
next
  case (Cons f fs)
  then obtain x ys where xs: "xs = x # ys" and x: "length x = size_of (snd f)" and ys: "fits fs ys"
    by (cases xs) auto
  define here where "here = align_up off (align_of (snd f))"
  have "off \<le> here" by (simp add: here_def align_up_ge)
  moreover have "here + size_of (snd f) \<le> end_of (here + size_of (snd f)) fs"
    by (rule end_of_ge)
  ultimately show ?case
    using Cons.IH [OF ys, of "here + size_of (snd f)"] x
    by (simp add: xs Let_def here_def [symmetric])
qed

lemma length_pack: "fits fs xs \<Longrightarrow> length (pack (Struct fs) xs) = size_of (Struct fs)"
  using align_up_ge [of "end_of 0 fs" "aligns_of fs"]
  by (simp add: pack_def Let_def length_pack_from)

lemma pack_from_field:
  assumes "fits fs xs" and "map_of (place off fs) nm = Some (o', n)"
  shows "take n (drop (o' - off) (pack_from off fs xs @ ys))
         = the (map_of (zip (map fst fs) xs) nm)"
  using assms
proof (induction fs arbitrary: off xs)
  case Nil
  then show ?case by simp
next
  case (Cons f fs)
  then obtain x zs where xs: "xs = x # zs" and x: "length x = size_of (snd f)" and zs: "fits fs zs"
    by (cases xs) auto
  define here where "here = align_up off (align_of (snd f))"
  define off' where "off' = here + size_of (snd f)"
  have ge: "off \<le> here" by (simp add: here_def align_up_ge)
  have pk: "pack_from off (f # fs) xs = zeros (here - off) @ x @ pack_from off' fs zs"
    by (simp add: xs Let_def here_def off'_def)
  show ?case
  proof (cases "fst f = nm")
    case True
    with Cons.prems x have "o' = here" "n = length x"
      by (simp_all add: Let_def here_def)
    with True ge show ?thesis by (simp add: pk) (simp add: xs)
  next
    case False
    with Cons.prems have m: "map_of (place off' fs) nm = Some (o', n)"
      by (simp add: Let_def here_def off'_def)
    then have "off' \<le> o'" by (auto dest: map_of_SomeD place_ge)
    then have split: "o' - off = (o' - off') + ((here - off) + length x)"
      using ge x by (simp add: off'_def)
    have "drop (o' - off) (zeros (here - off) @ x @ pack_from off' fs zs @ ys)
      = drop (o' - off') (pack_from off' fs zs @ ys)"
      unfolding split drop_drop [symmetric] by simp
    moreover have "map_of (zip (map fst (f # fs)) xs) nm = map_of (zip (map fst fs) zs) nm"
      using False by (simp add: xs)
    ultimately show ?thesis
      using Cons.IH [OF zs m] by (simp only: pk append_assoc)
  qed
qed

theorem field_bytes_pack:
  assumes "fits fs xs" and "nm \<in> set (map fst fs)"
  shows "field_bytes (Struct fs) (pack (Struct fs) xs) nm = the (map_of (zip (map fst fs) xs) nm)"
proof -
  from assms(2) obtain o' n where m: "map_of (place 0 fs) nm = Some (o', n)"
    by (metis map_of_eq_None_iff not_Some_eq place_names prod.exhaust set_map)
  show ?thesis
    using pack_from_field [OF assms(1) m] m
    by (simp add: field_bytes_def placed_def pack_def Let_def)
qed

corollary field_bytes_pack_layout:
  assumes "fits (fields_of t) xs" and "nm \<in> set (map fst (fields_of t))"
  shows "field_bytes t (pack t xs) nm = the (map_of (zip (map fst (fields_of t)) xs) nm)"
  using assms by (cases t) (simp_all add: field_bytes_pack)

text \<open>The same for all fields at once, when their names are distinct.\<close>

lemma fields_written:
  assumes "fits (fields_of t) xs" and "distinct (map fst (fields_of t))"
  shows "map (field_bytes t (pack t xs)) (map fst (fields_of t)) = xs"
proof (rule nth_equalityI)
  let ?ns = "map fst (fields_of t)"
  have len: "length (fields_of t) = length xs"
    using assms(1) by (simp add: fits_def list_all2_lengthD)
  then show "length (map (field_bytes t (pack t xs)) ?ns) = length xs" by simp
  fix i
  assume i: "i < length (map (field_bytes t (pack t xs)) ?ns)"
  then have "map_of (zip ?ns xs) (?ns ! i) = Some (xs ! i)"
    using len assms(2) map_of_zip_nth [of ?ns xs i] by simp
  moreover have "?ns ! i \<in> set ?ns" using i by (metis length_map nth_mem)
  ultimately show "map (field_bytes t (pack t xs)) ?ns ! i = xs ! i"
    using field_bytes_pack_layout [OF assms(1)] i by simp
qed

lemma fields_placed:
  assumes "distinct (map fst (fields_of t))"
  shows "map (field_bytes t b) (map fst (fields_of t))
    = map (\<lambda>(nm, off, n). take n (drop off b)) (placed t)"
proof -
  have names: "map fst (placed t) = map fst (fields_of t)" by (simp add: placed_def)
  have "map (field_bytes t b) (map fst (placed t))
      = map (\<lambda>(nm, off, n). take n (drop off b)) (placed t)"
    using assms by (auto simp: names [symmetric] field_bytes_def)
  then show ?thesis by (simp only: names)
qed

corollary length_pack_layout:
  assumes "fits (fields_of t) xs" and "fields_of t \<noteq> []"
  shows "length (pack t xs) = size_of t"
  using assms by (cases t) (simp_all add: length_pack del: size_of.simps)

lemma elements_concat:
  assumes "\<forall>x \<in> set xs. length x = w" and "n = length xs"
  shows "elements w n (concat xs) = xs"
  using assms(1) unfolding assms(2) by (induction xs) simp_all

lemma length_elements [simp]: "length (elements w n b) = n"
  by (induction n arbitrary: b) simp_all

section \<open>Plain data\<close>

text \<open>
  A type that is read by reinterpreting bytes: its size, the reading, and its own bytes. The
  interface asks that the bytes of a value have that size and are read back as the value.
\<close>

record 'a pod =
  pod_size :: nat
  pod_read :: "bytes \<Rightarrow> 'a"
  pod_write :: "'a \<Rightarrow> bytes"

locale pod_codec =
  fixes P :: "'a pod" and valid :: "'a \<Rightarrow> bool"
  assumes length_write: "valid v \<Longrightarrow> length (pod_write P v) = pod_size P"
    and read_write: "valid v \<Longrightarrow> pod_read P (pod_write P v) = v"
begin

lemma read_array:
  assumes "\<forall>v \<in> set vs. valid v" and "n = length vs"
  shows "map (pod_read P) (elements (pod_size P) n (concat (map (pod_write P) vs))) = vs"
proof -
  have "elements (pod_size P) n (concat (map (pod_write P) vs)) = map (pod_write P) vs"
    using assms by (intro elements_concat) (auto simp: length_write)
  then show ?thesis
    using assms(1) by (simp add: map_idI read_write)
qed

lemma length_array:
  "\<forall>v \<in> set vs. valid v \<Longrightarrow> length (concat (map (pod_write P) vs)) = pod_size P * length vs"
  by (induction vs) (simp_all add: length_write)

lemma write_inj: "valid v \<Longrightarrow> valid w \<Longrightarrow> pod_write P v = pod_write P w \<Longrightarrow> v = w"
  by (metis read_write)

end

text \<open>
  A C structure: its values have contents for every field of the layout, and they are
  rebuilt from those contents. Packing the contents then is the writer of plain data.
\<close>

locale c_struct =
  fixes t :: ctype and contents :: "'a \<Rightarrow> bytes list"
    and P :: "'a pod" and valid :: "'a \<Rightarrow> bool"
  assumes has_fields: "fields_of t \<noteq> []"
    and distinct_names: "distinct (map fst (fields_of t))"
    and size_P: "pod_size P = size_of t"
    and write_pack: "pod_write P v = pack t (contents v)"
    and fits_contents: "valid v \<Longrightarrow> fits (fields_of t) (contents v)"
    and rebuild: "valid v \<Longrightarrow>
      map (field_bytes t b) (map fst (fields_of t)) = contents v \<Longrightarrow> pod_read P b = v"
begin

sublocale pod_codec P valid
proof
  fix v
  assume v: "valid v"
  show "length (pod_write P v) = pod_size P"
    unfolding write_pack size_P using fits_contents [OF v] has_fields
    by (rule length_pack_layout)
  show "pod_read P (pod_write P v) = v"
    unfolding write_pack
    by (intro rebuild v fields_written fits_contents distinct_names)
qed

end

end
