(* ===== verification/Transport.thy ===== *)
theory Transport
  imports Stream Layout
begin

text \<open>
  src/transport.rs: the framing of messages. A frame is a header (a 32-bit type, padding to
  the width of a pointer, the length of the payload) and the payload. Each operation takes the
  stream and returns its result with the stream after it, also after an error.

  \<open>parse_frame\<close> is the specification: what one read of a message does to the bytes that
  arrive, whatever pieces they arrive in. The lemmas inside \<open>byte_source\<close> and \<open>byte_stream\<close>
  prove that \<open>read_message\<close> and \<open>request\<close> do that on every stream that keeps the contract.
\<close>

section \<open>Message types and headers\<close>

datatype HmsgType =
  None' | GetInterfaces | GetInterface | SetPort | Subscribe | Notification

fun hmsg_number :: "HmsgType \<Rightarrow> i32" where
  "hmsg_number None' = 0"
| "hmsg_number GetInterfaces = 3"
| "hmsg_number GetInterface = 6"
| "hmsg_number SetPort = 8"
| "hmsg_number Subscribe = 9"
| "hmsg_number Notification = 10"

definition hmsg_matches :: "HmsgType \<Rightarrow> i32 \<Rightarrow> bool" where
  "hmsg_matches ty got \<longleftrightarrow> hmsg_number ty = got"

definition HMSG_MAX_SIZE :: nat where
  "HMSG_MAX_SIZE = 2 ^ 19"

definition PTR_SIZE :: nat where
  "PTR_SIZE = 8"

definition header_len :: nat where
  "header_len = align_up 4 PTR_SIZE + PTR_SIZE"

text \<open>\<open>buf[off..off + x.len()].copy_from_slice(x)\<close> for a range inside the buffer\<close>

definition copy_into :: "bytes \<Rightarrow> nat \<Rightarrow> bytes \<Rightarrow> bytes" where
  "copy_into b off x = take off b @ x @ drop (off + length x) b"

definition encode_header :: "HmsgType \<Rightarrow> nat \<Rightarrow> bytes" where
  "encode_header ty payload_len =
     (let b = zeros header_len;
          b = copy_into b 0 (word_to_le (hmsg_number ty));
          len_off = align_up 4 PTR_SIZE
      in copy_into b len_off (take PTR_SIZE (word_to_le (word_of_nat payload_len :: u64))))"

definition decode_header :: "bytes \<Rightarrow> (i32 \<times> usize) res" where
  "decode_header b =
     and_then (slice b 0 4) (\<lambda>ty.
     let len_off = align_up 4 PTR_SIZE in
     and_then (slice b len_off (len_off + PTR_SIZE)) (\<lambda>len.
     Ok (word_from_le ty, word_from_le len)))"

section \<open>Messages\<close>

fun io_then :: "'a res \<times> 's \<Rightarrow> ('a \<Rightarrow> 's \<Rightarrow> 'b res \<times> 's) \<Rightarrow> 'b res \<times> 's" where
  "io_then (Ok x, s) k = k x s"
| "io_then (Err e, s) k = (Err e, s)"
| "io_then (Panic, s) k = (Panic, s)"

text \<open>\<open>?\<close> on an I/O result: the error becomes \<open>Error::Io\<close>.\<close>

definition lift_io :: "('a, io_error) result \<times> 's \<Rightarrow> 'a res \<times> 's" where
  "lift_io r = (map_err Io (fst r), snd r)"

definition oversized :: "nat \<Rightarrow> error" where
  "oversized len = Protocol
     (''reply announces a '' @ dec len @ ''-byte payload, larger than the '' @
      dec HMSG_MAX_SIZE @ ''-byte cap'')"

text \<open>What a reply that was read in full means: the type decides.\<close>

definition check_reply :: "HmsgType \<Rightarrow> i32 \<Rightarrow> bytes \<Rightarrow> bytes res" where
  "check_reply expected got_ty payload =
     (if got_ty = hmsg_number None' then Err RequestRejected
      else if \<not> hmsg_matches expected got_ty then
        Err (UnexpectedMessageType (hmsg_number expected) got_ty)
      else Ok payload)"

definition read_message :: "'s io \<Rightarrow> HmsgType \<Rightarrow> 's \<Rightarrow> bytes res \<times> 's" where
  "read_message io expected s =
     io_then (lift_io (read_exact io header_len s)) (\<lambda>header s.
     io_then (decode_header header, s) (\<lambda>(got_ty, len) s.
     if unat len > HMSG_MAX_SIZE then (Err (oversized (unat len)), s)
     else
       io_then (lift_io (read_exact io (unat len) s)) (\<lambda>payload s.
       (check_reply expected got_ty payload, s))))"

definition request :: "'s io \<Rightarrow> HmsgType \<Rightarrow> bytes \<Rightarrow> 's \<Rightarrow> bytes res \<times> 's" where
  "request io ty payload s =
     (let out = encode_header ty (length payload) @ payload in
      io_then (lift_io (write_all io out s)) (\<lambda>_ s. read_message io ty s))"

definition recv_notification :: "'s io \<Rightarrow> 's \<Rightarrow> bytes res \<times> 's" where
  "recv_notification io s = read_message io Notification s"

section \<open>Headers round-trip\<close>

lemma header_len_16: "header_len = 16"
  by (simp add: header_len_def PTR_SIZE_def align_up_def)

lemma align_up_4 [simp]: "align_up 4 8 = 8"
  by (simp add: align_up_def)

lemma encode_header_eq:
  "encode_header ty n = word_to_le (hmsg_number ty) @ zeros 4 @ word_to_le (word_of_nat n :: u64)"
  by (simp add: encode_header_def Let_def copy_into_def header_len_16 PTR_SIZE_def zeros_def)

lemma length_encode_header [simp]: "length (encode_header ty n) = 16"
  by (simp add: encode_header_eq)

lemma decode_header_Ok:
  "16 \<le> length b \<Longrightarrow>
   decode_header b = Ok (word_from_le (take 4 b), word_from_le (take 8 (drop 8 b)))"
  by (simp add: decode_header_def PTR_SIZE_def align_up_def)

lemma decode_encode_header:
  "decode_header (encode_header ty n) = Ok (hmsg_number ty, word_of_nat n)"
  by (simp add: decode_header_Ok) (simp add: encode_header_eq)

lemma hmsg_number_inj: "hmsg_number a = hmsg_number b \<longleftrightarrow> a = b"
  by (cases a; cases b) simp_all

section \<open>What one read of a message does\<close>

text \<open>The result, and how many of the incoming bytes it uses.\<close>

definition frame_type :: "bytes \<Rightarrow> i32" where
  "frame_type b = word_from_le (take 4 b)"

definition frame_len :: "bytes \<Rightarrow> nat" where
  "frame_len b = unat (word_from_le (take 8 (drop 8 b)) :: usize)"

definition parse_frame :: "HmsgType \<Rightarrow> bytes \<Rightarrow> bytes res \<times> nat" where
  "parse_frame expected b =
     (if length b < 16 then (Err (Io UnexpectedEof), length b)
      else if HMSG_MAX_SIZE < frame_len b then (Err (oversized (frame_len b)), 16)
      else if length b < 16 + frame_len b then (Err (Io UnexpectedEof), length b)
      else
        (if frame_type b = 0 then Err RequestRejected
         else if frame_type b \<noteq> hmsg_number expected then
           Err (UnexpectedMessageType (hmsg_number expected) (frame_type b))
         else Ok (take (frame_len b) (drop 16 b)),
         16 + frame_len b))"

lemma parse_frame_bounded: "snd (parse_frame ty b) \<le> 16 + HMSG_MAX_SIZE"
  by (auto simp: parse_frame_def)

lemma parse_frame_no_panic: "fst (parse_frame ty b) \<noteq> Panic"
  by (simp add: parse_frame_def)

lemma parse_frame_Ok_length: "fst (parse_frame ty b) = Ok p \<Longrightarrow> length p \<le> HMSG_MAX_SIZE"
  by (auto simp: parse_frame_def split: if_splits)

definition frame :: "i32 \<Rightarrow> bytes \<Rightarrow> bytes" where
  "frame ty payload = word_to_le ty @ zeros 4 @ word_to_le (word_of_nat (length payload) :: u64) @
     payload"

lemma frame_encode_header: "frame (hmsg_number ty) p = encode_header ty (length p) @ p"
  by (simp add: frame_def encode_header_eq)

lemma HMSG_MAX_SIZE_num: "HMSG_MAX_SIZE = 524288"
  by (simp add: HMSG_MAX_SIZE_def)

lemma frame_fields [simp]:
  "frame_type (frame ty p @ rest) = ty"
  "length p \<le> HMSG_MAX_SIZE \<Longrightarrow> frame_len (frame ty p @ rest) = length p"
  "length (frame ty p) = 16 + length p"
  by (simp_all add: frame_type_def frame_len_def frame_def unat_of_nat HMSG_MAX_SIZE_num)

lemma parse_frame_frame:
  assumes "length p \<le> HMSG_MAX_SIZE"
  shows "parse_frame expected (frame ty p @ rest) =
    (if ty = 0 then Err RequestRejected
     else if ty \<noteq> hmsg_number expected then
       Err (UnexpectedMessageType (hmsg_number expected) ty)
     else Ok p, 16 + length p)"
proof -
  have d: "drop 16 (frame t p) = p" for t
    by (simp add: frame_def)
  show ?thesis using assms by (simp add: parse_frame_def d)
qed

lemma io_then_no_panic:
  "fst r \<noteq> Panic \<Longrightarrow> (\<And>x s. r = (Ok x, s) \<Longrightarrow> fst (k x s) \<noteq> Panic) \<Longrightarrow>
   fst (io_then r k) \<noteq> Panic"
  by (cases "(r, k)" rule: io_then.cases) auto

lemma lift_io_no_panic: "fst (lift_io r) = Panic \<longleftrightarrow> fst r = Panic"
  by (cases "fst r") (simp_all add: lift_io_def)

lemma lift_io_Ok: "lift_io r = (Ok x, s) \<longleftrightarrow> r = (Ok x, s)"
  by (cases r; cases "fst r") (auto simp: lift_io_def)

context byte_source
begin

lemma read_payload_no_panic:
  "fst (io_then (lift_io (read_exact io n s)) (\<lambda>payload s. (check_reply e t payload, s))) \<noteq> Panic"
  by (intro io_then_no_panic) (simp_all add: lift_io_no_panic read_no_panic check_reply_def)

lemma read_message_no_panic: "fst (read_message io expected s) \<noteq> Panic"
  unfolding read_message_def header_len_16
proof (rule io_then_no_panic)
  show "fst (lift_io (read_exact io 16 s)) \<noteq> Panic"
    by (simp add: lift_io_no_panic read_no_panic)
  fix h s1
  assume "lift_io (read_exact io 16 s) = (Ok h, s1)"
  then have "length h = 16" by (simp add: lift_io_Ok read_length)
  then show "fst (io_then (decode_header h, s1) (\<lambda>(got_ty, len) s.
      if unat len > HMSG_MAX_SIZE then (Err (oversized (unat len)), s)
      else io_then (lift_io (read_exact io (unat len) s)) (\<lambda>payload s.
        (check_reply expected got_ty payload, s)))) \<noteq> Panic"
    using read_payload_no_panic by (simp add: decode_header_Ok)
qed

lemma read_message_frame:
  assumes "fair s"
  shows "fst (read_message io expected s) = fst (parse_frame expected (incoming s))"
    and "fst (read_message io expected s) \<noteq> Err (Io UnexpectedEof) \<Longrightarrow>
      incoming (snd (read_message io expected s)) =
        drop (snd (parse_frame expected (incoming s))) (incoming s) \<and>
      fair (snd (read_message io expected s))"
proof -
  let ?b = "incoming s"
  have "fst (read_message io expected s) = fst (parse_frame expected ?b) \<and>
    (fst (read_message io expected s) \<noteq> Err (Io UnexpectedEof) \<longrightarrow>
      incoming (snd (read_message io expected s)) = drop (snd (parse_frame expected ?b)) ?b \<and>
      fair (snd (read_message io expected s)))"
  proof (cases "16 \<le> length ?b")
    case False
    then have "fst (read_exact io 16 s) = Err UnexpectedEof"
      using read_eof [OF assms, of 16] by simp
    then have "fst (read_message io expected s) = Err (Io UnexpectedEof)"
      by (cases "read_exact io 16 s") (simp add: read_message_def header_len_16 lift_io_def)
    with False show ?thesis by (simp add: parse_frame_def)
  next
    case True
    then obtain s1 where s1: "read_exact io 16 s = (Ok (take 16 ?b), s1)"
        "incoming s1 = drop 16 ?b" "fair s1"
      using read_enough [OF assms] by blast
    have dh: "decode_header (take 16 ?b) =
        Ok (frame_type ?b, word_from_le (take 8 (drop 8 ?b)))"
      using True by (simp add: decode_header_Ok frame_type_def min_def drop_take)
    have rm: "read_message io expected s =
        (if HMSG_MAX_SIZE < frame_len ?b then (Err (oversized (frame_len ?b)), s1)
         else io_then (lift_io (read_exact io (frame_len ?b) s1)) (\<lambda>payload s.
           (check_reply expected (frame_type ?b) payload, s)))"
      by (simp add: read_message_def header_len_16 s1(1) dh lift_io_def frame_len_def)
    have cr: "check_reply expected (frame_type ?b) p =
        (if frame_type ?b = 0 then Err RequestRejected
         else if frame_type ?b \<noteq> hmsg_number expected then
           Err (UnexpectedMessageType (hmsg_number expected) (frame_type ?b))
         else Ok p)" for p
      by (auto simp: check_reply_def hmsg_matches_def)
    show ?thesis
    proof (cases "HMSG_MAX_SIZE < frame_len ?b")
      case big: True
      with True have "parse_frame expected ?b = (Err (oversized (frame_len ?b)), 16)"
        by (simp add: parse_frame_def)
      moreover have "read_message io expected s = (Err (oversized (frame_len ?b)), s1)"
        using big by (simp add: rm)
      ultimately show ?thesis using s1 by simp
    next
      case small: False
      show ?thesis
      proof (cases "16 + frame_len ?b \<le> length ?b")
        case long: True
        then have "frame_len ?b \<le> length (incoming s1)" using s1(2) by simp
        then obtain s2 where s2: "read_exact io (frame_len ?b) s1
            = (Ok (take (frame_len ?b) (incoming s1)), s2)"
            "incoming s2 = drop (frame_len ?b) (incoming s1)" "fair s2"
          using read_enough [OF s1(3)] by blast
        have "read_message io expected s =
            (check_reply expected (frame_type ?b) (take (frame_len ?b) (drop 16 ?b)), s2)"
          using small by (simp add: rm s2(1) lift_io_def s1(2))
        moreover have "parse_frame expected ?b =
            (check_reply expected (frame_type ?b) (take (frame_len ?b) (drop 16 ?b)),
             16 + frame_len ?b)"
          using True small long by (simp add: parse_frame_def cr)
        moreover have "incoming s2 = drop (16 + frame_len ?b) ?b"
          using s2(2) s1(2) by (simp add: add.commute)
        ultimately show ?thesis using s2(3) by simp
      next
        case short: False
        then have e: "fst (read_exact io (frame_len ?b) s1) = Err UnexpectedEof"
          using read_eof [OF s1(3), of "frame_len ?b"] s1(2) True by simp
        have "fst (read_message io expected s) = Err (Io UnexpectedEof)"
          using small e by (cases "read_exact io (frame_len ?b) s1") (simp add: rm lift_io_def)
        moreover have "fst (parse_frame expected ?b) = Err (Io UnexpectedEof)"
          using True small short by (simp add: parse_frame_def)
        ultimately show ?thesis by simp
      qed
    qed
  qed
  then show "fst (read_message io expected s) = fst (parse_frame expected (incoming s))"
    and "fst (read_message io expected s) \<noteq> Err (Io UnexpectedEof) \<Longrightarrow>
      incoming (snd (read_message io expected s)) =
        drop (snd (parse_frame expected (incoming s))) (incoming s) \<and>
      fair (snd (read_message io expected s))"
    by blast+
qed

end

context read_preserves
begin

lemma read_then_keeps:
  assumes "\<And>x u. kept u = kept t \<Longrightarrow> kept (snd (k x u)) = kept t"
  shows "kept (snd (io_then (lift_io (read_exact io n t)) k)) = kept t"
  using assms read_keeps [of n t]
  by (cases "read_exact io n t"; cases "fst (read_exact io n t)") (auto simp: lift_io_def)

lemma read_message_keeps: "kept (snd (read_message io expected s)) = kept s"
  unfolding read_message_def
proof (rule read_then_keeps)
  fix h u
  assume u: "kept u = kept s"
  show "kept (snd (io_then (decode_header h, u) (\<lambda>(got_ty, len) s.
      if unat len > HMSG_MAX_SIZE then (Err (oversized (unat len)), s)
      else io_then (lift_io (read_exact io (unat len) s)) (\<lambda>payload s.
        (check_reply expected got_ty payload, s))))) = kept s"
  proof (cases "decode_header h")
    case (Ok x)
    have "kept (snd (io_then (lift_io (read_exact io n u))
        (\<lambda>payload s. (check_reply expected t payload, s)))) = kept s" for n t
      using read_then_keeps [of u "\<lambda>payload s. (check_reply expected t payload, s)" n] u by simp
    with Ok u show ?thesis by (cases x) simp
  qed (use u in simp_all)
qed

end

context byte_stream
begin

lemma request_no_panic: "fst (request io ty p s) \<noteq> Panic"
  unfolding request_def Let_def
  by (intro io_then_no_panic) (auto simp: lift_io_no_panic write_no_panic read_message_no_panic)

lemma request_frame:
  assumes "fair s"
  obtains s1 where "request io ty p s = read_message io ty s1"
    "sent s1 = sent s @ encode_header ty (length p) @ p" "incoming s1 = incoming s" "fair s1"
proof -
  obtain s1 where "write_all io (encode_header ty (length p) @ p) s = (Ok (), s1)"
      "sent s1 = sent s @ encode_header ty (length p) @ p" "incoming s1 = incoming s" "fair s1"
    using write_fair [OF assms] by blast
  then show ?thesis by (intro that) (simp_all add: request_def lift_io_def)
qed

end

end
