(* ===== verification/Raw.thy ===== *)
theory Raw
  imports Layout
begin

text \<open>
  src/wire/raw.rs: the mirrors of the daemon's C structures. For each structure: the record
  with the source's fields in the source's order; its layout, of which the offsets and the
  size follow by the rules of theory Layout; the reading of it from bytes, one field at its
  offset; its bytes, with zeroed padding; and the proof that the two are inverse, as an
  interpretation of the interface of plain data. Arrays are lists, and the \<open>_ok\<close>
  predicate of a structure says that they have the array's length.
\<close>

section \<open>\<^verbatim>\<open>RawMgmt\<close>\<close>

record RawMgmt =
  tqe_next :: usize
  tqe_prev :: usize
  m_family :: i32
  m_addr :: bytes
  m_addrsize :: usize
  m_iface :: u32

definition RawMgmt_layout :: ctype where
  "RawMgmt_layout = Struct
    [(''tqe_next'', usize_t),
     (''tqe_prev'', usize_t),
     (''m_family'', i32_t),
     (''m_addr'', Arr u8_t 16),
     (''m_addrsize'', usize_t),
     (''m_iface'', u32_t)]"

definition RawMgmt_of_bytes :: "bytes \<Rightarrow> RawMgmt" where
  "RawMgmt_of_bytes b = \<lparr>
     tqe_next = field RawMgmt_layout b ''tqe_next'',
     tqe_prev = field RawMgmt_layout b ''tqe_prev'',
     m_family = field RawMgmt_layout b ''m_family'',
     m_addr = field_bytes RawMgmt_layout b ''m_addr'',
     m_addrsize = field RawMgmt_layout b ''m_addrsize'',
     m_iface = field RawMgmt_layout b ''m_iface''\<rparr>"

definition RawMgmt_contents :: "RawMgmt \<Rightarrow> bytes list" where
  "RawMgmt_contents r =
    [word_to_le (tqe_next r),
     word_to_le (tqe_prev r),
     word_to_le (m_family r),
     m_addr r,
     word_to_le (m_addrsize r),
     word_to_le (m_iface r)]"

definition RawMgmt_to_bytes :: "RawMgmt \<Rightarrow> bytes" where
  "RawMgmt_to_bytes r = pack RawMgmt_layout (RawMgmt_contents r)"

definition RawMgmt_ok :: "RawMgmt \<Rightarrow> bool" where
  "RawMgmt_ok r \<longleftrightarrow> length (m_addr r) = 16"

definition RawMgmt_pod :: "RawMgmt pod" where
  "RawMgmt_pod = \<lparr>pod_size = size_of RawMgmt_layout, 
    pod_read = RawMgmt_of_bytes, pod_write = RawMgmt_to_bytes\<rparr>"

lemma RawMgmt_size [simp, layout_simps]:
  "size_of RawMgmt_layout = 56" "align_of RawMgmt_layout = 8"
  by code_simp+

lemma RawMgmt_placed:
  "placed RawMgmt_layout =
    [(''tqe_next'', 0, 8), (''tqe_prev'', 8, 8), (''m_family'', 16, 4),
     (''m_addr'', 20, 16), (''m_addrsize'', 40, 8), (''m_iface'', 48, 4)
    ]"
  by code_simp

lemmas RawMgmt_members [layout_simps] =
  arg_cong [OF RawMgmt_layout_def, of fields_of, unfolded fields_of.simps]

lemma RawMgmt_distinct: "distinct (map fst (fields_of RawMgmt_layout))"
  by code_simp

lemma RawMgmt_fields:
  "field_bytes RawMgmt_layout b ''tqe_next'' = take 8 b"
  "field_bytes RawMgmt_layout b ''tqe_prev'' = take 8 (drop 8 b)"
  "field_bytes RawMgmt_layout b ''m_family'' = take 4 (drop 16 b)"
  "field_bytes RawMgmt_layout b ''m_addr'' = take 16 (drop 20 b)"
  "field_bytes RawMgmt_layout b ''m_addrsize'' = take 8 (drop 40 b)"
  "field_bytes RawMgmt_layout b ''m_iface'' = take 4 (drop 48 b)"
  using fields_placed [OF RawMgmt_distinct, of b]
  by (simp_all add: RawMgmt_members RawMgmt_placed del: One_nat_def)

lemmas RawMgmt_of_bytes_code [code] = RawMgmt_of_bytes_def [unfolded field_def RawMgmt_fields]

interpretation mgmt: c_struct RawMgmt_layout RawMgmt_contents RawMgmt_pod "RawMgmt_ok"
  by unfold_locales
    (simp_all add: RawMgmt_distinct [unfolded RawMgmt_members] RawMgmt_members RawMgmt_pod_def RawMgmt_to_bytes_def RawMgmt_contents_def
      RawMgmt_of_bytes_def field_def RawMgmt_ok_def)

section \<open>\<^verbatim>\<open>RawVlan\<close>\<close>

record RawVlan =
  tqe_next :: usize
  tqe_prev :: usize
  v_name :: usize
  v_vid :: u16

definition RawVlan_layout :: ctype where
  "RawVlan_layout = Struct
    [(''tqe_next'', usize_t),
     (''tqe_prev'', usize_t),
     (''v_name'', usize_t),
     (''v_vid'', u16_t)]"

definition RawVlan_of_bytes :: "bytes \<Rightarrow> RawVlan" where
  "RawVlan_of_bytes b = \<lparr>
     tqe_next = field RawVlan_layout b ''tqe_next'',
     tqe_prev = field RawVlan_layout b ''tqe_prev'',
     v_name = field RawVlan_layout b ''v_name'',
     v_vid = field RawVlan_layout b ''v_vid''\<rparr>"

definition RawVlan_contents :: "RawVlan \<Rightarrow> bytes list" where
  "RawVlan_contents r =
    [word_to_le (tqe_next r),
     word_to_le (tqe_prev r),
     word_to_le (v_name r),
     word_to_le (v_vid r)]"

definition RawVlan_to_bytes :: "RawVlan \<Rightarrow> bytes" where
  "RawVlan_to_bytes r = pack RawVlan_layout (RawVlan_contents r)"

definition RawVlan_pod :: "RawVlan pod" where
  "RawVlan_pod = \<lparr>pod_size = size_of RawVlan_layout, 
    pod_read = RawVlan_of_bytes, pod_write = RawVlan_to_bytes\<rparr>"

lemma RawVlan_size [simp, layout_simps]:
  "size_of RawVlan_layout = 32" "align_of RawVlan_layout = 8"
  by code_simp+

lemma RawVlan_placed:
  "placed RawVlan_layout =
    [(''tqe_next'', 0, 8), (''tqe_prev'', 8, 8), (''v_name'', 16, 8),
     (''v_vid'', 24, 2)]"
  by code_simp

lemmas RawVlan_members [layout_simps] =
  arg_cong [OF RawVlan_layout_def, of fields_of, unfolded fields_of.simps]

lemma RawVlan_distinct: "distinct (map fst (fields_of RawVlan_layout))"
  by code_simp

lemma RawVlan_fields:
  "field_bytes RawVlan_layout b ''tqe_next'' = take 8 b"
  "field_bytes RawVlan_layout b ''tqe_prev'' = take 8 (drop 8 b)"
  "field_bytes RawVlan_layout b ''v_name'' = take 8 (drop 16 b)"
  "field_bytes RawVlan_layout b ''v_vid'' = take 2 (drop 24 b)"
  using fields_placed [OF RawVlan_distinct, of b]
  by (simp_all add: RawVlan_members RawVlan_placed del: One_nat_def)

lemmas RawVlan_of_bytes_code [code] = RawVlan_of_bytes_def [unfolded field_def RawVlan_fields]

interpretation vlan: c_struct RawVlan_layout RawVlan_contents RawVlan_pod "\<lambda>_. True"
  by unfold_locales
    (simp_all add: RawVlan_distinct [unfolded RawVlan_members] RawVlan_members RawVlan_pod_def RawVlan_to_bytes_def RawVlan_contents_def
      RawVlan_of_bytes_def field_def)

section \<open>\<^verbatim>\<open>RawPpvid\<close>\<close>

record RawPpvid =
  tqe_next :: usize
  tqe_prev :: usize
  p_cap_status :: u8
  p_ppvid :: u16

definition RawPpvid_layout :: ctype where
  "RawPpvid_layout = Struct
    [(''tqe_next'', usize_t),
     (''tqe_prev'', usize_t),
     (''p_cap_status'', u8_t),
     (''p_ppvid'', u16_t)]"

definition RawPpvid_of_bytes :: "bytes \<Rightarrow> RawPpvid" where
  "RawPpvid_of_bytes b = \<lparr>
     tqe_next = field RawPpvid_layout b ''tqe_next'',
     tqe_prev = field RawPpvid_layout b ''tqe_prev'',
     p_cap_status = field RawPpvid_layout b ''p_cap_status'',
     p_ppvid = field RawPpvid_layout b ''p_ppvid''\<rparr>"

definition RawPpvid_contents :: "RawPpvid \<Rightarrow> bytes list" where
  "RawPpvid_contents r =
    [word_to_le (tqe_next r),
     word_to_le (tqe_prev r),
     word_to_le (p_cap_status r),
     word_to_le (p_ppvid r)]"

definition RawPpvid_to_bytes :: "RawPpvid \<Rightarrow> bytes" where
  "RawPpvid_to_bytes r = pack RawPpvid_layout (RawPpvid_contents r)"

definition RawPpvid_pod :: "RawPpvid pod" where
  "RawPpvid_pod = \<lparr>pod_size = size_of RawPpvid_layout, 
    pod_read = RawPpvid_of_bytes, pod_write = RawPpvid_to_bytes\<rparr>"

lemma RawPpvid_size [simp, layout_simps]:
  "size_of RawPpvid_layout = 24" "align_of RawPpvid_layout = 8"
  by code_simp+

lemma RawPpvid_placed:
  "placed RawPpvid_layout =
    [(''tqe_next'', 0, 8), (''tqe_prev'', 8, 8), (''p_cap_status'', 16, 1),
     (''p_ppvid'', 18, 2)]"
  by code_simp

lemmas RawPpvid_members [layout_simps] =
  arg_cong [OF RawPpvid_layout_def, of fields_of, unfolded fields_of.simps]

lemma RawPpvid_distinct: "distinct (map fst (fields_of RawPpvid_layout))"
  by code_simp

lemma RawPpvid_fields:
  "field_bytes RawPpvid_layout b ''tqe_next'' = take 8 b"
  "field_bytes RawPpvid_layout b ''tqe_prev'' = take 8 (drop 8 b)"
  "field_bytes RawPpvid_layout b ''p_cap_status'' = take 1 (drop 16 b)"
  "field_bytes RawPpvid_layout b ''p_ppvid'' = take 2 (drop 18 b)"
  using fields_placed [OF RawPpvid_distinct, of b]
  by (simp_all add: RawPpvid_members RawPpvid_placed del: One_nat_def)

lemmas RawPpvid_of_bytes_code [code] = RawPpvid_of_bytes_def [unfolded field_def RawPpvid_fields]

interpretation ppvid: c_struct RawPpvid_layout RawPpvid_contents RawPpvid_pod "\<lambda>_. True"
  by unfold_locales
    (simp_all add: RawPpvid_distinct [unfolded RawPpvid_members] RawPpvid_members RawPpvid_pod_def RawPpvid_to_bytes_def RawPpvid_contents_def
      RawPpvid_of_bytes_def field_def)

section \<open>\<^verbatim>\<open>RawPi\<close>\<close>

record RawPi =
  tqe_next :: usize
  tqe_prev :: usize
  p_pi :: usize
  p_pi_len :: i32

definition RawPi_layout :: ctype where
  "RawPi_layout = Struct
    [(''tqe_next'', usize_t),
     (''tqe_prev'', usize_t),
     (''p_pi'', usize_t),
     (''p_pi_len'', i32_t)]"

definition RawPi_of_bytes :: "bytes \<Rightarrow> RawPi" where
  "RawPi_of_bytes b = \<lparr>
     tqe_next = field RawPi_layout b ''tqe_next'',
     tqe_prev = field RawPi_layout b ''tqe_prev'',
     p_pi = field RawPi_layout b ''p_pi'',
     p_pi_len = field RawPi_layout b ''p_pi_len''\<rparr>"

definition RawPi_contents :: "RawPi \<Rightarrow> bytes list" where
  "RawPi_contents r =
    [word_to_le (tqe_next r),
     word_to_le (tqe_prev r),
     word_to_le (p_pi r),
     word_to_le (p_pi_len r)]"

definition RawPi_to_bytes :: "RawPi \<Rightarrow> bytes" where
  "RawPi_to_bytes r = pack RawPi_layout (RawPi_contents r)"

definition RawPi_pod :: "RawPi pod" where
  "RawPi_pod = \<lparr>pod_size = size_of RawPi_layout, 
    pod_read = RawPi_of_bytes, pod_write = RawPi_to_bytes\<rparr>"

lemma RawPi_size [simp, layout_simps]:
  "size_of RawPi_layout = 32" "align_of RawPi_layout = 8"
  by code_simp+

lemma RawPi_placed:
  "placed RawPi_layout =
    [(''tqe_next'', 0, 8), (''tqe_prev'', 8, 8), (''p_pi'', 16, 8),
     (''p_pi_len'', 24, 4)]"
  by code_simp

lemmas RawPi_members [layout_simps] =
  arg_cong [OF RawPi_layout_def, of fields_of, unfolded fields_of.simps]

lemma RawPi_distinct: "distinct (map fst (fields_of RawPi_layout))"
  by code_simp

lemma RawPi_fields:
  "field_bytes RawPi_layout b ''tqe_next'' = take 8 b"
  "field_bytes RawPi_layout b ''tqe_prev'' = take 8 (drop 8 b)"
  "field_bytes RawPi_layout b ''p_pi'' = take 8 (drop 16 b)"
  "field_bytes RawPi_layout b ''p_pi_len'' = take 4 (drop 24 b)"
  using fields_placed [OF RawPi_distinct, of b]
  by (simp_all add: RawPi_members RawPi_placed del: One_nat_def)

lemmas RawPi_of_bytes_code [code] = RawPi_of_bytes_def [unfolded field_def RawPi_fields]

interpretation pi_tlv: c_struct RawPi_layout RawPi_contents RawPi_pod "\<lambda>_. True"
  by unfold_locales
    (simp_all add: RawPi_distinct [unfolded RawPi_members] RawPi_members RawPi_pod_def RawPi_to_bytes_def RawPi_contents_def
      RawPi_of_bytes_def field_def)

section \<open>\<^verbatim>\<open>RawMedPolicy\<close>\<close>

record RawMedPolicy =
  index :: u8
  kind :: u8
  unknown :: u8
  tagged :: u8
  vid :: u16
  priority :: u8
  dscp :: u8

definition RawMedPolicy_layout :: ctype where
  "RawMedPolicy_layout = Struct
    [(''index'', u8_t),
     (''kind'', u8_t),
     (''unknown'', u8_t),
     (''tagged'', u8_t),
     (''vid'', u16_t),
     (''priority'', u8_t),
     (''dscp'', u8_t)]"

definition RawMedPolicy_of_bytes :: "bytes \<Rightarrow> RawMedPolicy" where
  "RawMedPolicy_of_bytes b = \<lparr>
     index = field RawMedPolicy_layout b ''index'',
     kind = field RawMedPolicy_layout b ''kind'',
     unknown = field RawMedPolicy_layout b ''unknown'',
     tagged = field RawMedPolicy_layout b ''tagged'',
     vid = field RawMedPolicy_layout b ''vid'',
     priority = field RawMedPolicy_layout b ''priority'',
     dscp = field RawMedPolicy_layout b ''dscp''\<rparr>"

definition RawMedPolicy_contents :: "RawMedPolicy \<Rightarrow> bytes list" where
  "RawMedPolicy_contents r =
    [word_to_le (index r),
     word_to_le (kind r),
     word_to_le (unknown r),
     word_to_le (tagged r),
     word_to_le (vid r),
     word_to_le (priority r),
     word_to_le (dscp r)]"

definition RawMedPolicy_to_bytes :: "RawMedPolicy \<Rightarrow> bytes" where
  "RawMedPolicy_to_bytes r = pack RawMedPolicy_layout (RawMedPolicy_contents r)"

definition RawMedPolicy_pod :: "RawMedPolicy pod" where
  "RawMedPolicy_pod = \<lparr>pod_size = size_of RawMedPolicy_layout, 
    pod_read = RawMedPolicy_of_bytes, pod_write = RawMedPolicy_to_bytes\<rparr>"

lemma RawMedPolicy_size [simp, layout_simps]:
  "size_of RawMedPolicy_layout = 8" "align_of RawMedPolicy_layout = 2"
  by code_simp+

lemma RawMedPolicy_placed:
  "placed RawMedPolicy_layout =
    [(''index'', 0, 1), (''kind'', 1, 1), (''unknown'', 2, 1),
     (''tagged'', 3, 1), (''vid'', 4, 2), (''priority'', 6, 1),
     (''dscp'', 7, 1)]"
  by code_simp

lemmas RawMedPolicy_members [layout_simps] =
  arg_cong [OF RawMedPolicy_layout_def, of fields_of, unfolded fields_of.simps]

lemma RawMedPolicy_distinct: "distinct (map fst (fields_of RawMedPolicy_layout))"
  by code_simp

lemma RawMedPolicy_fields:
  "field_bytes RawMedPolicy_layout b ''index'' = take 1 b"
  "field_bytes RawMedPolicy_layout b ''kind'' = take 1 (drop 1 b)"
  "field_bytes RawMedPolicy_layout b ''unknown'' = take 1 (drop 2 b)"
  "field_bytes RawMedPolicy_layout b ''tagged'' = take 1 (drop 3 b)"
  "field_bytes RawMedPolicy_layout b ''vid'' = take 2 (drop 4 b)"
  "field_bytes RawMedPolicy_layout b ''priority'' = take 1 (drop 6 b)"
  "field_bytes RawMedPolicy_layout b ''dscp'' = take 1 (drop 7 b)"
  using fields_placed [OF RawMedPolicy_distinct, of b]
  by (simp_all add: RawMedPolicy_members RawMedPolicy_placed del: One_nat_def)

lemmas RawMedPolicy_of_bytes_code [code] = RawMedPolicy_of_bytes_def [unfolded field_def RawMedPolicy_fields]

interpretation med_policy: c_struct RawMedPolicy_layout RawMedPolicy_contents RawMedPolicy_pod "\<lambda>_. True"
  by unfold_locales
    (simp_all add: RawMedPolicy_distinct [unfolded RawMedPolicy_members] RawMedPolicy_members RawMedPolicy_pod_def RawMedPolicy_to_bytes_def RawMedPolicy_contents_def
      RawMedPolicy_of_bytes_def field_def)

lemmas RawMedPolicy_embed =
  med_policy.length_write [unfolded RawMedPolicy_pod_def, simplified]
  med_policy.read_write [unfolded RawMedPolicy_pod_def, simplified]
  med_policy.length_array [unfolded RawMedPolicy_pod_def, simplified]
  med_policy.read_array [unfolded RawMedPolicy_pod_def, simplified]

section \<open>\<^verbatim>\<open>RawMedLoc\<close>\<close>

record RawMedLoc =
  index :: u8
  format :: u8
  data :: usize
  data_len :: i32

definition RawMedLoc_layout :: ctype where
  "RawMedLoc_layout = Struct
    [(''index'', u8_t),
     (''format'', u8_t),
     (''data'', usize_t),
     (''data_len'', i32_t)]"

definition RawMedLoc_of_bytes :: "bytes \<Rightarrow> RawMedLoc" where
  "RawMedLoc_of_bytes b = \<lparr>
     index = field RawMedLoc_layout b ''index'',
     format = field RawMedLoc_layout b ''format'',
     data = field RawMedLoc_layout b ''data'',
     data_len = field RawMedLoc_layout b ''data_len''\<rparr>"

definition RawMedLoc_contents :: "RawMedLoc \<Rightarrow> bytes list" where
  "RawMedLoc_contents r =
    [word_to_le (index r),
     word_to_le (format r),
     word_to_le (data r),
     word_to_le (data_len r)]"

definition RawMedLoc_to_bytes :: "RawMedLoc \<Rightarrow> bytes" where
  "RawMedLoc_to_bytes r = pack RawMedLoc_layout (RawMedLoc_contents r)"

definition RawMedLoc_pod :: "RawMedLoc pod" where
  "RawMedLoc_pod = \<lparr>pod_size = size_of RawMedLoc_layout, 
    pod_read = RawMedLoc_of_bytes, pod_write = RawMedLoc_to_bytes\<rparr>"

lemma RawMedLoc_size [simp, layout_simps]:
  "size_of RawMedLoc_layout = 24" "align_of RawMedLoc_layout = 8"
  by code_simp+

lemma RawMedLoc_placed:
  "placed RawMedLoc_layout =
    [(''index'', 0, 1), (''format'', 1, 1), (''data'', 8, 8),
     (''data_len'', 16, 4)]"
  by code_simp

lemmas RawMedLoc_members [layout_simps] =
  arg_cong [OF RawMedLoc_layout_def, of fields_of, unfolded fields_of.simps]

lemma RawMedLoc_distinct: "distinct (map fst (fields_of RawMedLoc_layout))"
  by code_simp

lemma RawMedLoc_fields:
  "field_bytes RawMedLoc_layout b ''index'' = take 1 b"
  "field_bytes RawMedLoc_layout b ''format'' = take 1 (drop 1 b)"
  "field_bytes RawMedLoc_layout b ''data'' = take 8 (drop 8 b)"
  "field_bytes RawMedLoc_layout b ''data_len'' = take 4 (drop 16 b)"
  using fields_placed [OF RawMedLoc_distinct, of b]
  by (simp_all add: RawMedLoc_members RawMedLoc_placed del: One_nat_def)

lemmas RawMedLoc_of_bytes_code [code] = RawMedLoc_of_bytes_def [unfolded field_def RawMedLoc_fields]

interpretation med_loc: c_struct RawMedLoc_layout RawMedLoc_contents RawMedLoc_pod "\<lambda>_. True"
  by unfold_locales
    (simp_all add: RawMedLoc_distinct [unfolded RawMedLoc_members] RawMedLoc_members RawMedLoc_pod_def RawMedLoc_to_bytes_def RawMedLoc_contents_def
      RawMedLoc_of_bytes_def field_def)

lemmas RawMedLoc_embed =
  med_loc.length_write [unfolded RawMedLoc_pod_def, simplified]
  med_loc.read_write [unfolded RawMedLoc_pod_def, simplified]
  med_loc.length_array [unfolded RawMedLoc_pod_def, simplified]
  med_loc.read_array [unfolded RawMedLoc_pod_def, simplified]

section \<open>\<^verbatim>\<open>RawMedPower\<close>\<close>

record RawMedPower =
  devicetype :: u8
  source :: u8
  priority :: u8
  val :: u16

definition RawMedPower_layout :: ctype where
  "RawMedPower_layout = Struct
    [(''devicetype'', u8_t),
     (''source'', u8_t),
     (''priority'', u8_t),
     (''val'', u16_t)]"

definition RawMedPower_of_bytes :: "bytes \<Rightarrow> RawMedPower" where
  "RawMedPower_of_bytes b = \<lparr>
     devicetype = field RawMedPower_layout b ''devicetype'',
     source = field RawMedPower_layout b ''source'',
     priority = field RawMedPower_layout b ''priority'',
     val = field RawMedPower_layout b ''val''\<rparr>"

definition RawMedPower_contents :: "RawMedPower \<Rightarrow> bytes list" where
  "RawMedPower_contents r =
    [word_to_le (devicetype r),
     word_to_le (source r),
     word_to_le (priority r),
     word_to_le (val r)]"

definition RawMedPower_to_bytes :: "RawMedPower \<Rightarrow> bytes" where
  "RawMedPower_to_bytes r = pack RawMedPower_layout (RawMedPower_contents r)"

definition RawMedPower_pod :: "RawMedPower pod" where
  "RawMedPower_pod = \<lparr>pod_size = size_of RawMedPower_layout, 
    pod_read = RawMedPower_of_bytes, pod_write = RawMedPower_to_bytes\<rparr>"

lemma RawMedPower_size [simp, layout_simps]:
  "size_of RawMedPower_layout = 6" "align_of RawMedPower_layout = 2"
  by code_simp+

lemma RawMedPower_placed:
  "placed RawMedPower_layout =
    [(''devicetype'', 0, 1), (''source'', 1, 1), (''priority'', 2, 1),
     (''val'', 4, 2)]"
  by code_simp

lemmas RawMedPower_members [layout_simps] =
  arg_cong [OF RawMedPower_layout_def, of fields_of, unfolded fields_of.simps]

lemma RawMedPower_distinct: "distinct (map fst (fields_of RawMedPower_layout))"
  by code_simp

lemma RawMedPower_fields:
  "field_bytes RawMedPower_layout b ''devicetype'' = take 1 b"
  "field_bytes RawMedPower_layout b ''source'' = take 1 (drop 1 b)"
  "field_bytes RawMedPower_layout b ''priority'' = take 1 (drop 2 b)"
  "field_bytes RawMedPower_layout b ''val'' = take 2 (drop 4 b)"
  using fields_placed [OF RawMedPower_distinct, of b]
  by (simp_all add: RawMedPower_members RawMedPower_placed del: One_nat_def)

lemmas RawMedPower_of_bytes_code [code] = RawMedPower_of_bytes_def [unfolded field_def RawMedPower_fields]

interpretation med_power: c_struct RawMedPower_layout RawMedPower_contents RawMedPower_pod "\<lambda>_. True"
  by unfold_locales
    (simp_all add: RawMedPower_distinct [unfolded RawMedPower_members] RawMedPower_members RawMedPower_pod_def RawMedPower_to_bytes_def RawMedPower_contents_def
      RawMedPower_of_bytes_def field_def)

lemmas RawMedPower_embed =
  med_power.length_write [unfolded RawMedPower_pod_def, simplified]
  med_power.read_write [unfolded RawMedPower_pod_def, simplified]
  med_power.length_array [unfolded RawMedPower_pod_def, simplified]
  med_power.read_array [unfolded RawMedPower_pod_def, simplified]

section \<open>\<^verbatim>\<open>RawDot3MacPhy\<close>\<close>

record RawDot3MacPhy =
  autoneg_support :: u8
  autoneg_enabled :: u8
  autoneg_advertised :: u16
  mau_type :: u16

definition RawDot3MacPhy_layout :: ctype where
  "RawDot3MacPhy_layout = Struct
    [(''autoneg_support'', u8_t),
     (''autoneg_enabled'', u8_t),
     (''autoneg_advertised'', u16_t),
     (''mau_type'', u16_t)]"

definition RawDot3MacPhy_of_bytes :: "bytes \<Rightarrow> RawDot3MacPhy" where
  "RawDot3MacPhy_of_bytes b = \<lparr>
     autoneg_support = field RawDot3MacPhy_layout b ''autoneg_support'',
     autoneg_enabled = field RawDot3MacPhy_layout b ''autoneg_enabled'',
     autoneg_advertised = field RawDot3MacPhy_layout b ''autoneg_advertised'',
     mau_type = field RawDot3MacPhy_layout b ''mau_type''\<rparr>"

definition RawDot3MacPhy_contents :: "RawDot3MacPhy \<Rightarrow> bytes list" where
  "RawDot3MacPhy_contents r =
    [word_to_le (autoneg_support r),
     word_to_le (autoneg_enabled r),
     word_to_le (autoneg_advertised r),
     word_to_le (mau_type r)]"

definition RawDot3MacPhy_to_bytes :: "RawDot3MacPhy \<Rightarrow> bytes" where
  "RawDot3MacPhy_to_bytes r = pack RawDot3MacPhy_layout (RawDot3MacPhy_contents r)"

definition RawDot3MacPhy_pod :: "RawDot3MacPhy pod" where
  "RawDot3MacPhy_pod = \<lparr>pod_size = size_of RawDot3MacPhy_layout, 
    pod_read = RawDot3MacPhy_of_bytes, pod_write = RawDot3MacPhy_to_bytes\<rparr>"

lemma RawDot3MacPhy_size [simp, layout_simps]:
  "size_of RawDot3MacPhy_layout = 6" "align_of RawDot3MacPhy_layout = 2"
  by code_simp+

lemma RawDot3MacPhy_placed:
  "placed RawDot3MacPhy_layout =
    [(''autoneg_support'', 0, 1), (''autoneg_enabled'', 1, 1), (''autoneg_advertised'', 2, 2),
     (''mau_type'', 4, 2)]"
  by code_simp

lemmas RawDot3MacPhy_members [layout_simps] =
  arg_cong [OF RawDot3MacPhy_layout_def, of fields_of, unfolded fields_of.simps]

lemma RawDot3MacPhy_distinct: "distinct (map fst (fields_of RawDot3MacPhy_layout))"
  by code_simp

lemma RawDot3MacPhy_fields:
  "field_bytes RawDot3MacPhy_layout b ''autoneg_support'' = take 1 b"
  "field_bytes RawDot3MacPhy_layout b ''autoneg_enabled'' = take 1 (drop 1 b)"
  "field_bytes RawDot3MacPhy_layout b ''autoneg_advertised'' = take 2 (drop 2 b)"
  "field_bytes RawDot3MacPhy_layout b ''mau_type'' = take 2 (drop 4 b)"
  using fields_placed [OF RawDot3MacPhy_distinct, of b]
  by (simp_all add: RawDot3MacPhy_members RawDot3MacPhy_placed del: One_nat_def)

lemmas RawDot3MacPhy_of_bytes_code [code] = RawDot3MacPhy_of_bytes_def [unfolded field_def RawDot3MacPhy_fields]

interpretation macphy: c_struct RawDot3MacPhy_layout RawDot3MacPhy_contents RawDot3MacPhy_pod "\<lambda>_. True"
  by unfold_locales
    (simp_all add: RawDot3MacPhy_distinct [unfolded RawDot3MacPhy_members] RawDot3MacPhy_members RawDot3MacPhy_pod_def RawDot3MacPhy_to_bytes_def RawDot3MacPhy_contents_def
      RawDot3MacPhy_of_bytes_def field_def)

lemmas RawDot3MacPhy_embed =
  macphy.length_write [unfolded RawDot3MacPhy_pod_def, simplified]
  macphy.read_write [unfolded RawDot3MacPhy_pod_def, simplified]
  macphy.length_array [unfolded RawDot3MacPhy_pod_def, simplified]
  macphy.read_array [unfolded RawDot3MacPhy_pod_def, simplified]

section \<open>\<^verbatim>\<open>RawDot3Power\<close>\<close>

record RawDot3Power =
  devicetype :: u8
  supported :: u8
  enabled :: u8
  paircontrol :: u8
  pairs :: u8
  class' :: u8
  powertype :: u8
  source :: u8
  priority :: u8
  requested :: u16
  allocated :: u16
  pd_4pid :: u8
  requested_a :: u16
  requested_b :: u16
  allocated_a :: u16
  allocated_b :: u16
  pse_status :: u16
  pd_status :: u8
  pse_pairs_ext :: u8
  class_a :: u8
  class_b :: u8
  class_ext :: u8
  type_ext :: u8
  pd_load :: u8
  pse_max :: u16

definition RawDot3Power_layout :: ctype where
  "RawDot3Power_layout = Struct
    [(''devicetype'', u8_t),
     (''supported'', u8_t),
     (''enabled'', u8_t),
     (''paircontrol'', u8_t),
     (''pairs'', u8_t),
     (''class'', u8_t),
     (''powertype'', u8_t),
     (''source'', u8_t),
     (''priority'', u8_t),
     (''requested'', u16_t),
     (''allocated'', u16_t),
     (''pd_4pid'', u8_t),
     (''requested_a'', u16_t),
     (''requested_b'', u16_t),
     (''allocated_a'', u16_t),
     (''allocated_b'', u16_t),
     (''pse_status'', u16_t),
     (''pd_status'', u8_t),
     (''pse_pairs_ext'', u8_t),
     (''class_a'', u8_t),
     (''class_b'', u8_t),
     (''class_ext'', u8_t),
     (''type_ext'', u8_t),
     (''pd_load'', u8_t),
     (''pse_max'', u16_t)]"

definition RawDot3Power_of_bytes :: "bytes \<Rightarrow> RawDot3Power" where
  "RawDot3Power_of_bytes b = \<lparr>
     devicetype = field RawDot3Power_layout b ''devicetype'',
     supported = field RawDot3Power_layout b ''supported'',
     enabled = field RawDot3Power_layout b ''enabled'',
     paircontrol = field RawDot3Power_layout b ''paircontrol'',
     pairs = field RawDot3Power_layout b ''pairs'',
     class' = field RawDot3Power_layout b ''class'',
     powertype = field RawDot3Power_layout b ''powertype'',
     source = field RawDot3Power_layout b ''source'',
     priority = field RawDot3Power_layout b ''priority'',
     requested = field RawDot3Power_layout b ''requested'',
     allocated = field RawDot3Power_layout b ''allocated'',
     pd_4pid = field RawDot3Power_layout b ''pd_4pid'',
     requested_a = field RawDot3Power_layout b ''requested_a'',
     requested_b = field RawDot3Power_layout b ''requested_b'',
     allocated_a = field RawDot3Power_layout b ''allocated_a'',
     allocated_b = field RawDot3Power_layout b ''allocated_b'',
     pse_status = field RawDot3Power_layout b ''pse_status'',
     pd_status = field RawDot3Power_layout b ''pd_status'',
     pse_pairs_ext = field RawDot3Power_layout b ''pse_pairs_ext'',
     class_a = field RawDot3Power_layout b ''class_a'',
     class_b = field RawDot3Power_layout b ''class_b'',
     class_ext = field RawDot3Power_layout b ''class_ext'',
     type_ext = field RawDot3Power_layout b ''type_ext'',
     pd_load = field RawDot3Power_layout b ''pd_load'',
     pse_max = field RawDot3Power_layout b ''pse_max''\<rparr>"

definition RawDot3Power_contents :: "RawDot3Power \<Rightarrow> bytes list" where
  "RawDot3Power_contents r =
    [word_to_le (devicetype r),
     word_to_le (supported r),
     word_to_le (enabled r),
     word_to_le (paircontrol r),
     word_to_le (pairs r),
     word_to_le (class' r),
     word_to_le (powertype r),
     word_to_le (source r),
     word_to_le (priority r),
     word_to_le (requested r),
     word_to_le (allocated r),
     word_to_le (pd_4pid r),
     word_to_le (requested_a r),
     word_to_le (requested_b r),
     word_to_le (allocated_a r),
     word_to_le (allocated_b r),
     word_to_le (pse_status r),
     word_to_le (pd_status r),
     word_to_le (pse_pairs_ext r),
     word_to_le (class_a r),
     word_to_le (class_b r),
     word_to_le (class_ext r),
     word_to_le (type_ext r),
     word_to_le (pd_load r),
     word_to_le (pse_max r)]"

definition RawDot3Power_to_bytes :: "RawDot3Power \<Rightarrow> bytes" where
  "RawDot3Power_to_bytes r = pack RawDot3Power_layout (RawDot3Power_contents r)"

definition RawDot3Power_pod :: "RawDot3Power pod" where
  "RawDot3Power_pod = \<lparr>pod_size = size_of RawDot3Power_layout, 
    pod_read = RawDot3Power_of_bytes, pod_write = RawDot3Power_to_bytes\<rparr>"

lemma RawDot3Power_size [simp, layout_simps]:
  "size_of RawDot3Power_layout = 36" "align_of RawDot3Power_layout = 2"
  by code_simp+

lemma RawDot3Power_placed:
  "placed RawDot3Power_layout =
    [(''devicetype'', 0, 1), (''supported'', 1, 1), (''enabled'', 2, 1),
     (''paircontrol'', 3, 1), (''pairs'', 4, 1), (''class'', 5, 1),
     (''powertype'', 6, 1), (''source'', 7, 1), (''priority'', 8, 1),
     (''requested'', 10, 2), (''allocated'', 12, 2), (''pd_4pid'', 14, 1),
     (''requested_a'', 16, 2), (''requested_b'', 18, 2), (''allocated_a'', 20, 2),
     (''allocated_b'', 22, 2), (''pse_status'', 24, 2), (''pd_status'', 26, 1),
     (''pse_pairs_ext'', 27, 1), (''class_a'', 28, 1), (''class_b'', 29, 1),
     (''class_ext'', 30, 1), (''type_ext'', 31, 1), (''pd_load'', 32, 1),
     (''pse_max'', 34, 2)]"
  by code_simp

lemmas RawDot3Power_members [layout_simps] =
  arg_cong [OF RawDot3Power_layout_def, of fields_of, unfolded fields_of.simps]

lemma RawDot3Power_distinct: "distinct (map fst (fields_of RawDot3Power_layout))"
  by code_simp

lemma RawDot3Power_fields:
  "field_bytes RawDot3Power_layout b ''devicetype'' = take 1 b"
  "field_bytes RawDot3Power_layout b ''supported'' = take 1 (drop 1 b)"
  "field_bytes RawDot3Power_layout b ''enabled'' = take 1 (drop 2 b)"
  "field_bytes RawDot3Power_layout b ''paircontrol'' = take 1 (drop 3 b)"
  "field_bytes RawDot3Power_layout b ''pairs'' = take 1 (drop 4 b)"
  "field_bytes RawDot3Power_layout b ''class'' = take 1 (drop 5 b)"
  "field_bytes RawDot3Power_layout b ''powertype'' = take 1 (drop 6 b)"
  "field_bytes RawDot3Power_layout b ''source'' = take 1 (drop 7 b)"
  "field_bytes RawDot3Power_layout b ''priority'' = take 1 (drop 8 b)"
  "field_bytes RawDot3Power_layout b ''requested'' = take 2 (drop 10 b)"
  "field_bytes RawDot3Power_layout b ''allocated'' = take 2 (drop 12 b)"
  "field_bytes RawDot3Power_layout b ''pd_4pid'' = take 1 (drop 14 b)"
  "field_bytes RawDot3Power_layout b ''requested_a'' = take 2 (drop 16 b)"
  "field_bytes RawDot3Power_layout b ''requested_b'' = take 2 (drop 18 b)"
  "field_bytes RawDot3Power_layout b ''allocated_a'' = take 2 (drop 20 b)"
  "field_bytes RawDot3Power_layout b ''allocated_b'' = take 2 (drop 22 b)"
  "field_bytes RawDot3Power_layout b ''pse_status'' = take 2 (drop 24 b)"
  "field_bytes RawDot3Power_layout b ''pd_status'' = take 1 (drop 26 b)"
  "field_bytes RawDot3Power_layout b ''pse_pairs_ext'' = take 1 (drop 27 b)"
  "field_bytes RawDot3Power_layout b ''class_a'' = take 1 (drop 28 b)"
  "field_bytes RawDot3Power_layout b ''class_b'' = take 1 (drop 29 b)"
  "field_bytes RawDot3Power_layout b ''class_ext'' = take 1 (drop 30 b)"
  "field_bytes RawDot3Power_layout b ''type_ext'' = take 1 (drop 31 b)"
  "field_bytes RawDot3Power_layout b ''pd_load'' = take 1 (drop 32 b)"
  "field_bytes RawDot3Power_layout b ''pse_max'' = take 2 (drop 34 b)"
  using fields_placed [OF RawDot3Power_distinct, of b]
  by (simp_all add: RawDot3Power_members RawDot3Power_placed del: One_nat_def)

lemmas RawDot3Power_of_bytes_code [code] = RawDot3Power_of_bytes_def [unfolded field_def RawDot3Power_fields]

interpretation dot3_power: c_struct RawDot3Power_layout RawDot3Power_contents RawDot3Power_pod "\<lambda>_. True"
  by unfold_locales
    (simp_all add: RawDot3Power_distinct [unfolded RawDot3Power_members] RawDot3Power_members RawDot3Power_pod_def RawDot3Power_to_bytes_def RawDot3Power_contents_def
      RawDot3Power_of_bytes_def field_def)

lemmas RawDot3Power_embed =
  dot3_power.length_write [unfolded RawDot3Power_pod_def, simplified]
  dot3_power.read_write [unfolded RawDot3Power_pod_def, simplified]
  dot3_power.length_array [unfolded RawDot3Power_pod_def, simplified]
  dot3_power.read_array [unfolded RawDot3Power_pod_def, simplified]

section \<open>\<^verbatim>\<open>RawCdpPower\<close>\<close>

record RawCdpPower =
  request_id :: u16
  management_id :: u16

definition RawCdpPower_layout :: ctype where
  "RawCdpPower_layout = Struct
    [(''request_id'', u16_t),
     (''management_id'', u16_t)]"

definition RawCdpPower_of_bytes :: "bytes \<Rightarrow> RawCdpPower" where
  "RawCdpPower_of_bytes b = \<lparr>
     request_id = field RawCdpPower_layout b ''request_id'',
     management_id = field RawCdpPower_layout b ''management_id''\<rparr>"

definition RawCdpPower_contents :: "RawCdpPower \<Rightarrow> bytes list" where
  "RawCdpPower_contents r =
    [word_to_le (request_id r),
     word_to_le (management_id r)]"

definition RawCdpPower_to_bytes :: "RawCdpPower \<Rightarrow> bytes" where
  "RawCdpPower_to_bytes r = pack RawCdpPower_layout (RawCdpPower_contents r)"

definition RawCdpPower_pod :: "RawCdpPower pod" where
  "RawCdpPower_pod = \<lparr>pod_size = size_of RawCdpPower_layout, 
    pod_read = RawCdpPower_of_bytes, pod_write = RawCdpPower_to_bytes\<rparr>"

lemma RawCdpPower_size [simp, layout_simps]:
  "size_of RawCdpPower_layout = 4" "align_of RawCdpPower_layout = 2"
  by code_simp+

lemma RawCdpPower_placed:
  "placed RawCdpPower_layout =
    [(''request_id'', 0, 2), (''management_id'', 2, 2)]"
  by code_simp

lemmas RawCdpPower_members [layout_simps] =
  arg_cong [OF RawCdpPower_layout_def, of fields_of, unfolded fields_of.simps]

lemma RawCdpPower_distinct: "distinct (map fst (fields_of RawCdpPower_layout))"
  by code_simp

lemma RawCdpPower_fields:
  "field_bytes RawCdpPower_layout b ''request_id'' = take 2 b"
  "field_bytes RawCdpPower_layout b ''management_id'' = take 2 (drop 2 b)"
  using fields_placed [OF RawCdpPower_distinct, of b]
  by (simp_all add: RawCdpPower_members RawCdpPower_placed del: One_nat_def)

lemmas RawCdpPower_of_bytes_code [code] = RawCdpPower_of_bytes_def [unfolded field_def RawCdpPower_fields]

interpretation cdp_power: c_struct RawCdpPower_layout RawCdpPower_contents RawCdpPower_pod "\<lambda>_. True"
  by unfold_locales
    (simp_all add: RawCdpPower_distinct [unfolded RawCdpPower_members] RawCdpPower_members RawCdpPower_pod_def RawCdpPower_to_bytes_def RawCdpPower_contents_def
      RawCdpPower_of_bytes_def field_def)

lemmas RawCdpPower_embed =
  cdp_power.length_write [unfolded RawCdpPower_pod_def, simplified]
  cdp_power.read_write [unfolded RawCdpPower_pod_def, simplified]
  cdp_power.length_array [unfolded RawCdpPower_pod_def, simplified]
  cdp_power.read_array [unfolded RawCdpPower_pod_def, simplified]

section \<open>\<^verbatim>\<open>RawChassis\<close>\<close>

record RawChassis =
  tqe_next :: usize
  tqe_prev :: usize
  c_refcount :: u16
  c_index :: u16
  c_protocol :: u8
  c_id_subtype :: u8
  c_id :: usize
  c_id_len :: i32
  c_name :: usize
  c_descr :: usize
  c_cap_available :: u16
  c_cap_enabled :: u16
  c_mgmt_tqh_first :: usize
  c_mgmt_tqh_last :: usize
  c_med_cap_available :: u16
  c_med_type :: u8
  c_med_hw :: usize
  c_med_fw :: usize
  c_med_sw :: usize
  c_med_sn :: usize
  c_med_manuf :: usize
  c_med_model :: usize
  c_med_asset :: usize

definition RawChassis_layout :: ctype where
  "RawChassis_layout = Struct
    [(''tqe_next'', usize_t),
     (''tqe_prev'', usize_t),
     (''c_refcount'', u16_t),
     (''c_index'', u16_t),
     (''c_protocol'', u8_t),
     (''c_id_subtype'', u8_t),
     (''c_id'', usize_t),
     (''c_id_len'', i32_t),
     (''c_name'', usize_t),
     (''c_descr'', usize_t),
     (''c_cap_available'', u16_t),
     (''c_cap_enabled'', u16_t),
     (''c_mgmt_tqh_first'', usize_t),
     (''c_mgmt_tqh_last'', usize_t),
     (''c_med_cap_available'', u16_t),
     (''c_med_type'', u8_t),
     (''c_med_hw'', usize_t),
     (''c_med_fw'', usize_t),
     (''c_med_sw'', usize_t),
     (''c_med_sn'', usize_t),
     (''c_med_manuf'', usize_t),
     (''c_med_model'', usize_t),
     (''c_med_asset'', usize_t)]"

definition RawChassis_of_bytes :: "bytes \<Rightarrow> RawChassis" where
  "RawChassis_of_bytes b = \<lparr>
     tqe_next = field RawChassis_layout b ''tqe_next'',
     tqe_prev = field RawChassis_layout b ''tqe_prev'',
     c_refcount = field RawChassis_layout b ''c_refcount'',
     c_index = field RawChassis_layout b ''c_index'',
     c_protocol = field RawChassis_layout b ''c_protocol'',
     c_id_subtype = field RawChassis_layout b ''c_id_subtype'',
     c_id = field RawChassis_layout b ''c_id'',
     c_id_len = field RawChassis_layout b ''c_id_len'',
     c_name = field RawChassis_layout b ''c_name'',
     c_descr = field RawChassis_layout b ''c_descr'',
     c_cap_available = field RawChassis_layout b ''c_cap_available'',
     c_cap_enabled = field RawChassis_layout b ''c_cap_enabled'',
     c_mgmt_tqh_first = field RawChassis_layout b ''c_mgmt_tqh_first'',
     c_mgmt_tqh_last = field RawChassis_layout b ''c_mgmt_tqh_last'',
     c_med_cap_available = field RawChassis_layout b ''c_med_cap_available'',
     c_med_type = field RawChassis_layout b ''c_med_type'',
     c_med_hw = field RawChassis_layout b ''c_med_hw'',
     c_med_fw = field RawChassis_layout b ''c_med_fw'',
     c_med_sw = field RawChassis_layout b ''c_med_sw'',
     c_med_sn = field RawChassis_layout b ''c_med_sn'',
     c_med_manuf = field RawChassis_layout b ''c_med_manuf'',
     c_med_model = field RawChassis_layout b ''c_med_model'',
     c_med_asset = field RawChassis_layout b ''c_med_asset''\<rparr>"

definition RawChassis_contents :: "RawChassis \<Rightarrow> bytes list" where
  "RawChassis_contents r =
    [word_to_le (tqe_next r),
     word_to_le (tqe_prev r),
     word_to_le (c_refcount r),
     word_to_le (c_index r),
     word_to_le (c_protocol r),
     word_to_le (c_id_subtype r),
     word_to_le (c_id r),
     word_to_le (c_id_len r),
     word_to_le (c_name r),
     word_to_le (c_descr r),
     word_to_le (c_cap_available r),
     word_to_le (c_cap_enabled r),
     word_to_le (c_mgmt_tqh_first r),
     word_to_le (c_mgmt_tqh_last r),
     word_to_le (c_med_cap_available r),
     word_to_le (c_med_type r),
     word_to_le (c_med_hw r),
     word_to_le (c_med_fw r),
     word_to_le (c_med_sw r),
     word_to_le (c_med_sn r),
     word_to_le (c_med_manuf r),
     word_to_le (c_med_model r),
     word_to_le (c_med_asset r)]"

definition RawChassis_to_bytes :: "RawChassis \<Rightarrow> bytes" where
  "RawChassis_to_bytes r = pack RawChassis_layout (RawChassis_contents r)"

definition RawChassis_pod :: "RawChassis pod" where
  "RawChassis_pod = \<lparr>pod_size = size_of RawChassis_layout, 
    pod_read = RawChassis_of_bytes, pod_write = RawChassis_to_bytes\<rparr>"

lemma RawChassis_size [simp, layout_simps]:
  "size_of RawChassis_layout = 144" "align_of RawChassis_layout = 8"
  by code_simp+

lemma RawChassis_placed:
  "placed RawChassis_layout =
    [(''tqe_next'', 0, 8), (''tqe_prev'', 8, 8), (''c_refcount'', 16, 2),
     (''c_index'', 18, 2), (''c_protocol'', 20, 1), (''c_id_subtype'', 21, 1),
     (''c_id'', 24, 8), (''c_id_len'', 32, 4), (''c_name'', 40, 8),
     (''c_descr'', 48, 8), (''c_cap_available'', 56, 2), (''c_cap_enabled'', 58, 2),
     (''c_mgmt_tqh_first'', 64, 8), (''c_mgmt_tqh_last'', 72, 8), (''c_med_cap_available'', 80, 2),
     (''c_med_type'', 82, 1), (''c_med_hw'', 88, 8), (''c_med_fw'', 96, 8),
     (''c_med_sw'', 104, 8), (''c_med_sn'', 112, 8), (''c_med_manuf'', 120, 8),
     (''c_med_model'', 128, 8), (''c_med_asset'', 136, 8)]"
  by code_simp

lemmas RawChassis_members [layout_simps] =
  arg_cong [OF RawChassis_layout_def, of fields_of, unfolded fields_of.simps]

lemma RawChassis_distinct: "distinct (map fst (fields_of RawChassis_layout))"
  by code_simp

lemma RawChassis_fields:
  "field_bytes RawChassis_layout b ''tqe_next'' = take 8 b"
  "field_bytes RawChassis_layout b ''tqe_prev'' = take 8 (drop 8 b)"
  "field_bytes RawChassis_layout b ''c_refcount'' = take 2 (drop 16 b)"
  "field_bytes RawChassis_layout b ''c_index'' = take 2 (drop 18 b)"
  "field_bytes RawChassis_layout b ''c_protocol'' = take 1 (drop 20 b)"
  "field_bytes RawChassis_layout b ''c_id_subtype'' = take 1 (drop 21 b)"
  "field_bytes RawChassis_layout b ''c_id'' = take 8 (drop 24 b)"
  "field_bytes RawChassis_layout b ''c_id_len'' = take 4 (drop 32 b)"
  "field_bytes RawChassis_layout b ''c_name'' = take 8 (drop 40 b)"
  "field_bytes RawChassis_layout b ''c_descr'' = take 8 (drop 48 b)"
  "field_bytes RawChassis_layout b ''c_cap_available'' = take 2 (drop 56 b)"
  "field_bytes RawChassis_layout b ''c_cap_enabled'' = take 2 (drop 58 b)"
  "field_bytes RawChassis_layout b ''c_mgmt_tqh_first'' = take 8 (drop 64 b)"
  "field_bytes RawChassis_layout b ''c_mgmt_tqh_last'' = take 8 (drop 72 b)"
  "field_bytes RawChassis_layout b ''c_med_cap_available'' = take 2 (drop 80 b)"
  "field_bytes RawChassis_layout b ''c_med_type'' = take 1 (drop 82 b)"
  "field_bytes RawChassis_layout b ''c_med_hw'' = take 8 (drop 88 b)"
  "field_bytes RawChassis_layout b ''c_med_fw'' = take 8 (drop 96 b)"
  "field_bytes RawChassis_layout b ''c_med_sw'' = take 8 (drop 104 b)"
  "field_bytes RawChassis_layout b ''c_med_sn'' = take 8 (drop 112 b)"
  "field_bytes RawChassis_layout b ''c_med_manuf'' = take 8 (drop 120 b)"
  "field_bytes RawChassis_layout b ''c_med_model'' = take 8 (drop 128 b)"
  "field_bytes RawChassis_layout b ''c_med_asset'' = take 8 (drop 136 b)"
  using fields_placed [OF RawChassis_distinct, of b]
  by (simp_all add: RawChassis_members RawChassis_placed del: One_nat_def)

lemmas RawChassis_of_bytes_code [code] = RawChassis_of_bytes_def [unfolded field_def RawChassis_fields]

interpretation chassis: c_struct RawChassis_layout RawChassis_contents RawChassis_pod "\<lambda>_. True"
  by unfold_locales
    (simp_all add: RawChassis_distinct [unfolded RawChassis_members] RawChassis_members RawChassis_pod_def RawChassis_to_bytes_def RawChassis_contents_def
      RawChassis_of_bytes_def field_def)

abbreviation (input) MED_APPTYPE_LAST :: nat where
  "MED_APPTYPE_LAST \<equiv> 8"

abbreviation (input) MED_LOCFORMAT_LAST :: nat where
  "MED_LOCFORMAT_LAST \<equiv> 3"

section \<open>\<^verbatim>\<open>RawPort\<close>\<close>

record RawPort =
  tqe_next :: usize
  tqe_prev :: usize
  p_chassis :: usize
  p_lastchange :: isize
  p_lastupdate :: isize
  p_lastremove :: isize
  p_lastframe :: usize
  p_protocol :: u8
  p_bitfield_flags :: u8
  p_hardware_flags :: i32
  p_id_subtype :: u8
  p_id :: usize
  p_id_len :: i32
  p_descr :: usize
  p_descr_force :: i32
  p_mfs :: u16
  p_ttl :: u16
  p_vlan_tx_tag :: i32
  p_vlan_tx_enabled :: i32
  p_vlan_advertise_pattern :: usize
  p_aggregid :: u32
  p_macphy :: RawDot3MacPhy
  p_power :: RawDot3Power
  p_med_cap_enabled :: u16
  p_med_policy :: "RawMedPolicy list"
  p_med_location :: "RawMedLoc list"
  p_med_power :: RawMedPower
  p_cdp_power :: RawCdpPower
  p_pvid :: u16
  p_vlans_tqh_first :: usize
  p_vlans_tqh_last :: usize
  p_ppvids_tqh_first :: usize
  p_ppvids_tqh_last :: usize
  p_pids_tqh_first :: usize
  p_pids_tqh_last :: usize

definition RawPort_layout :: ctype where
  "RawPort_layout = Struct
    [(''tqe_next'', usize_t),
     (''tqe_prev'', usize_t),
     (''p_chassis'', usize_t),
     (''p_lastchange'', isize_t),
     (''p_lastupdate'', isize_t),
     (''p_lastremove'', isize_t),
     (''p_lastframe'', usize_t),
     (''p_protocol'', u8_t),
     (''p_bitfield_flags'', u8_t),
     (''p_hardware_flags'', i32_t),
     (''p_id_subtype'', u8_t),
     (''p_id'', usize_t),
     (''p_id_len'', i32_t),
     (''p_descr'', usize_t),
     (''p_descr_force'', i32_t),
     (''p_mfs'', u16_t),
     (''p_ttl'', u16_t),
     (''p_vlan_tx_tag'', i32_t),
     (''p_vlan_tx_enabled'', i32_t),
     (''p_vlan_advertise_pattern'', usize_t),
     (''p_aggregid'', u32_t),
     (''p_macphy'', RawDot3MacPhy_layout),
     (''p_power'', RawDot3Power_layout),
     (''p_med_cap_enabled'', u16_t),
     (''p_med_policy'', Arr RawMedPolicy_layout MED_APPTYPE_LAST),
     (''p_med_location'', Arr RawMedLoc_layout MED_LOCFORMAT_LAST),
     (''p_med_power'', RawMedPower_layout),
     (''p_cdp_power'', RawCdpPower_layout),
     (''p_pvid'', u16_t),
     (''p_vlans_tqh_first'', usize_t),
     (''p_vlans_tqh_last'', usize_t),
     (''p_ppvids_tqh_first'', usize_t),
     (''p_ppvids_tqh_last'', usize_t),
     (''p_pids_tqh_first'', usize_t),
     (''p_pids_tqh_last'', usize_t)]"

definition RawPort_of_bytes :: "bytes \<Rightarrow> RawPort" where
  "RawPort_of_bytes b = \<lparr>
     tqe_next = field RawPort_layout b ''tqe_next'',
     tqe_prev = field RawPort_layout b ''tqe_prev'',
     p_chassis = field RawPort_layout b ''p_chassis'',
     p_lastchange = field RawPort_layout b ''p_lastchange'',
     p_lastupdate = field RawPort_layout b ''p_lastupdate'',
     p_lastremove = field RawPort_layout b ''p_lastremove'',
     p_lastframe = field RawPort_layout b ''p_lastframe'',
     p_protocol = field RawPort_layout b ''p_protocol'',
     p_bitfield_flags = field RawPort_layout b ''p_bitfield_flags'',
     p_hardware_flags = field RawPort_layout b ''p_hardware_flags'',
     p_id_subtype = field RawPort_layout b ''p_id_subtype'',
     p_id = field RawPort_layout b ''p_id'',
     p_id_len = field RawPort_layout b ''p_id_len'',
     p_descr = field RawPort_layout b ''p_descr'',
     p_descr_force = field RawPort_layout b ''p_descr_force'',
     p_mfs = field RawPort_layout b ''p_mfs'',
     p_ttl = field RawPort_layout b ''p_ttl'',
     p_vlan_tx_tag = field RawPort_layout b ''p_vlan_tx_tag'',
     p_vlan_tx_enabled = field RawPort_layout b ''p_vlan_tx_enabled'',
     p_vlan_advertise_pattern = field RawPort_layout b ''p_vlan_advertise_pattern'',
     p_aggregid = field RawPort_layout b ''p_aggregid'',
     p_macphy = RawDot3MacPhy_of_bytes (field_bytes RawPort_layout b ''p_macphy''),
     p_power = RawDot3Power_of_bytes (field_bytes RawPort_layout b ''p_power''),
     p_med_cap_enabled = field RawPort_layout b ''p_med_cap_enabled'',
     p_med_policy = map RawMedPolicy_of_bytes (elements (size_of RawMedPolicy_layout) MED_APPTYPE_LAST (field_bytes RawPort_layout b ''p_med_policy'')),
     p_med_location = map RawMedLoc_of_bytes (elements (size_of RawMedLoc_layout) MED_LOCFORMAT_LAST (field_bytes RawPort_layout b ''p_med_location'')),
     p_med_power = RawMedPower_of_bytes (field_bytes RawPort_layout b ''p_med_power''),
     p_cdp_power = RawCdpPower_of_bytes (field_bytes RawPort_layout b ''p_cdp_power''),
     p_pvid = field RawPort_layout b ''p_pvid'',
     p_vlans_tqh_first = field RawPort_layout b ''p_vlans_tqh_first'',
     p_vlans_tqh_last = field RawPort_layout b ''p_vlans_tqh_last'',
     p_ppvids_tqh_first = field RawPort_layout b ''p_ppvids_tqh_first'',
     p_ppvids_tqh_last = field RawPort_layout b ''p_ppvids_tqh_last'',
     p_pids_tqh_first = field RawPort_layout b ''p_pids_tqh_first'',
     p_pids_tqh_last = field RawPort_layout b ''p_pids_tqh_last''\<rparr>"

definition RawPort_contents :: "RawPort \<Rightarrow> bytes list" where
  "RawPort_contents r =
    [word_to_le (tqe_next r),
     word_to_le (tqe_prev r),
     word_to_le (p_chassis r),
     word_to_le (p_lastchange r),
     word_to_le (p_lastupdate r),
     word_to_le (p_lastremove r),
     word_to_le (p_lastframe r),
     word_to_le (p_protocol r),
     word_to_le (p_bitfield_flags r),
     word_to_le (p_hardware_flags r),
     word_to_le (p_id_subtype r),
     word_to_le (p_id r),
     word_to_le (p_id_len r),
     word_to_le (p_descr r),
     word_to_le (p_descr_force r),
     word_to_le (p_mfs r),
     word_to_le (p_ttl r),
     word_to_le (p_vlan_tx_tag r),
     word_to_le (p_vlan_tx_enabled r),
     word_to_le (p_vlan_advertise_pattern r),
     word_to_le (p_aggregid r),
     RawDot3MacPhy_to_bytes (p_macphy r),
     RawDot3Power_to_bytes (p_power r),
     word_to_le (p_med_cap_enabled r),
     concat (map RawMedPolicy_to_bytes (p_med_policy r)),
     concat (map RawMedLoc_to_bytes (p_med_location r)),
     RawMedPower_to_bytes (p_med_power r),
     RawCdpPower_to_bytes (p_cdp_power r),
     word_to_le (p_pvid r),
     word_to_le (p_vlans_tqh_first r),
     word_to_le (p_vlans_tqh_last r),
     word_to_le (p_ppvids_tqh_first r),
     word_to_le (p_ppvids_tqh_last r),
     word_to_le (p_pids_tqh_first r),
     word_to_le (p_pids_tqh_last r)]"

definition RawPort_to_bytes :: "RawPort \<Rightarrow> bytes" where
  "RawPort_to_bytes r = pack RawPort_layout (RawPort_contents r)"

definition RawPort_ok :: "RawPort \<Rightarrow> bool" where
  "RawPort_ok r \<longleftrightarrow> length (p_med_policy r) = MED_APPTYPE_LAST \<and>
     length (p_med_location r) = MED_LOCFORMAT_LAST"

definition RawPort_pod :: "RawPort pod" where
  "RawPort_pod = \<lparr>pod_size = size_of RawPort_layout, 
    pod_read = RawPort_of_bytes, pod_write = RawPort_to_bytes\<rparr>"

lemma RawPort_size [simp, layout_simps]:
  "size_of RawPort_layout = 368" "align_of RawPort_layout = 8"
  by code_simp+

lemma RawPort_placed:
  "placed RawPort_layout =
    [(''tqe_next'', 0, 8), (''tqe_prev'', 8, 8), (''p_chassis'', 16, 8),
     (''p_lastchange'', 24, 8), (''p_lastupdate'', 32, 8), (''p_lastremove'', 40, 8),
     (''p_lastframe'', 48, 8), (''p_protocol'', 56, 1), (''p_bitfield_flags'', 57, 1),
     (''p_hardware_flags'', 60, 4), (''p_id_subtype'', 64, 1), (''p_id'', 72, 8),
     (''p_id_len'', 80, 4), (''p_descr'', 88, 8), (''p_descr_force'', 96, 4),
     (''p_mfs'', 100, 2), (''p_ttl'', 102, 2), (''p_vlan_tx_tag'', 104, 4),
     (''p_vlan_tx_enabled'', 108, 4), (''p_vlan_advertise_pattern'', 112, 8), (''p_aggregid'', 120, 4),
     (''p_macphy'', 124, 6), (''p_power'', 130, 36), (''p_med_cap_enabled'', 166, 2),
     (''p_med_policy'', 168, 64), (''p_med_location'', 232, 72), (''p_med_power'', 304, 6),
     (''p_cdp_power'', 310, 4), (''p_pvid'', 314, 2), (''p_vlans_tqh_first'', 320, 8),
     (''p_vlans_tqh_last'', 328, 8), (''p_ppvids_tqh_first'', 336, 8), (''p_ppvids_tqh_last'', 344, 8),
     (''p_pids_tqh_first'', 352, 8), (''p_pids_tqh_last'', 360, 8)]"
  by code_simp

lemmas RawPort_members [layout_simps] =
  arg_cong [OF RawPort_layout_def, of fields_of, unfolded fields_of.simps]

lemma RawPort_distinct: "distinct (map fst (fields_of RawPort_layout))"
  by code_simp

lemma RawPort_fields:
  "field_bytes RawPort_layout b ''tqe_next'' = take 8 b"
  "field_bytes RawPort_layout b ''tqe_prev'' = take 8 (drop 8 b)"
  "field_bytes RawPort_layout b ''p_chassis'' = take 8 (drop 16 b)"
  "field_bytes RawPort_layout b ''p_lastchange'' = take 8 (drop 24 b)"
  "field_bytes RawPort_layout b ''p_lastupdate'' = take 8 (drop 32 b)"
  "field_bytes RawPort_layout b ''p_lastremove'' = take 8 (drop 40 b)"
  "field_bytes RawPort_layout b ''p_lastframe'' = take 8 (drop 48 b)"
  "field_bytes RawPort_layout b ''p_protocol'' = take 1 (drop 56 b)"
  "field_bytes RawPort_layout b ''p_bitfield_flags'' = take 1 (drop 57 b)"
  "field_bytes RawPort_layout b ''p_hardware_flags'' = take 4 (drop 60 b)"
  "field_bytes RawPort_layout b ''p_id_subtype'' = take 1 (drop 64 b)"
  "field_bytes RawPort_layout b ''p_id'' = take 8 (drop 72 b)"
  "field_bytes RawPort_layout b ''p_id_len'' = take 4 (drop 80 b)"
  "field_bytes RawPort_layout b ''p_descr'' = take 8 (drop 88 b)"
  "field_bytes RawPort_layout b ''p_descr_force'' = take 4 (drop 96 b)"
  "field_bytes RawPort_layout b ''p_mfs'' = take 2 (drop 100 b)"
  "field_bytes RawPort_layout b ''p_ttl'' = take 2 (drop 102 b)"
  "field_bytes RawPort_layout b ''p_vlan_tx_tag'' = take 4 (drop 104 b)"
  "field_bytes RawPort_layout b ''p_vlan_tx_enabled'' = take 4 (drop 108 b)"
  "field_bytes RawPort_layout b ''p_vlan_advertise_pattern'' = take 8 (drop 112 b)"
  "field_bytes RawPort_layout b ''p_aggregid'' = take 4 (drop 120 b)"
  "field_bytes RawPort_layout b ''p_macphy'' = take 6 (drop 124 b)"
  "field_bytes RawPort_layout b ''p_power'' = take 36 (drop 130 b)"
  "field_bytes RawPort_layout b ''p_med_cap_enabled'' = take 2 (drop 166 b)"
  "field_bytes RawPort_layout b ''p_med_policy'' = take 64 (drop 168 b)"
  "field_bytes RawPort_layout b ''p_med_location'' = take 72 (drop 232 b)"
  "field_bytes RawPort_layout b ''p_med_power'' = take 6 (drop 304 b)"
  "field_bytes RawPort_layout b ''p_cdp_power'' = take 4 (drop 310 b)"
  "field_bytes RawPort_layout b ''p_pvid'' = take 2 (drop 314 b)"
  "field_bytes RawPort_layout b ''p_vlans_tqh_first'' = take 8 (drop 320 b)"
  "field_bytes RawPort_layout b ''p_vlans_tqh_last'' = take 8 (drop 328 b)"
  "field_bytes RawPort_layout b ''p_ppvids_tqh_first'' = take 8 (drop 336 b)"
  "field_bytes RawPort_layout b ''p_ppvids_tqh_last'' = take 8 (drop 344 b)"
  "field_bytes RawPort_layout b ''p_pids_tqh_first'' = take 8 (drop 352 b)"
  "field_bytes RawPort_layout b ''p_pids_tqh_last'' = take 8 (drop 360 b)"
  using fields_placed [OF RawPort_distinct, of b]
  by (simp_all add: RawPort_members RawPort_placed del: One_nat_def)

lemmas RawPort_of_bytes_code [code] = RawPort_of_bytes_def [unfolded field_def RawPort_fields]

interpretation port: c_struct RawPort_layout RawPort_contents RawPort_pod "RawPort_ok"
  by unfold_locales
    (simp_all add: RawPort_distinct [unfolded RawPort_members] RawPort_members RawPort_pod_def RawPort_to_bytes_def RawPort_contents_def
      RawPort_of_bytes_def field_def RawPort_ok_def RawDot3MacPhy_embed RawDot3Power_embed RawMedPolicy_embed RawMedLoc_embed RawMedPower_embed RawCdpPower_embed)

lemmas RawPort_embed =
  port.length_write [unfolded RawPort_pod_def, simplified]
  port.read_write [unfolded RawPort_pod_def, simplified]
  port.length_array [unfolded RawPort_pod_def, simplified]
  port.read_array [unfolded RawPort_pod_def, simplified]

section \<open>\<^verbatim>\<open>RawInterface\<close>\<close>

record RawInterface =
  next_tqe_next :: usize
  next_tqe_prev :: usize
  name :: usize
  alias' :: usize

definition RawInterface_layout :: ctype where
  "RawInterface_layout = Struct
    [(''next_tqe_next'', usize_t),
     (''next_tqe_prev'', usize_t),
     (''name'', usize_t),
     (''alias'', usize_t)]"

definition RawInterface_of_bytes :: "bytes \<Rightarrow> RawInterface" where
  "RawInterface_of_bytes b = \<lparr>
     next_tqe_next = field RawInterface_layout b ''next_tqe_next'',
     next_tqe_prev = field RawInterface_layout b ''next_tqe_prev'',
     name = field RawInterface_layout b ''name'',
     alias' = field RawInterface_layout b ''alias''\<rparr>"

definition RawInterface_contents :: "RawInterface \<Rightarrow> bytes list" where
  "RawInterface_contents r =
    [word_to_le (next_tqe_next r),
     word_to_le (next_tqe_prev r),
     word_to_le (name r),
     word_to_le (alias' r)]"

definition RawInterface_to_bytes :: "RawInterface \<Rightarrow> bytes" where
  "RawInterface_to_bytes r = pack RawInterface_layout (RawInterface_contents r)"

definition RawInterface_pod :: "RawInterface pod" where
  "RawInterface_pod = \<lparr>pod_size = size_of RawInterface_layout, 
    pod_read = RawInterface_of_bytes, pod_write = RawInterface_to_bytes\<rparr>"

lemma RawInterface_size [simp, layout_simps]:
  "size_of RawInterface_layout = 32" "align_of RawInterface_layout = 8"
  by code_simp+

lemma RawInterface_placed:
  "placed RawInterface_layout =
    [(''next_tqe_next'', 0, 8), (''next_tqe_prev'', 8, 8), (''name'', 16, 8),
     (''alias'', 24, 8)]"
  by code_simp

lemmas RawInterface_members [layout_simps] =
  arg_cong [OF RawInterface_layout_def, of fields_of, unfolded fields_of.simps]

lemma RawInterface_distinct: "distinct (map fst (fields_of RawInterface_layout))"
  by code_simp

lemma RawInterface_fields:
  "field_bytes RawInterface_layout b ''next_tqe_next'' = take 8 b"
  "field_bytes RawInterface_layout b ''next_tqe_prev'' = take 8 (drop 8 b)"
  "field_bytes RawInterface_layout b ''name'' = take 8 (drop 16 b)"
  "field_bytes RawInterface_layout b ''alias'' = take 8 (drop 24 b)"
  using fields_placed [OF RawInterface_distinct, of b]
  by (simp_all add: RawInterface_members RawInterface_placed del: One_nat_def)

lemmas RawInterface_of_bytes_code [code] = RawInterface_of_bytes_def [unfolded field_def RawInterface_fields]

interpretation iface: c_struct RawInterface_layout RawInterface_contents RawInterface_pod "\<lambda>_. True"
  by unfold_locales
    (simp_all add: RawInterface_distinct [unfolded RawInterface_members] RawInterface_members RawInterface_pod_def RawInterface_to_bytes_def RawInterface_contents_def
      RawInterface_of_bytes_def field_def)

section \<open>\<^verbatim>\<open>RawInterfaceList\<close>\<close>

record RawInterfaceList =
  tqh_first :: usize
  tqh_last :: usize

definition RawInterfaceList_layout :: ctype where
  "RawInterfaceList_layout = Struct
    [(''tqh_first'', usize_t),
     (''tqh_last'', usize_t)]"

definition RawInterfaceList_of_bytes :: "bytes \<Rightarrow> RawInterfaceList" where
  "RawInterfaceList_of_bytes b = \<lparr>
     tqh_first = field RawInterfaceList_layout b ''tqh_first'',
     tqh_last = field RawInterfaceList_layout b ''tqh_last''\<rparr>"

definition RawInterfaceList_contents :: "RawInterfaceList \<Rightarrow> bytes list" where
  "RawInterfaceList_contents r =
    [word_to_le (tqh_first r),
     word_to_le (tqh_last r)]"

definition RawInterfaceList_to_bytes :: "RawInterfaceList \<Rightarrow> bytes" where
  "RawInterfaceList_to_bytes r = pack RawInterfaceList_layout (RawInterfaceList_contents r)"

definition RawInterfaceList_pod :: "RawInterfaceList pod" where
  "RawInterfaceList_pod = \<lparr>pod_size = size_of RawInterfaceList_layout, 
    pod_read = RawInterfaceList_of_bytes, pod_write = RawInterfaceList_to_bytes\<rparr>"

lemma RawInterfaceList_size [simp, layout_simps]:
  "size_of RawInterfaceList_layout = 16" "align_of RawInterfaceList_layout = 8"
  by code_simp+

lemma RawInterfaceList_placed:
  "placed RawInterfaceList_layout =
    [(''tqh_first'', 0, 8), (''tqh_last'', 8, 8)]"
  by code_simp

lemmas RawInterfaceList_members [layout_simps] =
  arg_cong [OF RawInterfaceList_layout_def, of fields_of, unfolded fields_of.simps]

lemma RawInterfaceList_distinct: "distinct (map fst (fields_of RawInterfaceList_layout))"
  by code_simp

lemma RawInterfaceList_fields:
  "field_bytes RawInterfaceList_layout b ''tqh_first'' = take 8 b"
  "field_bytes RawInterfaceList_layout b ''tqh_last'' = take 8 (drop 8 b)"
  using fields_placed [OF RawInterfaceList_distinct, of b]
  by (simp_all add: RawInterfaceList_members RawInterfaceList_placed del: One_nat_def)

lemmas RawInterfaceList_of_bytes_code [code] = RawInterfaceList_of_bytes_def [unfolded field_def RawInterfaceList_fields]

interpretation iface_list: c_struct RawInterfaceList_layout RawInterfaceList_contents RawInterfaceList_pod "\<lambda>_. True"
  by unfold_locales
    (simp_all add: RawInterfaceList_distinct [unfolded RawInterfaceList_members] RawInterfaceList_members RawInterfaceList_pod_def RawInterfaceList_to_bytes_def RawInterfaceList_contents_def
      RawInterfaceList_of_bytes_def field_def)

section \<open>\<^verbatim>\<open>RawHardware\<close>\<close>

record RawHardware =
  h_entries_tqe_next :: usize
  h_entries_tqe_prev :: usize
  h_cfg :: usize
  h_recv :: usize
  h_sendfd :: i32
  h_mangle :: i32
  h_ops :: usize
  h_data :: usize
  h_timer :: usize
  h_mtu :: i32
  h_flags :: i32
  h_ifindex :: i32
  h_ifindex_changed :: i32
  h_ifname :: bytes
  h_ifalias :: usize
  h_lladdr :: bytes
  h_tx_cnt :: u64
  h_rx_cnt :: u64
  h_rx_discarded_cnt :: u64
  h_rx_unrecognized_cnt :: u64
  h_ageout_cnt :: u64
  h_insert_cnt :: u64
  h_delete_cnt :: u64
  h_drop_cnt :: u64
  h_lport_previous :: usize
  h_lport_previous_len :: isize
  h_lchassis_previous_id_subtype :: u8
  h_lchassis_previous_id :: usize
  h_lchassis_previous_id_len :: i32
  h_lport_previous_id_subtype :: u8
  h_lport_previous_id :: usize
  h_lport_previous_id_len :: i32
  h_ifdescr_previous :: usize
  h_lport :: RawPort
  h_rports_tqh_first :: usize
  h_rports_tqh_last :: usize
  h_tx_fast :: i32

definition RawHardware_layout :: ctype where
  "RawHardware_layout = Struct
    [(''h_entries_tqe_next'', usize_t),
     (''h_entries_tqe_prev'', usize_t),
     (''h_cfg'', usize_t),
     (''h_recv'', usize_t),
     (''h_sendfd'', i32_t),
     (''h_mangle'', i32_t),
     (''h_ops'', usize_t),
     (''h_data'', usize_t),
     (''h_timer'', usize_t),
     (''h_mtu'', i32_t),
     (''h_flags'', i32_t),
     (''h_ifindex'', i32_t),
     (''h_ifindex_changed'', i32_t),
     (''h_ifname'', Arr u8_t 16),
     (''h_ifalias'', usize_t),
     (''h_lladdr'', Arr u8_t 6),
     (''h_tx_cnt'', u64_t),
     (''h_rx_cnt'', u64_t),
     (''h_rx_discarded_cnt'', u64_t),
     (''h_rx_unrecognized_cnt'', u64_t),
     (''h_ageout_cnt'', u64_t),
     (''h_insert_cnt'', u64_t),
     (''h_delete_cnt'', u64_t),
     (''h_drop_cnt'', u64_t),
     (''h_lport_previous'', usize_t),
     (''h_lport_previous_len'', isize_t),
     (''h_lchassis_previous_id_subtype'', u8_t),
     (''h_lchassis_previous_id'', usize_t),
     (''h_lchassis_previous_id_len'', i32_t),
     (''h_lport_previous_id_subtype'', u8_t),
     (''h_lport_previous_id'', usize_t),
     (''h_lport_previous_id_len'', i32_t),
     (''h_ifdescr_previous'', usize_t),
     (''h_lport'', RawPort_layout),
     (''h_rports_tqh_first'', usize_t),
     (''h_rports_tqh_last'', usize_t),
     (''h_tx_fast'', i32_t)]"

definition RawHardware_of_bytes :: "bytes \<Rightarrow> RawHardware" where
  "RawHardware_of_bytes b = \<lparr>
     h_entries_tqe_next = field RawHardware_layout b ''h_entries_tqe_next'',
     h_entries_tqe_prev = field RawHardware_layout b ''h_entries_tqe_prev'',
     h_cfg = field RawHardware_layout b ''h_cfg'',
     h_recv = field RawHardware_layout b ''h_recv'',
     h_sendfd = field RawHardware_layout b ''h_sendfd'',
     h_mangle = field RawHardware_layout b ''h_mangle'',
     h_ops = field RawHardware_layout b ''h_ops'',
     h_data = field RawHardware_layout b ''h_data'',
     h_timer = field RawHardware_layout b ''h_timer'',
     h_mtu = field RawHardware_layout b ''h_mtu'',
     h_flags = field RawHardware_layout b ''h_flags'',
     h_ifindex = field RawHardware_layout b ''h_ifindex'',
     h_ifindex_changed = field RawHardware_layout b ''h_ifindex_changed'',
     h_ifname = field_bytes RawHardware_layout b ''h_ifname'',
     h_ifalias = field RawHardware_layout b ''h_ifalias'',
     h_lladdr = field_bytes RawHardware_layout b ''h_lladdr'',
     h_tx_cnt = field RawHardware_layout b ''h_tx_cnt'',
     h_rx_cnt = field RawHardware_layout b ''h_rx_cnt'',
     h_rx_discarded_cnt = field RawHardware_layout b ''h_rx_discarded_cnt'',
     h_rx_unrecognized_cnt = field RawHardware_layout b ''h_rx_unrecognized_cnt'',
     h_ageout_cnt = field RawHardware_layout b ''h_ageout_cnt'',
     h_insert_cnt = field RawHardware_layout b ''h_insert_cnt'',
     h_delete_cnt = field RawHardware_layout b ''h_delete_cnt'',
     h_drop_cnt = field RawHardware_layout b ''h_drop_cnt'',
     h_lport_previous = field RawHardware_layout b ''h_lport_previous'',
     h_lport_previous_len = field RawHardware_layout b ''h_lport_previous_len'',
     h_lchassis_previous_id_subtype = field RawHardware_layout b ''h_lchassis_previous_id_subtype'',
     h_lchassis_previous_id = field RawHardware_layout b ''h_lchassis_previous_id'',
     h_lchassis_previous_id_len = field RawHardware_layout b ''h_lchassis_previous_id_len'',
     h_lport_previous_id_subtype = field RawHardware_layout b ''h_lport_previous_id_subtype'',
     h_lport_previous_id = field RawHardware_layout b ''h_lport_previous_id'',
     h_lport_previous_id_len = field RawHardware_layout b ''h_lport_previous_id_len'',
     h_ifdescr_previous = field RawHardware_layout b ''h_ifdescr_previous'',
     h_lport = RawPort_of_bytes (field_bytes RawHardware_layout b ''h_lport''),
     h_rports_tqh_first = field RawHardware_layout b ''h_rports_tqh_first'',
     h_rports_tqh_last = field RawHardware_layout b ''h_rports_tqh_last'',
     h_tx_fast = field RawHardware_layout b ''h_tx_fast''\<rparr>"

definition RawHardware_contents :: "RawHardware \<Rightarrow> bytes list" where
  "RawHardware_contents r =
    [word_to_le (h_entries_tqe_next r),
     word_to_le (h_entries_tqe_prev r),
     word_to_le (h_cfg r),
     word_to_le (h_recv r),
     word_to_le (h_sendfd r),
     word_to_le (h_mangle r),
     word_to_le (h_ops r),
     word_to_le (h_data r),
     word_to_le (h_timer r),
     word_to_le (h_mtu r),
     word_to_le (h_flags r),
     word_to_le (h_ifindex r),
     word_to_le (h_ifindex_changed r),
     h_ifname r,
     word_to_le (h_ifalias r),
     h_lladdr r,
     word_to_le (h_tx_cnt r),
     word_to_le (h_rx_cnt r),
     word_to_le (h_rx_discarded_cnt r),
     word_to_le (h_rx_unrecognized_cnt r),
     word_to_le (h_ageout_cnt r),
     word_to_le (h_insert_cnt r),
     word_to_le (h_delete_cnt r),
     word_to_le (h_drop_cnt r),
     word_to_le (h_lport_previous r),
     word_to_le (h_lport_previous_len r),
     word_to_le (h_lchassis_previous_id_subtype r),
     word_to_le (h_lchassis_previous_id r),
     word_to_le (h_lchassis_previous_id_len r),
     word_to_le (h_lport_previous_id_subtype r),
     word_to_le (h_lport_previous_id r),
     word_to_le (h_lport_previous_id_len r),
     word_to_le (h_ifdescr_previous r),
     RawPort_to_bytes (h_lport r),
     word_to_le (h_rports_tqh_first r),
     word_to_le (h_rports_tqh_last r),
     word_to_le (h_tx_fast r)]"

definition RawHardware_to_bytes :: "RawHardware \<Rightarrow> bytes" where
  "RawHardware_to_bytes r = pack RawHardware_layout (RawHardware_contents r)"

definition RawHardware_ok :: "RawHardware \<Rightarrow> bool" where
  "RawHardware_ok r \<longleftrightarrow> length (h_ifname r) = 16 \<and> length (h_lladdr r) = 6 \<and> RawPort_ok (h_lport r)"

definition RawHardware_pod :: "RawHardware pod" where
  "RawHardware_pod = \<lparr>pod_size = size_of RawHardware_layout, 
    pod_read = RawHardware_of_bytes, pod_write = RawHardware_to_bytes\<rparr>"

lemma RawHardware_size [simp, layout_simps]:
  "size_of RawHardware_layout = 632" "align_of RawHardware_layout = 8"
  by code_simp+

lemma RawHardware_placed:
  "placed RawHardware_layout =
    [(''h_entries_tqe_next'', 0, 8), (''h_entries_tqe_prev'', 8, 8), (''h_cfg'', 16, 8),
     (''h_recv'', 24, 8), (''h_sendfd'', 32, 4), (''h_mangle'', 36, 4),
     (''h_ops'', 40, 8), (''h_data'', 48, 8), (''h_timer'', 56, 8),
     (''h_mtu'', 64, 4), (''h_flags'', 68, 4), (''h_ifindex'', 72, 4),
     (''h_ifindex_changed'', 76, 4), (''h_ifname'', 80, 16), (''h_ifalias'', 96, 8),
     (''h_lladdr'', 104, 6), (''h_tx_cnt'', 112, 8), (''h_rx_cnt'', 120, 8),
     (''h_rx_discarded_cnt'', 128, 8), (''h_rx_unrecognized_cnt'', 136, 8), (''h_ageout_cnt'', 144, 8),
     (''h_insert_cnt'', 152, 8), (''h_delete_cnt'', 160, 8), (''h_drop_cnt'', 168, 8),
     (''h_lport_previous'', 176, 8), (''h_lport_previous_len'', 184, 8), (''h_lchassis_previous_id_subtype'', 192, 1),
     (''h_lchassis_previous_id'', 200, 8), (''h_lchassis_previous_id_len'', 208, 4), (''h_lport_previous_id_subtype'', 212, 1),
     (''h_lport_previous_id'', 216, 8), (''h_lport_previous_id_len'', 224, 4), (''h_ifdescr_previous'', 232, 8),
     (''h_lport'', 240, 368), (''h_rports_tqh_first'', 608, 8), (''h_rports_tqh_last'', 616, 8),
     (''h_tx_fast'', 624, 4)]"
  by code_simp

lemmas RawHardware_members [layout_simps] =
  arg_cong [OF RawHardware_layout_def, of fields_of, unfolded fields_of.simps]

lemma RawHardware_distinct: "distinct (map fst (fields_of RawHardware_layout))"
  by code_simp

lemma RawHardware_fields:
  "field_bytes RawHardware_layout b ''h_entries_tqe_next'' = take 8 b"
  "field_bytes RawHardware_layout b ''h_entries_tqe_prev'' = take 8 (drop 8 b)"
  "field_bytes RawHardware_layout b ''h_cfg'' = take 8 (drop 16 b)"
  "field_bytes RawHardware_layout b ''h_recv'' = take 8 (drop 24 b)"
  "field_bytes RawHardware_layout b ''h_sendfd'' = take 4 (drop 32 b)"
  "field_bytes RawHardware_layout b ''h_mangle'' = take 4 (drop 36 b)"
  "field_bytes RawHardware_layout b ''h_ops'' = take 8 (drop 40 b)"
  "field_bytes RawHardware_layout b ''h_data'' = take 8 (drop 48 b)"
  "field_bytes RawHardware_layout b ''h_timer'' = take 8 (drop 56 b)"
  "field_bytes RawHardware_layout b ''h_mtu'' = take 4 (drop 64 b)"
  "field_bytes RawHardware_layout b ''h_flags'' = take 4 (drop 68 b)"
  "field_bytes RawHardware_layout b ''h_ifindex'' = take 4 (drop 72 b)"
  "field_bytes RawHardware_layout b ''h_ifindex_changed'' = take 4 (drop 76 b)"
  "field_bytes RawHardware_layout b ''h_ifname'' = take 16 (drop 80 b)"
  "field_bytes RawHardware_layout b ''h_ifalias'' = take 8 (drop 96 b)"
  "field_bytes RawHardware_layout b ''h_lladdr'' = take 6 (drop 104 b)"
  "field_bytes RawHardware_layout b ''h_tx_cnt'' = take 8 (drop 112 b)"
  "field_bytes RawHardware_layout b ''h_rx_cnt'' = take 8 (drop 120 b)"
  "field_bytes RawHardware_layout b ''h_rx_discarded_cnt'' = take 8 (drop 128 b)"
  "field_bytes RawHardware_layout b ''h_rx_unrecognized_cnt'' = take 8 (drop 136 b)"
  "field_bytes RawHardware_layout b ''h_ageout_cnt'' = take 8 (drop 144 b)"
  "field_bytes RawHardware_layout b ''h_insert_cnt'' = take 8 (drop 152 b)"
  "field_bytes RawHardware_layout b ''h_delete_cnt'' = take 8 (drop 160 b)"
  "field_bytes RawHardware_layout b ''h_drop_cnt'' = take 8 (drop 168 b)"
  "field_bytes RawHardware_layout b ''h_lport_previous'' = take 8 (drop 176 b)"
  "field_bytes RawHardware_layout b ''h_lport_previous_len'' = take 8 (drop 184 b)"
  "field_bytes RawHardware_layout b ''h_lchassis_previous_id_subtype'' = take 1 (drop 192 b)"
  "field_bytes RawHardware_layout b ''h_lchassis_previous_id'' = take 8 (drop 200 b)"
  "field_bytes RawHardware_layout b ''h_lchassis_previous_id_len'' = take 4 (drop 208 b)"
  "field_bytes RawHardware_layout b ''h_lport_previous_id_subtype'' = take 1 (drop 212 b)"
  "field_bytes RawHardware_layout b ''h_lport_previous_id'' = take 8 (drop 216 b)"
  "field_bytes RawHardware_layout b ''h_lport_previous_id_len'' = take 4 (drop 224 b)"
  "field_bytes RawHardware_layout b ''h_ifdescr_previous'' = take 8 (drop 232 b)"
  "field_bytes RawHardware_layout b ''h_lport'' = take 368 (drop 240 b)"
  "field_bytes RawHardware_layout b ''h_rports_tqh_first'' = take 8 (drop 608 b)"
  "field_bytes RawHardware_layout b ''h_rports_tqh_last'' = take 8 (drop 616 b)"
  "field_bytes RawHardware_layout b ''h_tx_fast'' = take 4 (drop 624 b)"
  using fields_placed [OF RawHardware_distinct, of b]
  by (simp_all add: RawHardware_members RawHardware_placed del: One_nat_def)

lemmas RawHardware_of_bytes_code [code] = RawHardware_of_bytes_def [unfolded field_def RawHardware_fields]

interpretation hardware: c_struct RawHardware_layout RawHardware_contents RawHardware_pod "RawHardware_ok"
  by unfold_locales
    (simp_all add: RawHardware_distinct [unfolded RawHardware_members] RawHardware_members RawHardware_pod_def RawHardware_to_bytes_def RawHardware_contents_def
      RawHardware_of_bytes_def field_def RawHardware_ok_def RawPort_embed)

section \<open>\<^verbatim>\<open>RawHardwareWithFlagsPrevious\<close>\<close>

record RawHardwareWithFlagsPrevious =
  h_entries_tqe_next :: usize
  h_entries_tqe_prev :: usize
  h_cfg :: usize
  h_recv :: usize
  h_sendfd :: i32
  h_mangle :: i32
  h_ops :: usize
  h_data :: usize
  h_timer :: usize
  h_mtu :: i32
  h_flags :: i32
  h_flags_previous :: i32
  h_ifindex :: i32
  h_ifindex_changed :: i32
  h_ifname :: bytes
  h_ifalias :: usize
  h_lladdr :: bytes
  h_tx_cnt :: u64
  h_rx_cnt :: u64
  h_rx_discarded_cnt :: u64
  h_rx_unrecognized_cnt :: u64
  h_ageout_cnt :: u64
  h_insert_cnt :: u64
  h_delete_cnt :: u64
  h_drop_cnt :: u64
  h_lport_previous :: usize
  h_lport_previous_len :: isize
  h_lchassis_previous_id_subtype :: u8
  h_lchassis_previous_id :: usize
  h_lchassis_previous_id_len :: i32
  h_lport_previous_id_subtype :: u8
  h_lport_previous_id :: usize
  h_lport_previous_id_len :: i32
  h_ifdescr_previous :: usize
  h_lport :: RawPort
  h_rports_tqh_first :: usize
  h_rports_tqh_last :: usize
  h_tx_fast :: i32

definition RawHardwareWithFlagsPrevious_layout :: ctype where
  "RawHardwareWithFlagsPrevious_layout = Struct
    [(''h_entries_tqe_next'', usize_t),
     (''h_entries_tqe_prev'', usize_t),
     (''h_cfg'', usize_t),
     (''h_recv'', usize_t),
     (''h_sendfd'', i32_t),
     (''h_mangle'', i32_t),
     (''h_ops'', usize_t),
     (''h_data'', usize_t),
     (''h_timer'', usize_t),
     (''h_mtu'', i32_t),
     (''h_flags'', i32_t),
     (''h_flags_previous'', i32_t),
     (''h_ifindex'', i32_t),
     (''h_ifindex_changed'', i32_t),
     (''h_ifname'', Arr u8_t 16),
     (''h_ifalias'', usize_t),
     (''h_lladdr'', Arr u8_t 6),
     (''h_tx_cnt'', u64_t),
     (''h_rx_cnt'', u64_t),
     (''h_rx_discarded_cnt'', u64_t),
     (''h_rx_unrecognized_cnt'', u64_t),
     (''h_ageout_cnt'', u64_t),
     (''h_insert_cnt'', u64_t),
     (''h_delete_cnt'', u64_t),
     (''h_drop_cnt'', u64_t),
     (''h_lport_previous'', usize_t),
     (''h_lport_previous_len'', isize_t),
     (''h_lchassis_previous_id_subtype'', u8_t),
     (''h_lchassis_previous_id'', usize_t),
     (''h_lchassis_previous_id_len'', i32_t),
     (''h_lport_previous_id_subtype'', u8_t),
     (''h_lport_previous_id'', usize_t),
     (''h_lport_previous_id_len'', i32_t),
     (''h_ifdescr_previous'', usize_t),
     (''h_lport'', RawPort_layout),
     (''h_rports_tqh_first'', usize_t),
     (''h_rports_tqh_last'', usize_t),
     (''h_tx_fast'', i32_t)]"

definition RawHardwareWithFlagsPrevious_of_bytes :: "bytes \<Rightarrow> RawHardwareWithFlagsPrevious" where
  "RawHardwareWithFlagsPrevious_of_bytes b = \<lparr>
     h_entries_tqe_next = field RawHardwareWithFlagsPrevious_layout b ''h_entries_tqe_next'',
     h_entries_tqe_prev = field RawHardwareWithFlagsPrevious_layout b ''h_entries_tqe_prev'',
     h_cfg = field RawHardwareWithFlagsPrevious_layout b ''h_cfg'',
     h_recv = field RawHardwareWithFlagsPrevious_layout b ''h_recv'',
     h_sendfd = field RawHardwareWithFlagsPrevious_layout b ''h_sendfd'',
     h_mangle = field RawHardwareWithFlagsPrevious_layout b ''h_mangle'',
     h_ops = field RawHardwareWithFlagsPrevious_layout b ''h_ops'',
     h_data = field RawHardwareWithFlagsPrevious_layout b ''h_data'',
     h_timer = field RawHardwareWithFlagsPrevious_layout b ''h_timer'',
     h_mtu = field RawHardwareWithFlagsPrevious_layout b ''h_mtu'',
     h_flags = field RawHardwareWithFlagsPrevious_layout b ''h_flags'',
     h_flags_previous = field RawHardwareWithFlagsPrevious_layout b ''h_flags_previous'',
     h_ifindex = field RawHardwareWithFlagsPrevious_layout b ''h_ifindex'',
     h_ifindex_changed = field RawHardwareWithFlagsPrevious_layout b ''h_ifindex_changed'',
     h_ifname = field_bytes RawHardwareWithFlagsPrevious_layout b ''h_ifname'',
     h_ifalias = field RawHardwareWithFlagsPrevious_layout b ''h_ifalias'',
     h_lladdr = field_bytes RawHardwareWithFlagsPrevious_layout b ''h_lladdr'',
     h_tx_cnt = field RawHardwareWithFlagsPrevious_layout b ''h_tx_cnt'',
     h_rx_cnt = field RawHardwareWithFlagsPrevious_layout b ''h_rx_cnt'',
     h_rx_discarded_cnt = field RawHardwareWithFlagsPrevious_layout b ''h_rx_discarded_cnt'',
     h_rx_unrecognized_cnt = field RawHardwareWithFlagsPrevious_layout b ''h_rx_unrecognized_cnt'',
     h_ageout_cnt = field RawHardwareWithFlagsPrevious_layout b ''h_ageout_cnt'',
     h_insert_cnt = field RawHardwareWithFlagsPrevious_layout b ''h_insert_cnt'',
     h_delete_cnt = field RawHardwareWithFlagsPrevious_layout b ''h_delete_cnt'',
     h_drop_cnt = field RawHardwareWithFlagsPrevious_layout b ''h_drop_cnt'',
     h_lport_previous = field RawHardwareWithFlagsPrevious_layout b ''h_lport_previous'',
     h_lport_previous_len = field RawHardwareWithFlagsPrevious_layout b ''h_lport_previous_len'',
     h_lchassis_previous_id_subtype = field RawHardwareWithFlagsPrevious_layout b ''h_lchassis_previous_id_subtype'',
     h_lchassis_previous_id = field RawHardwareWithFlagsPrevious_layout b ''h_lchassis_previous_id'',
     h_lchassis_previous_id_len = field RawHardwareWithFlagsPrevious_layout b ''h_lchassis_previous_id_len'',
     h_lport_previous_id_subtype = field RawHardwareWithFlagsPrevious_layout b ''h_lport_previous_id_subtype'',
     h_lport_previous_id = field RawHardwareWithFlagsPrevious_layout b ''h_lport_previous_id'',
     h_lport_previous_id_len = field RawHardwareWithFlagsPrevious_layout b ''h_lport_previous_id_len'',
     h_ifdescr_previous = field RawHardwareWithFlagsPrevious_layout b ''h_ifdescr_previous'',
     h_lport = RawPort_of_bytes (field_bytes RawHardwareWithFlagsPrevious_layout b ''h_lport''),
     h_rports_tqh_first = field RawHardwareWithFlagsPrevious_layout b ''h_rports_tqh_first'',
     h_rports_tqh_last = field RawHardwareWithFlagsPrevious_layout b ''h_rports_tqh_last'',
     h_tx_fast = field RawHardwareWithFlagsPrevious_layout b ''h_tx_fast''\<rparr>"

definition RawHardwareWithFlagsPrevious_contents :: "RawHardwareWithFlagsPrevious \<Rightarrow> bytes list" where
  "RawHardwareWithFlagsPrevious_contents r =
    [word_to_le (h_entries_tqe_next r),
     word_to_le (h_entries_tqe_prev r),
     word_to_le (h_cfg r),
     word_to_le (h_recv r),
     word_to_le (h_sendfd r),
     word_to_le (h_mangle r),
     word_to_le (h_ops r),
     word_to_le (h_data r),
     word_to_le (h_timer r),
     word_to_le (h_mtu r),
     word_to_le (h_flags r),
     word_to_le (h_flags_previous r),
     word_to_le (h_ifindex r),
     word_to_le (h_ifindex_changed r),
     h_ifname r,
     word_to_le (h_ifalias r),
     h_lladdr r,
     word_to_le (h_tx_cnt r),
     word_to_le (h_rx_cnt r),
     word_to_le (h_rx_discarded_cnt r),
     word_to_le (h_rx_unrecognized_cnt r),
     word_to_le (h_ageout_cnt r),
     word_to_le (h_insert_cnt r),
     word_to_le (h_delete_cnt r),
     word_to_le (h_drop_cnt r),
     word_to_le (h_lport_previous r),
     word_to_le (h_lport_previous_len r),
     word_to_le (h_lchassis_previous_id_subtype r),
     word_to_le (h_lchassis_previous_id r),
     word_to_le (h_lchassis_previous_id_len r),
     word_to_le (h_lport_previous_id_subtype r),
     word_to_le (h_lport_previous_id r),
     word_to_le (h_lport_previous_id_len r),
     word_to_le (h_ifdescr_previous r),
     RawPort_to_bytes (h_lport r),
     word_to_le (h_rports_tqh_first r),
     word_to_le (h_rports_tqh_last r),
     word_to_le (h_tx_fast r)]"

definition RawHardwareWithFlagsPrevious_to_bytes :: "RawHardwareWithFlagsPrevious \<Rightarrow> bytes" where
  "RawHardwareWithFlagsPrevious_to_bytes r = pack RawHardwareWithFlagsPrevious_layout (RawHardwareWithFlagsPrevious_contents r)"

definition RawHardwareWithFlagsPrevious_ok :: "RawHardwareWithFlagsPrevious \<Rightarrow> bool" where
  "RawHardwareWithFlagsPrevious_ok r \<longleftrightarrow> length (h_ifname r) = 16 \<and> length (h_lladdr r) = 6 \<and> RawPort_ok (h_lport r)"

definition RawHardwareWithFlagsPrevious_pod :: "RawHardwareWithFlagsPrevious pod" where
  "RawHardwareWithFlagsPrevious_pod = \<lparr>pod_size = size_of RawHardwareWithFlagsPrevious_layout, 
    pod_read = RawHardwareWithFlagsPrevious_of_bytes, pod_write = RawHardwareWithFlagsPrevious_to_bytes\<rparr>"

lemma RawHardwareWithFlagsPrevious_size [simp, layout_simps]:
  "size_of RawHardwareWithFlagsPrevious_layout = 640" "align_of RawHardwareWithFlagsPrevious_layout = 8"
  by code_simp+

lemma RawHardwareWithFlagsPrevious_placed:
  "placed RawHardwareWithFlagsPrevious_layout =
    [(''h_entries_tqe_next'', 0, 8), (''h_entries_tqe_prev'', 8, 8), (''h_cfg'', 16, 8),
     (''h_recv'', 24, 8), (''h_sendfd'', 32, 4), (''h_mangle'', 36, 4),
     (''h_ops'', 40, 8), (''h_data'', 48, 8), (''h_timer'', 56, 8),
     (''h_mtu'', 64, 4), (''h_flags'', 68, 4), (''h_flags_previous'', 72, 4),
     (''h_ifindex'', 76, 4), (''h_ifindex_changed'', 80, 4), (''h_ifname'', 84, 16),
     (''h_ifalias'', 104, 8), (''h_lladdr'', 112, 6), (''h_tx_cnt'', 120, 8),
     (''h_rx_cnt'', 128, 8), (''h_rx_discarded_cnt'', 136, 8), (''h_rx_unrecognized_cnt'', 144, 8),
     (''h_ageout_cnt'', 152, 8), (''h_insert_cnt'', 160, 8), (''h_delete_cnt'', 168, 8),
     (''h_drop_cnt'', 176, 8), (''h_lport_previous'', 184, 8), (''h_lport_previous_len'', 192, 8),
     (''h_lchassis_previous_id_subtype'', 200, 1), (''h_lchassis_previous_id'', 208, 8), (''h_lchassis_previous_id_len'', 216, 4),
     (''h_lport_previous_id_subtype'', 220, 1), (''h_lport_previous_id'', 224, 8), (''h_lport_previous_id_len'', 232, 4),
     (''h_ifdescr_previous'', 240, 8), (''h_lport'', 248, 368), (''h_rports_tqh_first'', 616, 8),
     (''h_rports_tqh_last'', 624, 8), (''h_tx_fast'', 632, 4)]"
  by code_simp

lemmas RawHardwareWithFlagsPrevious_members [layout_simps] =
  arg_cong [OF RawHardwareWithFlagsPrevious_layout_def, of fields_of, unfolded fields_of.simps]

lemma RawHardwareWithFlagsPrevious_distinct: "distinct (map fst (fields_of RawHardwareWithFlagsPrevious_layout))"
  by code_simp

lemma RawHardwareWithFlagsPrevious_fields:
  "field_bytes RawHardwareWithFlagsPrevious_layout b ''h_entries_tqe_next'' = take 8 b"
  "field_bytes RawHardwareWithFlagsPrevious_layout b ''h_entries_tqe_prev'' = take 8 (drop 8 b)"
  "field_bytes RawHardwareWithFlagsPrevious_layout b ''h_cfg'' = take 8 (drop 16 b)"
  "field_bytes RawHardwareWithFlagsPrevious_layout b ''h_recv'' = take 8 (drop 24 b)"
  "field_bytes RawHardwareWithFlagsPrevious_layout b ''h_sendfd'' = take 4 (drop 32 b)"
  "field_bytes RawHardwareWithFlagsPrevious_layout b ''h_mangle'' = take 4 (drop 36 b)"
  "field_bytes RawHardwareWithFlagsPrevious_layout b ''h_ops'' = take 8 (drop 40 b)"
  "field_bytes RawHardwareWithFlagsPrevious_layout b ''h_data'' = take 8 (drop 48 b)"
  "field_bytes RawHardwareWithFlagsPrevious_layout b ''h_timer'' = take 8 (drop 56 b)"
  "field_bytes RawHardwareWithFlagsPrevious_layout b ''h_mtu'' = take 4 (drop 64 b)"
  "field_bytes RawHardwareWithFlagsPrevious_layout b ''h_flags'' = take 4 (drop 68 b)"
  "field_bytes RawHardwareWithFlagsPrevious_layout b ''h_flags_previous'' = take 4 (drop 72 b)"
  "field_bytes RawHardwareWithFlagsPrevious_layout b ''h_ifindex'' = take 4 (drop 76 b)"
  "field_bytes RawHardwareWithFlagsPrevious_layout b ''h_ifindex_changed'' = take 4 (drop 80 b)"
  "field_bytes RawHardwareWithFlagsPrevious_layout b ''h_ifname'' = take 16 (drop 84 b)"
  "field_bytes RawHardwareWithFlagsPrevious_layout b ''h_ifalias'' = take 8 (drop 104 b)"
  "field_bytes RawHardwareWithFlagsPrevious_layout b ''h_lladdr'' = take 6 (drop 112 b)"
  "field_bytes RawHardwareWithFlagsPrevious_layout b ''h_tx_cnt'' = take 8 (drop 120 b)"
  "field_bytes RawHardwareWithFlagsPrevious_layout b ''h_rx_cnt'' = take 8 (drop 128 b)"
  "field_bytes RawHardwareWithFlagsPrevious_layout b ''h_rx_discarded_cnt'' = take 8 (drop 136 b)"
  "field_bytes RawHardwareWithFlagsPrevious_layout b ''h_rx_unrecognized_cnt'' = take 8 (drop 144 b)"
  "field_bytes RawHardwareWithFlagsPrevious_layout b ''h_ageout_cnt'' = take 8 (drop 152 b)"
  "field_bytes RawHardwareWithFlagsPrevious_layout b ''h_insert_cnt'' = take 8 (drop 160 b)"
  "field_bytes RawHardwareWithFlagsPrevious_layout b ''h_delete_cnt'' = take 8 (drop 168 b)"
  "field_bytes RawHardwareWithFlagsPrevious_layout b ''h_drop_cnt'' = take 8 (drop 176 b)"
  "field_bytes RawHardwareWithFlagsPrevious_layout b ''h_lport_previous'' = take 8 (drop 184 b)"
  "field_bytes RawHardwareWithFlagsPrevious_layout b ''h_lport_previous_len'' = take 8 (drop 192 b)"
  "field_bytes RawHardwareWithFlagsPrevious_layout b ''h_lchassis_previous_id_subtype'' = take 1 (drop 200 b)"
  "field_bytes RawHardwareWithFlagsPrevious_layout b ''h_lchassis_previous_id'' = take 8 (drop 208 b)"
  "field_bytes RawHardwareWithFlagsPrevious_layout b ''h_lchassis_previous_id_len'' = take 4 (drop 216 b)"
  "field_bytes RawHardwareWithFlagsPrevious_layout b ''h_lport_previous_id_subtype'' = take 1 (drop 220 b)"
  "field_bytes RawHardwareWithFlagsPrevious_layout b ''h_lport_previous_id'' = take 8 (drop 224 b)"
  "field_bytes RawHardwareWithFlagsPrevious_layout b ''h_lport_previous_id_len'' = take 4 (drop 232 b)"
  "field_bytes RawHardwareWithFlagsPrevious_layout b ''h_ifdescr_previous'' = take 8 (drop 240 b)"
  "field_bytes RawHardwareWithFlagsPrevious_layout b ''h_lport'' = take 368 (drop 248 b)"
  "field_bytes RawHardwareWithFlagsPrevious_layout b ''h_rports_tqh_first'' = take 8 (drop 616 b)"
  "field_bytes RawHardwareWithFlagsPrevious_layout b ''h_rports_tqh_last'' = take 8 (drop 624 b)"
  "field_bytes RawHardwareWithFlagsPrevious_layout b ''h_tx_fast'' = take 4 (drop 632 b)"
  using fields_placed [OF RawHardwareWithFlagsPrevious_distinct, of b]
  by (simp_all add: RawHardwareWithFlagsPrevious_members RawHardwareWithFlagsPrevious_placed del: One_nat_def)

lemmas RawHardwareWithFlagsPrevious_of_bytes_code [code] = RawHardwareWithFlagsPrevious_of_bytes_def [unfolded field_def RawHardwareWithFlagsPrevious_fields]

interpretation hardware_fp: c_struct RawHardwareWithFlagsPrevious_layout RawHardwareWithFlagsPrevious_contents RawHardwareWithFlagsPrevious_pod "RawHardwareWithFlagsPrevious_ok"
  by unfold_locales
    (simp_all add: RawHardwareWithFlagsPrevious_distinct [unfolded RawHardwareWithFlagsPrevious_members] RawHardwareWithFlagsPrevious_members RawHardwareWithFlagsPrevious_pod_def RawHardwareWithFlagsPrevious_to_bytes_def RawHardwareWithFlagsPrevious_contents_def
      RawHardwareWithFlagsPrevious_of_bytes_def field_def RawHardwareWithFlagsPrevious_ok_def RawPort_embed)

section \<open>\<^verbatim>\<open>RawNeighborChange\<close>\<close>

record RawNeighborChange =
  ifname :: usize
  ifalias :: usize
  state :: i32
  neighbor :: usize

definition RawNeighborChange_layout :: ctype where
  "RawNeighborChange_layout = Struct
    [(''ifname'', usize_t),
     (''ifalias'', usize_t),
     (''state'', i32_t),
     (''neighbor'', usize_t)]"

definition RawNeighborChange_of_bytes :: "bytes \<Rightarrow> RawNeighborChange" where
  "RawNeighborChange_of_bytes b = \<lparr>
     ifname = field RawNeighborChange_layout b ''ifname'',
     ifalias = field RawNeighborChange_layout b ''ifalias'',
     state = field RawNeighborChange_layout b ''state'',
     neighbor = field RawNeighborChange_layout b ''neighbor''\<rparr>"

definition RawNeighborChange_contents :: "RawNeighborChange \<Rightarrow> bytes list" where
  "RawNeighborChange_contents r =
    [word_to_le (ifname r),
     word_to_le (ifalias r),
     word_to_le (state r),
     word_to_le (neighbor r)]"

definition RawNeighborChange_to_bytes :: "RawNeighborChange \<Rightarrow> bytes" where
  "RawNeighborChange_to_bytes r = pack RawNeighborChange_layout (RawNeighborChange_contents r)"

definition RawNeighborChange_pod :: "RawNeighborChange pod" where
  "RawNeighborChange_pod = \<lparr>pod_size = size_of RawNeighborChange_layout, 
    pod_read = RawNeighborChange_of_bytes, pod_write = RawNeighborChange_to_bytes\<rparr>"

lemma RawNeighborChange_size [simp, layout_simps]:
  "size_of RawNeighborChange_layout = 32" "align_of RawNeighborChange_layout = 8"
  by code_simp+

lemma RawNeighborChange_placed:
  "placed RawNeighborChange_layout =
    [(''ifname'', 0, 8), (''ifalias'', 8, 8), (''state'', 16, 4),
     (''neighbor'', 24, 8)]"
  by code_simp

lemmas RawNeighborChange_members [layout_simps] =
  arg_cong [OF RawNeighborChange_layout_def, of fields_of, unfolded fields_of.simps]

lemma RawNeighborChange_distinct: "distinct (map fst (fields_of RawNeighborChange_layout))"
  by code_simp

lemma RawNeighborChange_fields:
  "field_bytes RawNeighborChange_layout b ''ifname'' = take 8 b"
  "field_bytes RawNeighborChange_layout b ''ifalias'' = take 8 (drop 8 b)"
  "field_bytes RawNeighborChange_layout b ''state'' = take 4 (drop 16 b)"
  "field_bytes RawNeighborChange_layout b ''neighbor'' = take 8 (drop 24 b)"
  using fields_placed [OF RawNeighborChange_distinct, of b]
  by (simp_all add: RawNeighborChange_members RawNeighborChange_placed del: One_nat_def)

lemmas RawNeighborChange_of_bytes_code [code] = RawNeighborChange_of_bytes_def [unfolded field_def RawNeighborChange_fields]

interpretation change: c_struct RawNeighborChange_layout RawNeighborChange_contents RawNeighborChange_pod "\<lambda>_. True"
  by unfold_locales
    (simp_all add: RawNeighborChange_distinct [unfolded RawNeighborChange_members] RawNeighborChange_members RawNeighborChange_pod_def RawNeighborChange_to_bytes_def RawNeighborChange_contents_def
      RawNeighborChange_of_bytes_def field_def)

section \<open>\<^verbatim>\<open>RawPortSet\<close>\<close>

record RawPortSet =
  ifname :: usize
  local_id :: usize
  local_descr :: usize
  vlan_advertise_pattern :: usize
  rxtx :: i32
  vlan_tx_tag :: i32
  vlan_tx_enabled :: i32
  med_policy :: usize
  med_location :: usize
  med_power :: usize
  dot3_power :: usize

definition RawPortSet_layout :: ctype where
  "RawPortSet_layout = Struct
    [(''ifname'', usize_t),
     (''local_id'', usize_t),
     (''local_descr'', usize_t),
     (''vlan_advertise_pattern'', usize_t),
     (''rxtx'', i32_t),
     (''vlan_tx_tag'', i32_t),
     (''vlan_tx_enabled'', i32_t),
     (''med_policy'', usize_t),
     (''med_location'', usize_t),
     (''med_power'', usize_t),
     (''dot3_power'', usize_t)]"

definition RawPortSet_of_bytes :: "bytes \<Rightarrow> RawPortSet" where
  "RawPortSet_of_bytes b = \<lparr>
     ifname = field RawPortSet_layout b ''ifname'',
     local_id = field RawPortSet_layout b ''local_id'',
     local_descr = field RawPortSet_layout b ''local_descr'',
     vlan_advertise_pattern = field RawPortSet_layout b ''vlan_advertise_pattern'',
     rxtx = field RawPortSet_layout b ''rxtx'',
     vlan_tx_tag = field RawPortSet_layout b ''vlan_tx_tag'',
     vlan_tx_enabled = field RawPortSet_layout b ''vlan_tx_enabled'',
     med_policy = field RawPortSet_layout b ''med_policy'',
     med_location = field RawPortSet_layout b ''med_location'',
     med_power = field RawPortSet_layout b ''med_power'',
     dot3_power = field RawPortSet_layout b ''dot3_power''\<rparr>"

definition RawPortSet_contents :: "RawPortSet \<Rightarrow> bytes list" where
  "RawPortSet_contents r =
    [word_to_le (ifname r),
     word_to_le (local_id r),
     word_to_le (local_descr r),
     word_to_le (vlan_advertise_pattern r),
     word_to_le (rxtx r),
     word_to_le (vlan_tx_tag r),
     word_to_le (vlan_tx_enabled r),
     word_to_le (med_policy r),
     word_to_le (med_location r),
     word_to_le (med_power r),
     word_to_le (dot3_power r)]"

definition RawPortSet_to_bytes :: "RawPortSet \<Rightarrow> bytes" where
  "RawPortSet_to_bytes r = pack RawPortSet_layout (RawPortSet_contents r)"

definition RawPortSet_pod :: "RawPortSet pod" where
  "RawPortSet_pod = \<lparr>pod_size = size_of RawPortSet_layout, 
    pod_read = RawPortSet_of_bytes, pod_write = RawPortSet_to_bytes\<rparr>"

lemma RawPortSet_size [simp, layout_simps]:
  "size_of RawPortSet_layout = 80" "align_of RawPortSet_layout = 8"
  by code_simp+

lemma RawPortSet_placed:
  "placed RawPortSet_layout =
    [(''ifname'', 0, 8), (''local_id'', 8, 8), (''local_descr'', 16, 8),
     (''vlan_advertise_pattern'', 24, 8), (''rxtx'', 32, 4), (''vlan_tx_tag'', 36, 4),
     (''vlan_tx_enabled'', 40, 4), (''med_policy'', 48, 8), (''med_location'', 56, 8),
     (''med_power'', 64, 8), (''dot3_power'', 72, 8)]"
  by code_simp

lemmas RawPortSet_members [layout_simps] =
  arg_cong [OF RawPortSet_layout_def, of fields_of, unfolded fields_of.simps]

lemma RawPortSet_distinct: "distinct (map fst (fields_of RawPortSet_layout))"
  by code_simp

lemma RawPortSet_fields:
  "field_bytes RawPortSet_layout b ''ifname'' = take 8 b"
  "field_bytes RawPortSet_layout b ''local_id'' = take 8 (drop 8 b)"
  "field_bytes RawPortSet_layout b ''local_descr'' = take 8 (drop 16 b)"
  "field_bytes RawPortSet_layout b ''vlan_advertise_pattern'' = take 8 (drop 24 b)"
  "field_bytes RawPortSet_layout b ''rxtx'' = take 4 (drop 32 b)"
  "field_bytes RawPortSet_layout b ''vlan_tx_tag'' = take 4 (drop 36 b)"
  "field_bytes RawPortSet_layout b ''vlan_tx_enabled'' = take 4 (drop 40 b)"
  "field_bytes RawPortSet_layout b ''med_policy'' = take 8 (drop 48 b)"
  "field_bytes RawPortSet_layout b ''med_location'' = take 8 (drop 56 b)"
  "field_bytes RawPortSet_layout b ''med_power'' = take 8 (drop 64 b)"
  "field_bytes RawPortSet_layout b ''dot3_power'' = take 8 (drop 72 b)"
  using fields_placed [OF RawPortSet_distinct, of b]
  by (simp_all add: RawPortSet_members RawPortSet_placed del: One_nat_def)

lemmas RawPortSet_of_bytes_code [code] = RawPortSet_of_bytes_def [unfolded field_def RawPortSet_fields]

interpretation port_set: c_struct RawPortSet_layout RawPortSet_contents RawPortSet_pod "\<lambda>_. True"
  by unfold_locales
    (simp_all add: RawPortSet_distinct [unfolded RawPortSet_members] RawPortSet_members RawPortSet_pod_def RawPortSet_to_bytes_def RawPortSet_contents_def
      RawPortSet_of_bytes_def field_def)

end
