(* ===== verification/Utf8.thy ===== *)
theory Utf8
  imports Prelude
begin

text \<open>
  What the code uses of the standard library's UTF-8: \<open>str::from_utf8\<close> and
  \<open>String::from_utf8_lossy\<close>. \<open>utf8_step\<close> is one round of the library's scanner: it looks at
  the start of the bytes and says whether a whole character stands there, and how many bytes
  to go on by; after an invalid start it goes on by the bytes that a character could still
  have begun with. The lemmas say that a lossy reading is always valid UTF-8, and that it
  leaves valid UTF-8 alone.
\<close>

unbundle bit_operations_syntax

definition byte_at :: "bytes \<Rightarrow> nat \<Rightarrow> u8" where
  "byte_at s i = (if i < length s then s ! i else 0)"

definition is_cont :: "u8 \<Rightarrow> bool" where
  "is_cont b \<longleftrightarrow> b AND 192 = 128"

definition in_range :: "u8 \<Rightarrow> u8 \<Rightarrow> u8 \<Rightarrow> bool" where
  "in_range lo hi b \<longleftrightarrow> lo \<le> b \<and> b \<le> hi"

definition char_width :: "u8 \<Rightarrow> nat" where
  "char_width b =
     (if b < 128 then 1
      else if in_range 194 223 b then 2
      else if in_range 224 239 b then 3
      else if in_range 240 244 b then 4
      else 0)"

text \<open>The second byte of a three-byte and of a four-byte character.\<close>

definition second_of_3 :: "u8 \<Rightarrow> u8 \<Rightarrow> bool" where
  "second_of_3 b c \<longleftrightarrow>
     b = 224 \<and> in_range 160 191 c \<or>
     in_range 225 236 b \<and> in_range 128 191 c \<or>
     b = 237 \<and> in_range 128 159 c \<or>
     in_range 238 239 b \<and> in_range 128 191 c"

definition second_of_4 :: "u8 \<Rightarrow> u8 \<Rightarrow> bool" where
  "second_of_4 b c \<longleftrightarrow>
     b = 240 \<and> in_range 144 191 c \<or>
     in_range 241 243 b \<and> in_range 128 191 c \<or>
     b = 244 \<and> in_range 128 143 c"

definition utf8_step :: "bytes \<Rightarrow> bool \<times> nat" where
  "utf8_step s =
     (let b = byte_at s 0; w = char_width b in
      if w = 1 then (True, 1)
      else if w = 2 then
        if is_cont (byte_at s 1) then (True, 2) else (False, 1)
      else if w = 3 then
        if second_of_3 b (byte_at s 1) then
          if is_cont (byte_at s 2) then (True, 3) else (False, 2)
        else (False, 1)
      else if w = 4 then
        if second_of_4 b (byte_at s 1) then
          if is_cont (byte_at s 2) then
            if is_cont (byte_at s 3) then (True, 4) else (False, 3)
          else (False, 2)
        else (False, 1)
      else (False, 1))"

lemma not_cont_0 [simp]: "\<not> is_cont 0" "\<not> second_of_3 b 0" "\<not> second_of_4 b 0"
  by (simp_all add: is_cont_def second_of_3_def second_of_4_def in_range_def)

lemma byte_at_cont [dest]:
  "is_cont (byte_at s i) \<Longrightarrow> i < length s"
  "second_of_3 b (byte_at s i) \<Longrightarrow> i < length s"
  "second_of_4 b (byte_at s i) \<Longrightarrow> i < length s"
  by (auto simp: byte_at_def split: if_splits)

lemma utf8_step_bounds:
  assumes "utf8_step s = (ok, n)" and "s \<noteq> []"
  shows "1 \<le> n \<and> n \<le> length s"
proof -
  have "1 \<le> length s" using assms(2) by (cases s) simp_all
  with assms(1) show ?thesis
    by (auto simp: utf8_step_def Let_def split: if_splits dest!: byte_at_cont)
qed

lemma byte_at_take_append: "i < n \<Longrightarrow> n \<le> length s \<Longrightarrow> byte_at (take n s @ t) i = byte_at s i"
  by (simp add: byte_at_def nth_append)

lemma utf8_step_take:
  assumes "utf8_step s = (True, n)" and "s \<noteq> []"
  shows "utf8_step (take n s @ t) = (True, n)"
proof -
  have n: "1 \<le> n" "n \<le> length s"
    using utf8_step_bounds [OF assms] by simp_all
  have b: "\<And>i. i < n \<Longrightarrow> byte_at (take n s @ t) i = byte_at s i"
    using n by (simp add: byte_at_take_append)
  have "n = 1 \<or> n = 2 \<or> n = 3 \<or> n = 4"
    using assms(1) by (auto simp: utf8_step_def Let_def split: if_splits)
  then show ?thesis
    using assms(1) b [of 0] b [of 1] b [of 2] b [of 3]
    by (elim disjE) (auto simp: utf8_step_def Let_def split: if_splits)
qed

function utf8_valid :: "bytes \<Rightarrow> bool" where
  "utf8_valid s =
     (if s = [] then True
      else case utf8_step s of (ok, n) \<Rightarrow> ok \<and> utf8_valid (drop n s))"
  by pat_completeness auto
termination
  by (relation "measure length") (auto dest!: utf8_step_bounds [OF sym])

definition replacement :: bytes where
  "replacement = [239, 191, 189]" \<comment> \<open>U+FFFD\<close>

function from_utf8_lossy :: "bytes \<Rightarrow> rstring" where
  "from_utf8_lossy s =
     (if s = [] then []
      else case utf8_step s of
        (ok, n) \<Rightarrow> (if ok then take n s else replacement) @ from_utf8_lossy (drop n s))"
  by pat_completeness auto
termination
  by (relation "measure length") (auto dest!: utf8_step_bounds [OF sym])

declare utf8_valid.simps [simp del] from_utf8_lossy.simps [simp del]

definition from_utf8 :: "bytes \<Rightarrow> rstring option" where
  "from_utf8 s = (if utf8_valid s then Some s else None)"

lemma utf8_valid_Nil [simp]: "utf8_valid []"
  by (simp add: utf8_valid.simps)

lemma utf8_valid_char:
  assumes "utf8_step s = (True, n)" and "s \<noteq> []"
  shows "utf8_valid (take n s @ t) = utf8_valid t"
proof -
  have n: "1 \<le> n" "n \<le> length s"
    using utf8_step_bounds [OF assms] by simp_all
  then have "take n s \<noteq> []" using assms(2) by auto
  then show ?thesis
    using utf8_step_take [OF assms, of t] n by (simp add: utf8_valid.simps [of "take n s @ t"])
qed

lemma utf8_valid_append:
  "utf8_valid x \<Longrightarrow> utf8_valid (x @ y) = utf8_valid y"
proof (induction x rule: utf8_valid.induct)
  case (1 s)
  show ?case
  proof (cases "s = []")
    case True
    then show ?thesis by simp
  next
    case False
    with "1.prems" obtain n where n: "utf8_step s = (True, n)" and v: "utf8_valid (drop n s)"
      by (auto simp: utf8_valid.simps [of s] split: prod.splits)
    have "utf8_valid (s @ y) = utf8_valid (take n s @ (drop n s @ y))"
      by (metis append_assoc append_take_drop_id)
    also have "\<dots> = utf8_valid (drop n s @ y)"
      by (rule utf8_valid_char [OF n False])
    also have "\<dots> = utf8_valid y"
      using "1.IH" [OF False] n v by simp
    finally show ?thesis .
  qed
qed

lemma utf8_valid_replacement: "utf8_valid replacement"
  by code_simp

lemma from_utf8_lossy_valid: "utf8_valid (from_utf8_lossy s)"
proof (induction s rule: from_utf8_lossy.induct)
  case (1 s)
  show ?case
  proof (cases "s = []")
    case True
    then show ?thesis by (simp add: from_utf8_lossy.simps)
  next
    case False
    obtain ok n where n: "utf8_step s = (ok, n)" by fastforce
    have "utf8_valid (from_utf8_lossy (drop n s))" using "1.IH" [OF False] n by simp
    with n False show ?thesis
      by (cases ok)
        (simp_all add: from_utf8_lossy.simps [of s] utf8_valid_char
          utf8_valid_append [OF utf8_valid_replacement])
  qed
qed

lemma from_utf8_lossy_id: "utf8_valid s \<Longrightarrow> from_utf8_lossy s = s"
proof (induction s rule: utf8_valid.induct)
  case (1 s)
  show ?case
  proof (cases "s = []")
    case True
    then show ?thesis by (simp add: from_utf8_lossy.simps)
  next
    case False
    with "1.prems" obtain n where n: "utf8_step s = (True, n)" and v: "utf8_valid (drop n s)"
      by (auto simp: utf8_valid.simps [of s] split: prod.splits)
    then have "from_utf8_lossy (drop n s) = drop n s" using "1.IH" [OF False] by simp
    with n False show ?thesis by (simp add: from_utf8_lossy.simps [of s])
  qed
qed

lemma from_utf8_lossy_iff: "from_utf8_lossy s = s \<longleftrightarrow> utf8_valid s"
  by (metis from_utf8_lossy_id from_utf8_lossy_valid)

text \<open>A lossy reading is at most three times as long: each bad byte may become U+FFFD.\<close>

lemma from_utf8_lossy_length: "length (from_utf8_lossy s) \<le> 3 * length s"
proof (induction s rule: from_utf8_lossy.induct)
  case (1 s)
  show ?case
  proof (cases "s = []")
    case True
    then show ?thesis by (simp add: from_utf8_lossy.simps)
  next
    case False
    obtain ok n where n: "utf8_step s = (ok, n)" by fastforce
    then have "length (from_utf8_lossy (drop n s)) \<le> 3 * (length s - n)" "1 \<le> n" "n \<le> length s"
      using "1.IH" [OF False] utf8_step_bounds [OF n False] by simp_all
    moreover have "length (from_utf8_lossy s) =
        (if ok then n else 3) + length (from_utf8_lossy (drop n s))"
      using n False \<open>n \<le> length s\<close> by (simp add: from_utf8_lossy.simps [of s] replacement_def)
    ultimately show ?thesis by (auto split: if_splits)
  qed
qed

end
