(* ===== verification/Cursor.thy ===== *)
theory Cursor
  imports Layout Errors Utf8
begin

text \<open>
  src/wire/cursor.rs: the reader of a message payload. A reader takes a cursor and returns a
  value with the cursor behind it; since the code uses a cursor no more after an error, the
  cursor after an error is not kept. Every slice and every addition that could panic is
  written as such.

  The second half of the theory defines what every reader of the decoder shares
  (\<open>well_behaved\<close>) and proves that it is closed under sequencing: a reader does not panic
  and fails with protocol errors only, it moves the cursor forwards and never past the end,
  and a value it returns depends on the bytes in front of the new position only.
\<close>

section \<open>The cursor\<close>

definition PTR_SIZE :: nat where
  "PTR_SIZE = 8"

record cursor =
  buf :: bytes
  pos :: nat

definition cursor_new :: "bytes \<Rightarrow> cursor" where
  "cursor_new b = \<lparr>buf = b, pos = 0\<rparr>"

definition is_exhausted :: "cursor \<Rightarrow> bool" where
  "is_exhausted c \<longleftrightarrow> pos c = length (buf c)"

definition truncated :: "cursor \<Rightarrow> nat \<Rightarrow> error" where
  "truncated c n = Protocol
     (''truncated message: need '' @ dec n @ '' more bytes at offset '' @ dec (pos c) @
      '' (have '' @ dec (length (buf c)) @ '')'')"

definition need :: "cursor \<Rightarrow> nat \<Rightarrow> unit res" where
  "need c n =
     (case checked_add (pos c) n of
        None \<Rightarrow> Err (truncated c n)
      | Some stop \<Rightarrow> if stop > length (buf c) then Err (truncated c n) else Ok ())"

definition read_raw :: "cursor \<Rightarrow> nat \<Rightarrow> (bytes \<times> cursor) res" where
  "read_raw c n =
     and_then (need c n) (\<lambda>_.
     and_then (usize_add (pos c) n) (\<lambda>stop.
     and_then (slice (buf c) (pos c) stop) (\<lambda>b.
     Ok (b, c\<lparr>pos := stop\<rparr>))))"

definition read_native_usize :: "bytes \<Rightarrow> usize res" where
  "read_native_usize b = (if length b = PTR_SIZE then Ok (word_from_le b) else Panic)"

text \<open>The slice of the buffer from \<open>i\<close> to \<open>j\<close> bytes behind the position.\<close>

definition slice_at :: "cursor \<Rightarrow> nat \<Rightarrow> nat \<Rightarrow> bytes res" where
  "slice_at c i j =
     and_then (usize_add (pos c) i) (\<lambda>a.
     and_then (usize_add (pos c) j) (\<lambda>b. slice (buf c) a b))"

definition chunk_header :: "cursor \<Rightarrow> ((usize \<times> usize) \<times> cursor) res" where
  "chunk_header c =
     (let pad = align_up (pos c) PTR_SIZE - pos c; header_len = 2 * PTR_SIZE in
      and_then (usize_add (pos c) pad) (\<lambda>p.
      let c = c\<lparr>pos := p\<rparr> in
      and_then (need c header_len) (\<lambda>_.
      and_then (slice_at c 0 PTR_SIZE) (\<lambda>b.
      and_then (read_native_usize b) (\<lambda>orig.
      and_then (slice_at c PTR_SIZE header_len) (\<lambda>b.
      and_then (read_native_usize b) (\<lambda>size.
      and_then (usize_add (pos c) header_len) (\<lambda>p.
      Ok ((orig, size), c\<lparr>pos := p\<rparr>)))))))))"

definition leaf :: "cursor \<Rightarrow> ((usize \<times> bytes) \<times> cursor) res" where
  "leaf c =
     and_then (chunk_header c) (\<lambda>((orig, declared_size), c).
     let header_len = 2 * PTR_SIZE in
     case checked_sub (unat declared_size) header_len of
       None \<Rightarrow> Err (Protocol
         (''chunk declares '' @ dec (unat declared_size) @ '' bytes, smaller than its own '' @
          dec header_len @ ''-byte header''))
     | Some content_len \<Rightarrow>
         and_then (read_raw c content_len) (\<lambda>(b, c). Ok ((orig, b), c)))"

section \<open>Plain data and strings\<close>

definition read_pod :: "'a pod \<Rightarrow> bytes \<Rightarrow> 'a res" where
  "read_pod P b =
     (if length b < pod_size P then Err (Protocol
        (''chunk too small: need '' @ dec (pod_size P) @ '' bytes, got '' @ dec (length b)))
      else Ok (pod_read P b))"

definition pod_bytes :: "'a pod \<Rightarrow> 'a \<Rightarrow> bytes" where
  "pod_bytes P v = pod_write P v"

definition read_chunk_pod :: "'a pod \<Rightarrow> cursor \<Rightarrow> ('a \<times> cursor) res" where
  "read_chunk_pod P c =
     and_then (chunk_header c) (\<lambda>((orig, declared_size), c).
     let header_len = 2 * PTR_SIZE; n = pod_size P in
     if unat declared_size < header_len + n then Err (Protocol
       (''chunk declares '' @ dec (unat declared_size) @ '' bytes, too small for its own '' @
        dec header_len @ ''-byte header plus the '' @ dec n @ ''-byte struct it contains''))
     else
       and_then (read_raw c n) (\<lambda>(b, c).
       and_then (read_pod P b) (\<lambda>v. Ok (v, c))))"

text \<open>\<open>body.strip_suffix(&[0u8]).unwrap_or(body)\<close>\<close>

definition strip_nul :: "bytes \<Rightarrow> bytes" where
  "strip_nul b = (if b \<noteq> [] \<and> last b = 0 then butlast b else b)"

definition read_opt_cstring :: "cursor \<Rightarrow> usize \<Rightarrow> (rstring option \<times> cursor) res" where
  "read_opt_cstring c ptr_field =
     (if ptr_field = 0 then Ok (None, c)
      else and_then (leaf c) (\<lambda>((orig, body), c).
        Ok (Some (from_utf8_lossy (strip_nul body)), c)))"

definition read_opt_bytes :: "cursor \<Rightarrow> usize \<Rightarrow> (bytes option \<times> cursor) res" where
  "read_opt_bytes c ptr_field =
     (if ptr_field = 0 then Ok (None, c)
      else and_then (leaf c) (\<lambda>((orig, body), c). Ok (Some body, c)))"

definition consume_substruct_marker :: "cursor \<Rightarrow> (unit \<times> cursor) res" where
  "consume_substruct_marker c = and_then (chunk_header c) (\<lambda>(_, c). Ok ((), c))"

section \<open>Well-behaved readers\<close>

definition cursor_ok :: "cursor \<Rightarrow> bool" where
  "cursor_ok c \<longleftrightarrow> pos c \<le> length (buf c) \<and> length (buf c) \<le> slice_max"

lemma cursor_ok_new [simp]: "cursor_ok (cursor_new p) \<longleftrightarrow> length p \<le> slice_max"
  by (simp add: cursor_ok_def cursor_new_def)

text \<open>
  \<open>step_ok d c x c'\<close>: reading \<open>x\<close> at \<open>c\<close> and stopping at \<open>c'\<close> is a move forwards in the same
  buffer, and the reader does the same on any buffer that agrees up to the new position.
\<close>

definition step_ok ::
  "(cursor \<Rightarrow> ('a \<times> cursor) res) \<Rightarrow> cursor \<Rightarrow> 'a \<Rightarrow> cursor \<Rightarrow> bool" where
  "step_ok d c x c' \<longleftrightarrow>
     buf c' = buf c \<and> pos c \<le> pos c' \<and> pos c' \<le> length (buf c) \<and>
     (\<forall>b. pos c' \<le> length b \<longrightarrow> take (pos c') b = take (pos c') (buf c) \<longrightarrow>
        d (c\<lparr>buf := b\<rparr>) = Ok (x, c'\<lparr>buf := b\<rparr>))"

definition well_behaved_at :: "(cursor \<Rightarrow> ('a \<times> cursor) res) \<Rightarrow> cursor \<Rightarrow> bool" where
  "well_behaved_at d c \<longleftrightarrow> (cursor_ok c \<longrightarrow>
     ok_or_protocol (d c) \<and> (\<forall>x c'. d c = Ok (x, c') \<longrightarrow> step_ok d c x c'))"

definition well_behaved :: "(cursor \<Rightarrow> ('a \<times> cursor) res) \<Rightarrow> bool" where
  "well_behaved d \<longleftrightarrow> (\<forall>c. well_behaved_at d c)"

lemma well_behavedI: "(\<And>c. well_behaved_at d c) \<Longrightarrow> well_behaved d"
  by (simp add: well_behaved_def)

lemma well_behavedD: "well_behaved d \<Longrightarrow> well_behaved_at d c"
  by (simp add: well_behaved_def)

lemma well_behaved_at_protocol:
  "well_behaved_at d c \<Longrightarrow> cursor_ok c \<Longrightarrow> ok_or_protocol (d c)"
  by (simp add: well_behaved_at_def)

lemma well_behaved_at_step:
  "well_behaved_at d c \<Longrightarrow> cursor_ok c \<Longrightarrow> d c = Ok (x, c') \<Longrightarrow> step_ok d c x c'"
  by (simp add: well_behaved_at_def)

lemma step_ok_cursor_ok: "step_ok d c x c' \<Longrightarrow> cursor_ok c \<Longrightarrow> cursor_ok c'"
  by (simp add: step_ok_def cursor_ok_def)

lemma well_behaved_at_Ok [wb_intros]: "well_behaved_at (\<lambda>c. Ok (x, c)) c"
  by (auto simp: well_behaved_at_def step_ok_def cursor_ok_def)

lemma well_behaved_at_Err [wb_intros]: "well_behaved_at (\<lambda>c. Err (Protocol m)) c"
  by (simp add: well_behaved_at_def)

lemma well_behaved_at_if [wb_intros]:
  "(P \<Longrightarrow> well_behaved_at d c) \<Longrightarrow> (\<not> P \<Longrightarrow> well_behaved_at e c) \<Longrightarrow>
   well_behaved_at (\<lambda>c. if P then d c else e c) c"
  by (cases P) simp_all

lemma well_behaved_at_option [wb_intros]:
  "(v = None \<Longrightarrow> well_behaved_at d c) \<Longrightarrow> (\<And>a. v = Some a \<Longrightarrow> well_behaved_at (e a) c) \<Longrightarrow>
   well_behaved_at (\<lambda>c. case v of None \<Rightarrow> d c | Some a \<Rightarrow> e a c) c"
  by (cases v) simp_all

lemma well_behaved_at_prod [wb_intros]:
  "(\<And>a b. v = (a, b) \<Longrightarrow> well_behaved_at (d a b) c) \<Longrightarrow>
   well_behaved_at (\<lambda>c. case v of (a, b) \<Rightarrow> d a b c) c"
  by (cases v) simp_all

lemma well_behaved_at_prod_fun [wb_intros]:
  "(\<And>a b. v = (a, b) \<Longrightarrow> well_behaved_at (d a b) c) \<Longrightarrow>
   well_behaved_at (case v of (a, b) \<Rightarrow> d a b) c"
  by (cases v) simp_all

text \<open>Sequencing: the rule every reader is built with.\<close>

lemma step_ok_and_then:
  assumes "step_ok d c x c1" and "step_ok (k x) c1 y c2"
  shows "step_ok (\<lambda>c. and_then (d c) (\<lambda>(x, c). k x c)) c y c2"
proof -
  have "\<forall>b. pos c2 \<le> length b \<longrightarrow> take (pos c2) b = take (pos c2) (buf c) \<longrightarrow>
      and_then (d (c\<lparr>buf := b\<rparr>)) (\<lambda>(x, c). k x c) = Ok (y, c2\<lparr>buf := b\<rparr>)"
  proof (intro allI impI)
    fix b
    assume len: "pos c2 \<le> length b" and agree: "take (pos c2) b = take (pos c2) (buf c)"
    have le: "pos c1 \<le> pos c2" using assms(2) by (simp add: step_ok_def)
    then have "take (pos c1) b = take (pos c1) (buf c)"
      using agree by (metis min.absorb1 take_take)
    then have "d (c\<lparr>buf := b\<rparr>) = Ok (x, c1\<lparr>buf := b\<rparr>)"
      using assms(1) len le by (simp add: step_ok_def)
    moreover have "k x (c1\<lparr>buf := b\<rparr>) = Ok (y, c2\<lparr>buf := b\<rparr>)"
      using assms len agree by (simp add: step_ok_def)
    ultimately show "and_then (d (c\<lparr>buf := b\<rparr>)) (\<lambda>(x, c). k x c) = Ok (y, c2\<lparr>buf := b\<rparr>)"
      by simp
  qed
  with assms show ?thesis by (auto simp: step_ok_def)
qed

lemma well_behaved_at_and_then [wb_intros]:
  assumes d: "well_behaved_at d c"
    and k: "\<And>x c'. d c = Ok (x, c') \<Longrightarrow> well_behaved_at (k x) c'"
  shows "well_behaved_at (\<lambda>c. and_then (d c) (\<lambda>(x, c). k x c)) c"
  unfolding well_behaved_at_def
proof (intro impI conjI allI)
  assume c: "cursor_ok c"
  have next_ok: "cursor_ok c'" if "d c = Ok (x, c')" for x c'
    using well_behaved_at_step [OF d c that] c by (rule step_ok_cursor_ok)
  show "ok_or_protocol (and_then (d c) (\<lambda>(x, c). k x c))"
    using well_behaved_at_protocol [OF d c]
    by (rule ok_or_protocol_and_then) (auto intro: well_behaved_at_protocol k next_ok)
  fix y c2
  assume "and_then (d c) (\<lambda>(x, c). k x c) = Ok (y, c2)"
  then obtain x c1 where d1: "d c = Ok (x, c1)" and k1: "k x c1 = Ok (y, c2)"
    by (auto simp: and_then_eq_Ok)
  show "step_ok (\<lambda>c. and_then (d c) (\<lambda>(x, c). k x c)) c y c2"
    using well_behaved_at_step [OF d c d1] well_behaved_at_step [OF k [OF d1] next_ok [OF d1] k1]
    by (rule step_ok_and_then)
qed

section \<open>What the primitive readers do\<close>

lemma bounds_num: "slice_max = 9223372036854775807" "usize_bound = 18446744073709551616"
  by (simp_all add: slice_max_def usize_bound_def)

lemma align_up_8_less: "align_up n 8 < n + 8"
  by (rule align_up_less) simp

lemma need_eq:
  "length (buf c) < usize_bound \<Longrightarrow>
   need c n = (if pos c + n \<le> length (buf c) then Ok () else Err (truncated c n))"
  by (auto simp: need_def checked_add_def split: option.splits)

lemma need_Ok:
  "pos c + n \<le> length (buf c) \<Longrightarrow> pos c + n < usize_bound \<Longrightarrow> need c n = Ok ()"
  by (simp add: need_def checked_add_def)

lemma read_raw_Ok:
  "pos c + n \<le> length (buf c) \<Longrightarrow> pos c + n < usize_bound \<Longrightarrow>
   read_raw c n = Ok (take n (drop (pos c) (buf c)), c\<lparr>pos := pos c + n\<rparr>)"
  by (simp add: read_raw_def need_Ok)

lemma read_raw_Err:
  "cursor_ok c \<Longrightarrow> length (buf c) < pos c + n \<Longrightarrow> read_raw c n = Err (truncated c n)"
  by (simp add: read_raw_def need_eq cursor_ok_def bounds_num)

text \<open>The header stands at the next aligned position.\<close>

definition header_at :: "bytes \<Rightarrow> nat \<Rightarrow> usize \<times> usize" where
  "header_at b p = (word_from_le (take 8 (drop p b)), word_from_le (take 8 (drop (p + 8) b)))"

lemma chunk_header_Ok:
  assumes "p = align_up (pos c) 8" "p + 16 \<le> length (buf c)" "p + 16 < usize_bound"
  shows "chunk_header c = Ok (header_at (buf c) p, c\<lparr>pos := p + 16\<rparr>)"
  using assms align_up_ge [of "pos c" 8]
  by (simp add: chunk_header_def Let_def PTR_SIZE_def need_Ok slice_at_def
      read_native_usize_def header_at_def)

lemma chunk_header_Err:
  assumes "cursor_ok c" "p = align_up (pos c) 8" "length (buf c) < p + 16"
  shows "chunk_header c = Err (truncated (c\<lparr>pos := p\<rparr>) 16)"
proof -
  have "p < usize_bound" "length (buf c) < usize_bound"
    using assms align_up_8_less [of "pos c"] by (simp_all add: cursor_ok_def bounds_num)
  then show ?thesis
    using assms align_up_ge [of "pos c" 8]
    by (simp add: chunk_header_def Let_def PTR_SIZE_def need_eq)
qed

lemma truncated_protocol: "ok_or_protocol (Err (truncated c n))"
  by (simp add: truncated_def)

lemma chunk_header_cases:
  assumes "cursor_ok c"
  obtains (ok) p where "p = align_up (pos c) 8" "p + 16 \<le> length (buf c)" "p + 16 < usize_bound"
      "chunk_header c = Ok (header_at (buf c) p, c\<lparr>pos := p + 16\<rparr>)"
  | (err) "length (buf c) < align_up (pos c) 8 + 16" "ok_or_protocol (chunk_header c)"
      "\<And>r. chunk_header c \<noteq> Ok r"
proof (cases "align_up (pos c) 8 + 16 \<le> length (buf c)")
  case True
  moreover have "align_up (pos c) 8 + 16 < usize_bound"
    using True assms by (simp add: cursor_ok_def bounds_num)
  ultimately show ?thesis using chunk_header_Ok [OF refl] by (intro ok) auto
next
  case False
  then have "chunk_header c = Err (truncated (c\<lparr>pos := align_up (pos c) 8\<rparr>) 16)"
    using chunk_header_Err [OF assms refl] by simp
  with False show ?thesis by (intro err) (simp_all add: truncated_def)
qed

lemma header_at_prefix:
  "take n b = take n b' \<Longrightarrow> p + 16 \<le> n \<Longrightarrow> header_at b p = header_at b' p"
  using take_drop_prefix_eq [of n b b' p 8] take_drop_prefix_eq [of n b b' "p + 8" 8]
  by (simp add: header_at_def)

lemma well_behaved_chunk_header [wb_intros]: "well_behaved_at chunk_header c"
  unfolding well_behaved_at_def
proof (intro impI conjI allI)
  assume c: "cursor_ok c"
  then show "ok_or_protocol (chunk_header c)"
    by (cases rule: chunk_header_cases) simp_all
  fix x c'
  assume r: "chunk_header c = Ok (x, c')"
  from c show "step_ok chunk_header c x c'"
  proof (cases rule: chunk_header_cases)
    case (ok p)
    have "chunk_header (c\<lparr>buf := b\<rparr>) = Ok (x, c'\<lparr>buf := b\<rparr>)"
      if "pos c' \<le> length b" "take (pos c') b = take (pos c') (buf c)" for b
    proof -
      have "p + 16 \<le> length b" using that(1) ok(4) r by auto
      moreover have "header_at b p = header_at (buf c) p"
        using that(2) ok(4) r by (auto intro: header_at_prefix)
      ultimately show ?thesis
        using chunk_header_Ok [of p "c\<lparr>buf := b\<rparr>"] ok r by auto
    qed
    with ok r align_up_ge [of "pos c" 8] show ?thesis by (auto simp: step_ok_def)
  next
    case err
    with r show ?thesis by simp
  qed
qed

lemma well_behaved_read_raw [wb_intros]: "well_behaved_at (\<lambda>c. read_raw c n) c"
  unfolding well_behaved_at_def
proof (intro impI conjI allI)
  assume c: "cursor_ok c"
  have fit: "pos c + n \<le> length (buf c) \<Longrightarrow> pos c + n < usize_bound"
    using c by (simp add: cursor_ok_def bounds_num)
  show "ok_or_protocol (read_raw c n)"
    using c fit by (cases "pos c + n \<le> length (buf c)")
      (simp_all add: read_raw_Ok read_raw_Err truncated_def)
  fix x c'
  assume r: "read_raw c n = Ok (x, c')"
  have le: "pos c + n \<le> length (buf c)"
  proof (rule ccontr)
    assume "\<not> ?thesis"
    with r read_raw_Err [OF c, of n] show False by simp
  qed
  with r fit have x: "x = take n (drop (pos c) (buf c))" and c': "c' = c\<lparr>pos := pos c + n\<rparr>"
    by (simp_all add: read_raw_Ok)
  have "read_raw (c\<lparr>buf := b\<rparr>) n = Ok (x, c'\<lparr>buf := b\<rparr>)"
    if "pos c' \<le> length b" "take (pos c') b = take (pos c') (buf c)" for b
    using that fit [OF le] take_drop_prefix_eq [of "pos c + n" b "buf c" "pos c" n]
    by (simp add: read_raw_Ok x c')
  then show "step_ok (\<lambda>c. read_raw c n) c x c'"
    using le by (simp add: step_ok_def c')
qed

lemma well_behaved_leaf [wb_intros]: "well_behaved_at leaf c"
  unfolding leaf_def [abs_def] Let_def by (intro wb_intros)

lemma read_pod_wb: "well_behaved_at (\<lambda>c. and_then (read_pod P b) (\<lambda>v. Ok (v, c))) c"
  by (cases "length b < pod_size P")
    (simp_all add: read_pod_def well_behaved_at_Ok well_behaved_at_Err)

lemma well_behaved_read_chunk_pod [wb_intros]: "well_behaved_at (read_chunk_pod P) c"
  unfolding read_chunk_pod_def [abs_def] Let_def by (intro wb_intros read_pod_wb)

lemma well_behaved_read_opt_cstring [wb_intros]:
  "well_behaved_at (\<lambda>c. read_opt_cstring c p) c"
  unfolding read_opt_cstring_def by (intro wb_intros)

lemma well_behaved_read_opt_bytes [wb_intros]: "well_behaved_at (\<lambda>c. read_opt_bytes c p) c"
  unfolding read_opt_bytes_def by (intro wb_intros)

lemma well_behaved_marker [wb_intros]: "well_behaved_at consume_substruct_marker c"
  unfolding consume_substruct_marker_def [abs_def] by (intro wb_intros)

end
