(* ===== verification/Model.thy ===== *)
theory Model
  imports Utf8
begin

text \<open>
  src/model.rs: the view of the daemon's state that the crate hands out, the conversions from
  the numbers on the wire, and the accessors. Records and enums keep the source's names; a
  name that Isabelle reserves carries a prime. A shared \<open>Arc\<close> is the value it holds; the records
  of theory \<open>Arcs\<close> have its identity too.
\<close>

unbundle bit_operations_syntax

section \<open>Identifier subtypes and change kinds\<close>

datatype ChassisIdSubtype =
    ChassisComponent | IfAlias | PortComponent | MacAddress | NetworkAddress | IfName | Local
  | Other u8

definition ChassisIdSubtype_from :: "u8 \<Rightarrow> ChassisIdSubtype" where
  "ChassisIdSubtype_from v =
     (if v = 1 then ChassisComponent
      else if v = 2 then IfAlias
      else if v = 3 then PortComponent
      else if v = 4 then MacAddress
      else if v = 5 then NetworkAddress
      else if v = 6 then IfName
      else if v = 7 then Local
      else Other v)"

text \<open>The number a subtype stands for, to state that the conversion loses nothing.\<close>

fun ChassisIdSubtype_number :: "ChassisIdSubtype \<Rightarrow> u8" where
  "ChassisIdSubtype_number ChassisComponent = 1"
| "ChassisIdSubtype_number IfAlias = 2"
| "ChassisIdSubtype_number PortComponent = 3"
| "ChassisIdSubtype_number MacAddress = 4"
| "ChassisIdSubtype_number NetworkAddress = 5"
| "ChassisIdSubtype_number IfName = 6"
| "ChassisIdSubtype_number Local = 7"
| "ChassisIdSubtype_number (Other v) = v"

lemma ChassisIdSubtype_number_from [simp]:
  "ChassisIdSubtype_number (ChassisIdSubtype_from v) = v"
  by (simp add: ChassisIdSubtype_from_def)

datatype PortIdSubtype =
    Unknown | IfAlias | PortComponent | MacAddress | NetworkAddress | IfName | AgentCircuitId
  | Local | Other u8

definition PortIdSubtype_from :: "u8 \<Rightarrow> PortIdSubtype" where
  "PortIdSubtype_from v =
     (if v = 0 then Unknown
      else if v = 1 then IfAlias
      else if v = 2 then PortComponent
      else if v = 3 then MacAddress
      else if v = 4 then NetworkAddress
      else if v = 5 then IfName
      else if v = 6 then AgentCircuitId
      else if v = 7 then Local
      else Other v)"

fun PortIdSubtype_number :: "PortIdSubtype \<Rightarrow> u8" where
  "PortIdSubtype_number Unknown = 0"
| "PortIdSubtype_number IfAlias = 1"
| "PortIdSubtype_number PortComponent = 2"
| "PortIdSubtype_number MacAddress = 3"
| "PortIdSubtype_number NetworkAddress = 4"
| "PortIdSubtype_number IfName = 5"
| "PortIdSubtype_number AgentCircuitId = 6"
| "PortIdSubtype_number Local = 7"
| "PortIdSubtype_number (Other v) = v"

lemma PortIdSubtype_number_from [simp]: "PortIdSubtype_number (PortIdSubtype_from v) = v"
  by (simp add: PortIdSubtype_from_def)

datatype NeighborChangeKind = Added | Updated | Deleted | Other i32

definition NeighborChangeKind_from :: "i32 \<Rightarrow> NeighborChangeKind" where
  "NeighborChangeKind_from v =
     (if sint v = 1 then Added
      else if sint v = 0 then Updated
      else if sint v = -1 then Deleted
      else Other v)"

fun NeighborChangeKind_number :: "NeighborChangeKind \<Rightarrow> int" where
  "NeighborChangeKind_number Added = 1"
| "NeighborChangeKind_number Updated = 0"
| "NeighborChangeKind_number Deleted = -1"
| "NeighborChangeKind_number (Other v) = sint v"

lemma NeighborChangeKind_number_from [simp]:
  "NeighborChangeKind_number (NeighborChangeKind_from v) = sint v"
  by (simp add: NeighborChangeKind_from_def)

section \<open>Capabilities\<close>

datatype Capabilities = Capabilities (cap_bits: u16)

definition CAP_OTHER :: u16 where "CAP_OTHER = 0x0001"
definition CAP_REPEATER :: u16 where "CAP_REPEATER = 0x0002"
definition CAP_BRIDGE :: u16 where "CAP_BRIDGE = 0x0004"
definition CAP_WLAN_ACCESS_POINT :: u16 where "CAP_WLAN_ACCESS_POINT = 0x0008"
definition CAP_ROUTER :: u16 where "CAP_ROUTER = 0x0010"
definition CAP_TELEPHONE :: u16 where "CAP_TELEPHONE = 0x0020"
definition CAP_DOCSIS_CABLE_DEVICE :: u16 where "CAP_DOCSIS_CABLE_DEVICE = 0x0040"
definition CAP_STATION_ONLY :: u16 where "CAP_STATION_ONLY = 0x0080"
definition CAP_CVLAN_COMPONENT :: u16 where "CAP_CVLAN_COMPONENT = 0x0100"
definition CAP_SVLAN_COMPONENT :: u16 where "CAP_SVLAN_COMPONENT = 0x0200"
definition CAP_TWO_PORT_MAC_RELAY :: u16 where "CAP_TWO_PORT_MAC_RELAY = 0x0400"

definition capabilities_contains :: "Capabilities \<Rightarrow> u16 \<Rightarrow> bool" where
  "capabilities_contains c b \<longleftrightarrow> cap_bits c AND b = b"

text \<open>
  The bitmaps as an algebra of sets, so that the library's rules for lattices apply to them;
  \<open>contains\<close> is its order.
\<close>

instantiation Capabilities :: boolean_algebra
begin

definition less_eq_Capabilities :: "Capabilities \<Rightarrow> Capabilities \<Rightarrow> bool" where
  "less_eq_Capabilities a b \<longleftrightarrow> cap_bits a AND cap_bits b = cap_bits a"

definition less_Capabilities :: "Capabilities \<Rightarrow> Capabilities \<Rightarrow> bool" where
  "less_Capabilities a b \<longleftrightarrow> a \<le> b \<and> \<not> b \<le> a"

definition inf_Capabilities :: "Capabilities \<Rightarrow> Capabilities \<Rightarrow> Capabilities" where
  "inf_Capabilities a b = Capabilities (cap_bits a AND cap_bits b)"

definition sup_Capabilities :: "Capabilities \<Rightarrow> Capabilities \<Rightarrow> Capabilities" where
  "sup_Capabilities a b = Capabilities (cap_bits a OR cap_bits b)"

definition bot_Capabilities :: Capabilities where
  "bot_Capabilities = Capabilities 0"

definition top_Capabilities :: Capabilities where
  "top_Capabilities = Capabilities (- 1)"

definition uminus_Capabilities :: "Capabilities \<Rightarrow> Capabilities" where
  "uminus_Capabilities a = Capabilities (NOT (cap_bits a))"

definition minus_Capabilities :: "Capabilities \<Rightarrow> Capabilities \<Rightarrow> Capabilities" where
  "minus_Capabilities a b = Capabilities (cap_bits a AND NOT (cap_bits b))"

instance
  by standard
    (auto simp: less_eq_Capabilities_def less_Capabilities_def inf_Capabilities_def
      sup_Capabilities_def bot_Capabilities_def top_Capabilities_def uminus_Capabilities_def
      minus_Capabilities_def bit_eq_iff bit_simps intro!: Capabilities.expand)

end

lemma capabilities_contains_iff: "capabilities_contains c b \<longleftrightarrow> Capabilities b \<le> c"
  by (simp add: capabilities_contains_def less_eq_Capabilities_def and.commute)

lemma capabilities_contains_or:
  "capabilities_contains c (a OR b) \<longleftrightarrow> capabilities_contains c a \<and> capabilities_contains c b"
proof -
  have "Capabilities (a OR b) = sup (Capabilities a) (Capabilities b)"
    by (simp add: sup_Capabilities_def)
  then show ?thesis by (simp add: capabilities_contains_iff)
qed

section \<open>Management addresses\<close>

record ManagementAddress =
  family :: u32
  octets :: bytes
  interface_index :: u32

definition ManagementAddress_new :: "u32 \<Rightarrow> bytes \<Rightarrow> u32 \<Rightarrow> ManagementAddress" where
  "ManagementAddress_new fam os idx = \<lparr>family = fam, octets = os, interface_index = idx\<rparr>"

datatype IpAddr = V4 u8 u8 u8 u8 | V6 bytes

definition ip :: "ManagementAddress \<Rightarrow> IpAddr option" where
  "ip a =
     (if family a = 1 \<and> length (octets a) \<ge> 4 then
        Some (V4 (octets a ! 0) (octets a ! 1) (octets a ! 2) (octets a ! 3))
      else if family a = 2 \<and> length (octets a) \<ge> 16 then Some (V6 (take 16 (octets a)))
      else None)"

definition raw_octets :: "ManagementAddress \<Rightarrow> bytes" where
  "raw_octets a = octets a"

section \<open>Chassis, neighbors, interfaces\<close>

record MedInventory =
  hardware_revision :: "rstring option"
  firmware_revision :: "rstring option"
  software_revision :: "rstring option"
  serial_number :: "rstring option"
  manufacturer :: "rstring option"
  model :: "rstring option"
  asset_id :: "rstring option"

record Chassis =
  id_subtype :: ChassisIdSubtype
  id' :: bytes
  name :: "rstring option"
  description :: "rstring option"
  capabilities_available :: Capabilities
  capabilities_enabled :: Capabilities
  management_addresses :: "ManagementAddress list"
  med :: MedInventory

definition id_str :: "Chassis \<Rightarrow> rstring option" where
  "id_str c = from_utf8 (id' c)"

record Neighbor =
  chassis :: Chassis
  port_id_subtype :: PortIdSubtype
  port_id :: bytes
  port_description :: "rstring option"
  ttl :: u16

definition port_id_str :: "Neighbor \<Rightarrow> rstring option" where
  "port_id_str n = from_utf8 (port_id n)"

record NeighborChange =
  interface :: rstring
  interface_alias :: "rstring option"
  kind :: NeighborChangeKind
  neighbor :: "Neighbor option"

record Interface =
  name :: rstring
  alias' :: "rstring option"

record InterfaceDetails =
  name :: rstring
  alias' :: "rstring option"
  mac_address :: bytes
  local_chassis :: "Chassis option"
  neighbors :: "Neighbor list"

text \<open>Every \<open>String\<close> in a value is UTF-8: the type invariant of the model.\<close>

definition opt_utf8 :: "rstring option \<Rightarrow> bool" where
  "opt_utf8 s = (case s of None \<Rightarrow> True | Some t \<Rightarrow> utf8_valid t)"

definition med_utf8 :: "MedInventory \<Rightarrow> bool" where
  "med_utf8 m \<longleftrightarrow> opt_utf8 (hardware_revision m) \<and> opt_utf8 (firmware_revision m) \<and>
     opt_utf8 (software_revision m) \<and> opt_utf8 (serial_number m) \<and>
     opt_utf8 (manufacturer m) \<and> opt_utf8 (model m) \<and> opt_utf8 (asset_id m)"

definition chassis_utf8 :: "Chassis \<Rightarrow> bool" where
  "chassis_utf8 c \<longleftrightarrow>
     opt_utf8 (Chassis.name c) \<and> opt_utf8 (description c) \<and> med_utf8 (med c)"

definition neighbor_utf8 :: "Neighbor \<Rightarrow> bool" where
  "neighbor_utf8 n \<longleftrightarrow> chassis_utf8 (chassis n) \<and> opt_utf8 (port_description n)"

definition change_utf8 :: "NeighborChange \<Rightarrow> bool" where
  "change_utf8 c \<longleftrightarrow> utf8_valid (interface c) \<and> opt_utf8 (interface_alias c) \<and>
     pred_option neighbor_utf8 (neighbor c)"

definition interface_utf8 :: "Interface \<Rightarrow> bool" where
  "interface_utf8 i \<longleftrightarrow> utf8_valid (Interface.name i) \<and> opt_utf8 (Interface.alias' i)"

definition details_utf8 :: "InterfaceDetails \<Rightarrow> bool" where
  "details_utf8 d \<longleftrightarrow> utf8_valid (InterfaceDetails.name d) \<and>
     opt_utf8 (InterfaceDetails.alias' d) \<and> pred_option chassis_utf8 (local_chassis d) \<and>
     list_all neighbor_utf8 (neighbors d)"

text \<open>
  What the types of the source say of a value beyond that: arrays have their length, a
  management address is cut out of sixteen bytes, and a number with a constructor of its own
  is never held by the one for other numbers.
\<close>

definition address_ok :: "ManagementAddress \<Rightarrow> bool" where
  "address_ok a \<longleftrightarrow> length (octets a) \<le> 16"

definition chassis_ok :: "Chassis \<Rightarrow> bool" where
  "chassis_ok c \<longleftrightarrow> chassis_utf8 c \<and>
     ChassisIdSubtype_from (ChassisIdSubtype_number (id_subtype c)) = id_subtype c \<and>
     list_all address_ok (management_addresses c)"

definition neighbor_ok :: "Neighbor \<Rightarrow> bool" where
  "neighbor_ok n \<longleftrightarrow> chassis_ok (chassis n) \<and> opt_utf8 (port_description n) \<and>
     PortIdSubtype_from (PortIdSubtype_number (port_id_subtype n)) = port_id_subtype n"

definition change_ok :: "NeighborChange \<Rightarrow> bool" where
  "change_ok c \<longleftrightarrow> utf8_valid (interface c) \<and> opt_utf8 (interface_alias c) \<and>
     NeighborChangeKind_from (word_of_int (NeighborChangeKind_number (kind c))) = kind c \<and>
     pred_option neighbor_ok (neighbor c)"

definition details_ok :: "InterfaceDetails \<Rightarrow> bool" where
  "details_ok d \<longleftrightarrow> utf8_valid (InterfaceDetails.name d) \<and>
     opt_utf8 (InterfaceDetails.alias' d) \<and> length (mac_address d) = 6 \<and>
     pred_option chassis_ok (local_chassis d) \<and> list_all neighbor_ok (neighbors d)"

lemma neighbor_ok_utf8: "neighbor_ok n \<Longrightarrow> neighbor_utf8 n"
  by (simp add: neighbor_ok_def neighbor_utf8_def chassis_ok_def)

lemma change_ok_utf8: "change_ok c \<Longrightarrow> change_utf8 c"
  by (cases "neighbor c") (simp_all add: change_ok_def change_utf8_def neighbor_ok_utf8)

lemma details_ok_utf8: "details_ok d \<Longrightarrow> details_utf8 d"
  by (cases "local_chassis d")
    (auto simp: details_ok_def details_utf8_def chassis_ok_def list_all_iff neighbor_ok_utf8)

end
