(* ===== verification/Decode.thy ===== *)
theory Decode
  imports Raw Cursor Model
begin

text \<open>
  src/wire/decode.rs: the decoders of the replies. Each function reads the chunks in the order
  of the source, threads the cursor, and, below \<open>decode_hardware_as\<close>, the cache of the chassis
  that were already decoded. The recursive decoders of chains stop because every call reads a
  chunk header first, which moves the cursor forwards (\<open>read_chunk_pod_progress\<close>).

  What the decoders promise for any payload is in theory \<open>Decode_Safety\<close>, what they return for the
  daemon's messages in theories \<open>Messages\<close>, \<open>Roundtrip\<close> and \<open>Layouts\<close>.
\<close>

section \<open>Progress\<close>

definition remaining :: "cursor \<Rightarrow> nat" where
  "remaining c = length (buf c) - pos c"

lemma chunk_header_progress:
  assumes "chunk_header c = Ok (h, c')"
  shows "buf c' = buf c \<and> pos c + 16 \<le> pos c' \<and> pos c' \<le> length (buf c)"
proof -
  define p where "p = align_up (pos c) 8"
  have "pos c \<le> p" by (simp add: p_def align_up_ge)
  with assms show ?thesis
    by (auto simp: chunk_header_def Let_def PTR_SIZE_def and_then_eq_Ok usize_add_eq_Ok need_def
        checked_add_def p_def split: if_splits)
qed

lemma read_raw_progress:
  assumes "read_raw c n = Ok (x, c')"
  shows "buf c' = buf c \<and> pos c' = pos c + n \<and> pos c' \<le> length (buf c)"
  using assms
  by (auto simp: read_raw_def and_then_eq_Ok usize_add_eq_Ok slice_eq_Ok)

lemma read_chunk_pod_progress:
  assumes "read_chunk_pod P c = Ok (x, c')"
  shows "buf c' = buf c \<and> pos c + 16 + pod_size P \<le> pos c' \<and> pos c' \<le> length (buf c)"
  using assms
  by (auto simp: read_chunk_pod_def Let_def and_then_eq_Ok split: prod.splits if_splits
      dest!: chunk_header_progress read_raw_progress)

lemma read_chunk_pod_remaining:
  "read_chunk_pod P c = Ok (x, c') \<Longrightarrow> remaining c' < remaining c"
  by (auto simp: remaining_def dest!: read_chunk_pod_progress)

section \<open>Interfaces\<close>

text \<open>\<open>unwrap_or_default()\<close> of an optional string or byte string.\<close>

definition or_default :: "bytes option \<Rightarrow> bytes" where
  "or_default v = (case v of None \<Rightarrow> [] | Some b \<Rightarrow> b)"

function decode_interface_chain :: "cursor \<Rightarrow> (Interface list \<times> cursor) res" where
  "decode_interface_chain c =
     and_then (read_chunk_pod RawInterface_pod c) (\<lambda>(raw, c).
     and_then (if next_tqe_next raw \<noteq> 0 then decode_interface_chain c else Ok ([], c))
       (\<lambda>(rest, c).
     and_then (read_opt_cstring c (RawInterface.name raw)) (\<lambda>(nm, c).
     and_then (read_opt_cstring c (RawInterface.alias' raw)) (\<lambda>(al, c).
     Ok (\<lparr>Interface.name = or_default nm, alias' = al\<rparr> # rest, c)))))"
  by pat_completeness auto
termination
  by (relation "measure remaining") (auto intro: read_chunk_pod_remaining)

definition decode_interfaces :: "bytes \<Rightarrow> Interface list res" where
  "decode_interfaces payload =
     and_then (read_chunk_pod RawInterfaceList_pod (cursor_new payload)) (\<lambda>(lst, c).
     if tqh_first lst = 0 then Ok []
     else and_then (decode_interface_chain c) (\<lambda>(ifs, c). Ok ifs))"

section \<open>Chassis\<close>

definition management_address :: "RawMgmt \<Rightarrow> ManagementAddress res" where
  "management_address raw =
     (let len = min (unat (m_addrsize raw)) (length (m_addr raw)) in
      and_then (slice (m_addr raw) 0 len) (\<lambda>os.
      Ok (ManagementAddress_new (m_family raw) os (m_iface raw))))"

function decode_mgmt_chain :: "cursor \<Rightarrow> (ManagementAddress list \<times> cursor) res" where
  "decode_mgmt_chain c =
     and_then (read_chunk_pod RawMgmt_pod c) (\<lambda>(raw, c).
     and_then (if RawMgmt.tqe_next raw \<noteq> 0 then decode_mgmt_chain c else Ok ([], c))
       (\<lambda>(rest, c).
     and_then (management_address raw) (\<lambda>a. Ok (a # rest, c))))"
  by pat_completeness auto
termination
  by (relation "measure remaining") (auto intro: read_chunk_pod_remaining)

definition decode_chassis :: "cursor \<Rightarrow> (Chassis \<times> cursor) res" where
  "decode_chassis c =
     and_then (read_chunk_pod RawChassis_pod c) (\<lambda>(raw, c).
     and_then (read_opt_bytes c (c_id raw)) (\<lambda>(cid, c).
     and_then (read_opt_cstring c (c_name raw)) (\<lambda>(nm, c).
     and_then (read_opt_cstring c (c_descr raw)) (\<lambda>(descr, c).
     and_then (if c_mgmt_tqh_first raw \<noteq> 0 then decode_mgmt_chain c else Ok ([], c))
       (\<lambda>(mgmt, c).
     and_then (read_opt_cstring c (c_med_hw raw)) (\<lambda>(hw, c).
     and_then (read_opt_cstring c (c_med_fw raw)) (\<lambda>(fw, c).
     and_then (read_opt_cstring c (c_med_sw raw)) (\<lambda>(sw, c).
     and_then (read_opt_cstring c (c_med_sn raw)) (\<lambda>(sn, c).
     and_then (read_opt_cstring c (c_med_manuf raw)) (\<lambda>(manuf, c).
     and_then (read_opt_cstring c (c_med_model raw)) (\<lambda>(mdl, c).
     and_then (read_opt_cstring c (c_med_asset raw)) (\<lambda>(asset, c).
     Ok (\<lparr>id_subtype = ChassisIdSubtype_from (c_id_subtype raw),
          id' = or_default cid,
          Chassis.name = nm,
          description = descr,
          capabilities_available = Capabilities (c_cap_available raw),
          capabilities_enabled = Capabilities (c_cap_enabled raw),
          management_addresses = mgmt,
          med = \<lparr>hardware_revision = hw, firmware_revision = fw, software_revision = sw,
                 serial_number = sn, manufacturer = manuf, model = mdl, asset_id = asset\<rparr>\<rparr>,
         c)))))))))))))"

section \<open>Ports\<close>

definition decode_med_location_marker :: "cursor \<Rightarrow> RawMedLoc \<Rightarrow> (unit \<times> cursor) res" where
  "decode_med_location_marker c loc =
     and_then (consume_substruct_marker c) (\<lambda>(_, c).
     if data loc \<noteq> 0 then and_then (read_opt_bytes c (data loc)) (\<lambda>(_, c). Ok ((), c))
     else Ok ((), c))"

function discard_vlan_chain :: "cursor \<Rightarrow> (unit \<times> cursor) res" where
  "discard_vlan_chain c =
     and_then (read_chunk_pod RawVlan_pod c) (\<lambda>(raw, c).
     and_then (if RawVlan.tqe_next raw \<noteq> 0 then discard_vlan_chain c else Ok ((), c)) (\<lambda>(_, c).
     and_then (read_opt_cstring c (v_name raw)) (\<lambda>(_, c). Ok ((), c))))"
  by pat_completeness auto
termination
  by (relation "measure remaining") (auto intro: read_chunk_pod_remaining)

function discard_ppvid_chain :: "cursor \<Rightarrow> (unit \<times> cursor) res" where
  "discard_ppvid_chain c =
     and_then (read_chunk_pod RawPpvid_pod c) (\<lambda>(raw, c).
     if RawPpvid.tqe_next raw \<noteq> 0 then discard_ppvid_chain c else Ok ((), c))"
  by pat_completeness auto
termination
  by (relation "measure remaining") (auto intro: read_chunk_pod_remaining)

function discard_pi_chain :: "cursor \<Rightarrow> (unit \<times> cursor) res" where
  "discard_pi_chain c =
     and_then (read_chunk_pod RawPi_pod c) (\<lambda>(raw, c).
     and_then (if RawPi.tqe_next raw \<noteq> 0 then discard_pi_chain c else Ok ((), c)) (\<lambda>(_, c).
     and_then (read_opt_bytes c (p_pi raw)) (\<lambda>(_, c). Ok ((), c))))"
  by pat_completeness auto
termination
  by (relation "measure remaining") (auto intro: read_chunk_pod_remaining)

text \<open>The loop over the location slots, and a chain that is there when its head is not null.\<close>

fun decode_med_locations :: "cursor \<Rightarrow> RawMedLoc list \<Rightarrow> (unit \<times> cursor) res" where
  "decode_med_locations c [] = Ok ((), c)"
| "decode_med_locations c (loc # locs) =
     and_then (decode_med_location_marker c loc) (\<lambda>(_, c). decode_med_locations c locs)"

type_synonym ChassisCache = "usize \<rightharpoonup> Chassis"

record PortFields =
  chassis :: "Chassis option"
  id' :: "bytes option"
  description :: "rstring option"

definition decode_port_chassis ::
  "cursor \<Rightarrow> RawPort \<Rightarrow> ChassisCache \<Rightarrow> ((Chassis option \<times> ChassisCache) \<times> cursor) res" where
  "decode_port_chassis c raw cache =
     (if p_chassis raw = 0 then Ok ((None, cache), c)
      else case cache (p_chassis raw) of
        Some cached \<Rightarrow> Ok ((Some cached, cache), c)
      | None \<Rightarrow>
          and_then (decode_chassis c) (\<lambda>(decoded, c).
          Ok ((Some decoded, cache(p_chassis raw \<mapsto> decoded)), c)))"

definition decode_port_fields ::
  "cursor \<Rightarrow> RawPort \<Rightarrow> ChassisCache \<Rightarrow> ((PortFields \<times> ChassisCache) \<times> cursor) res" where
  "decode_port_fields c raw cache =
     and_then (decode_port_chassis c raw cache) (\<lambda>((ch, cache), c).
     and_then (read_opt_bytes c (p_id raw)) (\<lambda>(pid, c).
     and_then (read_opt_cstring c (p_descr raw)) (\<lambda>(descr, c).
     and_then (read_opt_cstring c (p_vlan_advertise_pattern raw)) (\<lambda>(_, c).
     and_then (decode_med_locations c (p_med_location raw)) (\<lambda>(_, c).
     and_then (if p_vlans_tqh_first raw \<noteq> 0 then discard_vlan_chain c else Ok ((), c))
       (\<lambda>(_, c).
     and_then (if p_ppvids_tqh_first raw \<noteq> 0 then discard_ppvid_chain c else Ok ((), c))
       (\<lambda>(_, c).
     and_then (if p_pids_tqh_first raw \<noteq> 0 then discard_pi_chain c else Ok ((), c)) (\<lambda>(_, c).
     Ok ((\<lparr>PortFields.chassis = ch, id' = pid, description = descr\<rparr>, cache), c)))))))))"

definition no_chassis :: error where
  "no_chassis = Protocol ''neighbor port has no associated chassis''"

definition build_neighbor ::
  "cursor \<Rightarrow> RawPort \<Rightarrow> ChassisCache \<Rightarrow> ((Neighbor \<times> ChassisCache) \<times> cursor) res" where
  "build_neighbor c raw cache =
     and_then (decode_port_fields c raw cache) (\<lambda>((fields, cache), c).
     case PortFields.chassis fields of
       None \<Rightarrow> Err no_chassis
     | Some ch \<Rightarrow>
         Ok ((\<lparr>Neighbor.chassis = ch,
               port_id_subtype = PortIdSubtype_from (p_id_subtype raw),
               port_id = or_default (PortFields.id' fields),
               port_description = PortFields.description fields,
               ttl = p_ttl raw\<rparr>, cache), c))"

function decode_neighbor_chain ::
  "cursor \<Rightarrow> ChassisCache \<Rightarrow> ((Neighbor list \<times> ChassisCache) \<times> cursor) res" where
  "decode_neighbor_chain c cache =
     and_then (read_chunk_pod RawPort_pod c) (\<lambda>(raw, c).
     and_then (if RawPort.tqe_next raw \<noteq> 0 then decode_neighbor_chain c cache
               else Ok (([], cache), c)) (\<lambda>((rest, cache), c).
     and_then (build_neighbor c raw cache) (\<lambda>((n, cache), c).
     Ok ((n # rest, cache), c))))"
  by pat_completeness auto
termination
  by (relation "measure (\<lambda>(c, cache). remaining c)") (auto intro: read_chunk_pod_remaining)

declare decode_interface_chain.simps [simp del] decode_mgmt_chain.simps [simp del]
  discard_vlan_chain.simps [simp del] discard_ppvid_chain.simps [simp del]
  discard_pi_chain.simps [simp del] decode_neighbor_chain.simps [simp del]

section \<open>The hardware reply\<close>

text \<open>
  The trait \<open>HardwareFields\<close>: what the decoder needs of the top-level structure. Its two
  implementations read the same fields of the two layouts.
\<close>

record 'a HardwareFields =
  h_lport :: "'a \<Rightarrow> RawPort"
  h_rports_tqh_first :: "'a \<Rightarrow> usize"
  h_ifalias :: "'a \<Rightarrow> usize"
  h_ifname :: "'a \<Rightarrow> bytes"
  h_lladdr :: "'a \<Rightarrow> bytes"

definition RawHardware_impl :: "RawHardware HardwareFields" where
  "RawHardware_impl = \<lparr>h_lport = RawHardware.h_lport,
     h_rports_tqh_first = RawHardware.h_rports_tqh_first, h_ifalias = RawHardware.h_ifalias,
     h_ifname = RawHardware.h_ifname, h_lladdr = RawHardware.h_lladdr\<rparr>"

definition RawHardwareWithFlagsPrevious_impl :: "RawHardwareWithFlagsPrevious HardwareFields" where
  "RawHardwareWithFlagsPrevious_impl = \<lparr>h_lport = RawHardwareWithFlagsPrevious.h_lport,
     h_rports_tqh_first = RawHardwareWithFlagsPrevious.h_rports_tqh_first,
     h_ifalias = RawHardwareWithFlagsPrevious.h_ifalias,
     h_ifname = RawHardwareWithFlagsPrevious.h_ifname,
     h_lladdr = RawHardwareWithFlagsPrevious.h_lladdr\<rparr>"

text \<open>\<open>position(|&b| b == 0).unwrap_or(len)\<close>: the number of bytes before the first zero.\<close>

definition nul_position :: "bytes \<Rightarrow> nat" where
  "nul_position b = length (takeWhile (\<lambda>x. x \<noteq> 0) b)"

definition chained_lport :: error where
  "chained_lport = Protocol ''local port unexpectedly chained to another port''"

definition layout_mismatch :: error where
  "layout_mismatch =
     Protocol ''message layout mismatch: bytes remain unconsumed after decoding''"

text \<open>Everything but the final check that the message is used up.\<close>

definition decode_hardware_body ::
  "'a pod \<Rightarrow> 'a HardwareFields \<Rightarrow> cursor \<Rightarrow> (InterfaceDetails \<times> cursor) res" where
  "decode_hardware_body P T c =
     and_then (read_chunk_pod P c) (\<lambda>(raw, c).
     and_then (consume_substruct_marker c) (\<lambda>(_, c).
     if RawPort.tqe_next (h_lport T raw) \<noteq> 0 then Err chained_lport
     else
       and_then (decode_port_fields c (h_lport T raw) Map.empty) (\<lambda>((local_fields, cache), c).
       and_then (if h_rports_tqh_first T raw \<noteq> 0 then decode_neighbor_chain c cache
                 else Ok (([], cache), c)) (\<lambda>((ns, cache), c).
       and_then (read_opt_cstring c (h_ifalias T raw)) (\<lambda>(al, c).
       and_then (slice (h_ifname T raw) 0 (nul_position (h_ifname T raw))) (\<lambda>nm.
       Ok (\<lparr>InterfaceDetails.name = from_utf8_lossy nm,
            alias' = al,
            mac_address = h_lladdr T raw,
            local_chassis = PortFields.chassis local_fields,
            neighbors = ns\<rparr>, c)))))))"

definition decode_hardware_as ::
  "'a pod \<Rightarrow> 'a HardwareFields \<Rightarrow> bytes \<Rightarrow> InterfaceDetails res" where
  "decode_hardware_as P T payload =
     and_then (decode_hardware_body P T (cursor_new payload)) (\<lambda>(details, c).
     if \<not> is_exhausted c then Err layout_mismatch else Ok details)"

definition decode_hardware :: "bytes \<Rightarrow> InterfaceDetails res" where
  "decode_hardware payload =
     (case decode_hardware_as RawHardware_pod RawHardware_impl payload of
        Ok details \<Rightarrow> Ok details
      | Err legacy_err \<Rightarrow>
          map_err (\<lambda>_. legacy_err)
            (decode_hardware_as RawHardwareWithFlagsPrevious_pod
              RawHardwareWithFlagsPrevious_impl payload)
      | Panic \<Rightarrow> Panic)"

section \<open>The neighbor notification\<close>

definition chained_neighbor :: error where
  "chained_neighbor = Protocol ''notified neighbor unexpectedly chained to another port''"

definition decode_notified_neighbor :: "cursor \<Rightarrow> usize \<Rightarrow> (Neighbor option \<times> cursor) res" where
  "decode_notified_neighbor c p =
     (if p = 0 then Ok (None, c)
      else
        and_then (read_chunk_pod RawPort_pod c) (\<lambda>(port_raw, c).
        if RawPort.tqe_next port_raw \<noteq> 0 then Err chained_neighbor
        else and_then (build_neighbor c port_raw Map.empty) (\<lambda>((n, cache), c).
          Ok (Some n, c))))"

definition decode_neighbor_change :: "bytes \<Rightarrow> NeighborChange res" where
  "decode_neighbor_change payload =
     and_then (read_chunk_pod RawNeighborChange_pod (cursor_new payload)) (\<lambda>(raw, c).
     and_then (read_opt_cstring c (RawNeighborChange.ifname raw)) (\<lambda>(nm, c).
     and_then (read_opt_cstring c (ifalias raw)) (\<lambda>(al, c).
     and_then (decode_notified_neighbor c (RawNeighborChange.neighbor raw)) (\<lambda>(n, c).
     Ok \<lparr>interface = or_default nm, interface_alias = al,
         kind = NeighborChangeKind_from (state raw), NeighborChange.neighbor = n\<rparr>))))"

end
