(* ===== verification/Decode_Safety.thy ===== *)
theory Decode_Safety
  imports Decode
begin

text \<open>
  Safety of the decoders of theory Decode, for every payload a slice can hold: no panic,
  protocol errors only, reads inside the payload only, results that depend on the bytes read
  only, UTF-8 strings, and no more elements than the payload has bytes for.
\<close>

section \<open>Every decoder is well-behaved\<close>

lemma wb_interface_chain [wb_intros]: "well_behaved_at decode_interface_chain c"
proof (induction c rule: decode_interface_chain.induct)
  case (1 c)
  show ?case
    by (subst decode_interface_chain.simps [abs_def]) (intro wb_intros 1 [OF _ refl]; assumption)
qed

lemma management_address_Ok:
  "management_address raw = Ok (ManagementAddress_new (m_family raw)
     (take (unat (m_addrsize raw)) (m_addr raw)) (m_iface raw))"
  by (simp add: management_address_def Let_def min_def)

lemma wb_pure:
  "r = Ok v \<Longrightarrow> well_behaved_at (k v) c \<Longrightarrow> well_behaved_at (\<lambda>c. and_then r (\<lambda>v. k v c)) c"
  by simp

lemma wb_mgmt_chain [wb_intros]: "well_behaved_at decode_mgmt_chain c"
proof (induction c rule: decode_mgmt_chain.induct)
  case (1 c)
  show ?case
    by (subst decode_mgmt_chain.simps [abs_def])
      (intro wb_intros wb_pure [OF management_address_Ok] 1 [OF _ refl]; assumption)
qed

lemma wb_chassis [wb_intros]: "well_behaved_at decode_chassis c"
  unfolding decode_chassis_def [abs_def] by (intro wb_intros)

lemma wb_med_location_marker [wb_intros]:
  "well_behaved_at (\<lambda>c. decode_med_location_marker c loc) c"
  unfolding decode_med_location_marker_def by (intro wb_intros)

lemma wb_med_locations [wb_intros]: "well_behaved_at (\<lambda>c. decode_med_locations c locs) c"
  by (induction locs arbitrary: c) (simp_all, (intro wb_intros; simp?)+)

lemma wb_vlan_chain [wb_intros]: "well_behaved_at discard_vlan_chain c"
proof (induction c rule: discard_vlan_chain.induct)
  case (1 c)
  show ?case
    by (subst discard_vlan_chain.simps [abs_def]) (intro wb_intros 1 [OF _ refl]; assumption)
qed

lemma wb_ppvid_chain [wb_intros]: "well_behaved_at discard_ppvid_chain c"
proof (induction c rule: discard_ppvid_chain.induct)
  case (1 c)
  show ?case
    by (subst discard_ppvid_chain.simps [abs_def]) (intro wb_intros 1 [OF _ refl]; assumption)
qed

lemma wb_pi_chain [wb_intros]: "well_behaved_at discard_pi_chain c"
proof (induction c rule: discard_pi_chain.induct)
  case (1 c)
  show ?case
    by (subst discard_pi_chain.simps [abs_def]) (intro wb_intros 1 [OF _ refl]; assumption)
qed

lemma wb_port_chassis [wb_intros]: "well_behaved_at (\<lambda>c. decode_port_chassis c raw cache) c"
  unfolding decode_port_chassis_def by (intro wb_intros)

lemma wb_port_fields [wb_intros]: "well_behaved_at (\<lambda>c. decode_port_fields c raw cache) c"
  unfolding decode_port_fields_def by (intro wb_intros)

lemma wb_build_neighbor [wb_intros]: "well_behaved_at (\<lambda>c. build_neighbor c raw cache) c"
  unfolding build_neighbor_def no_chassis_def by (intro wb_intros)

lemma wb_neighbor_chain [wb_intros]: "well_behaved_at (\<lambda>c. decode_neighbor_chain c cache) c"
proof (induction c cache rule: decode_neighbor_chain.induct)
  case (1 c cache)
  show ?case
    by (subst decode_neighbor_chain.simps [abs_def]) (intro wb_intros 1 [OF _ refl]; assumption)
qed

lemma nul_position_le: "nul_position b \<le> length b"
  by (simp add: nul_position_def length_takeWhile_le)

lemma take_nul_position: "take (nul_position b) b = takeWhile (\<lambda>x. x \<noteq> 0) b"
  by (simp add: nul_position_def takeWhile_eq_take [symmetric])

lemma slice_nul_position: "slice b 0 (nul_position b) = Ok (takeWhile (\<lambda>x. x \<noteq> 0) b)"
  by (simp add: nul_position_le take_nul_position)

lemma wb_hardware_body [wb_intros]: "well_behaved_at (decode_hardware_body P T) c"
  unfolding decode_hardware_body_def [abs_def] chained_lport_def
  by (intro wb_intros wb_pure [OF slice_nul_position])

lemma wb_notified_neighbor [wb_intros]:
  "well_behaved_at (\<lambda>c. decode_notified_neighbor c p) c"
  unfolding decode_notified_neighbor_def chained_neighbor_def by (intro wb_intros)

section \<open>Readers of whole messages\<close>

text \<open>
  The interface between a reader and the message it is run on: whatever reader is well-behaved,
  a run from the start of a payload is safe, and the result belongs to the bytes used.
\<close>

locale message_reader =
  fixes dec :: "cursor \<Rightarrow> ('a \<times> cursor) res"
  assumes wb: "well_behaved_at dec c"
begin

lemma safe: "length p \<le> slice_max \<Longrightarrow> ok_or_protocol (dec (cursor_new p))"
  using well_behaved_at_protocol [OF wb] by simp

lemma used:
  assumes "length p \<le> slice_max" "dec (cursor_new p) = Ok (x, c)"
  shows "buf c = p \<and> pos c \<le> length p"
  using well_behaved_at_step [OF wb _ assms(2)] assms(1)
  by (simp add: step_ok_def cursor_new_def cursor_ok_def)

lemma same_prefix:
  assumes "length p \<le> slice_max" "dec (cursor_new p) = Ok (x, c)"
    and "pos c \<le> length q" "take (pos c) q = take (pos c) p"
  shows "dec (cursor_new q) = Ok (x, c\<lparr>buf := q\<rparr>)"
  using well_behaved_at_step [OF wb _ assms(2)] assms
  by (simp add: step_ok_def cursor_new_def cursor_ok_def)

lemma extended:
  assumes "length p \<le> slice_max" "dec (cursor_new p) = Ok (x, c)"
  shows "dec (cursor_new (take (pos c) p @ q)) = Ok (x, c\<lparr>buf := take (pos c) p @ q\<rparr>)"
  using used [OF assms] by (intro same_prefix [OF assms]) auto

lemma truncated_fails:
  assumes "length p \<le> slice_max" "dec (cursor_new p) = Ok (x, c)" "k < pos c"
  shows "\<exists>m. dec (cursor_new (take k p)) = Err (Protocol m)"
proof -
  have len: "length (take k p) \<le> slice_max" using assms(1) by simp
  have "\<nexists>r. dec (cursor_new (take k p)) = Ok r"
  proof
    assume "\<exists>r. dec (cursor_new (take k p)) = Ok r"
    then obtain y c2 where r: "dec (cursor_new (take k p)) = Ok (y, c2)" by auto
    have c2: "buf c2 = take k p" "pos c2 \<le> length (take k p)"
      using used [OF len r] by simp_all
    then have "pos c2 \<le> k" by simp
    then have "take (pos c2) p = take (pos c2) (take k p)"
      by (simp add: min_absorb1)
    then have "dec (cursor_new p) = Ok (y, c2\<lparr>buf := p\<rparr>)"
      using c2 by (intro same_prefix [OF len r]) auto
    with assms(2) have "pos c = pos c2" by auto
    with c2 assms(3) show False by simp
  qed
  with safe [OF len] show ?thesis by (auto simp: ok_or_protocol_iff)
qed

end

text \<open>\<open>decode_interfaces\<close> and \<open>decode_neighbor_change\<close> as readers that keep their cursor.\<close>

definition interfaces_reader :: "cursor \<Rightarrow> (Interface list \<times> cursor) res" where
  "interfaces_reader c =
     and_then (read_chunk_pod RawInterfaceList_pod c) (\<lambda>(lst, c).
     if tqh_first lst = 0 then Ok ([], c) else decode_interface_chain c)"

lemma decode_interfaces_reader:
  "decode_interfaces p = map_ok fst (interfaces_reader (cursor_new p))"
proof (cases "read_chunk_pod RawInterfaceList_pod (cursor_new p)")
  case (Ok r)
  then show ?thesis
    by (cases r; cases "decode_interface_chain (snd r)")
      (auto simp: decode_interfaces_def interfaces_reader_def)
qed (simp_all add: decode_interfaces_def interfaces_reader_def)

definition change_reader :: "cursor \<Rightarrow> (NeighborChange \<times> cursor) res" where
  "change_reader c =
     and_then (read_chunk_pod RawNeighborChange_pod c) (\<lambda>(raw, c).
     and_then (read_opt_cstring c (RawNeighborChange.ifname raw)) (\<lambda>(nm, c).
     and_then (read_opt_cstring c (ifalias raw)) (\<lambda>(al, c).
     and_then (decode_notified_neighbor c (RawNeighborChange.neighbor raw)) (\<lambda>(n, c).
     Ok (\<lparr>interface = or_default nm, interface_alias = al,
         kind = NeighborChangeKind_from (state raw), NeighborChange.neighbor = n\<rparr>, c)))))"

lemma map_ok_and_then: "map_ok f (and_then r k) = and_then r (\<lambda>x. map_ok f (k x))"
  by (cases r) simp_all

lemma map_ok_prod: "map_ok f (case v of (a, b) \<Rightarrow> d a b) = (case v of (a, b) \<Rightarrow> map_ok f (d a b))"
  by (cases v) simp

lemma decode_neighbor_change_reader:
  "decode_neighbor_change p = map_ok fst (change_reader (cursor_new p))"
  by (simp add: decode_neighbor_change_def change_reader_def map_ok_and_then map_ok_prod)

interpretation interfaces_msg: message_reader interfaces_reader
  by unfold_locales (unfold interfaces_reader_def [abs_def], intro wb_intros)

interpretation change_msg: message_reader change_reader
  by unfold_locales (unfold change_reader_def [abs_def], intro wb_intros)

interpretation hardware_msg: message_reader "decode_hardware_body P T" for P T
  by unfold_locales (rule wb_hardware_body)

lemma decode_hardware_as_safe:
  assumes "length p \<le> slice_max"
  shows "ok_or_protocol (decode_hardware_as P T p)"
  unfolding decode_hardware_as_def
  using hardware_msg.safe [OF assms]
  by (rule ok_or_protocol_and_then) (simp add: layout_mismatch_def split: prod.splits)

lemma hardware_protocol:
  assumes "length p \<le> slice_max"
  shows "ok_or_protocol (decode_hardware p)"
  using decode_hardware_as_safe [OF assms, of RawHardware_pod RawHardware_impl]
    decode_hardware_as_safe [OF assms, of RawHardwareWithFlagsPrevious_pod
      RawHardwareWithFlagsPrevious_impl]
  by (auto simp: decode_hardware_def ok_or_protocol_iff)

lemma decode_hardware_as_Ok:
  "decode_hardware_as P T p = Ok d \<longleftrightarrow>
   (\<exists>c. decode_hardware_body P T (cursor_new p) = Ok (d, c) \<and> is_exhausted c)"
  by (auto simp: decode_hardware_as_def and_then_eq_Ok split: if_splits)

section \<open>Decoded values are well-typed\<close>

lemma read_opt_cstring_utf8: "read_opt_cstring c p = Ok (s, c') \<Longrightarrow> opt_utf8 s"
  by (auto simp: read_opt_cstring_def and_then_eq_Ok opt_utf8_def from_utf8_lossy_valid
      split: if_splits)

lemma or_default_utf8: "opt_utf8 s \<Longrightarrow> utf8_valid (or_default s)"
  by (simp add: opt_utf8_def or_default_def split: option.splits)

lemma decode_interface_chain_utf8:
  "decode_interface_chain c = Ok (ifs, c') \<Longrightarrow> list_all interface_utf8 ifs"
proof (induction c arbitrary: ifs c' rule: decode_interface_chain.induct)
  case (1 c)
  show ?case
    using "1.prems" "1.IH" [OF _ refl]
    by (subst (asm) decode_interface_chain.simps)
      (auto simp: and_then_eq_Ok interface_utf8_def split: if_splits
        dest!: read_opt_cstring_utf8 intro: or_default_utf8)
qed

lemma read_raw_length: "read_raw c n = Ok (b, c') \<Longrightarrow> length b = n"
  by (auto simp: read_raw_def and_then_eq_Ok slice_eq_Ok usize_add_eq_Ok)

lemma read_chunk_pod_value:
  assumes "read_chunk_pod P c = Ok (v, c')"
  shows "\<exists>b. length b = pod_size P \<and> v = pod_read P b"
proof -
  from assms obtain c1 b where "read_raw c1 (pod_size P) = Ok (b, c')" "read_pod P b = Ok v"
    by (auto simp: read_chunk_pod_def Let_def and_then_eq_Ok split: if_splits)
  then show ?thesis by (auto simp: read_pod_def dest!: read_raw_length split: if_splits)
qed

lemma read_mgmt_length: "read_chunk_pod RawMgmt_pod c = Ok (raw, c') \<Longrightarrow> length (m_addr raw) = 16"
  by (auto simp: RawMgmt_pod_def RawMgmt_of_bytes_def field_def RawMgmt_fields
      dest!: read_chunk_pod_value)

lemma decode_mgmt_chain_ok:
  "decode_mgmt_chain c = Ok (as, c') \<Longrightarrow> list_all address_ok as"
proof (induction c arbitrary: as c' rule: decode_mgmt_chain.induct)
  case (1 c)
  from "1.prems" obtain raw c1 rest c2 a where
      raw: "read_chunk_pod RawMgmt_pod c = Ok (raw, c1)"
    and rest: "(if RawMgmt.tqe_next raw \<noteq> 0 then decode_mgmt_chain c1 else Ok ([], c1))
        = Ok (rest, c2)"
    and a: "management_address raw = Ok a" and as: "as = a # rest"
    by (subst (asm) decode_mgmt_chain.simps) (auto simp: and_then_eq_Ok)
  have "list_all address_ok rest" using rest "1.IH" [OF raw refl] by (auto split: if_splits)
  moreover have "address_ok a"
    using a read_mgmt_length [OF raw]
    by (auto simp: management_address_def Let_def slice_eq_Ok address_ok_def
        ManagementAddress_new_def and_then_eq_Ok)
  ultimately show ?case by (simp add: as)
qed

lemma decode_chassis_ok: "decode_chassis c = Ok (ch, c') \<Longrightarrow> chassis_ok ch"
  by (auto simp: decode_chassis_def and_then_eq_Ok chassis_ok_def chassis_utf8_def med_utf8_def
      split: if_splits dest!: read_opt_cstring_utf8 decode_mgmt_chain_ok)

definition cache_ok :: "ChassisCache \<Rightarrow> bool" where
  "cache_ok cache \<longleftrightarrow> (\<forall>p ch. cache p = Some ch \<longrightarrow> chassis_ok ch)"

lemma decode_port_chassis_ok:
  "decode_port_chassis c raw cache = Ok ((ch, cache'), c') \<Longrightarrow> cache_ok cache \<Longrightarrow>
   pred_option chassis_ok ch \<and> cache_ok cache'"
  by (cases "cache (p_chassis raw)")
    (auto simp: decode_port_chassis_def and_then_eq_Ok cache_ok_def
      split: if_splits dest!: decode_chassis_ok, metis option.pred_inject(2))

lemma decode_port_fields_ok:
  assumes "decode_port_fields c raw cache = Ok ((f, cache'), c')" "cache_ok cache"
  shows "pred_option chassis_ok (PortFields.chassis f) \<and> opt_utf8 (PortFields.description f)
    \<and> cache_ok cache'"
proof -
  from assms(1) obtain ch c1 c2 pid c3 where
      ch: "decode_port_chassis c raw cache = Ok ((ch, cache'), c1)"
    and pid: "read_opt_bytes c1 (p_id raw) = Ok (pid, c2)"
    and descr: "read_opt_cstring c2 (p_descr raw) = Ok (PortFields.description f, c3)"
    and f: "PortFields.chassis f = ch"
    by (auto simp: decode_port_fields_def and_then_eq_Ok)
  from decode_port_chassis_ok [OF ch assms(2)] read_opt_cstring_utf8 [OF descr] f
  show ?thesis by simp
qed

lemma build_neighbor_ok:
  "build_neighbor c raw cache = Ok ((n, cache'), c') \<Longrightarrow> cache_ok cache \<Longrightarrow>
   neighbor_ok n \<and> cache_ok cache'"
  by (auto simp: build_neighbor_def and_then_eq_Ok neighbor_ok_def split: option.splits
      dest!: decode_port_fields_ok)

lemma decode_neighbor_chain_ok:
  "decode_neighbor_chain c cache = Ok ((ns, cache'), c') \<Longrightarrow> cache_ok cache \<Longrightarrow>
   list_all neighbor_ok ns \<and> cache_ok cache'"
proof (induction c cache arbitrary: ns cache' c' rule: decode_neighbor_chain.induct)
  case (1 c cache)
  from "1.prems"(1) obtain raw c1 rest cache1 c2 n where
      raw: "read_chunk_pod RawPort_pod c = Ok (raw, c1)"
    and rest: "(if RawPort.tqe_next raw \<noteq> 0 then decode_neighbor_chain c1 cache
                else Ok (([], cache), c1)) = Ok ((rest, cache1), c2)"
    and n: "build_neighbor c2 raw cache1 = Ok ((n, cache'), c')"
    and ns: "ns = n # rest"
    by (subst (asm) decode_neighbor_chain.simps) (auto simp: and_then_eq_Ok)
  have "list_all neighbor_ok rest \<and> cache_ok cache1"
    using rest "1.IH" [OF raw refl] "1.prems"(2) by (auto split: if_splits)
  with build_neighbor_ok [OF n] show ?case by (simp add: ns)
qed

lemma if_Err_eq_Ok: "(if b then Err e else r) = Ok y \<longleftrightarrow> \<not> b \<and> r = Ok y"
  by simp

text \<open>A hardware reply that decodes, taken apart into the steps of the decoder.\<close>

lemma decode_hardware_body_OkE:
  assumes "decode_hardware_body P T c = Ok (d, c')"
  obtains raw c1 c2 f cache c3 ns cache2 c4 al where
    "read_chunk_pod P c = Ok (raw, c1)"
    "consume_substruct_marker c1 = Ok ((), c2)"
    "RawPort.tqe_next (h_lport T raw) = 0"
    "decode_port_fields c2 (h_lport T raw) Map.empty = Ok ((f, cache), c3)"
    "(if h_rports_tqh_first T raw \<noteq> 0 then decode_neighbor_chain c3 cache
      else Ok (([], cache), c3)) = Ok ((ns, cache2), c4)"
    "read_opt_cstring c4 (h_ifalias T raw) = Ok (al, c')"
    "d = \<lparr>InterfaceDetails.name = from_utf8_lossy (takeWhile (\<lambda>x. x \<noteq> 0) (h_ifname T raw)),
          alias' = al, mac_address = h_lladdr T raw,
          local_chassis = PortFields.chassis f, neighbors = ns\<rparr>"
  using assms unfolding decode_hardware_body_def slice_nul_position
  by (simp add: and_then_eq_Ok if_Err_eq_Ok split_paired_Ex) metis

text \<open>The address of both layouts has six bytes.\<close>

definition six_byte_address :: "'a pod \<Rightarrow> 'a HardwareFields \<Rightarrow> bool" where
  "six_byte_address P T \<longleftrightarrow>
     (\<forall>b. length b = pod_size P \<longrightarrow> length (h_lladdr T (pod_read P b)) = 6)"

lemma six_byte_addresses [simp]:
  "six_byte_address RawHardware_pod RawHardware_impl"
  "six_byte_address RawHardwareWithFlagsPrevious_pod RawHardwareWithFlagsPrevious_impl"
  by (simp_all add: six_byte_address_def RawHardware_pod_def RawHardware_impl_def
      RawHardware_of_bytes_def RawHardware_fields RawHardwareWithFlagsPrevious_pod_def
      RawHardwareWithFlagsPrevious_impl_def RawHardwareWithFlagsPrevious_of_bytes_def
      RawHardwareWithFlagsPrevious_fields)

lemma decode_hardware_body_ok:
  assumes "six_byte_address P T" and "decode_hardware_body P T c = Ok (d, c')"
  shows "details_ok d"
  using assms(2)
proof (cases rule: decode_hardware_body_OkE)
  case (1 raw c1 c2 f cache c3 ns cache2 c4 al)
  have "length (h_lladdr T raw) = 6"
    using assms(1) read_chunk_pod_value [OF 1(1)] by (auto simp: six_byte_address_def)
  moreover
  have "pred_option chassis_ok (PortFields.chassis f)" and cache: "cache_ok cache"
    using decode_port_fields_ok [OF 1(4)] by (simp_all add: cache_ok_def)
  moreover have "list_all neighbor_ok ns"
    using 1(5) decode_neighbor_chain_ok [OF _ cache] by (auto split: if_splits)
  ultimately show ?thesis
    using read_opt_cstring_utf8 [OF 1(6)] by (simp add: 1(7) details_ok_def from_utf8_lossy_valid)
qed

lemma change_reader_ok:
  assumes "change_reader c = Ok (ch, c')"
  shows "change_ok ch"
proof -
  have n: "decode_notified_neighbor c p = Ok (n, c') \<Longrightarrow> pred_option neighbor_ok n" for c p n c'
    by (auto simp: decode_notified_neighbor_def and_then_eq_Ok cache_ok_def split: if_splits
        dest!: build_neighbor_ok)
  show ?thesis
    using assms
    by (auto simp: change_reader_def and_then_eq_Ok change_ok_def or_default_utf8
        dest!: read_opt_cstring_utf8 n)
qed

lemma decode_interfaces_utf8: "decode_interfaces p = Ok ifs \<Longrightarrow> list_all interface_utf8 ifs"
  by (auto simp: decode_interfaces_def and_then_eq_Ok split: if_splits
      dest: decode_interface_chain_utf8)

lemma decode_hardware_ok: "decode_hardware p = Ok d \<Longrightarrow> details_ok d"
  by (cases "decode_hardware_as RawHardware_pod RawHardware_impl p";
      cases "decode_hardware_as RawHardwareWithFlagsPrevious_pod
        RawHardwareWithFlagsPrevious_impl p")
    (auto simp: decode_hardware_def decode_hardware_as_Ok dest: decode_hardware_body_ok [rotated])

lemma decode_neighbor_change_ok: "decode_neighbor_change p = Ok c \<Longrightarrow> change_ok c"
  by (auto simp: decode_neighbor_change_reader map_ok_eq_Ok dest: change_reader_ok)

text \<open>In particular, every string is UTF-8.\<close>

lemma strings_utf8:
  "(decode_interfaces p = Ok ifs \<longrightarrow> list_all interface_utf8 ifs) \<and>
   (decode_hardware p = Ok d \<longrightarrow> details_utf8 d) \<and>
   (decode_neighbor_change p = Ok c \<longrightarrow> change_utf8 c)"
  using decode_interfaces_utf8 decode_hardware_ok details_ok_utf8 decode_neighbor_change_ok
    change_ok_utf8 by blast

section \<open>How much a payload can hold\<close>

lemma advances:
  assumes "well_behaved_at d c" "cursor_ok c" "d c = Ok (x, c')"
  shows "pos c \<le> pos c' \<and> cursor_ok c' \<and> buf c' = buf c"
  using well_behaved_at_step [OF assms] step_ok_cursor_ok [OF well_behaved_at_step [OF assms] assms(2)]
  by (simp add: step_ok_def)

lemmas chunk_advances = advances [OF well_behaved_read_chunk_pod]
lemmas string_advances = advances [OF well_behaved_read_opt_cstring]
lemmas bytes_advances = advances [OF well_behaved_read_opt_bytes]

text \<open>
  The strings of an interface list, with the structures: each string is at most three times as
  long as the chunk it was read from, and no byte is read for two of them.
\<close>

definition text_size :: "Interface \<Rightarrow> nat" where
  "text_size i = length (Interface.name i) + length (or_default (Interface.alias' i))"

lemma or_default_simps [simp]: "or_default None = []" "or_default (Some b) = b"
  by (simp_all add: or_default_def)

lemma leaf_capacity:
  assumes "leaf c = Ok ((org, b), c')"
  shows "pos c + length b \<le> pos c'"
  using assms
  by (auto simp: leaf_def Let_def and_then_eq_Ok read_raw_def usize_add_eq_Ok slice_eq_Ok
      split: option.splits dest!: chunk_header_progress)

lemma read_opt_cstring_capacity:
  assumes "read_opt_cstring c p = Ok (v, c')"
  shows "3 * pos c + length (or_default v) \<le> 3 * pos c'"
proof (cases "p = 0")
  case False
  with assms obtain org body where l: "leaf c = Ok ((org, body), c')"
    and v: "v = Some (from_utf8_lossy (strip_nul body))"
    by (auto simp: read_opt_cstring_def and_then_eq_Ok)
  have "length (from_utf8_lossy (strip_nul body)) \<le> 3 * length (strip_nul body)"
    by (rule from_utf8_lossy_length)
  also have "\<dots> \<le> 3 * length body" by (simp add: strip_nul_def)
  finally show ?thesis using leaf_capacity [OF l] v by simp
qed (use assms in \<open>simp add: read_opt_cstring_def\<close>)

lemma interface_chain_texts:
  "cursor_ok c \<Longrightarrow> decode_interface_chain c = Ok (ifs, c') \<Longrightarrow>
   3 * pos c + 144 * length ifs + sum_list (map text_size ifs) \<le> 3 * pos c'"
proof (induction c arbitrary: ifs c' rule: decode_interface_chain.induct)
  case (1 c)
  from "1.prems"(2) obtain raw c1 rest c2 nm c3 al i where
      raw: "read_chunk_pod RawInterface_pod c = Ok (raw, c1)"
    and rest: "(if next_tqe_next raw \<noteq> 0 then decode_interface_chain c1 else Ok ([], c1))
        = Ok (rest, c2)"
    and nm: "read_opt_cstring c2 (RawInterface.name raw) = Ok (nm, c3)"
    and al: "read_opt_cstring c3 (RawInterface.alias' raw) = Ok (al, c')"
    and i: "i = \<lparr>Interface.name = or_default nm, alias' = al\<rparr>"
    and ifs: "ifs = i # rest"
    by (subst (asm) decode_interface_chain.simps) (auto simp: and_then_eq_Ok)
  have c1: "pos c + 48 \<le> pos c1" "cursor_ok c1"
    using read_chunk_pod_progress [OF raw] chunk_advances [OF "1.prems"(1) raw]
    by (simp_all add: RawInterface_pod_def)
  have c2: "3 * pos c1 + 144 * length rest + sum_list (map text_size rest) \<le> 3 * pos c2"
  proof (cases "next_tqe_next raw = 0")
    case True
    with rest show ?thesis by auto
  next
    case False
    with rest have r: "decode_interface_chain c1 = Ok (rest, c2)" by simp
    show ?thesis using "1.IH" [OF raw refl False c1(2) r] by simp
  qed
  have "text_size i = length (or_default nm) + length (or_default al)"
    by (simp add: i text_size_def)
  with c1(1) c2 read_opt_cstring_capacity [OF nm] read_opt_cstring_capacity [OF al]
  show ?case by (simp add: ifs)
qed

lemma interfaces_texts:
  assumes "length p \<le> slice_max" "decode_interfaces p = Ok ifs"
  shows "96 + 144 * length ifs + sum_list (map text_size ifs) \<le> 3 * length p"
proof -
  from assms(2) obtain c2 where r: "interfaces_reader (cursor_new p) = Ok (ifs, c2)"
    by (auto simp: decode_interfaces_reader map_ok_eq_Ok)
  then obtain lst c1 where
      lst: "read_chunk_pod RawInterfaceList_pod (cursor_new p) = Ok (lst, c1)"
    and chain: "(if tqh_first lst = 0 then Ok ([], c1) else decode_interface_chain c1)
        = Ok (ifs, c2)"
    by (auto simp: interfaces_reader_def and_then_eq_Ok)
  have ok: "cursor_ok (cursor_new p)" using assms(1) by simp
  have c1: "32 \<le> pos c1" "cursor_ok c1"
    using read_chunk_pod_progress [OF lst] chunk_advances [OF ok lst]
    by (simp_all add: RawInterfaceList_pod_def cursor_new_def)
  have "3 * pos c1 + 144 * length ifs + sum_list (map text_size ifs) \<le> 3 * pos c2"
    using chain interface_chain_texts [OF c1(2), of ifs c2] by (cases "tqh_first lst = 0") auto
  with c1 interfaces_msg.used [OF assms(1) r] show ?thesis by simp
qed

lemma interfaces_capacity:
  assumes "length p \<le> slice_max" "decode_interfaces p = Ok ifs"
  shows "32 + 48 * length ifs \<le> length p"
  using interfaces_texts [OF assms] by simp

lemma interfaces_name_length:
  assumes "length p \<le> slice_max" "decode_interfaces p = Ok ifs" "i \<in> set ifs"
  shows "length (Interface.name i) \<le> 3 * length p"
proof -
  have "text_size i \<le> sum_list (map text_size ifs)"
    using assms(3) by (intro member_le_sum_list) simp_all
  with interfaces_texts [OF assms(1,2)] show ?thesis by (simp add: text_size_def)
qed

lemma marker_advances:
  "decode_med_location_marker c loc = Ok ((), c') \<Longrightarrow> cursor_ok c \<Longrightarrow>
   pos c + 16 \<le> pos c' \<and> cursor_ok c'"
proof -
  assume r: "decode_med_location_marker c loc = Ok ((), c')" and ok: "cursor_ok c"
  from r obtain c1 where m: "consume_substruct_marker c = Ok ((), c1)"
    and d: "(if data loc \<noteq> 0 then and_then (read_opt_bytes c1 (data loc)) (\<lambda>(_, c). Ok ((), c))
        else Ok ((), c1)) = Ok ((), c')"
    by (auto simp: decode_med_location_marker_def and_then_eq_Ok)
  from m have c1: "pos c + 16 \<le> pos c1"
    by (auto simp: consume_substruct_marker_def and_then_eq_Ok dest!: chunk_header_progress)
  have "cursor_ok c1" using advances [OF well_behaved_marker ok m] by simp
  with d c1 show ?thesis
    by (auto simp: and_then_eq_Ok split: if_splits dest: bytes_advances [rotated])
qed

lemma med_locations_advance:
  "decode_med_locations c locs = Ok ((), c') \<Longrightarrow> cursor_ok c \<Longrightarrow>
   pos c + 16 * length locs \<le> pos c' \<and> cursor_ok c'"
proof (induction locs arbitrary: c)
  case Nil
  then show ?case by simp
next
  case (Cons loc locs)
  then obtain c1 where m: "decode_med_location_marker c loc = Ok ((), c1)"
    and rest: "decode_med_locations c1 locs = Ok ((), c')"
    by (auto simp: and_then_eq_Ok)
  from marker_advances [OF m Cons.prems(2)] Cons.IH [OF rest] show ?case by auto
qed

lemma port_fields_advance:
  assumes "decode_port_fields c raw cache = Ok (r, c')" "cursor_ok c"
  shows "pos c + 16 * length (p_med_location raw) \<le> pos c'"
proof -
  from assms(1) obtain ch cache1 c1 pid c2 descr c3 pat c4 c5 c6 c7 where
      s1: "decode_port_chassis c raw cache = Ok ((ch, cache1), c1)"
    and s2: "read_opt_bytes c1 (p_id raw) = Ok (pid, c2)"
    and s3: "read_opt_cstring c2 (p_descr raw) = Ok (descr, c3)"
    and s4: "read_opt_cstring c3 (p_vlan_advertise_pattern raw) = Ok (pat, c4)"
    and s5: "decode_med_locations c4 (p_med_location raw) = Ok ((), c5)"
    and s6: "(if p_vlans_tqh_first raw \<noteq> 0 then discard_vlan_chain c5 else Ok ((), c5))
        = Ok ((), c6)"
    and s7: "(if p_ppvids_tqh_first raw \<noteq> 0 then discard_ppvid_chain c6 else Ok ((), c6))
        = Ok ((), c7)"
    and s8: "(if p_pids_tqh_first raw \<noteq> 0 then discard_pi_chain c7 else Ok ((), c7))
        = Ok ((), c')"
    unfolding decode_port_fields_def by (auto simp: and_then_eq_Ok)
  have wb_opt: "well_behaved_at (\<lambda>c. if b then d c else Ok ((), c)) c"
    if "\<And>c. well_behaved_at d c" for b d c
    using that by (intro wb_intros)
  note a1 = advances [OF wb_port_chassis assms(2) s1]
  note a2 = bytes_advances [OF conjunct1 [OF conjunct2 [OF a1]] s2]
  note a3 = string_advances [OF conjunct1 [OF conjunct2 [OF a2]] s3]
  note a4 = string_advances [OF conjunct1 [OF conjunct2 [OF a3]] s4]
  note a5 = med_locations_advance [OF s5 conjunct1 [OF conjunct2 [OF a4]]]
  note a6 = advances [OF wb_opt [OF wb_vlan_chain] conjunct2 [OF a5] s6]
  note a7 = advances [OF wb_opt [OF wb_ppvid_chain] conjunct1 [OF conjunct2 [OF a6]] s7]
  note a8 = advances [OF wb_opt [OF wb_pi_chain] conjunct1 [OF conjunct2 [OF a7]] s8]
  from a1 a2 a3 a4 a5 a6 a7 a8 show ?thesis by linarith
qed

lemma port_locations: "length (p_med_location (RawPort_of_bytes b)) = 3"
  by (simp add: RawPort_of_bytes_def)

lemma neighbor_chain_capacity:
  "cursor_ok c \<Longrightarrow> decode_neighbor_chain c cache = Ok ((ns, cache'), c') \<Longrightarrow>
   pos c + 432 * length ns \<le> pos c'"
proof (induction c cache arbitrary: ns cache' c' rule: decode_neighbor_chain.induct)
  case (1 c cache)
  from "1.prems"(2) obtain raw c1 rest cache1 c2 n where
      raw: "read_chunk_pod RawPort_pod c = Ok (raw, c1)"
    and rest: "(if RawPort.tqe_next raw \<noteq> 0 then decode_neighbor_chain c1 cache
                else Ok (([], cache), c1)) = Ok ((rest, cache1), c2)"
    and n: "build_neighbor c2 raw cache1 = Ok ((n, cache'), c')"
    and ns: "ns = n # rest"
    by (subst (asm) decode_neighbor_chain.simps) (auto simp: and_then_eq_Ok)
  have c1: "pos c + 384 \<le> pos c1" "cursor_ok c1"
    using read_chunk_pod_progress [OF raw] chunk_advances [OF "1.prems"(1) raw]
    by (simp_all add: RawPort_pod_def)
  have c2: "pos c1 + 432 * length rest \<le> pos c2 \<and> cursor_ok c2"
  proof (cases "RawPort.tqe_next raw = 0")
    case True
    with rest c1 show ?thesis by auto
  next
    case False
    with rest have r: "decode_neighbor_chain c1 cache = Ok ((rest, cache1), c2)" by simp
    show ?thesis
      using "1.IH" [OF raw refl False c1(2) r] advances [OF wb_neighbor_chain c1(2) r] by simp
  qed
  have "length (p_med_location raw) = 3"
    using read_chunk_pod_value [OF raw] by (auto simp: RawPort_pod_def port_locations)
  moreover obtain r where "decode_port_fields c2 raw cache1 = Ok (r, c')"
    using n by (auto simp: build_neighbor_def and_then_eq_Ok split: option.splits)
  ultimately have "pos c2 + 48 \<le> pos c'"
    using port_fields_advance c2 by fastforce
  with c1 c2 show ?case by (simp add: ns)
qed

end
