(* ===== verification/Subscription.thy ===== *)
theory Subscription
  imports Transport Decode_Safety
begin

text \<open>
  src/subscription.rs: the feed of notifications, an iterator over the frames the daemon
  pushes. Inside \<open>byte_stream\<close> one step is related to the next frame, and a run of steps to a
  sequence of frames.
\<close>

record 's Subscription =
  stream :: 's

text \<open>
  One step of the iterator: \<open>None\<close> ends a \<open>for\<close> loop over it. The last equation is the panic
  of the call, which the code has no value for.
\<close>

fun end_or_item :: "bytes res \<Rightarrow> NeighborChange res option" where
  "end_or_item (Ok payload) = Some (decode_neighbor_change payload)"
| "end_or_item (Err (Io UnexpectedEof)) = None"
| "end_or_item (Err e) = Some (Err e)"
| "end_or_item Panic = Some Panic"

definition subscription_next ::
  "'s io \<Rightarrow> 's Subscription \<Rightarrow> NeighborChange res option \<times> 's Subscription" where
  "subscription_next io sub =
     (case recv_notification io (Subscription.stream sub) of (r, s) \<Rightarrow>
        (end_or_item r, sub\<lparr>Subscription.stream := s\<rparr>))"

text \<open>The items of the first \<open>n\<close> steps, up to the end of the iteration.\<close>

fun take_changes :: "'s io \<Rightarrow> nat \<Rightarrow> 's Subscription \<Rightarrow>
    NeighborChange res list \<times> 's Subscription" where
  "take_changes io 0 sub = ([], sub)"
| "take_changes io (Suc n) sub =
     (case subscription_next io sub of
        (None, sub) \<Rightarrow> ([], sub)
      | (Some item, sub) \<Rightarrow>
          (case take_changes io n sub of (items, sub) \<Rightarrow> (item # items, sub)))"

context byte_stream
begin

lemma next_of_frame:
  assumes "fair (stream sub)"
  shows "fst (subscription_next io sub) =
      end_or_item (fst (parse_frame Notification (incoming (stream sub))))"
    and "fst (subscription_next io sub) \<noteq> None \<Longrightarrow>
      incoming (stream (snd (subscription_next io sub))) =
        drop (snd (parse_frame Notification (incoming (stream sub)))) (incoming (stream sub)) \<and>
      fair (stream (snd (subscription_next io sub)))"
    and "sent (stream (snd (subscription_next io sub))) = sent (stream sub)"
proof -
  let ?r = "read_message io Notification (stream sub)"
  have n: "subscription_next io sub = (end_or_item (fst ?r), sub\<lparr>stream := snd ?r\<rparr>)"
    by (simp add: subscription_next_def recv_notification_def split: prod.splits)
  show "fst (subscription_next io sub) =
      end_or_item (fst (parse_frame Notification (incoming (stream sub))))"
    using read_message_frame(1) [OF assms] n by simp
  show "sent (stream (snd (subscription_next io sub))) = sent (stream sub)"
    using n by (simp add: read_message_keeps)
  assume "fst (subscription_next io sub) \<noteq> None"
  then have "fst ?r \<noteq> Err (Io UnexpectedEof)" using n by auto
  with read_message_frame(2) [OF assms] n
  show "incoming (stream (snd (subscription_next io sub))) =
        drop (snd (parse_frame Notification (incoming (stream sub)))) (incoming (stream sub)) \<and>
      fair (stream (snd (subscription_next io sub)))" by simp
qed

lemma take_changes_frames:
  assumes "list_all (\<lambda>p. length p \<le> HMSG_MAX_SIZE) ps"
    and "fair (stream sub)"
    and "incoming (stream sub) = concat (map (frame (hmsg_number Notification)) ps) @ tail"
    and "fst (parse_frame Notification tail) = Err (Io UnexpectedEof)"
    and "length ps < n"
  shows "fst (take_changes io n sub) = map decode_neighbor_change ps"
  using assms
proof (induction ps arbitrary: sub n)
  case Nil
  then obtain m where n: "n = Suc m" by (cases n) auto
  have "fst (subscription_next io sub) = None"
    using next_of_frame(1) [OF Nil.prems(2)] Nil.prems by simp
  then show ?case by (cases "subscription_next io sub") (simp add: n)
next
  case (Cons p ps)
  then obtain m where n: "n = Suc m" by (cases n) auto
  let ?s = "snd (subscription_next io sub)"
  have pf: "parse_frame Notification (incoming (stream sub)) = (Ok p, 16 + length p)"
    using Cons.prems by (simp add: parse_frame_frame)
  have i: "fst (subscription_next io sub) = Some (decode_neighbor_change p)"
    using next_of_frame(1) [OF Cons.prems(2)] pf by simp
  have "incoming (stream ?s) = concat (map (frame (hmsg_number Notification)) ps) @ tail"
    "fair (stream ?s)"
    using next_of_frame(2) [OF Cons.prems(2)] i pf Cons.prems(3) by simp_all
  then have "fst (take_changes io m ?s) = map decode_neighbor_change ps"
    using Cons.prems n by (intro Cons.IH) simp_all
  with i show ?case
    by (cases "subscription_next io sub"; cases "take_changes io m ?s") (simp add: n)
qed

end

end
