(* ===== verification/Client.thy ===== *)
theory Client
  imports Subscription Encode
begin

text \<open>
  src/client.rs: the blocking client.
  A client is its stream and the path it was connected to; each method takes the client and
  returns its result with the client after it, also after an error, as the code keeps one
  stream for all requests. Opening a socket is the system's: \<open>dial\<close> is a parameter.

  Inside \<open>byte_stream\<close> each method is related to the bytes the peer sends: what it returns is
  a function of the next frame, and what it writes is the frame of its request. The last part
  is a whole session of \<open>all_interfaces\<close>.
\<close>

section \<open>The client\<close>

definition DEFAULT_SOCKET_PATH :: string where
  "DEFAULT_SOCKET_PATH = ''/var/run/lldpd.socket''"

record 's Client =
  stream :: 's
  socket_path :: string

definition connect_to ::
  "(string \<Rightarrow> ('s, io_error) result) \<Rightarrow> string \<Rightarrow> 's Client res" where
  "connect_to dial path =
     and_then (map_err Io (dial path)) (\<lambda>s. Ok \<lparr>Client.stream = s, socket_path = path\<rparr>)"

definition connect :: "(string \<Rightarrow> ('s, io_error) result) \<Rightarrow> 's Client res" where
  "connect dial = connect_to dial DEFAULT_SOCKET_PATH"

definition interfaces :: "'s io \<Rightarrow> 's Client \<Rightarrow> Interface list res \<times> 's Client" where
  "interfaces io c =
     (case request io GetInterfaces [] (Client.stream c) of (r, s) \<Rightarrow>
        (and_then r (\<lambda>payload. decode_interfaces payload), c\<lparr>Client.stream := s\<rparr>))"

definition interface_details ::
  "'s io \<Rightarrow> rstring \<Rightarrow> 's Client \<Rightarrow> InterfaceDetails res \<times> 's Client" where
  "interface_details io ifn c =
     (let request_payload = encode_interface_name_request ifn in
      case request io GetInterface request_payload (Client.stream c) of (r, s) \<Rightarrow>
        (and_then r (\<lambda>payload. decode_hardware payload), c\<lparr>Client.stream := s\<rparr>))"

text \<open>The loop of \<open>all_interfaces\<close>, with the vector it fills.\<close>

fun fetch_each :: "'s io \<Rightarrow> Interface list \<Rightarrow> InterfaceDetails list \<Rightarrow> 's Client \<Rightarrow>
    InterfaceDetails list res \<times> 's Client" where
  "fetch_each io [] out c = (Ok out, c)"
| "fetch_each io (iface # rest) out c =
     (case interface_details io (Interface.name iface) c of
        (Ok details, c) \<Rightarrow> fetch_each io rest (out @ [details]) c
      | (Err RequestRejected, c) \<Rightarrow> fetch_each io rest out c
      | (Err e, c) \<Rightarrow> (Err e, c)
      | (Panic, c) \<Rightarrow> (Panic, c))"

definition all_interfaces :: "'s io \<Rightarrow> 's Client \<Rightarrow> InterfaceDetails list res \<times> 's Client" where
  "all_interfaces io c =
     (case interfaces io c of
        (Ok ifs, c) \<Rightarrow> fetch_each io ifs [] c
      | (Err e, c) \<Rightarrow> (Err e, c)
      | (Panic, c) \<Rightarrow> (Panic, c))"

definition client_socket_path :: "'s Client \<Rightarrow> string" where
  "client_socket_path c = socket_path c"

definition set_port_description ::
  "'s io \<Rightarrow> rstring \<Rightarrow> rstring \<Rightarrow> 's Client \<Rightarrow> unit res \<times> 's Client" where
  "set_port_description io ifn descr c =
     (let request_payload = encode_set_port_description_request ifn descr in
      case request io SetPort request_payload (Client.stream c) of (r, s) \<Rightarrow>
        (and_then r (\<lambda>_. Ok ()), c\<lparr>Client.stream := s\<rparr>))"

text \<open>The client is consumed: after an error its stream is closed and nothing is left of it.\<close>

definition subscribe :: "'s io \<Rightarrow> 's Client \<Rightarrow> 's Subscription res" where
  "subscribe io c =
     (case request io Subscribe [] (Client.stream c) of (r, s) \<Rightarrow>
        and_then r (\<lambda>_. Ok \<lparr>Subscription.stream = s\<rparr>))"

section \<open>What a session is meant to do\<close>

text \<open>
  The answer of the daemon to one \<open>GET_INTERFACE\<close>: the state of the interface, or no such
  interface (a frame of type \<open>NONE\<close>, whatever its payload).
\<close>

datatype answer = Details bytes | Gone bytes

fun answer_payload :: "answer \<Rightarrow> bytes" where
  "answer_payload (Details p) = p"
| "answer_payload (Gone p) = p"

fun answer_frame :: "answer \<Rightarrow> bytes" where
  "answer_frame (Details p) = frame (hmsg_number GetInterface) p"
| "answer_frame (Gone p) = frame (hmsg_number None') p"

definition answer_fits :: "answer \<Rightarrow> bool" where
  "answer_fits a \<longleftrightarrow> length (answer_payload a) \<le> HMSG_MAX_SIZE"

fun gather :: "answer list \<Rightarrow> InterfaceDetails list res" where
  "gather [] = Ok []"
| "gather (Gone p # as) = gather as"
| "gather (Details p # as) =
     and_then (decode_hardware p) (\<lambda>d. map_ok (\<lambda>ds. d # ds) (gather as))"

definition interface_request :: "Interface \<Rightarrow> bytes" where
  "interface_request iface =
     frame (hmsg_number GetInterface) (encode_interface_name_request (Interface.name iface))"

section \<open>Each method is a function of the next frame\<close>

lemma HMSG_MAX_SIZE_slice: "n \<le> HMSG_MAX_SIZE \<Longrightarrow> n \<le> slice_max"
  by (simp add: HMSG_MAX_SIZE_num slice_max_def)

lemma decode_hardware_frame_protocol:
  "length p \<le> HMSG_MAX_SIZE \<Longrightarrow> ok_or_protocol (decode_hardware p)"
  by (rule hardware_protocol [OF HMSG_MAX_SIZE_slice])

context byte_stream
begin

lemma request_reply:
  assumes "fair s"
  shows "fst (request io ty p s) = fst (parse_frame ty (incoming s))"
    and "sent (snd (request io ty p s)) = sent s @ frame (hmsg_number ty) p"
    and "fst (request io ty p s) \<noteq> Err (Io UnexpectedEof) \<Longrightarrow>
      incoming (snd (request io ty p s)) = drop (snd (parse_frame ty (incoming s))) (incoming s) \<and>
      fair (snd (request io ty p s))"
proof -
  obtain s1 where s1: "request io ty p s = read_message io ty s1"
      "sent s1 = sent s @ encode_header ty (length p) @ p" "incoming s1 = incoming s" "fair s1"
    using request_frame [OF assms] by metis
  show "fst (request io ty p s) = fst (parse_frame ty (incoming s))"
    using read_message_frame(1) [OF s1(4)] s1(1,3) by simp
  show "sent (snd (request io ty p s)) = sent s @ frame (hmsg_number ty) p"
    using s1 read_message_keeps by (simp add: frame_encode_header)
  show "fst (request io ty p s) \<noteq> Err (Io UnexpectedEof) \<Longrightarrow>
      incoming (snd (request io ty p s)) = drop (snd (parse_frame ty (incoming s))) (incoming s) \<and>
      fair (snd (request io ty p s))"
    using read_message_frame(2) [OF s1(4)] s1(1,3) by simp
qed

text \<open>Whatever the peer sends: the methods as functions of the incoming bytes.\<close>

lemma interfaces_reply:
  assumes "fair (Client.stream c)"
  shows "fst (interfaces io c) =
      and_then (fst (parse_frame GetInterfaces (incoming (Client.stream c)))) decode_interfaces"
    and "sent (Client.stream (snd (interfaces io c))) =
      sent (Client.stream c) @ frame (hmsg_number GetInterfaces) []"
  using request_reply [OF assms, of GetInterfaces "[]"]
  by (simp_all add: interfaces_def split_def)

lemma interface_details_reply:
  assumes "fair (Client.stream c)"
  shows "fst (interface_details io ifn c) =
      and_then (fst (parse_frame GetInterface (incoming (Client.stream c)))) decode_hardware"
    and "sent (Client.stream (snd (interface_details io ifn c))) =
      sent (Client.stream c) @
        frame (hmsg_number GetInterface) (encode_interface_name_request ifn)"
  using request_reply [OF assms, of GetInterface "encode_interface_name_request ifn"]
  by (simp_all add: interface_details_def split_def)

lemma set_port_description_reply:
  assumes "fair (Client.stream c)"
  shows "fst (set_port_description io ifn descr c) =
      and_then (fst (parse_frame SetPort (incoming (Client.stream c)))) (\<lambda>_. Ok ())"
    and "sent (Client.stream (snd (set_port_description io ifn descr c))) =
      sent (Client.stream c) @
        frame (hmsg_number SetPort) (encode_set_port_description_request ifn descr)"
  using request_reply [OF assms, of SetPort "encode_set_port_description_request ifn descr"]
  by (simp_all add: set_port_description_def split_def)

text \<open>A reply that is a whole frame: the case of a session.\<close>

lemma request_framed:
  assumes "fair s" and "incoming s = frame t q @ rest" and "length q \<le> HMSG_MAX_SIZE"
  obtains s1 where "request io ty p s =
      (if t = 0 then Err RequestRejected
       else if t \<noteq> hmsg_number ty then Err (UnexpectedMessageType (hmsg_number ty) t)
       else Ok q, s1)"
    and "sent s1 = sent s @ frame (hmsg_number ty) p" "incoming s1 = rest" "fair s1"
proof (rule that [of "snd (request io ty p s)"])
  let ?r = "if t = 0 then Err RequestRejected
       else if t \<noteq> hmsg_number ty then Err (UnexpectedMessageType (hmsg_number ty) t)
       else Ok q"
  have pf: "parse_frame ty (incoming s) = (?r, 16 + length q)"
    using parse_frame_frame [OF assms(3)] assms(2) by simp
  have r: "fst (request io ty p s) = ?r"
    using request_reply(1) [OF assms(1)] pf by simp
  then show "request io ty p s = (?r, snd (request io ty p s))"
    by (simp only: prod_eq_iff fst_conv snd_conv)
  have "fst (request io ty p s) \<noteq> Err (Io UnexpectedEof)" using r by simp
  note after = request_reply(3) [OF assms(1) this]
  have "drop (16 + length q) (incoming s) = rest"
    unfolding assms(2) by (metis append_eq_conv_conj frame_fields(3))
  with after pf show "incoming (snd (request io ty p s)) = rest" by (simp only: snd_conv)
  show "fair (snd (request io ty p s))" using after by (rule conjunct2)
  show "sent (snd (request io ty p s)) = sent s @ frame (hmsg_number ty) p"
    by (rule request_reply(2) [OF assms(1)])
qed

lemma subscribe_framed:
  assumes "fair (Client.stream c)"
    and "incoming (Client.stream c) = frame (hmsg_number Subscribe) p @ rest"
    and "length p \<le> HMSG_MAX_SIZE"
  obtains sub where "subscribe io c = Ok sub" "fair (Subscription.stream sub)"
    "incoming (Subscription.stream sub) = rest"
    "sent (Subscription.stream sub) = sent (Client.stream c) @ frame (hmsg_number Subscribe) []"
proof -
  obtain s1 where "request io Subscribe [] (Client.stream c) =
      (if hmsg_number Subscribe = 0 then Err RequestRejected
       else if hmsg_number Subscribe \<noteq> hmsg_number Subscribe then
         Err (UnexpectedMessageType (hmsg_number Subscribe) (hmsg_number Subscribe))
       else Ok p, s1)"
    "sent s1 = sent (Client.stream c) @ frame (hmsg_number Subscribe) []"
    "incoming s1 = rest" "fair s1"
    by (rule request_framed [OF assms])
  then show ?thesis
    by (intro that [of "\<lparr>Subscription.stream = s1\<rparr>"]) (simp_all add: subscribe_def)
qed

lemma request_answered:
  assumes "fair s" and "incoming s = answer_frame a @ rest" and "answer_fits a"
  obtains s1 where "request io GetInterface p s =
      (case a of Details q \<Rightarrow> Ok q | Gone q \<Rightarrow> Err RequestRejected, s1)"
    "sent s1 = sent s @ frame (hmsg_number GetInterface) p" "incoming s1 = rest" "fair s1"
proof (cases a)
  case (Details q)
  then have "incoming s = frame 6 q @ rest" "length q \<le> HMSG_MAX_SIZE"
    using assms(2,3) by (simp_all add: answer_fits_def)
  then obtain s1 where "request io GetInterface p s =
      (if (6 :: i32) = 0 then Err RequestRejected
       else if 6 \<noteq> hmsg_number GetInterface then
         Err (UnexpectedMessageType (hmsg_number GetInterface) 6)
       else Ok q, s1)"
    "sent s1 = sent s @ frame (hmsg_number GetInterface) p" "incoming s1 = rest" "fair s1"
    by (rule request_framed [OF assms(1)])
  then show ?thesis by (intro that [of s1]) (simp_all add: Details)
next
  case (Gone q)
  then have "incoming s = frame 0 q @ rest" "length q \<le> HMSG_MAX_SIZE"
    using assms(2,3) by (simp_all add: answer_fits_def)
  then obtain s1 where "request io GetInterface p s =
      (if (0 :: i32) = 0 then Err RequestRejected
       else if 0 \<noteq> hmsg_number GetInterface then
         Err (UnexpectedMessageType (hmsg_number GetInterface) 0)
       else Ok q, s1)"
    "sent s1 = sent s @ frame (hmsg_number GetInterface) p" "incoming s1 = rest" "fair s1"
    by (rule request_framed [OF assms(1)])
  then show ?thesis by (intro that [of s1]) (simp_all add: Gone)
qed

lemma interface_details_answered:
  assumes "fair (Client.stream c)" "incoming (Client.stream c) = answer_frame a @ rest"
    "answer_fits a"
  obtains c1 where "interface_details io ifn c =
      (case a of Details p \<Rightarrow> decode_hardware p | Gone p \<Rightarrow> Err RequestRejected, c1)"
    "fair (Client.stream c1)" "incoming (Client.stream c1) = rest"
    "sent (Client.stream c1) = sent (Client.stream c) @
       frame (hmsg_number GetInterface) (encode_interface_name_request ifn)"
    "socket_path c1 = socket_path c"
proof -
  obtain s1 where s1: "request io GetInterface (encode_interface_name_request ifn)
        (Client.stream c) = (case a of Details q \<Rightarrow> Ok q | Gone q \<Rightarrow> Err RequestRejected, s1)"
      "sent s1 = sent (Client.stream c) @
        frame (hmsg_number GetInterface) (encode_interface_name_request ifn)"
      "incoming s1 = rest" "fair s1"
    by (rule request_answered [OF assms])
  show ?thesis
    by (rule that [of "c\<lparr>Client.stream := s1\<rparr>"])
      (use s1 in \<open>simp_all add: interface_details_def split: answer.split\<close>)
qed

lemma fetch_each_answered:
  assumes "length as = length ifs" "list_all answer_fits as"
    and "fair (Client.stream c)"
    and "incoming (Client.stream c) = concat (map answer_frame as) @ rest"
  shows "fst (fetch_each io ifs out c) = map_ok (\<lambda>ds. out @ ds) (gather as)"
    and "is_Ok (gather as) \<Longrightarrow>
      sent (Client.stream (snd (fetch_each io ifs out c))) =
        sent (Client.stream c) @ concat (map interface_request ifs) \<and>
      incoming (Client.stream (snd (fetch_each io ifs out c))) = rest"
proof -
  have "fst (fetch_each io ifs out c) = map_ok (\<lambda>ds. out @ ds) (gather as) \<and>
    (is_Ok (gather as) \<longrightarrow>
      sent (Client.stream (snd (fetch_each io ifs out c))) =
        sent (Client.stream c) @ concat (map interface_request ifs) \<and>
      incoming (Client.stream (snd (fetch_each io ifs out c))) = rest)"
    using assms
  proof (induction as ifs arbitrary: c out rule: list_induct2)
    case Nil
    then show ?case by simp
  next
    case (Cons a as iface ifs)
    obtain c1 where c1: "interface_details io (Interface.name iface) c =
        (case a of Details p \<Rightarrow> decode_hardware p | Gone p \<Rightarrow> Err RequestRejected, c1)"
      "fair (Client.stream c1)" "incoming (Client.stream c1) = concat (map answer_frame as) @ rest"
      "sent (Client.stream c1) = sent (Client.stream c) @ interface_request iface"
      using Cons.prems
      by (auto simp: interface_request_def
          intro: interface_details_answered [of c a "concat (map answer_frame as) @ rest"
            "Interface.name iface"])
    note IH = Cons.IH [OF _ c1(2,3)]
    show ?case
    proof (cases a)
      case (Gone p)
      with IH [of out] c1 Cons.prems show ?thesis by simp
    next
      case (Details p)
      then have p: "ok_or_protocol (decode_hardware p)"
        using Cons.prems by (simp add: answer_fits_def decode_hardware_frame_protocol)
      show ?thesis
      proof (cases "decode_hardware p")
        case (Ok d)
        with IH [of "out @ [d]"] c1 Cons.prems Details show ?thesis
          by (cases "gather as") simp_all
      next
        case (Err e)
        with p obtain m where "e = Protocol m" by (cases e) simp_all
        with Err c1(1) Details show ?thesis by simp
      next
        case Panic
        with p show ?thesis by simp
      qed
    qed
  qed
  then show "fst (fetch_each io ifs out c) = map_ok (\<lambda>ds. out @ ds) (gather as)"
    and "is_Ok (gather as) \<Longrightarrow>
      sent (Client.stream (snd (fetch_each io ifs out c))) =
        sent (Client.stream c) @ concat (map interface_request ifs) \<and>
      incoming (Client.stream (snd (fetch_each io ifs out c))) = rest"
    by blast+
qed

lemma map_ok_append_Nil [simp]: "map_ok (\<lambda>ds. ds) r = r"
  by (cases r) simp_all

lemma all_interfaces_session:
  assumes "fair (Client.stream c)"
    and "incoming (Client.stream c) =
      frame (hmsg_number GetInterfaces) p @ concat (map answer_frame as) @ rest"
    and "length p \<le> HMSG_MAX_SIZE" "list_all answer_fits as"
    and "decode_interfaces p = Ok ifs" "length as = length ifs"
  shows "fst (all_interfaces io c) = gather as"
    and "is_Ok (gather as) \<Longrightarrow>
      sent (Client.stream (snd (all_interfaces io c))) =
        sent (Client.stream c) @ frame (hmsg_number GetInterfaces) [] @
          concat (map interface_request ifs) \<and>
      incoming (Client.stream (snd (all_interfaces io c))) = rest"
proof -
  obtain s1 where s1: "request io GetInterfaces [] (Client.stream c) = (Ok p, s1)"
    "sent s1 = sent (Client.stream c) @ frame (hmsg_number GetInterfaces) []"
    "incoming s1 = concat (map answer_frame as) @ rest" "fair s1"
    using request_framed [OF assms(1-3), of GetInterfaces "[]"] by auto
  have "all_interfaces io c = fetch_each io ifs [] (c\<lparr>Client.stream := s1\<rparr>)"
    using assms(5) by (simp add: all_interfaces_def interfaces_def s1(1))
  then show "fst (all_interfaces io c) = gather as"
    and "is_Ok (gather as) \<Longrightarrow>
      sent (Client.stream (snd (all_interfaces io c))) =
        sent (Client.stream c) @ frame (hmsg_number GetInterfaces) [] @
          concat (map interface_request ifs) \<and>
      incoming (Client.stream (snd (all_interfaces io c))) = rest"
    using fetch_each_answered [OF assms(6,4), of "c\<lparr>Client.stream := s1\<rparr>" rest "[]"] s1
    by simp_all
qed

end

end
