(* ===== verification/AsyncClient.thy ===== *)
theory AsyncClient
  imports Client
begin

text \<open>
  src/async_client.rs: the tokio client. It has its own copies of \<open>request\<close>,
  \<open>recv_notification\<close> and \<open>read_message\<close>, translated here separately, over the stream functions
  of tokio, which are a parameter: what the code relies on is their documented contract,
  \<open>byte_stream\<close>. An \<open>await\<close> lets other tasks run, none of which has the stream (the methods
  borrow it exclusively), so a call that is awaited to its end is a function of the stream.
  What a future that is dropped half-way leaves behind is in theory \<open>Cancellation\<close>.

  The lemmas say that the requests of the two clients agree over one pair of stream functions;
  theory \<open>Replies\<close> has the other operations, and two different pairs (the standard library's and
  tokio's, with different fragmentation of the same incoming bytes).
\<close>

section \<open>Messages\<close>

definition async_read_message :: "'s io \<Rightarrow> HmsgType \<Rightarrow> 's \<Rightarrow> bytes res \<times> 's" where
  "async_read_message io expected s =
     io_then (lift_io (read_exact io header_len s)) (\<lambda>header s.
     io_then (decode_header header, s) (\<lambda>(got_ty, len) s.
     if unat len > HMSG_MAX_SIZE then (Err (oversized (unat len)), s)
     else
       io_then (lift_io (read_exact io (unat len) s)) (\<lambda>payload s.
       if got_ty = hmsg_number None' then (Err RequestRejected, s)
       else if \<not> hmsg_matches expected got_ty then
         (Err (UnexpectedMessageType (hmsg_number expected) got_ty), s)
       else (Ok payload, s))))"

definition async_request :: "'s io \<Rightarrow> HmsgType \<Rightarrow> bytes \<Rightarrow> 's \<Rightarrow> bytes res \<times> 's" where
  "async_request io ty payload s =
     (let out = encode_header ty (length payload) @ payload in
      io_then (lift_io (write_all io out s)) (\<lambda>_ s. async_read_message io ty s))"

definition async_recv_notification :: "'s io \<Rightarrow> 's \<Rightarrow> bytes res \<times> 's" where
  "async_recv_notification io s = async_read_message io Notification s"

section \<open>The client\<close>

record 's AsyncClient =
  stream :: 's
  socket_path :: string

record 's AsyncSubscription =
  changes :: 's \<comment> \<open>the field \<open>stream\<close>\<close>

definition async_connect_to ::
  "(string \<Rightarrow> ('s, io_error) result) \<Rightarrow> string \<Rightarrow> 's AsyncClient res" where
  "async_connect_to dial path =
     and_then (map_err Io (dial path)) (\<lambda>s. Ok \<lparr>AsyncClient.stream = s, socket_path = path\<rparr>)"

definition async_connect :: "(string \<Rightarrow> ('s, io_error) result) \<Rightarrow> 's AsyncClient res" where
  "async_connect dial = async_connect_to dial DEFAULT_SOCKET_PATH"

definition async_interfaces ::
  "'s io \<Rightarrow> 's AsyncClient \<Rightarrow> Interface list res \<times> 's AsyncClient" where
  "async_interfaces io c =
     (case async_request io GetInterfaces [] (AsyncClient.stream c) of (r, s) \<Rightarrow>
        (and_then r (\<lambda>payload. decode_interfaces payload), c\<lparr>AsyncClient.stream := s\<rparr>))"

definition async_interface ::
  "'s io \<Rightarrow> rstring \<Rightarrow> 's AsyncClient \<Rightarrow> InterfaceDetails res \<times> 's AsyncClient" where
  "async_interface io ifn c =
     (let request_payload = encode_interface_name_request ifn in
      case async_request io GetInterface request_payload (AsyncClient.stream c) of (r, s) \<Rightarrow>
        (and_then r (\<lambda>payload. decode_hardware payload), c\<lparr>AsyncClient.stream := s\<rparr>))"

fun async_fetch_each :: "'s io \<Rightarrow> Interface list \<Rightarrow> InterfaceDetails list \<Rightarrow> 's AsyncClient \<Rightarrow>
    InterfaceDetails list res \<times> 's AsyncClient" where
  "async_fetch_each io [] out c = (Ok out, c)"
| "async_fetch_each io (iface # rest) out c =
     (case async_interface io (Interface.name iface) c of
        (Ok details, c) \<Rightarrow> async_fetch_each io rest (out @ [details]) c
      | (Err RequestRejected, c) \<Rightarrow> async_fetch_each io rest out c
      | (Err e, c) \<Rightarrow> (Err e, c)
      | (Panic, c) \<Rightarrow> (Panic, c))"

definition async_all_interfaces ::
  "'s io \<Rightarrow> 's AsyncClient \<Rightarrow> InterfaceDetails list res \<times> 's AsyncClient" where
  "async_all_interfaces io c =
     (case async_interfaces io c of
        (Ok ifs, c) \<Rightarrow> async_fetch_each io ifs [] c
      | (Err e, c) \<Rightarrow> (Err e, c)
      | (Panic, c) \<Rightarrow> (Panic, c))"

definition async_socket_path :: "'s AsyncClient \<Rightarrow> string" where
  "async_socket_path c = AsyncClient.socket_path c"

definition async_set_port_description ::
  "'s io \<Rightarrow> rstring \<Rightarrow> rstring \<Rightarrow> 's AsyncClient \<Rightarrow> unit res \<times> 's AsyncClient" where
  "async_set_port_description io ifn descr c =
     (let request_payload = encode_set_port_description_request ifn descr in
      case async_request io SetPort request_payload (AsyncClient.stream c) of (r, s) \<Rightarrow>
        (and_then r (\<lambda>_. Ok ()), c\<lparr>AsyncClient.stream := s\<rparr>))"

definition async_subscribe :: "'s io \<Rightarrow> 's AsyncClient \<Rightarrow> 's AsyncSubscription res" where
  "async_subscribe io c =
     (case async_request io Subscribe [] (AsyncClient.stream c) of (r, s) \<Rightarrow>
        and_then r (\<lambda>_. Ok \<lparr>changes = s\<rparr>))"

fun end_or_change :: "bytes res \<Rightarrow> NeighborChange option res" where
  "end_or_change (Ok payload) =
     and_then (decode_neighbor_change payload) (\<lambda>change. Ok (Some change))"
| "end_or_change (Err (Io UnexpectedEof)) = Ok None"
| "end_or_change (Err e) = Err e"
| "end_or_change Panic = Panic"

definition next_change ::
  "'s io \<Rightarrow> 's AsyncSubscription \<Rightarrow> NeighborChange option res \<times> 's AsyncSubscription" where
  "next_change io sub =
     (case async_recv_notification io (changes sub) of (r, s) \<Rightarrow>
        (end_or_change r, sub\<lparr>changes := s\<rparr>))"

section \<open>The two clients over the same stream functions\<close>

lemma async_read_message_eq: "async_read_message io ty s = read_message io ty s"
proof -
  have eq: "Pair (check_reply ty t payload) = (\<lambda>s.
      if t = hmsg_number None' then (Err RequestRejected, s)
      else if \<not> hmsg_matches ty t then (Err (UnexpectedMessageType (hmsg_number ty) t), s)
      else (Ok payload, s))" for t and payload :: bytes
    by (auto simp: check_reply_def fun_eq_iff)
  show ?thesis unfolding async_read_message_def read_message_def by (simp only: eq)
qed

lemma async_request_eq: "async_request io ty p s = request io ty p s"
  by (simp add: async_request_def request_def async_read_message_eq)

lemma async_recv_notification_eq: "async_recv_notification io s = recv_notification io s"
  by (simp add: async_recv_notification_def recv_notification_def async_read_message_eq)

text \<open>An asynchronous client as a blocking one, on the same stream.\<close>

definition blocking :: "'s AsyncClient \<Rightarrow> 's Client" where
  "blocking c = \<lparr>Client.stream = AsyncClient.stream c, socket_path = AsyncClient.socket_path c\<rparr>"

lemma blocking_stream [simp]: "Client.stream (blocking c) = AsyncClient.stream c"
  by (simp add: blocking_def)

lemma blocking_update [simp]:
  "(blocking c)\<lparr>Client.stream := s\<rparr> = blocking (c\<lparr>AsyncClient.stream := s\<rparr>)"
  by (simp add: blocking_def)

lemma async_socket_path_eq: "client_socket_path (blocking c) = async_socket_path c"
  by (simp add: client_socket_path_def async_socket_path_def blocking_def)

lemma async_interfaces_eq:
  "interfaces io (blocking c) = map_prod id blocking (async_interfaces io c)"
  by (simp add: interfaces_def async_interfaces_def async_request_eq split_def Let_def)

lemma async_interface_eq:
  "interface_details io ifn (blocking c) = map_prod id blocking (async_interface io ifn c)"
  by (simp add: interface_details_def async_interface_def async_request_eq split_def Let_def)

lemma async_fetch_each_eq:
  "fetch_each io ifs out (blocking c) = map_prod id blocking (async_fetch_each io ifs out c)"
proof (induction ifs arbitrary: out c)
  case Nil
  then show ?case by simp
next
  case (Cons i ifs)
  obtain r c1 where r: "async_interface io (Interface.name i) c = (r, c1)" by fastforce
  then have s: "interface_details io (Interface.name i) (blocking c) = (r, blocking c1)"
    by (simp add: async_interface_eq)
  show ?case
  proof (cases r)
    case (Err e)
    then show ?thesis using Cons.IH by (cases e) (simp_all add: r s)
  qed (simp_all add: r s Cons.IH)
qed

lemma async_all_interfaces_eq:
  "all_interfaces io (blocking c) = map_prod id blocking (async_all_interfaces io c)"
proof -
  obtain r c1 where r: "async_interfaces io c = (r, c1)" by fastforce
  then have "interfaces io (blocking c) = (r, blocking c1)" by (simp add: async_interfaces_eq)
  with r show ?thesis
    by (cases r) (simp_all add: all_interfaces_def async_all_interfaces_def async_fetch_each_eq)
qed

lemma async_set_port_description_eq:
  "set_port_description io ifn descr (blocking c) =
     map_prod id blocking (async_set_port_description io ifn descr c)"
  by (simp add: set_port_description_def async_set_port_description_def async_request_eq split_def Let_def)

text \<open>One answer read as the other: \<open>Result<Option<_>>\<close> and \<open>Option<Result<_>>\<close>.\<close>

fun transpose :: "('a, 'e) result option \<Rightarrow> ('a option, 'e) result" where
  "transpose None = Ok None"
| "transpose (Some r) = map_ok Some r"

lemma end_or_change_transpose: "end_or_change r = transpose (end_or_item r)"
proof -
  have "and_then q (\<lambda>change. Ok (Some change)) = map_ok Some q" for q :: "NeighborChange res"
    by (cases q) simp_all
  then show ?thesis by (cases r rule: end_or_change.cases) simp_all
qed

end
