(* ===== verification/Replies.thy ===== *)
theory Replies
  imports AsyncClient
begin

text \<open>
  What the methods of a client do with any bytes the peer sends, whole frames or not. Each
  method is given as a function of the bytes: what it returns, what it writes, and what is left.
  Since the functions do not mention the stream, two clients over different stream functions,
  tokio's and the standard library's, agree when their peers send the same bytes.
\<close>

section \<open>Every method as a function of the bytes the peer sends\<close>

text \<open>
  For any bytes, whole frames or not: the result, the bytes written, and the bytes left. What is
  left is pinned unless the stream has ended within the call.
\<close>

definition replied ::
  "HmsgType \<Rightarrow> bytes \<Rightarrow> (bytes \<Rightarrow> 'a res) \<Rightarrow> bytes \<Rightarrow> 'a res \<times> bytes \<times> bytes" where
  "replied ty p f b =
     (and_then (fst (parse_frame ty b)) f, frame (hmsg_number ty) p, drop (snd (parse_frame ty b)) b)"

fun fetched :: "Interface list \<Rightarrow> InterfaceDetails list \<Rightarrow> bytes \<Rightarrow>
    InterfaceDetails list res \<times> bytes \<times> bytes" where
  "fetched [] out b = (Ok out, [], b)"
| "fetched (iface # ifs) out b =
     (case replied GetInterface (encode_interface_name_request (Interface.name iface))
         decode_hardware b of
        (Ok d, w, b) \<Rightarrow> apsnd (apfst (append w)) (fetched ifs (out @ [d]) b)
      | (Err RequestRejected, w, b) \<Rightarrow> apsnd (apfst (append w)) (fetched ifs out b)
      | (Err e, w, b) \<Rightarrow> (Err e, w, b)
      | (Panic, w, b) \<Rightarrow> (Panic, w, b))"

definition all_fetched :: "bytes \<Rightarrow> InterfaceDetails list res \<times> bytes \<times> bytes" where
  "all_fetched b =
     (case replied GetInterfaces [] decode_interfaces b of
        (Ok ifs, w, b) \<Rightarrow> apsnd (apfst (append w)) (fetched ifs [] b)
      | (Err e, w, b) \<Rightarrow> (Err e, w, b)
      | (Panic, w, b) \<Rightarrow> (Panic, w, b))"

definition follows ::
  "('s \<Rightarrow> bytes) \<Rightarrow> ('s \<Rightarrow> bool) \<Rightarrow> ('s \<Rightarrow> bytes) \<Rightarrow> 's \<Rightarrow> 'a res \<times> 's Client \<Rightarrow>
   'a res \<times> bytes \<times> bytes \<Rightarrow> bool" where
  "follows incoming fair sent s x y \<longleftrightarrow>
     fst x = fst y \<and> sent (Client.stream (snd x)) = sent s @ fst (snd y) \<and>
     (fst y \<noteq> Err (Io UnexpectedEof) \<longrightarrow>
        incoming (Client.stream (snd x)) = snd (snd y) \<and> fair (Client.stream (snd x)))"

context byte_stream
begin

lemma request_follows:
  assumes "fair (Client.stream c)"
    and "x = (case request io ty p (Client.stream c) of (r, s) \<Rightarrow>
      (and_then r f, c\<lparr>Client.stream := s\<rparr>))"
  shows "follows incoming fair sent (Client.stream c) x (replied ty p f (incoming (Client.stream c)))"
proof -
  obtain r s where rs: "request io ty p (Client.stream c) = (r, s)" by fastforce
  have "r \<noteq> Err (Io UnexpectedEof)" if "and_then r f \<noteq> Err (Io UnexpectedEof)" using that by auto
  with request_reply [OF assms(1), of ty p] rs assms(2) show ?thesis
    by (auto simp: follows_def replied_def)
qed

lemma methods_follow:
  assumes "fair (Client.stream c)"
  shows "follows incoming fair sent (Client.stream c) (interfaces io c)
      (replied GetInterfaces [] decode_interfaces (incoming (Client.stream c)))"
    and "follows incoming fair sent (Client.stream c) (interface_details io ifn c)
      (replied GetInterface (encode_interface_name_request ifn) decode_hardware
        (incoming (Client.stream c)))"
    and "follows incoming fair sent (Client.stream c) (set_port_description io ifn descr c)
      (replied SetPort (encode_set_port_description_request ifn descr) (\<lambda>_. Ok ())
        (incoming (Client.stream c)))"
  by (rule request_follows [OF assms],
      simp add: interfaces_def interface_details_def set_port_description_def Let_def)+

lemma follows_later:
  assumes "follows incoming fair sent s (r, c1) (r, w, b)" and "r \<noteq> Err (Io UnexpectedEof)"
    and "fair (Client.stream c1) \<Longrightarrow> follows incoming fair sent (Client.stream c1) x
      (f (incoming (Client.stream c1)))"
  shows "follows incoming fair sent s x (apsnd (apfst (append w)) (f b))"
  using assms by (cases "f b") (auto simp: follows_def)

lemma fetch_each_follows:
  "fair (Client.stream c) \<Longrightarrow>
   follows incoming fair sent (Client.stream c) (fetch_each io ifs out c)
     (fetched ifs out (incoming (Client.stream c)))"
proof (induction ifs arbitrary: out c)
  case (Cons iface ifs)
  let ?b = "incoming (Client.stream c)"
  obtain r c1 where d: "interface_details io (Interface.name iface) c = (r, c1)" by fastforce
  obtain r' w b where y: "replied GetInterface
      (encode_interface_name_request (Interface.name iface)) decode_hardware ?b = (r', w, b)"
    by (cases "replied GetInterface (encode_interface_name_request (Interface.name iface))
      decode_hardware ?b")
  have f: "follows incoming fair sent (Client.stream c) (r, c1) (r', w, b)"
    using methods_follow(2) [OF Cons.prems, of "Interface.name iface"] by (simp add: d y)
  then have r': "r' = r" by (simp add: follows_def)
  have later: "r \<noteq> Err (Io UnexpectedEof) \<Longrightarrow> follows incoming fair sent (Client.stream c)
      (fetch_each io ifs out' c1) (apsnd (apfst (append w)) (fetched ifs out' b))" for out'
    by (rule follows_later [where f = "fetched ifs out'", OF f [unfolded r'] _ Cons.IH])
  show ?case
  proof (cases r)
    case (Ok details)
    then show ?thesis using later [of "out @ [details]"] by (simp add: d y r')
  next
    case (Err e)
    then show ?thesis using later [of out] f by (cases e) (simp_all add: d y r' follows_def)
  next
    case Panic
    then show ?thesis using f by (simp add: d y r' follows_def)
  qed
qed (simp add: follows_def)

lemma all_interfaces_follows:
  assumes "fair (Client.stream c)"
  shows "follows incoming fair sent (Client.stream c) (all_interfaces io c)
    (all_fetched (incoming (Client.stream c)))"
proof -
  let ?b = "incoming (Client.stream c)"
  obtain r c1 where d: "interfaces io c = (r, c1)" by fastforce
  obtain r' w b where y: "replied GetInterfaces [] decode_interfaces ?b = (r', w, b)"
    by (cases "replied GetInterfaces [] decode_interfaces ?b")
  have f: "follows incoming fair sent (Client.stream c) (r, c1) (r', w, b)"
    using methods_follow(1) [OF assms] by (simp add: d y)
  then have r': "r' = r" by (simp add: follows_def)
  show ?thesis
    using f follows_later [where f = "fetched ifs []" for ifs, OF f [unfolded r'] _ fetch_each_follows]
    by (cases r) (simp_all add: all_interfaces_def all_fetched_def d y r' follows_def)
qed

end

section \<open>The rest of the tokio client over the same stream functions\<close>

lemma connect_to_eq: "connect_to dial path = map_ok blocking (async_connect_to dial path)"
  by (cases "dial path") (simp_all add: connect_to_def async_connect_to_def blocking_def)

lemma connect_eq: "connect dial = map_ok blocking (async_connect dial)"
  by (simp add: connect_def async_connect_def connect_to_eq)

lemma subscribe_eq:
  "subscribe io (blocking c) =
   map_ok (\<lambda>asub. \<lparr>Subscription.stream = changes asub\<rparr>) (async_subscribe io c)"
  by (cases "fst (request io Subscribe [] (AsyncClient.stream c))")
    (simp_all add: subscribe_def async_subscribe_def async_request_eq split_def)

lemma next_change_eq:
  "next_change io asub =
   map_prod transpose (\<lambda>sub. \<lparr>changes = Subscription.stream sub\<rparr>)
     (subscription_next io \<lparr>Subscription.stream = changes asub\<rparr>)"
  by (simp add: next_change_def subscription_next_def async_recv_notification_eq
      end_or_change_transpose split_def)

section \<open>Two clients of one peer\<close>

text \<open>
  A stream of tokio and one of the standard library with the same bytes ahead and the same bytes
  written, and what two methods do when they agree: the same result, the same bytes written, and
  streams that are alike again, unless they have ended.
\<close>

definition alike ::
  "('s \<Rightarrow> bytes) \<Rightarrow> ('s \<Rightarrow> bool) \<Rightarrow> ('s \<Rightarrow> bytes) \<Rightarrow> 's \<Rightarrow> stream \<Rightarrow> bool" where
  "alike incoming fair written a s \<longleftrightarrow> fair a \<and> std_fair s \<and> incoming a = std_incoming s \<and>
     written a = tx s"

definition agree ::
  "('s \<Rightarrow> bytes) \<Rightarrow> ('s \<Rightarrow> bool) \<Rightarrow> ('s \<Rightarrow> bytes) \<Rightarrow> 'a res \<times> 's AsyncClient \<Rightarrow>
   'a res \<times> stream Client \<Rightarrow> bool" where
  "agree incoming fair written x y \<longleftrightarrow>
     fst x = fst y \<and> written (AsyncClient.stream (snd x)) = tx (Client.stream (snd y)) \<and>
     (fst y \<noteq> Err (Io UnexpectedEof) \<longrightarrow>
        alike incoming fair written (AsyncClient.stream (snd x)) (Client.stream (snd y)))"

lemma follows_agree:
  assumes "alike incoming fair written (AsyncClient.stream c) (Client.stream c')"
    and "follows incoming fair written (AsyncClient.stream c) (map_prod id blocking x)
      (f (incoming (AsyncClient.stream c)))"
    and "follows std_incoming std_fair tx (Client.stream c') y (f (std_incoming (Client.stream c')))"
  shows "agree incoming fair written x y"
  using assms by (cases x; cases y) (simp add: alike_def agree_def follows_def)

context byte_stream
begin

lemma methods_agree:
  assumes "alike incoming fair sent (AsyncClient.stream c) (Client.stream c')"
  shows "agree incoming fair sent (async_interfaces io c) (interfaces std_io c')"
    and "agree incoming fair sent (async_interface io nm c) (interface_details std_io nm c')"
    and "agree incoming fair sent (async_all_interfaces io c) (all_interfaces std_io c')"
    and "agree incoming fair sent (async_set_port_description io nm descr c)
      (set_port_description std_io nm descr c')"
proof -
  have f: "fair (Client.stream (blocking c))" "std_fair (Client.stream c')"
    using assms by (simp_all add: alike_def)
  note mine = methods_follow [OF f(1)] all_interfaces_follows [OF f(1)]
  note theirs = std.methods_follow [OF f(2)] std.all_interfaces_follows [OF f(2)]
  show "agree incoming fair sent (async_interfaces io c) (interfaces std_io c')"
    using mine(1) theirs(1)
    by (intro follows_agree [OF assms]) (simp_all add: async_interfaces_eq)
  show "agree incoming fair sent (async_interface io nm c) (interface_details std_io nm c')"
    using mine(2) [of nm] theirs(2) [of nm]
    by (intro follows_agree [OF assms]) (simp_all add: async_interface_eq)
  show "agree incoming fair sent (async_all_interfaces io c) (all_interfaces std_io c')"
    using mine(4) theirs(4)
    by (intro follows_agree [OF assms]) (simp_all add: async_all_interfaces_eq)
  show "agree incoming fair sent (async_set_port_description io nm descr c)
      (set_port_description std_io nm descr c')"
    using mine(3) [of nm descr] theirs(3) [of nm descr]
    by (intro follows_agree [OF assms]) (simp_all add: async_set_port_description_eq)
qed

lemma subscribe_agree:
  assumes "alike incoming fair sent (AsyncClient.stream c) (Client.stream c')"
  shows "case (async_subscribe io c, subscribe std_io c') of
      (Ok asub, Ok sub) \<Rightarrow> alike incoming fair sent (changes asub) (Subscription.stream sub)
    | (Err e, Err e') \<Rightarrow> e = e'
    | _ \<Rightarrow> False"
proof -
  have f: "fair (AsyncClient.stream c)" "std_fair (Client.stream c')"
    "incoming (AsyncClient.stream c) = std_incoming (Client.stream c')"
    "sent (AsyncClient.stream c) = tx (Client.stream c')"
    using assms by (simp_all add: alike_def)
  obtain r s where mine: "request io Subscribe [] (AsyncClient.stream c) = (r, s)" by fastforce
  obtain r' s' where theirs: "request std_io Subscribe [] (Client.stream c') = (r', s')" by fastforce
  have "r = r'" "r \<noteq> Panic"
    using request_reply(1) [OF f(1)] std.request_reply(1) [OF f(2)] f(3) mine theirs
      request_no_panic [of Subscribe "[]" "AsyncClient.stream c"] by (metis fst_conv)+
  moreover have "alike incoming fair sent s s'" if "r = Ok p" for p
    using request_reply(2,3) [OF f(1), of Subscribe "[]"] std.request_reply(2,3) [OF f(2), of Subscribe "[]"]
      f(3,4) mine theirs that \<open>r = r'\<close>
    by (simp add: alike_def)
  ultimately show ?thesis
    by (cases r') (simp_all add: async_subscribe_def async_request_eq subscribe_def mine theirs)
qed

lemma next_agree:
  assumes "alike incoming fair sent (changes asub) (Subscription.stream sub)"
  shows "fst (next_change io asub) = transpose (fst (subscription_next std_io sub))"
    and "sent (changes (snd (next_change io asub))) =
      tx (Subscription.stream (snd (subscription_next std_io sub)))"
    and "fst (subscription_next std_io sub) \<noteq> None \<Longrightarrow>
      alike incoming fair sent (changes (snd (next_change io asub)))
        (Subscription.stream (snd (subscription_next std_io sub)))"
proof -
  let ?mine = "\<lparr>Subscription.stream = changes asub\<rparr>"
  have twin: "fst (next_change io asub) = transpose (fst (subscription_next io ?mine))"
    "changes (snd (next_change io asub)) = Subscription.stream (snd (subscription_next io ?mine))"
    by (simp_all add: next_change_eq split_def)
  have f: "fair (Subscription.stream ?mine)" "std_fair (Subscription.stream sub)"
    "incoming (changes asub) = std_incoming (Subscription.stream sub)"
    "sent (changes asub) = tx (Subscription.stream sub)"
    using assms by (simp_all add: alike_def)
  note mine = next_of_frame [OF f(1)] and theirs = std.next_of_frame [OF f(2)]
  show "fst (next_change io asub) = transpose (fst (subscription_next std_io sub))"
    using mine(1) theirs(1) f(3) by (simp add: twin)
  show sent: "sent (changes (snd (next_change io asub))) =
      tx (Subscription.stream (snd (subscription_next std_io sub)))"
    using mine(3) theirs(3) f(4) by (simp add: twin)
  show "fst (subscription_next std_io sub) \<noteq> None \<Longrightarrow>
      alike incoming fair sent (changes (snd (next_change io asub)))
        (Subscription.stream (snd (subscription_next std_io sub)))"
    using mine(1,2) theirs(1,2) f(3) sent by (simp add: twin alike_def)
qed

end

end
