(* ===== verification/Messages.thy ===== *)
theory Messages
  imports Decode_Safety Encode
begin

text \<open>
  The messages the decoders are for, built the way the daemon's marshalling (and the \<open>Buf\<close> of
  the tests in src/wire/decode.rs) lays them out: each chunk is aligned, has a header with an
  arbitrary original address and a size, and stands in front of what it points to. A structure
  is any value of its raw type; a pointer field says whether the chunk it points to follows.
  A structure chunk may declare more than its own size, as the daemon counts the substructures
  in; \<open>marshal\<close> holds these choices for every position.

  \<open>reads d b v b'\<close> says that the reader \<open>d\<close>, at the end of what was built before (\<open>b\<close>), reads
  the value \<open>v\<close> and stops at the end of \<open>b'\<close>, whatever follows in the message. The rules are
  closed under sequencing, so that the decoders are proved by following their text.
\<close>

section \<open>Reading back what was built\<close>

definition reads ::
  "(cursor \<Rightarrow> ('a \<times> cursor) res) \<Rightarrow> bytes \<Rightarrow> 'a \<Rightarrow> bytes \<Rightarrow> bool" where
  "reads d b v b' \<longleftrightarrow> prefix b b' \<and>
     (\<forall>B. prefix b' B \<longrightarrow> length B \<le> slice_max \<longrightarrow>
        d \<lparr>buf = B, pos = length b\<rparr> = Ok (v, \<lparr>buf = B, pos = length b'\<rparr>))"

named_theorems reads_intros \<open>closure of what readers read back\<close>

lemma readsD:
  "reads d b v b' \<Longrightarrow> prefix b' B \<Longrightarrow> length B \<le> slice_max \<Longrightarrow>
   d \<lparr>buf = B, pos = length b\<rparr> = Ok (v, \<lparr>buf = B, pos = length b'\<rparr>)"
  by (simp add: reads_def)

lemma reads_prefix: "reads d b v b' \<Longrightarrow> prefix b b'"
  by (simp add: reads_def)

lemma reads_Ok [reads_intros]: "reads (\<lambda>c. Ok (v, c)) b v b"
  by (simp add: reads_def)

lemma reads_and_then:
  assumes "reads d b v b1" and "reads (k v) b1 w b2"
  shows "reads (\<lambda>c. and_then (d c) (\<lambda>(v, c). k v c)) b w b2"
  using assms by (auto simp: reads_def intro: prefix_order.trans)

lemma reads_if_True: "P \<Longrightarrow> reads d b v b' \<Longrightarrow> reads (\<lambda>c. if P then d c else e c) b v b'"
  by simp

lemma reads_if_False: "\<not> P \<Longrightarrow> reads e b v b' \<Longrightarrow> reads (\<lambda>c. if P then d c else e c) b v b'"
  by simp

text \<open>A whole message: what is read of it from the start.\<close>

lemma reads_message:
  "reads d [] v b \<Longrightarrow> length (b @ rest) \<le> slice_max \<Longrightarrow>
   d (cursor_new (b @ rest)) = Ok (v, \<lparr>buf = b @ rest, pos = length b\<rparr>)"
  using readsD [of d "[]" v b "b @ rest"] by (simp add: cursor_new_def)

section \<open>Chunks\<close>

record marshal =
  orig :: "nat \<Rightarrow> usize"
  nested :: "nat \<Rightarrow> u32"

definition put_header :: "bytes \<Rightarrow> usize \<Rightarrow> usize \<Rightarrow> bytes" where
  "put_header b adr n =
     b @ replicate (align_up (length b) 8 - length b) 0 @ word_to_le adr @ word_to_le n"

definition put_leaf :: "marshal \<Rightarrow> bytes \<Rightarrow> bytes \<Rightarrow> bytes" where
  "put_leaf m b content =
     put_header b (orig m (length b)) (word_of_nat (16 + length content)) @ content"

definition put_struct :: "marshal \<Rightarrow> bytes \<Rightarrow> bytes \<Rightarrow> bytes" where
  "put_struct m b content =
     put_header b (orig m (length b))
       (word_of_nat (16 + length content + unat (nested m (length b)))) @ content"

definition put_marker :: "marshal \<Rightarrow> bytes \<Rightarrow> bytes" where
  "put_marker m b =
     put_header b (orig m (length b)) (word_of_nat (16 + unat (nested m (length b))))"

definition put_bytes :: "marshal \<Rightarrow> bytes \<Rightarrow> bytes option \<Rightarrow> bytes" where
  "put_bytes m b v = (case v of None \<Rightarrow> b | Some x \<Rightarrow> put_leaf m b x)"

definition put_cstring :: "marshal \<Rightarrow> bytes \<Rightarrow> rstring option \<Rightarrow> bytes" where
  "put_cstring m b v = (case v of None \<Rightarrow> b | Some x \<Rightarrow> put_leaf m b (x @ [0]))"

lemma put_leaf_push_string_chunk:
  "put_leaf m b content = push_string_chunk b (unat (orig m (length b))) content"
  by (simp add: put_leaf_def put_header_def push_string_chunk_def Let_def PTR_SIZE_def)

text \<open>A pointer field agrees with an optional value: it is null when there is none.\<close>

definition points_to :: "usize \<Rightarrow> 'a option \<Rightarrow> bool" where
  "points_to p v \<longleftrightarrow> (p = 0 \<longleftrightarrow> v = None)"

section \<open>The primitive readers read them back\<close>

lemma length_put_header: "length (put_header b adr n) = align_up (length b) 8 + 16"
  using align_up_ge [of "length b" 8] by (simp add: put_header_def)

lemma reads_header: "reads chunk_header b (adr, n) (put_header b adr n)"
  unfolding reads_def
proof (intro conjI allI impI)
  show "prefix b (put_header b adr n)" by (simp add: put_header_def)
  fix B
  assume B: "prefix (put_header b adr n) B" and len: "length B \<le> slice_max"
  define p where "p = align_up (length b) 8"
  define pre where "pre = b @ replicate (align_up (length b) 8 - length b) 0"
  have pre: "length pre = p" using align_up_ge [of "length b" 8] by (simp add: pre_def p_def)
  from B obtain tl where "B = put_header b adr n @ tl" by (auto elim: prefixE)
  then have tl: "B = pre @ word_to_le adr @ word_to_le n @ tl"
    by (simp add: put_header_def pre_def)
  then have "header_at B p = (adr, n)"
    by (simp add: header_at_def pre [symmetric])
  moreover have "p + 16 \<le> length B" using tl pre by simp
  ultimately show "chunk_header \<lparr>buf = B, pos = length b\<rparr>
      = Ok ((adr, n), \<lparr>buf = B, pos = length (put_header b adr n)\<rparr>)"
    using chunk_header_Ok [of p "\<lparr>buf = B, pos = length b\<rparr>"] len
    by (simp add: p_def length_put_header bounds_num)
qed

lemma reads_raw:
  assumes "n = length x"
  shows "reads (\<lambda>c. read_raw c n) b x (b @ x)"
  unfolding reads_def
proof (intro conjI allI impI)
  show "prefix b (b @ x)" by simp
  fix B
  assume B: "prefix (b @ x) B" and "length B \<le> slice_max"
  then have "length b + n \<le> length B" "length b + n < usize_bound"
    using assms by (auto simp: bounds_num dest: prefix_length_le)
  moreover from B obtain tl where "B = (b @ x) @ tl" by (auto elim: prefixE)
  ultimately show "read_raw \<lparr>buf = B, pos = length b\<rparr> n
      = Ok (x, \<lparr>buf = B, pos = length (b @ x)\<rparr>)"
    using read_raw_Ok [of "\<lparr>buf = B, pos = length b\<rparr>" n] assms by simp
qed

lemma unat_size: "n \<le> slice_max + 2 ^ 32 \<Longrightarrow> unat (word_of_nat n :: usize) = n"
  by (simp add: unat_of_nat bounds_num)

lemma reads_leaf:
  assumes "length x \<le> slice_max"
  shows "reads leaf b (orig m (length b), x) (put_leaf m b x)"
proof -
  let ?n = "word_of_nat (16 + length x) :: usize"
  have n: "checked_sub (unat ?n) (2 * PTR_SIZE) = Some (length x)"
    using unat_size [of "16 + length x"] assms by (simp add: checked_sub_def PTR_SIZE_def)
  have "reads (\<lambda>c. and_then (read_raw c (length x)) (\<lambda>(y, c). Ok ((orig m (length b), y), c)))
      (put_header b (orig m (length b)) ?n) (orig m (length b), x) (put_leaf m b x)"
    unfolding put_leaf_def by (rule reads_and_then [OF reads_raw [OF refl] reads_Ok])
  then show ?thesis
    unfolding leaf_def [abs_def] Let_def
    by (intro reads_and_then [OF reads_header [of b "orig m (length b)" ?n]])
      (simp only: n prod.case option.case)
qed

lemma reads_opt_cstring [reads_intros]:
  assumes "points_to p v" and "pred_option (\<lambda>x. length x < slice_max \<and> utf8_valid x) v"
  shows "reads (\<lambda>c. read_opt_cstring c p) b v (put_cstring m b v)"
proof (cases v)
  case None
  with assms(1) show ?thesis
    by (simp add: points_to_def read_opt_cstring_def put_cstring_def reads_Ok)
next
  case (Some x)
  then have p: "p \<noteq> 0" and x: "length (x @ [0]) \<le> slice_max" "utf8_valid x"
    using assms by (auto simp: points_to_def)
  have s: "from_utf8_lossy (strip_nul (x @ [0])) = x"
    using x(2) by (simp add: strip_nul_def from_utf8_lossy_id)
  have "reads (\<lambda>c. and_then (leaf c) (\<lambda>((orig, body), c).
      Ok (Some (from_utf8_lossy (strip_nul body)), c))) b (Some x) (put_leaf m b (x @ [0]))"
    by (rule reads_and_then [OF reads_leaf [OF x(1), of b m]]) (simp add: s reads_Ok)
  then show ?thesis by (simp add: Some read_opt_cstring_def p put_cstring_def)
qed

lemma reads_opt_bytes [reads_intros]:
  assumes "points_to p v" and "pred_option (\<lambda>x. length x \<le> slice_max) v"
  shows "reads (\<lambda>c. read_opt_bytes c p) b v (put_bytes m b v)"
proof (cases v)
  case None
  with assms(1) show ?thesis
    by (simp add: points_to_def read_opt_bytes_def put_bytes_def reads_Ok)
next
  case (Some x)
  then have p: "p \<noteq> 0" and x: "length x \<le> slice_max"
    using assms by (auto simp: points_to_def)
  have "reads (\<lambda>c. and_then (leaf c) (\<lambda>((orig, body), c). Ok (Some body, c))) b (Some x)
      (put_leaf m b x)"
    by (rule reads_and_then [OF reads_leaf [OF x, of b m]]) (simp add: reads_Ok)
  then show ?thesis by (simp add: Some read_opt_bytes_def p put_bytes_def)
qed

text \<open>A structure chunk: for every type of plain data whose writer keeps the contract.\<close>

context pod_codec
begin

lemma reads_chunk_pod:
  assumes "valid x" and "pod_size P \<le> 2 ^ 16"
  shows "reads (read_chunk_pod P) b x (put_struct m b (pod_write P x))"
proof -
  let ?w = "pod_write P x"
  define n where "n = 16 + length ?w + unat (nested m (length b))"
  have "unat (nested m (length b)) < 2 ^ 32" using unsigned_less [of "nested m (length b)"] by simp
  then have n: "unat (word_of_nat n :: usize) = n" and ge: "16 + pod_size P \<le> n"
    using assms length_write [OF assms(1)]
    by (simp_all add: n_def unat_size bounds_num del: of_nat_add)
  have "reads (\<lambda>c. and_then (read_raw c (pod_size P)) (\<lambda>(b, c).
      and_then (read_pod P b) (\<lambda>v. Ok (v, c))))
      (put_header b (orig m (length b)) (word_of_nat n)) x
      (put_header b (orig m (length b)) (word_of_nat n) @ ?w)"
    by (rule reads_and_then [OF reads_raw [of "pod_size P" ?w]])
      (simp_all add: length_write [OF assms(1)] read_pod_def read_write [OF assms(1)] reads_Ok)
  then show ?thesis
    unfolding read_chunk_pod_def [abs_def] Let_def put_struct_def n_def [symmetric]
    by (intro reads_and_then [OF reads_header [of b "orig m (length b)" "word_of_nat n"]])
      (use n ge in \<open>simp add: PTR_SIZE_def\<close>)
qed

end

lemma reads_marker [reads_intros]: "reads consume_substruct_marker b () (put_marker m b)"
  unfolding consume_substruct_marker_def [abs_def] put_marker_def
  by (rule reads_and_then [OF reads_header]) (rule reads_Ok)

text \<open>The pointers to the next element of a chain: null exactly in the last element.\<close>

fun linked :: "('r \<Rightarrow> usize) \<Rightarrow> 'r list \<Rightarrow> bool" where
  "linked nxt [] = True"
| "linked nxt (r # rs) \<longleftrightarrow> (nxt r \<noteq> 0 \<longleftrightarrow> rs \<noteq> []) \<and> linked nxt rs"

definition head_of :: "usize \<Rightarrow> 'r list \<Rightarrow> bool" where
  "head_of p rs \<longleftrightarrow> (p \<noteq> 0 \<longleftrightarrow> rs \<noteq> [])"

text \<open>The rest of a chain, or a whole chain behind the pointer to its head.\<close>

lemma reads_chain:
  assumes "head_of p rs" and "rs \<noteq> [] \<Longrightarrow> reads d b v b'" and "rs = [] \<Longrightarrow> v = u \<and> b' = b"
  shows "reads (\<lambda>c. if p \<noteq> 0 then d c else Ok (u, c)) b v b'"
  using assms by (cases "rs = []") (simp_all add: head_of_def reads_Ok)

text \<open>A string of the daemon: UTF-8, and small enough to be in a message with its NUL.\<close>

definition c_text :: "rstring \<Rightarrow> bool" where
  "c_text x \<longleftrightarrow> length x < slice_max \<and> utf8_valid x"

lemmas reads_text = reads_opt_cstring [folded c_text_def]

definition blob :: "bytes \<Rightarrow> bool" where
  "blob x \<longleftrightarrow> length x \<le> slice_max"

lemmas reads_blob = reads_opt_bytes [folded blob_def]

text \<open>The value behind a pointer, which the decoder replaces by the empty one when null.\<close>

definition behind :: "usize \<Rightarrow> bytes \<Rightarrow> bytes option" where
  "behind p x = (if p = 0 then None else Some x)"

lemma points_to_behind [simp]: "points_to p (behind p x)"
  by (simp add: points_to_def behind_def)

lemma or_default_behind: "(p = 0 \<Longrightarrow> x = []) \<Longrightarrow> or_default (behind p x) = x"
  by (simp add: behind_def or_default_def)

lemma pred_behind: "Q x \<Longrightarrow> pred_option Q (behind p x)"
  by (simp add: behind_def)

section \<open>Interfaces\<close>

fun put_interfaces :: "marshal \<Rightarrow> bytes \<Rightarrow> (RawInterface \<times> Interface) list \<Rightarrow> bytes" where
  "put_interfaces m b [] = b"
| "put_interfaces m b ((r, i) # rs) =
     (let b = put_struct m b (pod_write RawInterface_pod r);
          b = put_interfaces m b rs;
          b = put_cstring m b (behind (RawInterface.name r) (Interface.name i))
      in put_cstring m b (Interface.alias' i))"

definition interface_image :: "RawInterface \<Rightarrow> Interface \<Rightarrow> bool" where
  "interface_image r i \<longleftrightarrow>
     (RawInterface.name r = 0 \<longrightarrow> Interface.name i = []) \<and> c_text (Interface.name i) \<and>
     points_to (RawInterface.alias' r) (Interface.alias' i) \<and>
     pred_option c_text (Interface.alias' i)"

definition interfaces_image :: "(RawInterface \<times> Interface) list \<Rightarrow> bool" where
  "interfaces_image rs \<longleftrightarrow> linked (\<lambda>x. next_tqe_next (fst x)) rs \<and>
     list_all (\<lambda>(r, i). interface_image r i) rs"

definition put_interface_list ::
  "marshal \<Rightarrow> RawInterfaceList \<Rightarrow> (RawInterface \<times> Interface) list \<Rightarrow> bytes" where
  "put_interface_list m r rs =
     put_interfaces m (put_struct m [] (pod_write RawInterfaceList_pod r)) rs"

lemmas pod_sizes = RawMgmt_pod_def RawVlan_pod_def RawPpvid_pod_def RawPi_pod_def RawChassis_pod_def
  RawPort_pod_def RawInterface_pod_def RawInterfaceList_pod_def RawHardware_pod_def
  RawHardwareWithFlagsPrevious_pod_def RawNeighborChange_pod_def RawPortSet_pod_def

lemma reads_interfaces:
  "rs \<noteq> [] \<Longrightarrow> interfaces_image rs \<Longrightarrow>
   reads decode_interface_chain b (map snd rs) (put_interfaces m b rs)"
proof (induction rs arbitrary: b)
  case Nil
  then show ?case by simp
next
  case (Cons x rs)
  obtain r i where x: "x = (r, i)" by (cases x)
  have img: "head_of (next_tqe_next r) rs" "interfaces_image rs" "interface_image r i"
    using Cons.prems by (simp_all add: x interfaces_image_def head_of_def)
  define b1 where "b1 = put_struct m b (pod_write RawInterface_pod r)"
  define b2 where "b2 = put_interfaces m b1 rs"
  define b3 where "b3 = put_cstring m b2 (behind (RawInterface.name r) (Interface.name i))"
  have s1: "reads (read_chunk_pod RawInterface_pod) b r b1"
    unfolding b1_def by (rule iface.reads_chunk_pod) (simp_all add: pod_sizes)
  have s2: "reads (\<lambda>c. if next_tqe_next r \<noteq> 0 then decode_interface_chain c else Ok ([], c))
      b1 (map snd rs) b2"
    unfolding b2_def using img(1) Cons.IH [OF _ img(2)] by (rule reads_chain) simp_all
  have s3: "reads (\<lambda>c. read_opt_cstring c (RawInterface.name r)) b2
      (behind (RawInterface.name r) (Interface.name i)) b3"
    unfolding b3_def using img(3)
    by (intro reads_text points_to_behind pred_behind) (simp add: interface_image_def)
  have s4: "reads (\<lambda>c. read_opt_cstring c (RawInterface.alias' r)) b3 (Interface.alias' i)
      (put_cstring m b3 (Interface.alias' i))"
    using img(3) by (intro reads_text) (simp_all add: interface_image_def)
  have v: "\<lparr>Interface.name = or_default (behind (RawInterface.name r) (Interface.name i)),
      alias' = Interface.alias' i\<rparr> = i"
    using img(3) by (simp add: or_default_behind interface_image_def)
  have "reads decode_interface_chain b (i # map snd rs) (put_cstring m b3 (Interface.alias' i))"
    by (subst decode_interface_chain.simps [abs_def], rule reads_and_then [OF s1],
        rule reads_and_then [OF s2], rule reads_and_then [OF s3], rule reads_and_then [OF s4])
      (simp add: v reads_Ok)
  then show ?case by (simp add: x Let_def b1_def b2_def b3_def)
qed

lemma interfaces_decoded:
  assumes "interfaces_image rs" and "head_of (tqh_first r) rs"
    and "length (put_interface_list m r rs @ rest) \<le> slice_max"
  shows "decode_interfaces (put_interface_list m r rs @ rest) = Ok (map snd rs)"
proof -
  define b1 where "b1 = put_struct m [] (pod_write RawInterfaceList_pod r)"
  have s1: "reads (read_chunk_pod RawInterfaceList_pod) [] r b1"
    unfolding b1_def by (rule iface_list.reads_chunk_pod) (simp_all add: pod_sizes)
  have s2: "reads (\<lambda>c. if tqh_first r \<noteq> 0 then decode_interface_chain c else Ok ([], c))
      b1 (map snd rs) (put_interfaces m b1 rs)"
    using assms(2) reads_interfaces [OF _ assms(1)] by (rule reads_chain) simp_all
  have "reads interfaces_reader [] (map snd rs) (put_interface_list m r rs)"
    unfolding interfaces_reader_def [abs_def] put_interface_list_def b1_def [symmetric]
    by (rule reads_and_then [OF s1], insert s2, cases "tqh_first r = 0") simp_all
  from reads_message [OF this assms(3)] show ?thesis
    by (simp add: decode_interfaces_reader)
qed

section \<open>Chassis\<close>

fun put_mgmt :: "marshal \<Rightarrow> bytes \<Rightarrow> RawMgmt list \<Rightarrow> bytes" where
  "put_mgmt m b [] = b"
| "put_mgmt m b (r # rs) = put_mgmt m (put_struct m b (pod_write RawMgmt_pod r)) rs"

definition mgmt_value :: "RawMgmt \<Rightarrow> ManagementAddress" where
  "mgmt_value r = \<lparr>family = m_family r, octets = take (unat (m_addrsize r)) (m_addr r),
     interface_index = m_iface r\<rparr>"

definition mgmt_image :: "RawMgmt list \<Rightarrow> bool" where
  "mgmt_image rs \<longleftrightarrow> linked RawMgmt.tqe_next rs \<and> list_all RawMgmt_ok rs"

text \<open>A chassis in the memory of the daemon: its raw structure, its addresses, its value.\<close>

record chassis_mem =
  c_raw :: RawChassis
  c_mgmt :: "RawMgmt list"
  c_value :: Chassis

definition put_chassis :: "marshal \<Rightarrow> bytes \<Rightarrow> chassis_mem \<Rightarrow> bytes" where
  "put_chassis m b x =
     (let r = c_raw x; v = c_value x; i = med v;
          b = put_struct m b (pod_write RawChassis_pod r);
          b = put_bytes m b (behind (c_id r) (Chassis.id' v));
          b = put_cstring m b (Chassis.name v);
          b = put_cstring m b (Chassis.description v);
          b = put_mgmt m b (c_mgmt x);
          b = put_cstring m b (hardware_revision i);
          b = put_cstring m b (firmware_revision i);
          b = put_cstring m b (software_revision i);
          b = put_cstring m b (serial_number i);
          b = put_cstring m b (manufacturer i);
          b = put_cstring m b (model i)
      in put_cstring m b (asset_id i))"

definition text_field :: "usize \<Rightarrow> rstring option \<Rightarrow> bool" where
  "text_field p v \<longleftrightarrow> points_to p v \<and> pred_option c_text v"

definition blob_field :: "usize \<Rightarrow> bytes option \<Rightarrow> bool" where
  "blob_field p v \<longleftrightarrow> points_to p v \<and> pred_option blob v"

definition chassis_image :: "chassis_mem \<Rightarrow> bool" where
  "chassis_image x \<longleftrightarrow>
     (let r = c_raw x; v = c_value x; i = med v in
      id_subtype v = ChassisIdSubtype_from (c_id_subtype r) \<and>
      (c_id r = 0 \<longrightarrow> Chassis.id' v = []) \<and> blob (Chassis.id' v) \<and>
      text_field (c_name r) (Chassis.name v) \<and>
      text_field (c_descr r) (Chassis.description v) \<and>
      capabilities_available v = Capabilities (c_cap_available r) \<and>
      capabilities_enabled v = Capabilities (c_cap_enabled r) \<and>
      mgmt_image (c_mgmt x) \<and> head_of (c_mgmt_tqh_first r) (c_mgmt x) \<and>
      management_addresses v = map mgmt_value (c_mgmt x) \<and>
      text_field (c_med_hw r) (hardware_revision i) \<and>
      text_field (c_med_fw r) (firmware_revision i) \<and>
      text_field (c_med_sw r) (software_revision i) \<and>
      text_field (c_med_sn r) (serial_number i) \<and>
      text_field (c_med_manuf r) (manufacturer i) \<and>
      text_field (c_med_model r) (model i) \<and>
      text_field (c_med_asset r) (asset_id i))"

lemma reads_text_field:
  "text_field p v \<Longrightarrow> reads (\<lambda>c. read_opt_cstring c p) b v (put_cstring m b v)"
  by (simp add: text_field_def reads_text)

lemma reads_blob_field:
  "blob_field p v \<Longrightarrow> reads (\<lambda>c. read_opt_bytes c p) b v (put_bytes m b v)"
  by (simp add: blob_field_def reads_blob)

lemma management_address_value: "RawMgmt_ok r \<Longrightarrow> management_address r = Ok (mgmt_value r)"
  by (simp add: management_address_def mgmt_value_def RawMgmt_ok_def Let_def
      ManagementAddress_new_def min_def)

lemma reads_mgmt:
  "rs \<noteq> [] \<Longrightarrow> mgmt_image rs \<Longrightarrow>
   reads decode_mgmt_chain b (map mgmt_value rs) (put_mgmt m b rs)"
proof (induction rs arbitrary: b)
  case Nil
  then show ?case by simp
next
  case (Cons r rs)
  have img: "head_of (RawMgmt.tqe_next r) rs" "mgmt_image rs" "RawMgmt_ok r"
    using Cons.prems by (simp_all add: mgmt_image_def head_of_def)
  define b1 where "b1 = put_struct m b (pod_write RawMgmt_pod r)"
  have s1: "reads (read_chunk_pod RawMgmt_pod) b r b1"
    unfolding b1_def using img(3) by (rule mgmt.reads_chunk_pod) (simp add: pod_sizes)
  have s2: "reads (\<lambda>c. if RawMgmt.tqe_next r \<noteq> 0 then decode_mgmt_chain c else Ok ([], c))
      b1 (map mgmt_value rs) (put_mgmt m b1 rs)"
    using img(1) Cons.IH [OF _ img(2)] by (rule reads_chain) simp_all
  have "reads decode_mgmt_chain b (mgmt_value r # map mgmt_value rs) (put_mgmt m b1 rs)"
    by (subst decode_mgmt_chain.simps [abs_def], rule reads_and_then [OF s1],
        rule reads_and_then [OF s2])
      (simp add: management_address_value [OF img(3)] reads_Ok)
  then show ?case by (simp add: b1_def)
qed

lemma reads_chassis:
  assumes "chassis_image x"
  shows "reads decode_chassis b (c_value x) (put_chassis m b x)"
proof -
  let ?r = "c_raw x" and ?v = "c_value x"
  let ?i = "med ?v"
  note img = assms [unfolded chassis_image_def Let_def]
  have id_field: "blob_field (c_id ?r) (behind (c_id ?r) (Chassis.id' ?v))"
    using img by (simp add: blob_field_def pred_behind)
  have s1: "reads (read_chunk_pod RawChassis_pod) b ?r (put_struct m b (pod_write RawChassis_pod ?r))"
    by (rule chassis.reads_chunk_pod) (simp_all add: pod_sizes)
  have s2: "reads (\<lambda>c. if c_mgmt_tqh_first ?r \<noteq> 0 then decode_mgmt_chain c else Ok ([], c))
      b (map mgmt_value (c_mgmt x)) (put_mgmt m b (c_mgmt x))" for b
    by (rule reads_chain [where rs = "c_mgmt x"]) (use img in \<open>simp_all add: reads_mgmt\<close>)
  have v: "\<lparr>id_subtype = ChassisIdSubtype_from (c_id_subtype ?r),
      id' = or_default (behind (c_id ?r) (Chassis.id' ?v)),
      Chassis.name = Chassis.name ?v, description = Chassis.description ?v,
      capabilities_available = Capabilities (c_cap_available ?r),
      capabilities_enabled = Capabilities (c_cap_enabled ?r),
      management_addresses = map mgmt_value (c_mgmt x),
      med = \<lparr>hardware_revision = hardware_revision ?i, firmware_revision = firmware_revision ?i,
        software_revision = software_revision ?i, serial_number = serial_number ?i,
        manufacturer = manufacturer ?i, model = model ?i, asset_id = asset_id ?i\<rparr>\<rparr> = ?v"
    using img by (simp add: or_default_behind)
  show ?thesis
    unfolding decode_chassis_def [abs_def] put_chassis_def Let_def
    by (rule reads_and_then [OF s1], rule reads_and_then [OF reads_blob_field [where m = m, OF id_field]],
        rule reads_and_then [OF reads_text_field [where m = m]], use img in blast,
        rule reads_and_then [OF reads_text_field [where m = m]], use img in blast,
        rule reads_and_then [OF s2],
        (rule reads_and_then [OF reads_text_field [where m = m]], use img in blast)+)
      (simp only: v reads_Ok)
qed

section \<open>Ports\<close>

text \<open>A port in the memory of the daemon, with what its fields point to.\<close>

record port_mem =
  p_raw :: RawPort
  p_ident :: "bytes option"
  p_description :: "rstring option"
  p_pattern :: "rstring option"
  p_locations :: "bytes option list"
  p_vlans :: "(RawVlan \<times> rstring option) list"
  p_ppvids :: "RawPpvid list"
  p_pis :: "(RawPi \<times> bytes option) list"

fun put_locations :: "marshal \<Rightarrow> bytes \<Rightarrow> bytes option list \<Rightarrow> bytes" where
  "put_locations m b [] = b"
| "put_locations m b (v # vs) = put_locations m (put_bytes m (put_marker m b) v) vs"

fun put_vlans :: "marshal \<Rightarrow> bytes \<Rightarrow> (RawVlan \<times> rstring option) list \<Rightarrow> bytes" where
  "put_vlans m b [] = b"
| "put_vlans m b ((r, v) # rs) =
     put_cstring m (put_vlans m (put_struct m b (pod_write RawVlan_pod r)) rs) v"

fun put_ppvids :: "marshal \<Rightarrow> bytes \<Rightarrow> RawPpvid list \<Rightarrow> bytes" where
  "put_ppvids m b [] = b"
| "put_ppvids m b (r # rs) = put_ppvids m (put_struct m b (pod_write RawPpvid_pod r)) rs"

fun put_pis :: "marshal \<Rightarrow> bytes \<Rightarrow> (RawPi \<times> bytes option) list \<Rightarrow> bytes" where
  "put_pis m b [] = b"
| "put_pis m b ((r, v) # rs) =
     put_bytes m (put_pis m (put_struct m b (pod_write RawPi_pod r)) rs) v"

definition vlans_image :: "(RawVlan \<times> rstring option) list \<Rightarrow> bool" where
  "vlans_image rs \<longleftrightarrow> linked (\<lambda>x. RawVlan.tqe_next (fst x)) rs \<and>
     list_all (\<lambda>(r, v). text_field (v_name r) v) rs"

definition pis_image :: "(RawPi \<times> bytes option) list \<Rightarrow> bool" where
  "pis_image rs \<longleftrightarrow> linked (\<lambda>x. RawPi.tqe_next (fst x)) rs \<and>
     list_all (\<lambda>(r, v). blob_field (p_pi r) v) rs"

lemma reads_locations:
  "list_all2 (\<lambda>loc v. blob_field (data loc) v) locs vs \<Longrightarrow>
   reads (\<lambda>c. decode_med_locations c locs) b () (put_locations m b vs)"
proof (induction arbitrary: b rule: list_all2_induct)
  case Nil
  then show ?case by (simp add: reads_Ok)
next
  case (Cons loc locs v vs)
  have "reads (\<lambda>c. decode_med_location_marker c loc) b () (put_bytes m (put_marker m b) v)"
  proof (cases "data loc = 0")
    case True
    with Cons.hyps have "v = None" by (simp add: blob_field_def points_to_def)
    with True show ?thesis
      unfolding decode_med_location_marker_def [abs_def]
      by (intro reads_and_then [OF reads_marker [of b m]]) (simp add: put_bytes_def reads_Ok)
  next
    case False
    with reads_and_then [OF reads_blob_field [OF Cons.hyps(1)] reads_Ok]
    show ?thesis
      unfolding decode_med_location_marker_def [abs_def]
      by (intro reads_and_then [OF reads_marker [of b m]]) simp
  qed
  from reads_and_then [OF this Cons.IH] show ?case by simp
qed

lemma reads_vlans:
  "rs \<noteq> [] \<Longrightarrow> vlans_image rs \<Longrightarrow> reads discard_vlan_chain b () (put_vlans m b rs)"
proof (induction rs arbitrary: b)
  case Nil
  then show ?case by simp
next
  case (Cons x rs)
  obtain r v where x: "x = (r, v)" by (cases x)
  have img: "head_of (RawVlan.tqe_next r) rs" "vlans_image rs" "text_field (v_name r) v"
    using Cons.prems by (simp_all add: x vlans_image_def head_of_def)
  have s1: "reads (read_chunk_pod RawVlan_pod) b r (put_struct m b (pod_write RawVlan_pod r))"
    by (rule vlan.reads_chunk_pod) (simp_all add: pod_sizes)
  have s2: "reads (\<lambda>c. if RawVlan.tqe_next r \<noteq> 0 then discard_vlan_chain c else Ok ((), c))
      b () (put_vlans m b rs)" for b
    using img(1) Cons.IH [OF _ img(2)] by (rule reads_chain) simp_all
  show ?case
    by (subst discard_vlan_chain.simps [abs_def], unfold x put_vlans.simps,
        rule reads_and_then [OF s1], rule reads_and_then [OF s2],
        rule reads_and_then [OF reads_text_field [OF img(3)]], rule reads_Ok)
qed

lemma reads_ppvids:
  "rs \<noteq> [] \<Longrightarrow> linked RawPpvid.tqe_next rs \<Longrightarrow>
   reads discard_ppvid_chain b () (put_ppvids m b rs)"
proof (induction rs arbitrary: b)
  case Nil
  then show ?case by simp
next
  case (Cons r rs)
  have img: "head_of (RawPpvid.tqe_next r) rs" "linked RawPpvid.tqe_next rs"
    using Cons.prems by (simp_all add: head_of_def)
  have s1: "reads (read_chunk_pod RawPpvid_pod) b r (put_struct m b (pod_write RawPpvid_pod r))"
    by (rule ppvid.reads_chunk_pod) (simp_all add: pod_sizes)
  have s2: "reads (\<lambda>c. if RawPpvid.tqe_next r \<noteq> 0 then discard_ppvid_chain c else Ok ((), c))
      b () (put_ppvids m b rs)" for b
    using img(1) Cons.IH [OF _ img(2)] by (rule reads_chain) simp_all
  show ?case
    by (subst discard_ppvid_chain.simps [abs_def], unfold put_ppvids.simps,
        rule reads_and_then [OF s1], rule s2)
qed

lemma reads_pis:
  "rs \<noteq> [] \<Longrightarrow> pis_image rs \<Longrightarrow> reads discard_pi_chain b () (put_pis m b rs)"
proof (induction rs arbitrary: b)
  case Nil
  then show ?case by simp
next
  case (Cons x rs)
  obtain r v where x: "x = (r, v)" by (cases x)
  have img: "head_of (RawPi.tqe_next r) rs" "pis_image rs" "blob_field (p_pi r) v"
    using Cons.prems by (simp_all add: x pis_image_def head_of_def)
  have s1: "reads (read_chunk_pod RawPi_pod) b r (put_struct m b (pod_write RawPi_pod r))"
    by (rule pi_tlv.reads_chunk_pod) (simp_all add: pod_sizes)
  have s2: "reads (\<lambda>c. if RawPi.tqe_next r \<noteq> 0 then discard_pi_chain c else Ok ((), c))
      b () (put_pis m b rs)" for b
    using img(1) Cons.IH [OF _ img(2)] by (rule reads_chain) simp_all
  show ?case
    by (subst discard_pi_chain.simps [abs_def], unfold x put_pis.simps,
        rule reads_and_then [OF s1], rule reads_and_then [OF s2],
        rule reads_and_then [OF reads_blob_field [OF img(3)]], rule reads_Ok)
qed

end
