(* ===== verification/Roundtrip.thy ===== *)
theory Roundtrip
  imports Messages
begin

text \<open>
  The messages with ports: what \<open>GET_INTERFACE\<close> answers and what a notification holds. The
  memory of the daemon is a map from addresses to chassis; a chassis is marshalled where a port
  first points to it, and later ports that point to it have only the address. \<open>seen\<close> are the
  addresses marshalled so far, and the decoder's cache is the memory restricted to them: this
  is what makes both sides agree on which chunks there are.
\<close>

type_synonym memory = "usize \<Rightarrow> chassis_mem"

definition cache_of :: "memory \<Rightarrow> usize set \<Rightarrow> ChassisCache" where
  "cache_of mem seen = (\<lambda>p. if p \<in> seen then Some (c_value (mem p)) else None)"

definition chassis_behind :: "memory \<Rightarrow> usize \<Rightarrow> Chassis option" where
  "chassis_behind mem p = (if p = 0 then None else Some (c_value (mem p)))"

definition put_port_chassis ::
  "marshal \<Rightarrow> memory \<Rightarrow> bytes \<times> usize set \<Rightarrow> usize \<Rightarrow> bytes \<times> usize set" where
  "put_port_chassis m mem bs p =
     (if p = 0 \<or> p \<in> snd bs then bs
      else (put_chassis m (fst bs) (mem p), insert p (snd bs)))"

definition put_port_fields ::
  "marshal \<Rightarrow> memory \<Rightarrow> bytes \<times> usize set \<Rightarrow> port_mem \<Rightarrow> bytes \<times> usize set" where
  "put_port_fields m mem bs x =
     (let (b, seen) = put_port_chassis m mem bs (p_chassis (p_raw x));
          b = put_bytes m b (p_ident x);
          b = put_cstring m b (p_description x);
          b = put_cstring m b (p_pattern x);
          b = put_locations m b (p_locations x);
          b = put_vlans m b (p_vlans x);
          b = put_ppvids m b (p_ppvids x);
          b = put_pis m b (p_pis x)
      in (b, seen))"

fun put_neighbors ::
  "marshal \<Rightarrow> memory \<Rightarrow> bytes \<times> usize set \<Rightarrow> port_mem list \<Rightarrow> bytes \<times> usize set" where
  "put_neighbors m mem bs [] = bs"
| "put_neighbors m mem bs (x # xs) =
     put_port_fields m mem
       (put_neighbors m mem (put_struct m (fst bs) (pod_write RawPort_pod (p_raw x)), snd bs) xs) x"

definition memory_image :: "memory \<Rightarrow> bool" where
  "memory_image mem \<longleftrightarrow> (\<forall>p. p \<noteq> 0 \<longrightarrow> chassis_image (mem p))"

definition port_image :: "port_mem \<Rightarrow> bool" where
  "port_image x \<longleftrightarrow>
     (let r = p_raw x in
      RawPort_ok r \<and> blob_field (p_id r) (p_ident x) \<and>
      text_field (p_descr r) (p_description x) \<and>
      text_field (p_vlan_advertise_pattern r) (p_pattern x) \<and>
      list_all2 (\<lambda>loc v. blob_field (data loc) v) (p_med_location r) (p_locations x) \<and>
      head_of (p_vlans_tqh_first r) (p_vlans x) \<and> vlans_image (p_vlans x) \<and>
      head_of (p_ppvids_tqh_first r) (p_ppvids x) \<and> linked RawPpvid.tqe_next (p_ppvids x) \<and>
      head_of (p_pids_tqh_first r) (p_pis x) \<and> pis_image (p_pis x))"

definition neighbors_image :: "port_mem list \<Rightarrow> bool" where
  "neighbors_image xs \<longleftrightarrow> linked (\<lambda>x. RawPort.tqe_next (p_raw x)) xs \<and>
     list_all (\<lambda>x. port_image x \<and> p_chassis (p_raw x) \<noteq> 0) xs"

text \<open>The values these ports stand for.\<close>

definition fields_value :: "memory \<Rightarrow> port_mem \<Rightarrow> PortFields" where
  "fields_value mem x = \<lparr>PortFields.chassis = chassis_behind mem (p_chassis (p_raw x)),
     id' = p_ident x, description = p_description x\<rparr>"

definition neighbor_value :: "memory \<Rightarrow> port_mem \<Rightarrow> Neighbor" where
  "neighbor_value mem x = \<lparr>Neighbor.chassis = c_value (mem (p_chassis (p_raw x))),
     port_id_subtype = PortIdSubtype_from (p_id_subtype (p_raw x)),
     port_id = or_default (p_ident x), port_description = p_description x,
     ttl = p_ttl (p_raw x)\<rparr>"

lemma reads_port_chassis:
  assumes "memory_image mem" and "put_port_chassis m mem (b, seen) (p_chassis r) = (b', seen')"
  shows "reads (\<lambda>c. decode_port_chassis c r (cache_of mem seen)) b
      (chassis_behind mem (p_chassis r), cache_of mem seen') b'"
proof (cases "p_chassis r = 0 \<or> p_chassis r \<in> seen")
  case True
  then have "b' = b" "seen' = seen" using assms(2) by (simp_all add: put_port_chassis_def)
  with True show ?thesis
    by (auto simp: decode_port_chassis_def chassis_behind_def cache_of_def reads_Ok)
next
  case False
  then have b': "b' = put_chassis m b (mem (p_chassis r))" and s: "seen' = insert (p_chassis r) seen"
    using assms(2) by (simp_all add: put_port_chassis_def)
  have img: "chassis_image (mem (p_chassis r))"
    using assms(1) False by (simp add: memory_image_def)
  have none: "cache_of mem seen (p_chassis r) = None" using False by (simp add: cache_of_def)
  have upd: "(cache_of mem seen)(p_chassis r \<mapsto> c_value (mem (p_chassis r)))
      = cache_of mem (insert (p_chassis r) seen)"
    by (auto simp: cache_of_def)
  have "reads (\<lambda>c. and_then (decode_chassis c) (\<lambda>(decoded, c).
      Ok ((Some decoded, (cache_of mem seen)(p_chassis r \<mapsto> decoded)), c))) b
      (Some (c_value (mem (p_chassis r))), cache_of mem seen') b'"
    unfolding b' s upd [symmetric]
    by (rule reads_and_then [OF reads_chassis [OF img] reads_Ok])
  with False none show ?thesis by (simp add: decode_port_chassis_def chassis_behind_def)
qed

lemma reads_port_fields:
  assumes "memory_image mem" and "port_image x"
    and "put_port_fields m mem (b, seen) x = (b', seen')"
  shows "reads (\<lambda>c. decode_port_fields c (p_raw x) (cache_of mem seen)) b
      (fields_value mem x, cache_of mem seen') b'"
proof -
  let ?r = "p_raw x"
  note img = assms(2) [unfolded port_image_def Let_def]
  obtain b1 where ch: "put_port_chassis m mem (b, seen) (p_chassis ?r) = (b1, seen')"
    using assms(3) by (auto simp: put_port_fields_def Let_def split: prod.splits)
  have b': "b' = put_pis m (put_ppvids m (put_vlans m (put_locations m (put_cstring m
      (put_cstring m (put_bytes m b1 (p_ident x)) (p_description x)) (p_pattern x))
      (p_locations x)) (p_vlans x)) (p_ppvids x)) (p_pis x)"
    using assms(3) by (simp add: put_port_fields_def Let_def ch)
  have s1: "reads (\<lambda>c. decode_med_locations c (p_med_location ?r)) b ()
      (put_locations m b (p_locations x))" for b
    by (rule reads_locations) (use img in blast)
  have s2: "reads (\<lambda>c. if p_vlans_tqh_first ?r \<noteq> 0 then discard_vlan_chain c else Ok ((), c))
      b () (put_vlans m b (p_vlans x))" for b
    by (rule reads_chain [where rs = "p_vlans x"]) (use img in \<open>simp_all add: reads_vlans\<close>)
  have s3: "reads (\<lambda>c. if p_ppvids_tqh_first ?r \<noteq> 0 then discard_ppvid_chain c else Ok ((), c))
      b () (put_ppvids m b (p_ppvids x))" for b
    by (rule reads_chain [where rs = "p_ppvids x"]) (use img in \<open>simp_all add: reads_ppvids\<close>)
  have s4: "reads (\<lambda>c. if p_pids_tqh_first ?r \<noteq> 0 then discard_pi_chain c else Ok ((), c))
      b () (put_pis m b (p_pis x))" for b
    by (rule reads_chain [where rs = "p_pis x"]) (use img in \<open>simp_all add: reads_pis\<close>)
  show ?thesis
    unfolding decode_port_fields_def b' fields_value_def
    by (rule reads_and_then [OF reads_port_chassis [OF assms(1) ch]], unfold prod.case,
        rule reads_and_then [OF reads_blob_field [where m = m]], use img in blast,
        rule reads_and_then [OF reads_text_field [where m = m]], use img in blast,
        rule reads_and_then [OF reads_text_field [where m = m]], use img in blast,
        rule reads_and_then [OF s1], rule reads_and_then [OF s2], rule reads_and_then [OF s3],
        rule reads_and_then [OF s4])
      (simp only: prod.case reads_Ok)
qed

lemma reads_build_neighbor:
  assumes "memory_image mem" and "port_image x" and "p_chassis (p_raw x) \<noteq> 0"
    and "put_port_fields m mem (b, seen) x = (b', seen')"
  shows "reads (\<lambda>c. build_neighbor c (p_raw x) (cache_of mem seen)) b
      (neighbor_value mem x, cache_of mem seen') b'"
proof -
  have "PortFields.chassis (fields_value mem x) = Some (c_value (mem (p_chassis (p_raw x))))"
    using assms(3) by (simp add: fields_value_def chassis_behind_def)
  then show ?thesis
    unfolding build_neighbor_def
    by (intro reads_and_then [OF reads_port_fields [OF assms(1,2,4)]])
      (simp add: neighbor_value_def fields_value_def reads_Ok)
qed

lemma reads_neighbors:
  "xs \<noteq> [] \<Longrightarrow> memory_image mem \<Longrightarrow> neighbors_image xs \<Longrightarrow>
   put_neighbors m mem (b, seen) xs = (b', seen') \<Longrightarrow>
   reads (\<lambda>c. decode_neighbor_chain c (cache_of mem seen)) b
     (map (neighbor_value mem) xs, cache_of mem seen') b'"
proof (induction xs arbitrary: b b' seen seen')
  case Nil
  then show ?case by simp
next
  case (Cons x xs)
  let ?r = "p_raw x"
  have img: "head_of (RawPort.tqe_next ?r) xs" "neighbors_image xs" "port_image x"
      "p_chassis ?r \<noteq> 0"
    using Cons.prems(3) by (simp_all add: neighbors_image_def head_of_def)
  define b1 where "b1 = put_struct m b (pod_write RawPort_pod ?r)"
  obtain b2 seen2 where n: "put_neighbors m mem (b1, seen) xs = (b2, seen2)" by fastforce
  have f: "put_port_fields m mem (b2, seen2) x = (b', seen')"
    using Cons.prems(4) n by (simp add: b1_def)
  have s1: "reads (read_chunk_pod RawPort_pod) b ?r b1"
    unfolding b1_def by (rule port.reads_chunk_pod)
      (use img(3) in \<open>simp_all add: port_image_def Let_def pod_sizes\<close>)
  have s2: "reads (\<lambda>c. if RawPort.tqe_next ?r \<noteq> 0
        then decode_neighbor_chain c (cache_of mem seen) else Ok (([], cache_of mem seen), c))
      b1 (map (neighbor_value mem) xs, cache_of mem seen2) b2"
    using img(1) Cons.IH [OF _ Cons.prems(2) img(2) n]
    by (rule reads_chain) (use n in simp_all)
  show ?case
    by (subst decode_neighbor_chain.simps [abs_def], rule reads_and_then [OF s1],
        rule reads_and_then [OF s2], unfold prod.case,
        rule reads_and_then [OF reads_build_neighbor [OF Cons.prems(2) img(3,4) f]])
      (simp only: prod.case list.map reads_Ok)
qed

section \<open>The reply to \<open>GET_INTERFACE\<close>\<close>

text \<open>
  The structure of the port of the interface is part of the structure of the hardware, so
  only a header of its own stands for it.
\<close>

definition put_hardware ::
  "marshal \<Rightarrow> memory \<Rightarrow> 'a pod \<Rightarrow> 'a \<Rightarrow> port_mem \<Rightarrow> port_mem list \<Rightarrow> rstring option \<Rightarrow> bytes" where
  "put_hardware m mem P r lport ns al =
     (let b = put_struct m [] (pod_write P r);
          b = put_marker m b;
          (b, seen) = put_port_fields m mem (b, {}) lport;
          (b, seen) = put_neighbors m mem (b, seen) ns
      in put_cstring m b al)"

definition hardware_image ::
  "'a HardwareFields \<Rightarrow> 'a \<Rightarrow> port_mem \<Rightarrow> port_mem list \<Rightarrow> rstring option \<Rightarrow> bool" where
  "hardware_image T r lport ns al \<longleftrightarrow>
     p_raw lport = h_lport T r \<and> RawPort.tqe_next (p_raw lport) = 0 \<and> port_image lport \<and>
     head_of (h_rports_tqh_first T r) ns \<and> neighbors_image ns \<and> text_field (h_ifalias T r) al"

definition hardware_value ::
  "memory \<Rightarrow> 'a HardwareFields \<Rightarrow> 'a \<Rightarrow> port_mem \<Rightarrow> port_mem list \<Rightarrow> rstring option \<Rightarrow>
   InterfaceDetails" where
  "hardware_value mem T r lport ns al =
     \<lparr>InterfaceDetails.name = from_utf8_lossy (takeWhile (\<lambda>x. x \<noteq> 0) (h_ifname T r)),
      alias' = al, mac_address = h_lladdr T r,
      local_chassis = chassis_behind mem (p_chassis (p_raw lport)),
      neighbors = map (neighbor_value mem) ns\<rparr>"

lemma cache_of_empty: "cache_of mem {} = Map.empty"
  by (simp add: cache_of_def)

context pod_codec
begin

lemma reads_hardware:
  assumes "memory_image mem" and "hardware_image T r lport ns al"
    and "valid r" and "pod_size P \<le> 2 ^ 16"
  shows "reads (decode_hardware_body P T) [] (hardware_value mem T r lport ns al)
      (put_hardware m mem P r lport ns al)"
proof -
  note img = assms(2) [unfolded hardware_image_def]
  define b1 where "b1 = put_struct m [] (pod_write P r)"
  obtain b2 seen2 where f: "put_port_fields m mem (put_marker m b1, {}) lport = (b2, seen2)"
    by fastforce
  obtain b3 seen3 where n: "put_neighbors m mem (b2, seen2) ns = (b3, seen3)" by fastforce
  have msg: "put_hardware m mem P r lport ns al = put_cstring m b3 al"
    by (simp add: put_hardware_def Let_def b1_def [symmetric] f n)
  have s1: "reads (read_chunk_pod P) [] r b1"
    unfolding b1_def by (rule reads_chunk_pod [OF assms(3,4)])
  have s2: "reads (\<lambda>c. decode_port_fields c (h_lport T r) Map.empty) (put_marker m b1)
      (fields_value mem lport, cache_of mem seen2) b2"
    using reads_port_fields [OF assms(1) _ f] img by (simp add: cache_of_empty)
  have s3: "reads (\<lambda>c. if h_rports_tqh_first T r \<noteq> 0
        then decode_neighbor_chain c (cache_of mem seen2) else Ok (([], cache_of mem seen2), c))
      b2 (map (neighbor_value mem) ns, cache_of mem seen3) b3"
  proof (rule reads_chain)
    show "head_of (h_rports_tqh_first T r) ns" using img by simp
    show "ns \<noteq> [] \<Longrightarrow> reads (\<lambda>c. decode_neighbor_chain c (cache_of mem seen2)) b2
        (map (neighbor_value mem) ns, cache_of mem seen3) b3"
      using reads_neighbors [OF _ assms(1) _ n] img by simp
    show "ns = [] \<Longrightarrow> (map (neighbor_value mem) ns, cache_of mem seen3) = ([], cache_of mem seen2) \<and>
        b3 = b2" using n by simp
  qed
  have s4: "reads (\<lambda>c. read_opt_cstring c (h_ifalias T r)) b3 al (put_cstring m b3 al)"
    using img by (intro reads_text_field) simp
  have nochain: "\<not> RawPort.tqe_next (h_lport T r) \<noteq> 0" using img by metis
  show ?thesis
    unfolding decode_hardware_body_def [abs_def] msg
    by (rule reads_and_then [OF s1], rule reads_and_then [OF reads_marker],
        rule reads_if_False [OF nochain], rule reads_and_then [OF s2], unfold prod.case,
        rule reads_and_then [OF s3], unfold prod.case, rule reads_and_then [OF s4])
      (simp add: slice_nul_position hardware_value_def fields_value_def reads_Ok)
qed

lemma hardware_as_decoded:
  assumes "memory_image mem" and "hardware_image T r lport ns al"
    and "valid r" and "pod_size P \<le> 2 ^ 16"
    and "length (put_hardware m mem P r lport ns al @ rest) \<le> slice_max"
  shows "decode_hardware_as P T (put_hardware m mem P r lport ns al @ rest) =
      (if rest = [] then Ok (hardware_value mem T r lport ns al) else Err layout_mismatch)"
  using reads_message [OF reads_hardware [OF assms(1-4)] assms(5)]
  by (simp add: decode_hardware_as_def is_exhausted_def)

end

section \<open>A notification\<close>

definition put_change ::
  "marshal \<Rightarrow> memory \<Rightarrow> RawNeighborChange \<Rightarrow> rstring \<Rightarrow> rstring option \<Rightarrow> port_mem option \<Rightarrow> bytes" where
  "put_change m mem r nm al n =
     (let b = put_struct m [] (pod_write RawNeighborChange_pod r);
          b = put_cstring m b (behind (RawNeighborChange.ifname r) nm);
          b = put_cstring m b al
      in case n of None \<Rightarrow> b
         | Some x \<Rightarrow>
             fst (put_port_fields m mem (put_struct m b (pod_write RawPort_pod (p_raw x)), {}) x))"

definition change_image ::
  "RawNeighborChange \<Rightarrow> rstring \<Rightarrow> rstring option \<Rightarrow> port_mem option \<Rightarrow> bool" where
  "change_image r nm al n \<longleftrightarrow>
     (RawNeighborChange.ifname r = 0 \<longrightarrow> nm = []) \<and> c_text nm \<and> text_field (ifalias r) al \<and>
     points_to (RawNeighborChange.neighbor r) n \<and>
     pred_option (\<lambda>x. RawPort.tqe_next (p_raw x) = 0 \<and> port_image x \<and> p_chassis (p_raw x) \<noteq> 0) n"

definition change_value ::
  "memory \<Rightarrow> RawNeighborChange \<Rightarrow> rstring \<Rightarrow> rstring option \<Rightarrow> port_mem option \<Rightarrow>
   NeighborChange" where
  "change_value mem r nm al n =
     \<lparr>interface = nm, interface_alias = al, kind = NeighborChangeKind_from (state r),
      NeighborChange.neighbor = map_option (neighbor_value mem) n\<rparr>"

lemma reads_notified:
  assumes "memory_image mem" and "port_image x" and "p_chassis (p_raw x) \<noteq> 0"
    and "RawPort.tqe_next (p_raw x) = 0" and "p \<noteq> 0"
  shows "reads (\<lambda>c. decode_notified_neighbor c p) b (Some (neighbor_value mem x))
      (fst (put_port_fields m mem (put_struct m b (pod_write RawPort_pod (p_raw x)), {}) x))"
proof -
  define b1 where "b1 = put_struct m b (pod_write RawPort_pod (p_raw x))"
  obtain b2 seen2 where f: "put_port_fields m mem (b1, {}) x = (b2, seen2)" by fastforce
  have s1: "reads (read_chunk_pod RawPort_pod) b (p_raw x) b1"
    unfolding b1_def by (rule port.reads_chunk_pod)
      (use assms(2) in \<open>simp_all add: port_image_def Let_def pod_sizes\<close>)
  have s2: "reads (\<lambda>c. build_neighbor c (p_raw x) Map.empty) b1
      (neighbor_value mem x, cache_of mem seen2) b2"
    using reads_build_neighbor [OF assms(1-3) f] by (simp add: cache_of_empty)
  have "reads (\<lambda>c. and_then (build_neighbor c (p_raw x) Map.empty) (\<lambda>((n, cache), c).
      Ok (Some n, c))) b1 (Some (neighbor_value mem x)) b2"
    by (rule reads_and_then [OF s2]) (simp only: prod.case reads_Ok)
  then show ?thesis
    unfolding decode_notified_neighbor_def b1_def [symmetric] f fst_conv
    by (intro reads_if_False [of "p = 0"] reads_and_then [OF s1] reads_if_False)
      (use assms(4,5) in simp_all)
qed

lemma change_decoded:
  assumes "memory_image mem" and "change_image r nm al n"
    and "length (put_change m mem r nm al n @ rest) \<le> slice_max"
  shows "decode_neighbor_change (put_change m mem r nm al n @ rest) =
      Ok (change_value mem r nm al n)"
proof -
  note img = assms(2) [unfolded change_image_def]
  define b1 where "b1 = put_struct m [] (pod_write RawNeighborChange_pod r)"
  define b2 where "b2 = put_cstring m b1 (behind (RawNeighborChange.ifname r) nm)"
  define b3 where "b3 = put_cstring m b2 al"
  define b4 where "b4 = (case n of None \<Rightarrow> b3 | Some x \<Rightarrow>
      fst (put_port_fields m mem (put_struct m b3 (pod_write RawPort_pod (p_raw x)), {}) x))"
  have msg: "put_change m mem r nm al n = b4"
    unfolding put_change_def Let_def b1_def b2_def b3_def b4_def by (rule refl)
  have s1: "reads (read_chunk_pod RawNeighborChange_pod) [] r b1"
    unfolding b1_def by (rule change.reads_chunk_pod) (simp_all add: pod_sizes)
  have s2: "reads (\<lambda>c. read_opt_cstring c (RawNeighborChange.ifname r)) b1
      (behind (RawNeighborChange.ifname r) nm) b2"
    unfolding b2_def using img by (intro reads_text points_to_behind pred_behind) simp
  have s3: "reads (\<lambda>c. read_opt_cstring c (ifalias r)) b2 al b3"
    unfolding b3_def using img by (intro reads_text_field) simp
  have s4: "reads (\<lambda>c. decode_notified_neighbor c (RawNeighborChange.neighbor r)) b3
      (map_option (neighbor_value mem) n) b4"
  proof (cases n)
    case None
    with img show ?thesis
      by (simp add: points_to_def decode_notified_neighbor_def b4_def reads_Ok)
  next
    case (Some x)
    with img show ?thesis
      by (simp add: points_to_def b4_def reads_notified [OF assms(1)])
  qed
  have "or_default (behind (RawNeighborChange.ifname r) nm) = nm"
    using img by (intro or_default_behind) simp
  then have "reads change_reader [] (change_value mem r nm al n) (put_change m mem r nm al n)"
    unfolding change_reader_def [abs_def] msg
    by (intro reads_and_then [OF s1] reads_and_then [OF s2] reads_and_then [OF s3]
        reads_and_then [OF s4]) (simp add: change_value_def reads_Ok)
  from reads_message [OF this assms(3)] show ?thesis
    by (simp add: decode_neighbor_change_reader)
qed

end
