(* ===== verification/Requests.thy ===== *)
theory Requests
  imports Roundtrip
begin

text \<open>
  What the daemon reads in the requests the client builds (src/wire/mod.rs), and the two
  messages the tests of the repository hold as captured from a real daemon, evaluated.

  \<open>read_set_port\<close> reads a \<open>SET_PORT\<close> payload with the cursor of the crate: the structure, and
  the two strings its pointers announce, in the order of the fields.
\<close>

section \<open>The \<open>GET_INTERFACE\<close> request\<close>

definition plain :: marshal where
  "plain = \<lparr>orig = (\<lambda>_. 1), nested = (\<lambda>_. 0)\<rparr>"

lemma encode_interface_name_request_leaf:
  "encode_interface_name_request nm = put_cstring plain [] (Some nm)"
  by (simp add: encode_interface_name_request_def put_cstring_def put_leaf_def put_header_def
      plain_def Let_def PTR_SIZE_def align_up_def)

lemma interface_name_request_read:
  assumes "utf8_valid nm" and "length nm + 17 \<le> slice_max" and "p \<noteq> 0"
  shows "read_opt_cstring (cursor_new (encode_interface_name_request nm)) p =
    Ok (Some nm, \<lparr>buf = encode_interface_name_request nm,
      pos = length (encode_interface_name_request nm)\<rparr>)"
proof -
  have "reads (\<lambda>c. read_opt_cstring c p) [] (Some nm) (encode_interface_name_request nm)"
    unfolding encode_interface_name_request_leaf using assms
    by (intro reads_text) (simp_all add: points_to_def c_text_def)
  from reads_message [OF this, of "[]"] assms(2) show ?thesis
    by (simp add: encode_interface_name_request_def Let_def PTR_SIZE_def)
qed

section \<open>The \<open>SET_PORT\<close> request\<close>

definition read_set_port ::
  "bytes \<Rightarrow> (RawPortSet \<times> rstring option \<times> rstring option \<times> bool) res" where
  "read_set_port payload =
     and_then (read_chunk_pod RawPortSet_pod (cursor_new payload)) (\<lambda>(raw, c).
     and_then (read_opt_cstring c (RawPortSet.ifname raw)) (\<lambda>(nm, c).
     and_then (read_opt_cstring c (local_descr raw)) (\<lambda>(descr, c).
     Ok (raw, nm, descr, is_exhausted c))))"

lemma port_set_pod_fields:
  "port_set_pod = \<lparr>RawPortSet.ifname = 2, local_id = 0, local_descr = 3,
     vlan_advertise_pattern = 0, rxtx = 0, vlan_tx_tag = 0, vlan_tx_enabled = -1,
     med_policy = 0, med_location = 0, med_power = 0, dot3_power = 0\<rparr>"
  by code_simp

text \<open>
  The request as a message of theory Messages: the outer chunk spans all of it, the strings
  stand behind the structure with the numbers its pointers announce.
\<close>

definition set_port_body :: "rstring \<Rightarrow> rstring \<Rightarrow> bytes" where
  "set_port_body nm descr =
     push_string_chunk (push_string_chunk (pod_bytes RawPortSet_pod port_set_pod) 2 (nm @ [0]))
       3 (descr @ [0])"

definition set_port_marshal :: "nat \<Rightarrow> marshal" where
  "set_port_marshal n =
     \<lparr>orig = (\<lambda>p. if p = 0 then 1 else if p = 96 then 2 else 3),
      nested = (\<lambda>p. word_of_nat n)\<rparr>"

lemma length_push_string_chunk:
  "length (push_string_chunk b o1 x) = align_up (length b) 8 + 16 + length x"
  using align_up_ge [of "length b" 8]
  by (simp add: push_string_chunk_def Let_def PTR_SIZE_def)

lemma push_string_chunk_behind:
  assumes "length h = 16"
  shows "push_string_chunk (h @ b) o1 x = h @ push_string_chunk b o1 x"
proof -
  have "align_up (length (h @ b)) 8 = 16 + align_up (length b) 8"
  proof -
    have "(16 + length b) mod 8 = length b mod 8" by presburger
    with assms show ?thesis by (simp add: align_up_def)
  qed
  with assms show ?thesis by (simp add: push_string_chunk_def Let_def PTR_SIZE_def)
qed

lemma length_port_set_bytes: "length (pod_bytes RawPortSet_pod port_set_pod) = 80"
  using port_set.length_write [of port_set_pod]
  by (simp add: pod_bytes_def RawPortSet_pod_def)

lemma length_set_port_body:
  "length (set_port_body nm descr) = align_up (97 + length nm) 8 + 17 + length descr"
  by (simp add: set_port_body_def length_push_string_chunk length_port_set_bytes align_up_def)

lemma encode_set_port_message:
  assumes "length nm + length descr \<le> 2 ^ 31"
  defines "m \<equiv> set_port_marshal (length (set_port_body nm descr) - 80)"
  shows "encode_set_port_description_request nm descr =
    put_cstring m (put_cstring m (put_struct m [] (pod_write RawPortSet_pod port_set_pod)) (Some nm))
      (Some descr)"
proof -
  let ?n = "length (set_port_body nm descr)"
  define h where "h = word_to_le (1 :: usize) @ word_to_le (word_of_nat (16 + ?n) :: usize)"
  let ?ps = "pod_bytes RawPortSet_pod port_set_pod"
  have ge: "80 \<le> ?n" and le: "?n - 80 < 2 ^ 32"
    using assms(1) align_up_8_less [of "97 + length nm"] align_up_ge [of "97 + length nm" 8]
    by (simp_all add: length_set_port_body)
  have nest: "unat (nested m 0) = ?n - 80"
    using le by (simp add: m_def set_port_marshal_def unat_of_nat)
  have s: "put_struct m [] (pod_write RawPortSet_pod port_set_pod) = h @ ?ps"
  proof -
    have sz: "16 + length (pod_write RawPortSet_pod port_set_pod) + unat (nested m (length []))
        = 16 + ?n"
      using ge length_port_set_bytes by (simp add: nest pod_bytes_def)
    show ?thesis
      unfolding put_struct_def put_header_def sz
      by (simp add: align_up_def m_def set_port_marshal_def pod_bytes_def h_def)
  qed
  have h: "length h = 16" by (simp add: h_def)
  have "put_cstring m (h @ ?ps) (Some nm) = h @ push_string_chunk ?ps 2 (nm @ [0])"
    by (simp add: put_cstring_def put_leaf_push_string_chunk m_def set_port_marshal_def
        length_port_set_bytes h push_string_chunk_behind [OF h] del: append_assoc)
  moreover have "put_cstring m (h @ push_string_chunk ?ps 2 (nm @ [0])) (Some descr) =
      h @ set_port_body nm descr"
    by (simp add: put_cstring_def put_leaf_push_string_chunk m_def set_port_marshal_def
        length_push_string_chunk length_port_set_bytes h push_string_chunk_behind [OF h]
        set_port_body_def align_up_def del: append_assoc)
  ultimately show ?thesis
    by (simp add: s encode_set_port_description_request_def Let_def PTR_SIZE_def
        set_port_body_def [symmetric] h_def)
qed

lemma set_port_request_read:
  assumes "utf8_valid nm" and "utf8_valid descr" and "length nm + length descr \<le> 2 ^ 31"
  shows "read_set_port (encode_set_port_description_request nm descr) =
    Ok (port_set_pod, Some nm, Some descr, True)"
proof -
  define m where "m = set_port_marshal (length (set_port_body nm descr) - 80)"
  define b1 where "b1 = put_struct m [] (pod_write RawPortSet_pod port_set_pod)"
  define b2 where "b2 = put_cstring m b1 (Some nm)"
  define B where "B = put_cstring m b2 (Some descr)"
  have B: "encode_set_port_description_request nm descr = B"
    using encode_set_port_message [OF assms(3)] by (simp add: B_def b2_def b1_def m_def)
  have texts: "c_text nm" "c_text descr"
    using assms by (simp_all add: c_text_def bounds_num)
  have s1: "reads (read_chunk_pod RawPortSet_pod) [] port_set_pod b1"
    unfolding b1_def by (rule port_set.reads_chunk_pod) (simp_all add: RawPortSet_pod_def)
  have s2: "reads (\<lambda>c. read_opt_cstring c 2) b1 (Some nm) b2"
    unfolding b2_def using texts by (intro reads_text) (simp_all add: points_to_def)
  have s3: "reads (\<lambda>c. read_opt_cstring c 3) b2 (Some descr) B"
    unfolding B_def using texts by (intro reads_text) (simp_all add: points_to_def)
  have len: "length B \<le> slice_max"
    using assms(3) align_up_8_less [of "97 + length nm"]
    by (simp add: B [symmetric] encode_set_port_description_request_def Let_def PTR_SIZE_def
        set_port_body_def [symmetric] length_set_port_body bounds_num)
  have pre: "prefix b2 B" "prefix b1 B"
    using reads_prefix [OF s2] reads_prefix [OF s3] by auto
  show ?thesis
    unfolding read_set_port_def B cursor_new_def
    using readsD [OF s1 pre(2) len] readsD [OF s2 pre(1) len] readsD [OF s3 _ len]
    by (simp add: port_set_pod_fields is_exhausted_def)
qed

text \<open>The captured request: \<open>lldpcli configure ports eth0 lldp portdescription test-desc-XYZ\<close>.\<close>

definition set_port_capture :: bytes where
  "set_port_capture =
    [1, 0, 0, 0, 0, 0, 0, 0, 0x96, 0, 0, 0, 0, 0, 0, 0, 2, 0, 0, 0, 0, 0, 0, 0, 0, 0, 0, 0,
     0, 0, 0, 0, 3, 0, 0, 0, 0, 0, 0, 0, 0, 0, 0, 0, 0, 0, 0, 0, 0, 0, 0, 0, 0, 0, 0, 0,
     0xFF, 0xFF, 0xFF, 0xFF, 0, 0, 0, 0, 0, 0, 0, 0, 0, 0, 0, 0, 0, 0, 0, 0, 0, 0, 0, 0, 0,
     0, 0, 0, 0, 0, 0, 0, 0, 0, 0, 0, 0, 0, 0, 0, 2, 0, 0, 0, 0, 0, 0, 0, 0x15, 0, 0, 0, 0,
     0, 0, 0, 0x65, 0x74, 0x68, 0x30, 0, 0, 0, 0, 3, 0, 0, 0, 0, 0, 0, 0, 0x1E, 0, 0, 0, 0,
     0, 0, 0, 0x74, 0x65, 0x73, 0x74, 0x2D, 0x64, 0x65, 0x73, 0x63, 0x2D, 0x58, 0x59, 0x5A, 0]"

lemma set_port_capture_encoded:
  "encode_set_port_description_request (ascii ''eth0'') (ascii ''test-desc-XYZ'') =
     set_port_capture"
  by code_simp

text \<open>The captured reply to \<open>GET_INTERFACES\<close>.\<close>

definition interfaces_capture :: bytes where
  "interfaces_capture =
    [1, 0, 0, 0, 0, 0, 0, 0, 0xAD, 0, 0, 0, 0, 0, 0, 0, 2, 0, 0, 0, 0, 0, 0, 0, 0x60, 0x0A,
     0x14, 0xB3, 0x55, 0, 0, 0, 2, 0, 0, 0, 0, 0, 0, 0, 0x8D, 0, 0, 0, 0, 0, 0, 0, 3, 0, 0,
     0, 0, 0, 0, 0, 0xF0, 0x60, 0x6A, 0xDB, 0x7F, 0, 0, 0, 5, 0, 0, 0, 0, 0, 0, 0, 0, 0, 0,
     0, 0, 0, 0, 0, 3, 0, 0, 0, 0, 0, 0, 0, 0x46, 0, 0, 0, 0, 0, 0, 0, 0, 0, 0, 0, 0, 0, 0,
     0, 0x90, 0xB0, 0x13, 0xB3, 0x55, 0, 0, 0, 4, 0, 0, 0, 0, 0, 0, 0, 0, 0, 0, 0, 0, 0, 0,
     0, 4, 0, 0, 0, 0, 0, 0, 0, 0x16, 0, 0, 0, 0, 0, 0, 0, 0x77, 0x6C, 0x61, 0x6E, 0x30, 0,
     0, 0, 5, 0, 0, 0, 0, 0, 0, 0, 0x15, 0, 0, 0, 0, 0, 0, 0, 0x65, 0x74, 0x68, 0x30, 0]"

text \<open>
  What it was built from: the list of two interfaces in the memory of that daemon, the sizes
  of the chunks with the ones nested in them.
\<close>

definition capture_marshal :: marshal where
  "capture_marshal =
     \<lparr>orig = (\<lambda>p. if p = 0 then 1 else if p = 32 then 2 else if p = 80 then 3
                  else if p = 128 then 4 else 5),
      nested = (\<lambda>p. if p = 0 then 141 else if p = 32 then 93 else 22)\<rparr>"

definition capture_list :: RawInterfaceList where
  "capture_list = \<lparr>tqh_first = 2, tqh_last = 0x55B3140A60\<rparr>"

definition capture_interfaces :: "(RawInterface \<times> Interface) list" where
  "capture_interfaces =
     [(\<lparr>next_tqe_next = 3, next_tqe_prev = 0x7FDB6A60F0, name = 5, alias' = 0\<rparr>,
       \<lparr>Interface.name = ascii ''eth0'', alias' = None\<rparr>),
      (\<lparr>next_tqe_next = 0, next_tqe_prev = 0x55B313B090, name = 4, alias' = 0\<rparr>,
       \<lparr>Interface.name = ascii ''wlan0'', alias' = None\<rparr>)]"

lemma interfaces_capture_built:
  "interfaces_capture = put_interface_list capture_marshal capture_list capture_interfaces"
  by code_simp

lemma ascii_names: "utf8_valid (ascii ''eth0'')" "utf8_valid (ascii ''wlan0'')"
  by code_simp+

lemma capture_interfaces_image: "interfaces_image capture_interfaces"
  by (simp add: interfaces_image_def capture_interfaces_def interface_image_def c_text_def
      points_to_def ascii_names) (simp add: ascii_def bounds_num)

end
