(* ===== verification/Samples.thy ===== *)
theory Samples
  imports Requests
begin

text \<open>
  Concrete messages, most of them those of the tests in src/wire/decode.rs: two neighbors that
  share a chassis, an interface without neighbors in the longer layout, a notification, and two
  neighbors in the longer layout with the reference numbers of the daemon. They are the inputs at
  which the properties are applied.
\<close>

section \<open>All-zero structures\<close>

lemma zeros_none [simp]: "zeros 0 = []"
  by (simp add: zeros_def)

lemma take_zeros [simp]: "take n (zeros m) = zeros (min n m)"
  by (simp add: zeros_def)

lemma drop_zeros [simp]: "drop n (zeros m) = zeros (m - n)"
  by (simp add: zeros_def)

lemma le_nat_zeros [simp]: "le_nat (zeros n) = 0"
  by (induction n) (simp_all add: zeros_def)

lemma word_from_zeros [simp]: "word_from_le (zeros n) = 0"
  by (simp add: word_from_le_def)

definition empty_loc :: RawMedLoc where
  "empty_loc = RawMedLoc_of_bytes (zeros 24)"

definition empty_port :: RawPort where
  "empty_port = RawPort_of_bytes (zeros 368)"

definition empty_chassis :: RawChassis where
  "empty_chassis = RawChassis_of_bytes (zeros 144)"

definition empty_hardware :: RawHardware where
  "empty_hardware = RawHardware_of_bytes (zeros 632)"

definition empty_hardware_fp :: RawHardwareWithFlagsPrevious where
  "empty_hardware_fp = RawHardwareWithFlagsPrevious_of_bytes (zeros 640)"

lemma empty_loc_data [simp]: "data empty_loc = 0"
  by (simp add: empty_loc_def RawMedLoc_of_bytes_def field_def RawMedLoc_fields)

lemma elements_zeros: "w * n \<le> k \<Longrightarrow> elements w n (zeros k) = replicate n (zeros w)"
proof (induction n arbitrary: k)
  case 0
  then show ?case by simp
next
  case (Suc n)
  then have "w * n \<le> k - w" "w \<le> k" by simp_all
  with Suc.IH show ?case by (simp add: min_def)
qed

lemma empty_port_fields [simp]:
  "RawPort.tqe_next empty_port = 0" "RawPort.tqe_prev empty_port = 0" "p_chassis empty_port = 0" "p_id empty_port = 0"
  "p_id_subtype empty_port = 0" "p_ttl empty_port = 0"
  "p_descr empty_port = 0" "p_vlan_advertise_pattern empty_port = 0"
  "p_med_location empty_port = [empty_loc, empty_loc, empty_loc]"
  "length (p_med_policy empty_port) = 8"
  "p_vlans_tqh_first empty_port = 0" "p_ppvids_tqh_first empty_port = 0"
  "p_pids_tqh_first empty_port = 0"
  by (simp_all add: empty_port_def RawPort_of_bytes_def field_def RawPort_fields elements_zeros
      empty_loc_def numeral_eq_Suc)

lemma empty_chassis_fields [simp]:
  "c_descr empty_chassis = 0" "c_name empty_chassis = 0" "c_id empty_chassis = 0"
  "c_cap_available empty_chassis = 0"
  "c_cap_enabled empty_chassis = 0" "c_mgmt_tqh_first empty_chassis = 0"
  "c_med_hw empty_chassis = 0" "c_med_fw empty_chassis = 0" "c_med_sw empty_chassis = 0"
  "c_med_sn empty_chassis = 0" "c_med_manuf empty_chassis = 0" "c_med_model empty_chassis = 0"
  "c_med_asset empty_chassis = 0"
  by (simp_all add: empty_chassis_def RawChassis_of_bytes_def field_def RawChassis_fields)

lemma empty_hardware_fields [simp]:
  "RawHardware.h_lport empty_hardware = empty_port"
  "RawHardware.h_rports_tqh_first empty_hardware = 0"
  "RawHardware.h_ifalias empty_hardware = 0"
  "RawHardware.h_ifname empty_hardware = zeros 16"
  "RawHardware.h_lladdr empty_hardware = zeros 6"
  by (simp_all add: empty_hardware_def RawHardware_of_bytes_def field_def RawHardware_fields
      empty_port_def)

lemma empty_hardware_fp_fields [simp]:
  "RawHardwareWithFlagsPrevious.h_lport empty_hardware_fp = empty_port"
  "RawHardwareWithFlagsPrevious.h_rports_tqh_first empty_hardware_fp = 0"
  "RawHardwareWithFlagsPrevious.h_ifalias empty_hardware_fp = 0"
  "RawHardwareWithFlagsPrevious.h_ifname empty_hardware_fp = zeros 16"
  "RawHardwareWithFlagsPrevious.h_lladdr empty_hardware_fp = zeros 6"
  by (simp_all add: empty_hardware_fp_def RawHardwareWithFlagsPrevious_of_bytes_def field_def
      RawHardwareWithFlagsPrevious_fields empty_port_def)

section \<open>Lengths\<close>

lemma length_put_leaf [simp]:
  "length (put_leaf m b x) = align_up (length b) 8 + 16 + length x"
  by (simp add: put_leaf_def length_put_header)

lemma length_put_struct [simp]:
  "length (put_struct m b x) = align_up (length b) 8 + 16 + length x"
  by (simp add: put_struct_def length_put_header)

lemma length_put_marker [simp]: "length (put_marker m b) = align_up (length b) 8 + 16"
  by (simp add: put_marker_def length_put_header)

lemma length_put_cstring [simp]:
  "length (put_cstring m b None) = length b"
  "length (put_cstring m b (Some x)) = align_up (length b) 8 + 17 + length x"
  by (simp_all add: put_cstring_def)

lemma length_put_bytes [simp]:
  "length (put_bytes m b None) = length b"
  "length (put_bytes m b (Some x)) = align_up (length b) 8 + 16 + length x"
  by (simp_all add: put_bytes_def)

lemma behind_simps [simp]: "behind 0 x = None" "p \<noteq> 0 \<Longrightarrow> behind p x = Some x"
  by (simp_all add: behind_def)

lemma length_structs [simp]:
  "length (pod_write RawChassis_pod ch) = 144"
  "RawPort_ok p \<Longrightarrow> length (pod_write RawPort_pod p) = 368"
  "RawHardware_ok h \<Longrightarrow> length (pod_write RawHardware_pod h) = 632"
  "RawHardwareWithFlagsPrevious_ok h' \<Longrightarrow>
     length (pod_write RawHardwareWithFlagsPrevious_pod h') = 640"
  "length (pod_write RawNeighborChange_pod c) = 32"
  using chassis.length_write [of ch] port.length_write [of p] hardware.length_write [of h]
    hardware_fp.length_write [of h'] change.length_write [of c]
  by (simp_all add: pod_sizes)

lemma pod_size_values [simp]:
  "pod_size RawHardware_pod = 632" "pod_size RawHardwareWithFlagsPrevious_pod = 640"
  "pod_size RawPort_pod = 368" "pod_size RawNeighborChange_pod = 32"
  by (simp_all add: pod_sizes)

section \<open>The captured list of interfaces\<close>

lemma capture_head: "head_of (tqh_first capture_list) capture_interfaces"
  by (simp add: head_of_def capture_list_def capture_interfaces_def)

lemma interfaces_capture_length: "length interfaces_capture = 173"
  by (simp add: interfaces_capture_def)

lemma capture_decoded:
  "decode_interfaces interfaces_capture = Ok (map snd capture_interfaces)"
  using interfaces_decoded [OF capture_interfaces_image capture_head, of capture_marshal "[]"]
    interfaces_capture_length
  by (simp add: interfaces_capture_built bounds_num)

section \<open>Two neighbors that share a chassis\<close>

definition switch :: Chassis where
  "switch = \<lparr>id_subtype = ChassisIdSubtype.IfName, id' = ascii ''switch-1'', name = None,
     description = None, capabilities_available = Capabilities 0,
     capabilities_enabled = Capabilities 0, management_addresses = [],
     med = \<lparr>hardware_revision = None, firmware_revision = None, software_revision = None,
       serial_number = None, manufacturer = None, model = None, asset_id = None\<rparr>\<rparr>"

definition sample_memory :: memory where
  "sample_memory = (\<lambda>_. \<lparr>c_raw = empty_chassis\<lparr>c_id_subtype := 6, c_id := 950\<rparr>, c_mgmt = [],
     c_value = switch\<rparr>)"

definition bare_port :: "RawPort \<Rightarrow> bytes option \<Rightarrow> port_mem" where
  "bare_port r v = \<lparr>p_raw = r, p_ident = v, p_description = None, p_pattern = None,
     p_locations = [None, None, None], p_vlans = [], p_ppvids = [], p_pis = []\<rparr>"

definition sample_neighbors :: "port_mem list" where
  "sample_neighbors =
     [bare_port (empty_port\<lparr>RawPort.tqe_next := 100, p_chassis := 777, p_id_subtype := 5, p_id := 900,
        p_ttl := 60\<rparr>) (Some (ascii ''eth1'')),
      bare_port (empty_port\<lparr>p_chassis := 777, p_id_subtype := 5, p_id := 901, p_ttl := 60\<rparr>)
        (Some (ascii ''eth2''))]"

definition sample_hardware :: RawHardware where
  "sample_hardware = empty_hardware
     \<lparr>RawHardware.h_ifname := ascii ''eth0'' @ zeros 12,
        RawHardware.h_rports_tqh_first := 6\<rparr>"

lemma sample_memory_image: "memory_image sample_memory"
  by (simp add: memory_image_def chassis_image_def Let_def sample_memory_def switch_def
      text_field_def points_to_def blob_def mgmt_image_def head_of_def bounds_num
      ChassisIdSubtype_from_def)

lemma bare_port_image:
  assumes "RawPort_ok r" "p_descr r = 0" "p_vlan_advertise_pattern r = 0"
    "p_med_location r = [empty_loc, empty_loc, empty_loc]"
    "p_vlans_tqh_first r = 0" "p_ppvids_tqh_first r = 0" "p_pids_tqh_first r = 0"
    "points_to (p_id r) v" "pred_option (\<lambda>x. length x < 100) v"
  shows "port_image (bare_port r v)"
proof -
  have "pred_option blob v" using assms(9) by (cases v) (simp_all add: blob_def bounds_num)
  with assms show ?thesis
    by (simp add: port_image_def Let_def bare_port_def blob_field_def text_field_def
        points_to_def head_of_def vlans_image_def pis_image_def)
qed

lemma sample_neighbors_image: "neighbors_image sample_neighbors"
  by (simp add: neighbors_image_def sample_neighbors_def bare_port_image RawPort_ok_def
      points_to_def) (simp add: bare_port_def)

lemma empty_port_image: "port_image (bare_port empty_port None)"
  by (rule bare_port_image) (simp_all add: RawPort_ok_def points_to_def)

lemma p_raw_bare_port [simp]: "p_raw (bare_port r v) = r"
  by (simp add: bare_port_def)

lemma sample_hardware_view [simp]:
  "HardwareFields.h_lport RawHardware_impl sample_hardware = empty_port"
  "HardwareFields.h_rports_tqh_first RawHardware_impl sample_hardware = 6"
  "HardwareFields.h_ifalias RawHardware_impl sample_hardware = 0"
  "HardwareFields.h_ifname RawHardware_impl sample_hardware = ascii ''eth0'' @ zeros 12"
  "HardwareFields.h_lladdr RawHardware_impl sample_hardware = zeros 6"
  by (simp_all add: RawHardware_impl_def sample_hardware_def)

lemma sample_neighbors_head: "head_of 6 sample_neighbors"
  by (simp add: head_of_def sample_neighbors_def)

lemma sample_hardware_image:
  "hardware_image RawHardware_impl sample_hardware (bare_port empty_port None)
     sample_neighbors None"
  unfolding hardware_image_def sample_hardware_view
proof (intro conjI)
  show "port_image (bare_port empty_port None)" by (rule empty_port_image)
  show "neighbors_image sample_neighbors" by (rule sample_neighbors_image)
  show "head_of 6 sample_neighbors" by (rule sample_neighbors_head)
  show "text_field 0 (None :: rstring option)" by (simp add: text_field_def points_to_def)
qed simp_all

lemma sample_hardware_ok: "RawHardware_ok sample_hardware"
  by (simp add: RawHardware_ok_def sample_hardware_def RawPort_ok_def)

lemma sample_hardware_length:
  "length (put_hardware plain sample_memory RawHardware_pod sample_hardware
     (bare_port empty_port None) sample_neighbors None) = 1808"
  by (simp add: put_hardware_def put_port_fields_def put_port_chassis_def bare_port_def
      sample_neighbors_def sample_memory_def put_chassis_def switch_def Let_def align_up_def
      sample_hardware_ok RawPort_ok_def)

section \<open>An interface in the longer layout\<close>

text \<open>
  A message of \<open>RawHardwareWithFlagsPrevious\<close>, and the same bytes as the shorter layout reads
  them: the last word of the structure becomes the header of the first marker, every later
  header is read eight bytes early, and eight bytes are left over.
\<close>

definition fp_marshal :: marshal where
  "fp_marshal = \<lparr>orig = (\<lambda>p. if p = 0 then 1 else 24), nested = (\<lambda>_. 0)\<rparr>"

definition shifted_marshal :: marshal where
  "shifted_marshal = \<lparr>orig = (\<lambda>p. if p = 0 then 1 else if p = 648 then 0 else 16),
     nested = (\<lambda>_. 8)\<rparr>"

definition fp_message :: bytes where
  "fp_message = put_hardware fp_marshal sample_memory RawHardwareWithFlagsPrevious_pod
     empty_hardware_fp (bare_port empty_port None) [] None"

lemma fp_view [simp]:
  "HardwareFields.h_lport RawHardwareWithFlagsPrevious_impl empty_hardware_fp = empty_port"
  "HardwareFields.h_rports_tqh_first RawHardwareWithFlagsPrevious_impl empty_hardware_fp = 0"
  "HardwareFields.h_ifalias RawHardwareWithFlagsPrevious_impl empty_hardware_fp = 0"
  "HardwareFields.h_ifname RawHardwareWithFlagsPrevious_impl empty_hardware_fp = zeros 16"
  "HardwareFields.h_lladdr RawHardwareWithFlagsPrevious_impl empty_hardware_fp = zeros 6"
  by (simp_all add: RawHardwareWithFlagsPrevious_impl_def)

lemma empty_view [simp]:
  "HardwareFields.h_lport RawHardware_impl empty_hardware = empty_port"
  "HardwareFields.h_rports_tqh_first RawHardware_impl empty_hardware = 0"
  "HardwareFields.h_ifalias RawHardware_impl empty_hardware = 0"
  by (simp_all add: RawHardware_impl_def)

lemma fp_image:
  "hardware_image RawHardwareWithFlagsPrevious_impl empty_hardware_fp (bare_port empty_port None)
     [] None"
  "hardware_image RawHardware_impl empty_hardware (bare_port empty_port None) [] None"
  by (simp_all add: hardware_image_def empty_port_image text_field_def points_to_def head_of_def
      neighbors_image_def)

lemma empty_ok: "RawHardwareWithFlagsPrevious_ok empty_hardware_fp" "RawHardware_ok empty_hardware"
  by (simp_all add: RawHardwareWithFlagsPrevious_ok_def RawHardware_ok_def RawPort_ok_def)

lemma fp_message_length: "length fp_message = 720"
  by (simp add: fp_message_def put_hardware_def put_port_fields_def put_port_chassis_def
      bare_port_def Let_def align_up_def empty_ok)

text \<open>The bytes of the all-zero structures are zeros, padding included.\<close>

definition all_zero :: "bytes \<Rightarrow> bool" where
  "all_zero b \<longleftrightarrow> set b \<subseteq> {0}"

lemma all_zero_simps [simp]:
  "all_zero []" "all_zero (zeros n)" "all_zero (a @ b) \<longleftrightarrow> all_zero a \<and> all_zero b"
  "all_zero (word_to_le (0 :: 'a::len word))"
proof -
  have "set (nat_le k 0) \<subseteq> {0}" for k by (induction k) simp_all
  then show "all_zero (word_to_le (0 :: 'a::len word))"
    by (simp add: all_zero_def word_to_le_def)
qed (auto simp: all_zero_def zeros_def)

lemma all_zero_eq: "all_zero b \<Longrightarrow> length b = n \<Longrightarrow> b = zeros n"
  by (auto simp: all_zero_def zeros_def intro: replicate_eqI)

lemma all_zero_pack_from: "list_all all_zero xs \<Longrightarrow> all_zero (pack_from off fs xs)"
proof (induction off fs xs rule: pack_from.induct)
  case (1 off f fs x xs)
  then show ?case by (simp add: Let_def)
qed simp_all

lemma all_zero_pack: "list_all all_zero xs \<Longrightarrow> all_zero (pack t xs)"
  by (cases t) (simp_all add: pack_def Let_def all_zero_pack_from)

lemma all_zero_array:
  "(\<And>j. all_zero (f (zeros j))) \<Longrightarrow> all_zero (concat (map f (elements w n (zeros k))))"
  by (induction n arbitrary: k) simp_all

lemma RawDot3MacPhy_zero [simp]: "all_zero (RawDot3MacPhy_to_bytes (RawDot3MacPhy_of_bytes (zeros n)))"
  by (simp add: RawDot3MacPhy_to_bytes_def all_zero_pack RawDot3MacPhy_contents_def RawDot3MacPhy_of_bytes_def field_def
      RawDot3MacPhy_fields)

lemma RawDot3Power_zero [simp]: "all_zero (RawDot3Power_to_bytes (RawDot3Power_of_bytes (zeros n)))"
  by (simp add: RawDot3Power_to_bytes_def all_zero_pack RawDot3Power_contents_def RawDot3Power_of_bytes_def field_def
      RawDot3Power_fields)

lemma RawMedPolicy_zero [simp]: "all_zero (RawMedPolicy_to_bytes (RawMedPolicy_of_bytes (zeros n)))"
  by (simp add: RawMedPolicy_to_bytes_def all_zero_pack RawMedPolicy_contents_def RawMedPolicy_of_bytes_def field_def
      RawMedPolicy_fields)

lemma RawMedLoc_zero [simp]: "all_zero (RawMedLoc_to_bytes (RawMedLoc_of_bytes (zeros n)))"
  by (simp add: RawMedLoc_to_bytes_def all_zero_pack RawMedLoc_contents_def RawMedLoc_of_bytes_def field_def
      RawMedLoc_fields)

lemma RawMedPower_zero [simp]: "all_zero (RawMedPower_to_bytes (RawMedPower_of_bytes (zeros n)))"
  by (simp add: RawMedPower_to_bytes_def all_zero_pack RawMedPower_contents_def RawMedPower_of_bytes_def field_def
      RawMedPower_fields)

lemma RawCdpPower_zero [simp]: "all_zero (RawCdpPower_to_bytes (RawCdpPower_of_bytes (zeros n)))"
  by (simp add: RawCdpPower_to_bytes_def all_zero_pack RawCdpPower_contents_def RawCdpPower_of_bytes_def field_def
      RawCdpPower_fields)

lemma RawPort_zero [simp]: "all_zero (RawPort_to_bytes (RawPort_of_bytes (zeros n)))"
  by (simp add: RawPort_to_bytes_def all_zero_pack all_zero_array RawPort_contents_def RawPort_of_bytes_def field_def
      RawPort_fields)

lemma RawHardware_zero [simp]: "all_zero (RawHardware_to_bytes (RawHardware_of_bytes (zeros n)))"
  by (simp add: RawHardware_to_bytes_def all_zero_pack RawHardware_contents_def RawHardware_of_bytes_def field_def
      RawHardware_fields)

lemma RawHardwareWithFlagsPrevious_zero [simp]: "all_zero (RawHardwareWithFlagsPrevious_to_bytes (RawHardwareWithFlagsPrevious_of_bytes (zeros n)))"
  by (simp add: RawHardwareWithFlagsPrevious_to_bytes_def all_zero_pack RawHardwareWithFlagsPrevious_contents_def RawHardwareWithFlagsPrevious_of_bytes_def field_def
      RawHardwareWithFlagsPrevious_fields)

lemma empty_written [simp]:
  "pod_write RawHardwareWithFlagsPrevious_pod empty_hardware_fp = zeros 640"
  "pod_write RawHardware_pod empty_hardware = zeros 632"
proof -
  show "pod_write RawHardwareWithFlagsPrevious_pod empty_hardware_fp = zeros 640"
    by (rule all_zero_eq) (simp_all add: empty_ok, simp add: pod_sizes empty_hardware_fp_def)
  show "pod_write RawHardware_pod empty_hardware = zeros 632"
    by (rule all_zero_eq) (simp_all add: empty_ok, simp add: pod_sizes empty_hardware_def)
qed

lemma fp_message_bytes:
  "fp_message = word_to_le (1 :: usize) @ word_to_le (656 :: usize) @ zeros 640 @
     word_to_le (24 :: usize) @ word_to_le (16 :: usize) @
     word_to_le (24 :: usize) @ word_to_le (16 :: usize) @
     word_to_le (24 :: usize) @ word_to_le (16 :: usize) @
     word_to_le (24 :: usize) @ word_to_le (16 :: usize)"
  unfolding fp_message_def
  by (simp add: put_hardware_def put_port_fields_def put_port_chassis_def bare_port_def Let_def
      put_bytes_def put_cstring_def fp_marshal_def)
    (simp add: put_marker_def put_struct_def put_header_def align_up_def)

lemma shifted_message_bytes:
  "put_hardware shifted_marshal sample_memory RawHardware_pod empty_hardware
     (bare_port empty_port None) [] None =
   word_to_le (1 :: usize) @ word_to_le (656 :: usize) @ zeros 632 @
     word_to_le (0 :: usize) @ word_to_le (24 :: usize) @
     word_to_le (16 :: usize) @ word_to_le (24 :: usize) @
     word_to_le (16 :: usize) @ word_to_le (24 :: usize) @
     word_to_le (16 :: usize) @ word_to_le (24 :: usize)"
  by (simp add: put_hardware_def put_port_fields_def put_port_chassis_def bare_port_def Let_def
      put_bytes_def put_cstring_def)
    (simp add: put_marker_def put_struct_def put_header_def align_up_def shifted_marshal_def)

lemma zeros_split: "zeros 640 = zeros 632 @ word_to_le (0 :: usize)"
proof -
  have "word_to_le (0 :: usize) = zeros 8" by code_simp
  then show ?thesis by (simp add: zeros_def replicate_add [symmetric])
qed

lemma fp_message_shifted:
  "fp_message = put_hardware shifted_marshal sample_memory RawHardware_pod empty_hardware
     (bare_port empty_port None) [] None @ word_to_le (16 :: usize)"
  by (simp only: fp_message_bytes shifted_message_bytes zeros_split append_assoc)

lemma fp_message_rejected:
  "decode_hardware_as RawHardware_pod RawHardware_impl fp_message = Err layout_mismatch"
proof -
  have len: "length (put_hardware shifted_marshal sample_memory RawHardware_pod empty_hardware
      (bare_port empty_port None) [] None @ word_to_le (16 :: usize)) \<le> slice_max"
    using fp_message_length by (simp add: fp_message_shifted [symmetric] bounds_num)
  have "length (word_to_le (16 :: usize)) = 8" by simp
  then have "word_to_le (16 :: usize) \<noteq> []" by (auto simp del: length_word_to_le)
  then show ?thesis
    using hardware.hardware_as_decoded [OF sample_memory_image fp_image(2) empty_ok(2) _ len]
    by (simp add: fp_message_shifted pod_sizes)
qed

section \<open>A notification\<close>

definition sample_change :: RawNeighborChange where
  "sample_change = \<lparr>RawNeighborChange.ifname = 100, ifalias = 0, state = 1, neighbor = 200\<rparr>"

definition sample_notified :: port_mem where
  "sample_notified =
     bare_port (empty_port\<lparr>p_chassis := 300, p_id_subtype := 5, p_id := 400, p_ttl := 90\<rparr>)
       (Some (ascii ''eth5''))"

lemma sample_change_image:
  "change_image sample_change (ascii ''eth0'') None (Some sample_notified)"
proof -
  have "port_image sample_notified"
    unfolding sample_notified_def by (rule bare_port_image) (simp_all add: RawPort_ok_def points_to_def)
  then show ?thesis
    by (simp add: change_image_def sample_change_def sample_notified_def c_text_def ascii_names
        bounds_num text_field_def points_to_def)
qed

lemma sample_change_length:
  "length (put_change plain sample_memory sample_change (ascii ''eth0'') None
     (Some sample_notified)) = 712"
  by (simp add: put_change_def put_port_fields_def put_port_chassis_def sample_notified_def
      bare_port_def sample_memory_def put_chassis_def switch_def Let_def align_up_def
      sample_change_def RawPort_ok_def)

section \<open>The bytes of structures without contents\<close>

lemma zeros_append:
  "zeros i @ zeros j = zeros (i + j)"
  "zeros i @ zeros j @ b = zeros (i + j) @ b"
  by (simp_all add: zeros_def replicate_add)

lemma word_to_le_zero: "word_to_le (0 :: 'a::len word) = zeros (LENGTH('a) div 8)"
proof -
  have "nat_le k 0 = zeros k" for k by (induction k) (simp_all add: zeros_def)
  then show ?thesis by (simp add: word_to_le_def)
qed

lemma empty_port_written: "RawPort_to_bytes empty_port = zeros 368"
proof (rule all_zero_eq)
  show "all_zero (RawPort_to_bytes empty_port)" by (simp add: empty_port_def)
  show "length (RawPort_to_bytes empty_port) = 368"
    using length_structs(2) [of empty_port] by (simp add: RawPort_ok_def RawPort_pod_def)
qed

lemma empty_hardware_zero:
  "RawHardware.h_entries_tqe_next empty_hardware = 0" "RawHardware.h_entries_tqe_prev empty_hardware = 0"
  "RawHardware.h_cfg empty_hardware = 0" "RawHardware.h_recv empty_hardware = 0"
  "RawHardware.h_sendfd empty_hardware = 0" "RawHardware.h_mangle empty_hardware = 0"
  "RawHardware.h_ops empty_hardware = 0" "RawHardware.h_data empty_hardware = 0"
  "RawHardware.h_timer empty_hardware = 0" "RawHardware.h_mtu empty_hardware = 0"
  "RawHardware.h_flags empty_hardware = 0" "RawHardware.h_ifindex empty_hardware = 0"
  "RawHardware.h_ifindex_changed empty_hardware = 0" "RawHardware.h_ifalias empty_hardware = 0"
  "RawHardware.h_tx_cnt empty_hardware = 0" "RawHardware.h_rx_cnt empty_hardware = 0"
  "RawHardware.h_rx_discarded_cnt empty_hardware = 0" "RawHardware.h_rx_unrecognized_cnt empty_hardware = 0"
  "RawHardware.h_ageout_cnt empty_hardware = 0" "RawHardware.h_insert_cnt empty_hardware = 0"
  "RawHardware.h_delete_cnt empty_hardware = 0" "RawHardware.h_drop_cnt empty_hardware = 0"
  "RawHardware.h_lport_previous empty_hardware = 0" "RawHardware.h_lport_previous_len empty_hardware = 0"
  "RawHardware.h_lchassis_previous_id_subtype empty_hardware = 0" "RawHardware.h_lchassis_previous_id empty_hardware = 0"
  "RawHardware.h_lchassis_previous_id_len empty_hardware = 0" "RawHardware.h_lport_previous_id_subtype empty_hardware = 0"
  "RawHardware.h_lport_previous_id empty_hardware = 0" "RawHardware.h_lport_previous_id_len empty_hardware = 0"
  "RawHardware.h_ifdescr_previous empty_hardware = 0" "RawHardware.h_rports_tqh_first empty_hardware = 0"
  "RawHardware.h_rports_tqh_last empty_hardware = 0" "RawHardware.h_tx_fast empty_hardware = 0"
  by (simp_all add: empty_hardware_def RawHardware_of_bytes_def field_def
      RawHardware_fields)

lemma empty_hardware_fp_zero:
  "RawHardwareWithFlagsPrevious.h_entries_tqe_next empty_hardware_fp = 0" "RawHardwareWithFlagsPrevious.h_entries_tqe_prev empty_hardware_fp = 0"
  "RawHardwareWithFlagsPrevious.h_cfg empty_hardware_fp = 0" "RawHardwareWithFlagsPrevious.h_recv empty_hardware_fp = 0"
  "RawHardwareWithFlagsPrevious.h_sendfd empty_hardware_fp = 0" "RawHardwareWithFlagsPrevious.h_mangle empty_hardware_fp = 0"
  "RawHardwareWithFlagsPrevious.h_ops empty_hardware_fp = 0" "RawHardwareWithFlagsPrevious.h_data empty_hardware_fp = 0"
  "RawHardwareWithFlagsPrevious.h_timer empty_hardware_fp = 0" "RawHardwareWithFlagsPrevious.h_mtu empty_hardware_fp = 0"
  "RawHardwareWithFlagsPrevious.h_flags empty_hardware_fp = 0" "RawHardwareWithFlagsPrevious.h_flags_previous empty_hardware_fp = 0"
  "RawHardwareWithFlagsPrevious.h_ifindex empty_hardware_fp = 0" "RawHardwareWithFlagsPrevious.h_ifindex_changed empty_hardware_fp = 0"
  "RawHardwareWithFlagsPrevious.h_ifalias empty_hardware_fp = 0" "RawHardwareWithFlagsPrevious.h_tx_cnt empty_hardware_fp = 0"
  "RawHardwareWithFlagsPrevious.h_rx_cnt empty_hardware_fp = 0" "RawHardwareWithFlagsPrevious.h_rx_discarded_cnt empty_hardware_fp = 0"
  "RawHardwareWithFlagsPrevious.h_rx_unrecognized_cnt empty_hardware_fp = 0" "RawHardwareWithFlagsPrevious.h_ageout_cnt empty_hardware_fp = 0"
  "RawHardwareWithFlagsPrevious.h_insert_cnt empty_hardware_fp = 0" "RawHardwareWithFlagsPrevious.h_delete_cnt empty_hardware_fp = 0"
  "RawHardwareWithFlagsPrevious.h_drop_cnt empty_hardware_fp = 0" "RawHardwareWithFlagsPrevious.h_lport_previous empty_hardware_fp = 0"
  "RawHardwareWithFlagsPrevious.h_lport_previous_len empty_hardware_fp = 0" "RawHardwareWithFlagsPrevious.h_lchassis_previous_id_subtype empty_hardware_fp = 0"
  "RawHardwareWithFlagsPrevious.h_lchassis_previous_id empty_hardware_fp = 0" "RawHardwareWithFlagsPrevious.h_lchassis_previous_id_len empty_hardware_fp = 0"
  "RawHardwareWithFlagsPrevious.h_lport_previous_id_subtype empty_hardware_fp = 0" "RawHardwareWithFlagsPrevious.h_lport_previous_id empty_hardware_fp = 0"
  "RawHardwareWithFlagsPrevious.h_lport_previous_id_len empty_hardware_fp = 0" "RawHardwareWithFlagsPrevious.h_ifdescr_previous empty_hardware_fp = 0"
  "RawHardwareWithFlagsPrevious.h_rports_tqh_first empty_hardware_fp = 0" "RawHardwareWithFlagsPrevious.h_rports_tqh_last empty_hardware_fp = 0"
  "RawHardwareWithFlagsPrevious.h_tx_fast empty_hardware_fp = 0"
  by (simp_all add: empty_hardware_fp_def RawHardwareWithFlagsPrevious_of_bytes_def field_def
      RawHardwareWithFlagsPrevious_fields)

lemmas write_simps = pack_def word_to_le_zero zeros_append empty_port_written align_up_def

section \<open>An interface with neighbors in the longer layout, as the daemon numbers it\<close>

definition longer_marshal :: marshal where
  "longer_marshal = \<lparr>orig = (\<lambda>p. if p = 0 then 1 else if p = 656 then 2 else if p = 672 then 3 else 4),
     nested = (\<lambda>p. if p = 0 then 1000 else 0)\<rparr>"

definition longer_port :: port_mem where
  "longer_port = bare_port (empty_port\<lparr>p_id_subtype := 5, p_id := 3\<rparr>) (Some (ascii ''eth0''))"

definition longer_hardware :: RawHardwareWithFlagsPrevious where
  "longer_hardware = empty_hardware_fp
     \<lparr>RawHardwareWithFlagsPrevious.h_ifname := ascii ''eth0'' @ zeros 12,
      RawHardwareWithFlagsPrevious.h_lladdr := [2, 0, 0, 0, 0, 7],
      RawHardwareWithFlagsPrevious.h_lport := p_raw longer_port,
      RawHardwareWithFlagsPrevious.h_rports_tqh_first := 5\<rparr>"

definition longer_message :: bytes where
  "longer_message = put_hardware longer_marshal sample_memory RawHardwareWithFlagsPrevious_pod
     longer_hardware longer_port sample_neighbors None"

lemma longer_image:
  "hardware_image RawHardwareWithFlagsPrevious_impl longer_hardware longer_port sample_neighbors
     None"
proof -
  have "port_image longer_port"
    unfolding longer_port_def
    by (rule bare_port_image) (simp_all add: RawPort_ok_def points_to_def)
  moreover have "head_of 5 sample_neighbors" by (simp add: head_of_def sample_neighbors_def)
  ultimately show ?thesis
    by (simp add: hardware_image_def sample_neighbors_image text_field_def points_to_def
        RawHardwareWithFlagsPrevious_impl_def longer_hardware_def) (simp add: longer_port_def)
qed

lemma longer_ok: "RawHardwareWithFlagsPrevious_ok longer_hardware"
  by (simp add: RawHardwareWithFlagsPrevious_ok_def longer_hardware_def longer_port_def
      RawPort_ok_def)

lemma longer_numbers:
  "p_id_subtype (p_raw longer_port) = 5"
  "orig longer_marshal 672 = 3"
  by (simp_all add: longer_port_def longer_marshal_def)

lemma longer_length: "length longer_message = 1840"
  by (simp add: longer_message_def put_hardware_def put_port_fields_def put_port_chassis_def
      bare_port_def longer_port_def sample_neighbors_def sample_memory_def put_chassis_def
      switch_def Let_def align_up_def longer_ok RawPort_ok_def)

end
