(* ===== verification/Layouts.thy ===== *)
theory Layouts
  imports Roundtrip
begin

text \<open>
  Which of the two layouts of the reply to \<open>GET_INTERFACE\<close> a message is in. The reply does not
  say, and \<open>decode_hardware\<close> tries the shorter layout first, so a daemon that writes the longer
  one is understood only because the shorter layout rejects its messages. Here is why it does:
  the daemon numbers the references of a message from one, and the shorter layout, which reads
  everything behind the structure eight bytes early, takes such a number for the size of a
  chunk, which is smaller than the header of the chunk. \<open>hardware_message\<close> then is what a daemon
  sends for a state of its memory, in either layout.
\<close>

section \<open>What a message has where a chunk starts\<close>

text \<open>Either nothing was added to \<open>b\<close>, or the first thing is a chunk with its reference number.\<close>

definition starts :: "marshal \<Rightarrow> bytes \<Rightarrow> bytes \<Rightarrow> bool" where
  "starts m b b' \<longleftrightarrow> b' = b \<or> (\<exists>n x. b' = put_header b (orig m (length b)) n @ x)"

lemma starts_refl: "starts m b b"
  by (simp add: starts_def)

lemma starts_prefix: "starts m b b' \<Longrightarrow> prefix b b'"
  by (auto simp: starts_def put_header_def)

lemma starts_trans:
  assumes "starts m b b1" and "starts m b1 b2"
  shows "starts m b b2"
proof (cases "b1 = b")
  case False
  with assms(1) obtain n x where b1: "b1 = put_header b (orig m (length b)) n @ x"
    by (auto simp: starts_def)
  obtain y where "b2 = b1 @ y" using starts_prefix [OF assms(2)] by (auto elim: prefixE)
  with b1 show ?thesis by (auto simp: starts_def)
qed (use assms in simp)

lemma starts_chunks:
  "starts m b (put_leaf m b x)" "starts m b (put_struct m b x)" "starts m b (put_marker m b)"
  "starts m b (put_bytes m b v)" "starts m b (put_cstring m b w)"
  by (auto simp: starts_def put_leaf_def put_struct_def put_marker_def put_bytes_def
      put_cstring_def split: option.split)

lemma starts_lists:
  "starts m b (put_mgmt m b as)" "starts m b (put_locations m b locs)"
  "starts m b (put_vlans m b vlans)" "starts m b (put_ppvids m b ppvids)"
  "starts m b (put_pis m b pis)"
proof -
  show "starts m b (put_mgmt m b as)"
    by (induction as arbitrary: b) (auto intro: starts_refl starts_trans [OF starts_chunks(2)])
  show "starts m b (put_locations m b locs)"
    by (induction locs arbitrary: b)
      (auto intro: starts_refl starts_trans [OF starts_chunks(3)] starts_trans [OF starts_chunks(4)])
  show "starts m b (put_vlans m b vlans)"
    by (induction vlans arbitrary: b rule: put_vlans.induct)
      (auto intro: starts_refl starts_trans [OF starts_chunks(2)] starts_trans [OF _ starts_chunks(5)])
  show "starts m b (put_ppvids m b ppvids)"
    by (induction ppvids arbitrary: b) (auto intro: starts_refl starts_trans [OF starts_chunks(2)])
  show "starts m b (put_pis m b pis)"
    by (induction pis arbitrary: b rule: put_pis.induct)
      (auto intro: starts_refl starts_trans [OF starts_chunks(2)] starts_trans [OF _ starts_chunks(4)])
qed

lemma starts_chassis: "starts m b (put_chassis m b x)"
  unfolding put_chassis_def Let_def
  by (rule starts_trans [OF _ starts_chunks(5)] starts_trans [OF _ starts_chunks(4)]
      starts_trans [OF _ starts_lists(1)] starts_chunks(2))+

lemma starts_locations_strict:
  assumes "locs \<noteq> []"
  obtains n x where "put_locations m b locs = put_header b (orig m (length b)) n @ x"
proof -
  obtain v vs where locs: "locs = v # vs" using assms by (cases locs) auto
  have "starts m (put_marker m b) (put_locations m b locs)"
    unfolding locs put_locations.simps by (rule starts_trans [OF starts_chunks(4) starts_lists(2)])
  then have "prefix (put_marker m b) (put_locations m b locs)" by (rule starts_prefix)
  then show thesis by (auto simp: put_marker_def elim!: prefixE intro: that)
qed

lemma starts_port_fields:
  assumes "p_locations x \<noteq> []" and "put_port_fields m mem (b, seen) x = (b', seen')"
  obtains n y where "b' = put_header b (orig m (length b)) n @ y"
proof -
  obtain b1 seen1 where ch: "put_port_chassis m mem (b, seen) (p_chassis (p_raw x)) = (b1, seen1)"
    by fastforce
  then have s1: "starts m b b1"
    by (auto simp: put_port_chassis_def starts_refl starts_chassis split: if_splits)
  define b2 where "b2 = put_cstring m (put_cstring m (put_bytes m b1 (p_ident x))
    (p_description x)) (p_pattern x)"
  have s2: "starts m b b2"
    unfolding b2_def
    by (rule starts_trans [OF _ starts_chunks(5)] starts_trans [OF _ starts_chunks(4)] s1)+
  obtain n y where l: "put_locations m b2 (p_locations x) = put_header b2 (orig m (length b2)) n @ y"
    using starts_locations_strict [OF assms(1)] by metis
  have b': "b' = put_pis m (put_ppvids m (put_vlans m (put_locations m b2 (p_locations x))
      (p_vlans x)) (p_ppvids x)) (p_pis x)"
    using assms(2) by (simp add: put_port_fields_def Let_def ch b2_def)
  have "starts m (put_locations m b2 (p_locations x)) b'"
    unfolding b' by (rule starts_trans [OF _ starts_lists(5)] starts_trans [OF _ starts_lists(4)]
      starts_lists(3))+
  then obtain z where z: "b' = put_header b2 (orig m (length b2)) n @ z"
    using l by (auto dest!: starts_prefix elim!: prefixE)
  have "starts m b2 b'" using z by (auto simp: starts_def)
  with s2 have "starts m b b'" by (rule starts_trans)
  moreover have "b' \<noteq> b"
  proof -
    have "length b \<le> length b2" using starts_prefix [OF s2] by (rule prefix_length_le)
    moreover have "length b2 < length b'" by (simp add: z length_put_header align_up_def)
    ultimately show ?thesis by auto
  qed
  ultimately show thesis by (auto simp: starts_def intro: that)
qed

lemma starts_port: "starts m b (fst (put_port_fields m mem (b, seen) x))"
proof -
  obtain b1 seen1 where ch: "put_port_chassis m mem (b, seen) (p_chassis (p_raw x)) = (b1, seen1)"
    by fastforce
  then have s1: "starts m b b1"
    by (auto simp: put_port_chassis_def starts_refl starts_chassis split: if_splits)
  show ?thesis
    unfolding put_port_fields_def Let_def ch prod.case fst_conv
    by (rule starts_trans [OF _ starts_lists(5)] starts_trans [OF _ starts_lists(4)]
        starts_trans [OF _ starts_lists(3)] starts_trans [OF _ starts_lists(2)]
        starts_trans [OF _ starts_chunks(5)] starts_trans [OF _ starts_chunks(4)] s1)+
qed

lemma starts_neighbors: "starts m b (fst (put_neighbors m mem (b, seen) xs))"
proof (induction xs arbitrary: b seen)
  case (Cons x xs)
  define b1 where "b1 = put_struct m b (pod_write RawPort_pod (p_raw x))"
  obtain b2 seen2 where n: "put_neighbors m mem (b1, seen) xs = (b2, seen2)" by fastforce
  have "starts m b b1" unfolding b1_def by (rule starts_chunks(2))
  moreover have "starts m b1 b2" using Cons.IH [of b1 seen] n by simp
  ultimately have "starts m b (fst (put_port_fields m mem (b2, seen2) x))"
    by (rule starts_trans [OF starts_trans starts_port])
  then show ?case using n by (simp add: b1_def)
qed (simp add: starts_refl)

section \<open>What the shorter layout makes of a message in the longer one\<close>

lemma word_from_le_eq_0:
  assumes "(word_from_le b :: usize) = 0" and "length b = 8"
  shows "\<forall>x \<in> set b. x = 0"
proof -
  have "unat (word_from_le b :: usize) = le_nat b"
    using assms(2) le_nat_bound [of b] by (simp add: word_from_le_def unat_of_nat)
  then have "le_nat b = 0" using assms(1) by simp
  then show ?thesis by (induction b) (auto simp: unat_eq_zero)
qed

lemma take_drop_field:
  "take 8 (drop i (take 368 (drop 240 (take 632 w)))) = take 8 (drop (i - 8) (take 368 (drop 248 w)))"
  if "8 \<le> i" "i \<le> 360" "length w = 640"
  using that by (simp add: drop_take min_def add.commute)

text \<open>
  The local port, eight bytes early: the subtype of its identifier is the pointer to the
  identifier.
\<close>

lemma shifted_port:
  fixes r :: RawHardwareWithFlagsPrevious
  defines "w \<equiv> pod_write RawHardwareWithFlagsPrevious_pod r"
  defines "lp \<equiv> RawHardwareWithFlagsPrevious.h_lport r"
  assumes "RawHardwareWithFlagsPrevious_ok r"
  shows "length w = 640"
    and "p_id_subtype lp \<noteq> 0 \<Longrightarrow>
      p_id (RawHardware.h_lport (pod_read RawHardware_pod (take 632 w))) \<noteq> 0"
proof -
  show len: "length w = 640"
    unfolding w_def using hardware_fp.length_write [OF assms(3)] by (simp add: pod_sizes)
  define lb where "lb = take 368 (drop 248 w)"
  have "lb = field_bytes RawHardwareWithFlagsPrevious_layout w ''h_lport''"
    by (simp add: lb_def RawHardwareWithFlagsPrevious_fields)
  also have "\<dots> = RawPort_to_bytes lp"
    using field_bytes_pack_layout [OF hardware_fp.fits_contents [OF assms(3)], of "''h_lport''"]
    by (simp add: w_def lp_def hardware_fp.write_pack RawHardwareWithFlagsPrevious_members
        RawHardwareWithFlagsPrevious_contents_def)
  finally have lb: "lb = RawPort_to_bytes lp" .
  have ok: "RawPort_ok lp" using assms(3) by (simp add: RawHardwareWithFlagsPrevious_ok_def lp_def)
  have port: "RawHardware.h_lport (pod_read RawHardware_pod (take 632 w)) =
      RawPort_of_bytes (take 368 (drop 240 (take 632 w)))"
    by (simp add: RawHardware_pod_def RawHardware_of_bytes_def RawHardware_fields)
  have sub: "take 1 (drop 64 lb) = word_to_le (p_id_subtype lp)"
    using field_bytes_pack_layout [OF port.fits_contents [OF ok], of "''p_id_subtype''"]
    by (simp add: lb RawPort_to_bytes_def RawPort_fields RawPort_members RawPort_contents_def)
  have f: "take 8 (drop i (take 368 (drop 240 (take 632 w)))) = take 8 (drop (i - 8) lb)"
    if "8 \<le> i" "i \<le> 360" for i
    unfolding lb_def by (rule take_drop_field [OF that len])
  define q where "q = take 8 (drop 64 lb)"
  have pid: "p_id (RawHardware.h_lport (pod_read RawHardware_pod (take 632 w))) = word_from_le q"
    using f [of 72] by (simp add: port RawPort_of_bytes_def field_def RawPort_fields q_def)
  have "take 1 q = word_to_le (p_id_subtype lp)" using sub by (simp add: q_def)
  moreover have "length q = 8" by (simp add: q_def lb_def len)
  ultimately have "(word_from_le q :: usize) = 0 \<Longrightarrow> \<forall>x \<in> set (word_to_le (p_id_subtype lp)). x = 0"
    using word_from_le_eq_0 [of q] in_set_takeD [of _ 1 q] by metis
  moreover have "word_to_le (p_id_subtype lp) = [p_id_subtype lp]" by (simp add: word_to_le_def)
  ultimately show "p_id_subtype lp \<noteq> 0 \<Longrightarrow>
      p_id (RawHardware.h_lport (pod_read RawHardware_pod (take 632 w))) \<noteq> 0"
    using pid by auto
qed

text \<open>The start of the message: the structure, its marker, and the header of a third chunk.\<close>

lemma hardware_starts:
  assumes "p_locations lport \<noteq> []" and "length (pod_write P r) = 640"
  obtains n tl where "put_hardware m mem P r lport ns al =
    word_to_le (orig m 0) @ word_to_le (word_of_nat (656 + unat (nested m 0)) :: usize) @
    pod_write P r @ word_to_le (orig m 656) @
    word_to_le (word_of_nat (16 + unat (nested m 656)) :: usize) @
    word_to_le (orig m 672) @ word_to_le (n :: usize) @ tl"
proof -
  define b1 where "b1 = put_struct m [] (pod_write P r)"
  define b2 where "b2 = put_marker m b1"
  have l1: "length b1 = 656" using assms(2)
    by (simp add: b1_def put_struct_def length_put_header align_up_def)
  have l2: "length b2 = 672" by (simp add: b2_def put_marker_def length_put_header align_up_def l1)
  obtain b3 seen3 where f: "put_port_fields m mem (b2, {}) lport = (b3, seen3)" by fastforce
  obtain n y where b3: "b3 = put_header b2 (orig m (length b2)) n @ y"
    using starts_port_fields [OF assms(1) f] .
  obtain b4 seen4 where n: "put_neighbors m mem (b3, seen3) ns = (b4, seen4)" by fastforce
  have "prefix b3 b4" using starts_neighbors [of m b3 mem seen3 ns] n by (simp add: starts_prefix)
  then have "prefix b3 (put_cstring m b4 al)"
    using starts_prefix [OF starts_chunks(5)] by (metis prefix_order.trans)
  then obtain z where msg: "put_cstring m b4 al = b3 @ z" by (auto elim: prefixE)
  have "put_hardware m mem P r lport ns al = put_cstring m b4 al"
    by (simp add: put_hardware_def Let_def b1_def [symmetric] b2_def [symmetric] f n)
  also have "\<dots> = b2 @ word_to_le (orig m 672) @ word_to_le n @ y @ z"
    by (simp add: msg b3 put_header_def l2 align_up_def)
  finally show thesis
    by (intro that [of n "y @ z"])
      (simp add: b2_def b1_def put_marker_def put_struct_def put_header_def align_up_def assms(2))
qed

lemma chunk_too_small:
  assumes "p = align_up (pos c) 8" and "p + 16 \<le> length (buf c)" and "p + 16 < usize_bound"
    and "unat (word_from_le (take 8 (drop (p + 8) (buf c))) :: usize) < 16"
  shows "\<exists>e. leaf c = Err e" "\<exists>e. read_chunk_pod P c = Err e"
  using assms(4) by (simp_all add: leaf_def read_chunk_pod_def chunk_header_Ok [OF assms(1-3)]
      header_at_def Let_def PTR_SIZE_def checked_sub_def)

text \<open>
  The shorter layout rejects the message when the local port has an identifier and the reference
  number of the third chunk is below sixteen.
\<close>

definition numbered :: "marshal \<Rightarrow> port_mem \<Rightarrow> bool" where
  "numbered m lport \<longleftrightarrow> p_id_subtype (p_raw lport) \<noteq> 0 \<and> unat (orig m 672) < 16"

lemma shorter_layout_rejects:
  assumes "numbered m lport"
    and "hardware_image RawHardwareWithFlagsPrevious_impl r lport ns al"
    and "RawHardwareWithFlagsPrevious_ok r"
    and "length (put_hardware m mem RawHardwareWithFlagsPrevious_pod r lport ns al) \<le> slice_max"
  shows "\<exists>e. decode_hardware_as RawHardware_pod RawHardware_impl
    (put_hardware m mem RawHardwareWithFlagsPrevious_pod r lport ns al) = Err e"
proof -
  define B where "B = put_hardware m mem RawHardwareWithFlagsPrevious_pod r lport ns al"
  define w where "w = pod_write RawHardwareWithFlagsPrevious_pod r"
  define raw where "raw = pod_read RawHardware_pod (take 632 w)"
  have lp: "p_raw lport = RawHardwareWithFlagsPrevious.h_lport r" and img: "port_image lport"
    using assms(2) by (simp_all add: hardware_image_def RawHardwareWithFlagsPrevious_impl_def)
  have len: "length w = 640" unfolding w_def by (rule shifted_port(1) [OF assms(3)])
  have pid: "p_id (RawHardware.h_lport raw) \<noteq> 0"
    using shifted_port(2) [OF assms(3)] assms(1) by (simp add: raw_def w_def numbered_def lp)
  have "p_locations lport \<noteq> []"
    using img by (auto simp: port_image_def Let_def RawPort_ok_def)
  then obtain n tl where "B = word_to_le (orig m 0) @
      word_to_le (word_of_nat (656 + unat (nested m 0)) :: usize) @ w @ word_to_le (orig m 656) @
      word_to_le (word_of_nat (16 + unat (nested m 656)) :: usize) @ word_to_le (orig m 672) @
      word_to_le (n :: usize) @ tl"
    using len unfolding B_def w_def by (rule hardware_starts)
  moreover define size :: usize where "size = word_of_nat (656 + unat (nested m 0))"
  ultimately have B: "B = word_to_le (orig m 0) @ word_to_le size @ w @ word_to_le (orig m 656) @
      word_to_le (word_of_nat (16 + unat (nested m 656)) :: usize) @ word_to_le (orig m 672) @
      word_to_le n @ tl" by simp
  have "unat (nested m 0) < 2 ^ 32" using unsigned_less [of "nested m 0"] by simp
  then have size: "648 \<le> unat size"
    unfolding size_def by (subst unat_size) (simp_all add: bounds_num)
  have lB: "688 \<le> length B" by (simp add: B len)
  have fit: "length B < usize_bound" using assms(4) by (simp add: B_def [symmetric] bounds_num)
  have s1: "read_chunk_pod RawHardware_pod (cursor_new B) = Ok (raw, \<lparr>buf = B, pos = 648\<rparr>)"
  proof -
    have "header_at B 0 = (orig m 0, size)" by (simp add: header_at_def B)
    moreover have "take 632 (drop 16 B) = take 632 w" by (simp add: B len)
    ultimately show ?thesis
      using size lB fit len
      by (simp add: read_chunk_pod_def cursor_new_def chunk_header_Ok [OF refl] align_up_def
          Let_def PTR_SIZE_def read_raw_Ok read_pod_def pod_sizes raw_def)
  qed
  have s2: "consume_substruct_marker \<lparr>buf = B, pos = 648\<rparr> = Ok ((), \<lparr>buf = B, pos = 664\<rparr>)"
    using lB fit
    by (simp add: consume_substruct_marker_def chunk_header_Ok [OF refl] align_up_def)
  have "word_from_le (take 8 (drop 672 B)) = orig m 672" by (simp add: B len)
  then obtain e e' where s3: "leaf \<lparr>buf = B, pos = 664\<rparr> = Err e"
    "read_chunk_pod RawChassis_pod \<lparr>buf = B, pos = 664\<rparr> = Err e'"
    using chunk_too_small [of 664 "\<lparr>buf = B, pos = 664\<rparr>"] lB fit assms(1)
    by (fastforce simp: align_up_def numbered_def)
  have "\<exists>e. decode_hardware_as RawHardware_pod RawHardware_impl B = Err e"
    using pid
    by (simp add: decode_hardware_as_def decode_hardware_body_def s1 s2 RawHardware_impl_def
        decode_port_fields_def decode_port_chassis_def decode_chassis_def read_opt_bytes_def s3)
  then show ?thesis by (simp only: B_def)
qed

lemma longer_layout_accepted:
  assumes "memory_image mem" and "numbered m lport"
    and "hardware_image RawHardwareWithFlagsPrevious_impl r lport ns al"
    and "RawHardwareWithFlagsPrevious_ok r"
    and "length (put_hardware m mem RawHardwareWithFlagsPrevious_pod r lport ns al) \<le> slice_max"
  shows "decode_hardware (put_hardware m mem RawHardwareWithFlagsPrevious_pod r lport ns al) =
    Ok (hardware_value mem RawHardwareWithFlagsPrevious_impl r lport ns al)"
  using shorter_layout_rejects [OF assms(2-5)]
    hardware_fp.hardware_as_decoded [OF assms(1,3,4), of m "[]"] assms(5)
  by (auto simp: decode_hardware_def pod_sizes)

section \<open>The daemon's reply to \<open>GET_INTERFACE\<close>\<close>

text \<open>
  A reply with the interface's state in the daemon's memory: the ports \<open>ns\<close> are the neighbors,
  the last argument is the value that stands for the state.
\<close>

inductive hardware_message ::
  "memory \<Rightarrow> port_mem list \<Rightarrow> bytes \<Rightarrow> InterfaceDetails \<Rightarrow> bool" where
  shorter: "memory_image mem \<Longrightarrow> hardware_image RawHardware_impl r lport ns al \<Longrightarrow>
    RawHardware_ok r \<Longrightarrow>
    hardware_message mem ns (put_hardware m mem RawHardware_pod r lport ns al)
      (hardware_value mem RawHardware_impl r lport ns al)"
| longer: "memory_image mem \<Longrightarrow>
    hardware_image RawHardwareWithFlagsPrevious_impl r' lport ns al \<Longrightarrow>
    RawHardwareWithFlagsPrevious_ok r' \<Longrightarrow>
    p_id_subtype (p_raw lport) \<noteq> 0 \<Longrightarrow> unat (orig m 672) < 16 \<Longrightarrow>
    hardware_message mem ns (put_hardware m mem RawHardwareWithFlagsPrevious_pod r' lport ns al)
      (hardware_value mem RawHardwareWithFlagsPrevious_impl r' lport ns al)"

lemma hardware_reply_decoded:
  assumes "hardware_message mem ns p d" and "length p \<le> slice_max"
  shows "decode_hardware p = Ok d"
  using assms(1)
proof cases
  case (shorter r lport al m)
  with hardware.hardware_as_decoded [OF shorter(3-5), of m "[]"] assms(2) show ?thesis
    by (simp add: decode_hardware_def pod_sizes)
next
  case (longer r' lport al m)
  then have "numbered m lport" by (simp add: numbered_def)
  from longer_layout_accepted [OF longer(3) this longer(4,5)] longer(1,2) assms(2)
  show ?thesis by simp
qed

lemma hardware_message_neighbors:
  "hardware_message mem ns p d \<Longrightarrow> neighbors d = map (neighbor_value mem) ns"
  by (erule hardware_message.cases) (simp_all add: hardware_value_def)

end
