(* ===== verification/Arcs.thy ===== *)
theory Arcs
  imports Roundtrip
begin

text \<open>
  The decoders of src/wire/decode.rs with the identity of the shared chassis. In theory
  \<open>Decode\<close> an \<open>Arc\<close> is the value it holds; here it is an allocation, which the program can tell
  from another one with an equal value by \<open>Arc::ptr_eq\<close>. Only the decoders that handle a
  chassis differ; the rest is shared with theory \<open>Decode\<close>.

  Then: forgetting the allocations gives the decoders of theory \<open>Decode\<close>, on every payload, and
  two references of a decoded interface are the same allocation exactly if the pointers on the
  wire are equal, with one allocation per pointer.
\<close>

section \<open>References\<close>

text \<open>
  An \<open>Arc\<close> is the address of its allocation and the value there, which never changes. The
  allocator is the first address that was not given out. A chassis that is allocated stays
  alive to the end of the call, in the cache, so no address is used twice.
\<close>

datatype 'a Arc = Arc (address: nat) (pointee: 'a)

definition arc_new :: "'a \<Rightarrow> nat \<Rightarrow> 'a Arc \<times> nat" where
  "arc_new x free = (Arc free x, Suc free)"

definition ptr_eq :: "'a Arc \<Rightarrow> 'a Arc \<Rightarrow> bool" where
  "ptr_eq a b \<longleftrightarrow> address a = address b"

type_synonym ArcCache = "usize \<rightharpoonup> Chassis Arc"

record ArcNeighbor =
  chassis_arc :: "Chassis Arc"
  arc_port_id_subtype :: PortIdSubtype
  arc_port_id :: bytes
  arc_port_description :: "rstring option"
  arc_ttl :: u16

record ArcInterfaceDetails =
  arc_name :: rstring
  arc_alias :: "rstring option"
  arc_mac_address :: bytes
  local_chassis_arc :: "Chassis Arc option"
  arc_neighbors :: "ArcNeighbor list"

record ArcNeighborChange =
  arc_interface :: rstring
  arc_interface_alias :: "rstring option"
  arc_kind :: NeighborChangeKind
  arc_neighbor :: "ArcNeighbor option"

record ArcPortFields =
  port_chassis_arc :: "Chassis Arc option"
  arc_id :: "bytes option"
  arc_description :: "rstring option"

section \<open>The decoders\<close>

text \<open>The cache of the chassis and the allocator are passed on together.\<close>

definition decode_port_chassis_arcs ::
  "cursor \<Rightarrow> RawPort \<Rightarrow> ArcCache \<Rightarrow> nat \<Rightarrow>
   ((Chassis Arc option \<times> ArcCache \<times> nat) \<times> cursor) res" where
  "decode_port_chassis_arcs c raw cache free =
     (if p_chassis raw = 0 then Ok ((None, cache, free), c)
      else case cache (p_chassis raw) of
        Some cached \<Rightarrow> Ok ((Some cached, cache, free), c)
      | None \<Rightarrow>
          and_then (decode_chassis c) (\<lambda>(ch, c).
          case arc_new ch free of (decoded, free) \<Rightarrow>
          Ok ((Some decoded, cache(p_chassis raw \<mapsto> decoded), free), c)))"

definition decode_port_fields_arcs ::
  "cursor \<Rightarrow> RawPort \<Rightarrow> ArcCache \<Rightarrow> nat \<Rightarrow> ((ArcPortFields \<times> ArcCache \<times> nat) \<times> cursor) res"
  where
  "decode_port_fields_arcs c raw cache free =
     and_then (decode_port_chassis_arcs c raw cache free) (\<lambda>((ch, cache, free), c).
     and_then (read_opt_bytes c (p_id raw)) (\<lambda>(pid, c).
     and_then (read_opt_cstring c (p_descr raw)) (\<lambda>(descr, c).
     and_then (read_opt_cstring c (p_vlan_advertise_pattern raw)) (\<lambda>(_, c).
     and_then (decode_med_locations c (p_med_location raw)) (\<lambda>(_, c).
     and_then (if p_vlans_tqh_first raw \<noteq> 0 then discard_vlan_chain c else Ok ((), c))
       (\<lambda>(_, c).
     and_then (if p_ppvids_tqh_first raw \<noteq> 0 then discard_ppvid_chain c else Ok ((), c))
       (\<lambda>(_, c).
     and_then (if p_pids_tqh_first raw \<noteq> 0 then discard_pi_chain c else Ok ((), c)) (\<lambda>(_, c).
     Ok ((\<lparr>port_chassis_arc = ch, arc_id = pid, arc_description = descr\<rparr>, cache, free),
         c)))))))))"

definition build_neighbor_arcs ::
  "cursor \<Rightarrow> RawPort \<Rightarrow> ArcCache \<Rightarrow> nat \<Rightarrow> ((ArcNeighbor \<times> ArcCache \<times> nat) \<times> cursor) res" where
  "build_neighbor_arcs c raw cache free =
     and_then (decode_port_fields_arcs c raw cache free) (\<lambda>((fields, cache, free), c).
     case port_chassis_arc fields of
       None \<Rightarrow> Err no_chassis
     | Some ch \<Rightarrow>
         Ok ((\<lparr>chassis_arc = ch,
               arc_port_id_subtype = PortIdSubtype_from (p_id_subtype raw),
               arc_port_id = or_default (arc_id fields),
               arc_port_description = arc_description fields,
               arc_ttl = p_ttl raw\<rparr>, cache, free), c))"

function decode_neighbor_chain_arcs ::
  "cursor \<Rightarrow> ArcCache \<Rightarrow> nat \<Rightarrow> ((ArcNeighbor list \<times> ArcCache \<times> nat) \<times> cursor) res" where
  "decode_neighbor_chain_arcs c cache free =
     and_then (read_chunk_pod RawPort_pod c) (\<lambda>(raw, c).
     and_then (if RawPort.tqe_next raw \<noteq> 0 then decode_neighbor_chain_arcs c cache free
               else Ok (([], cache, free), c)) (\<lambda>((rest, cache, free), c).
     and_then (build_neighbor_arcs c raw cache free) (\<lambda>((n, cache, free), c).
     Ok ((n # rest, cache, free), c))))"
  by pat_completeness auto
termination
  by (relation "measure (\<lambda>(c, cache, free). remaining c)") (auto intro: read_chunk_pod_remaining)

declare decode_neighbor_chain_arcs.simps [simp del]

definition decode_hardware_body_arcs ::
  "'a pod \<Rightarrow> 'a HardwareFields \<Rightarrow> nat \<Rightarrow> cursor \<Rightarrow>
   ((ArcInterfaceDetails \<times> nat) \<times> cursor) res" where
  "decode_hardware_body_arcs P T free c =
     and_then (read_chunk_pod P c) (\<lambda>(raw, c).
     and_then (consume_substruct_marker c) (\<lambda>(_, c).
     if RawPort.tqe_next (h_lport T raw) \<noteq> 0 then Err chained_lport
     else
       and_then (decode_port_fields_arcs c (h_lport T raw) Map.empty free)
         (\<lambda>((local_fields, cache, free), c).
       and_then (if h_rports_tqh_first T raw \<noteq> 0 then decode_neighbor_chain_arcs c cache free
                 else Ok (([], cache, free), c)) (\<lambda>((ns, cache, free), c).
       and_then (read_opt_cstring c (h_ifalias T raw)) (\<lambda>(al, c).
       and_then (slice (h_ifname T raw) 0 (nul_position (h_ifname T raw))) (\<lambda>nm.
       Ok ((\<lparr>arc_name = from_utf8_lossy nm,
             arc_alias = al,
             arc_mac_address = h_lladdr T raw,
             local_chassis_arc = port_chassis_arc local_fields,
             arc_neighbors = ns\<rparr>, free), c)))))))"

definition decode_hardware_as_arcs ::
  "'a pod \<Rightarrow> 'a HardwareFields \<Rightarrow> nat \<Rightarrow> bytes \<Rightarrow> (ArcInterfaceDetails \<times> nat) res" where
  "decode_hardware_as_arcs P T free payload =
     and_then (decode_hardware_body_arcs P T free (cursor_new payload)) (\<lambda>(details, c).
     if \<not> is_exhausted c then Err layout_mismatch else Ok details)"

text \<open>What the first attempt allocated is dropped when it fails.\<close>

definition decode_hardware_arcs :: "nat \<Rightarrow> bytes \<Rightarrow> (ArcInterfaceDetails \<times> nat) res" where
  "decode_hardware_arcs free payload =
     (case decode_hardware_as_arcs RawHardware_pod RawHardware_impl free payload of
        Ok details \<Rightarrow> Ok details
      | Err legacy_err \<Rightarrow>
          map_err (\<lambda>_. legacy_err)
            (decode_hardware_as_arcs RawHardwareWithFlagsPrevious_pod
              RawHardwareWithFlagsPrevious_impl free payload)
      | Panic \<Rightarrow> Panic)"

definition decode_notified_neighbor_arcs ::
  "cursor \<Rightarrow> usize \<Rightarrow> nat \<Rightarrow> ((ArcNeighbor option \<times> nat) \<times> cursor) res" where
  "decode_notified_neighbor_arcs c p free =
     (if p = 0 then Ok ((None, free), c)
      else
        and_then (read_chunk_pod RawPort_pod c) (\<lambda>(port_raw, c).
        if RawPort.tqe_next port_raw \<noteq> 0 then Err chained_neighbor
        else and_then (build_neighbor_arcs c port_raw Map.empty free) (\<lambda>((n, cache, free), c).
          Ok ((Some n, free), c))))"

definition decode_neighbor_change_arcs :: "nat \<Rightarrow> bytes \<Rightarrow> (ArcNeighborChange \<times> nat) res" where
  "decode_neighbor_change_arcs free payload =
     and_then (read_chunk_pod RawNeighborChange_pod (cursor_new payload)) (\<lambda>(raw, c).
     and_then (read_opt_cstring c (RawNeighborChange.ifname raw)) (\<lambda>(nm, c).
     and_then (read_opt_cstring c (ifalias raw)) (\<lambda>(al, c).
     and_then (decode_notified_neighbor_arcs c (RawNeighborChange.neighbor raw) free)
       (\<lambda>((n, free), c).
     Ok (\<lparr>arc_interface = or_default nm, arc_interface_alias = al,
          arc_kind = NeighborChangeKind_from (state raw), arc_neighbor = n\<rparr>, free)))))"

section \<open>Forgetting the allocations\<close>

definition erase_cache :: "ArcCache \<Rightarrow> ChassisCache" where
  "erase_cache cache = map_option pointee \<circ> cache"

definition erase_fields :: "ArcPortFields \<Rightarrow> PortFields" where
  "erase_fields f = \<lparr>PortFields.chassis = map_option pointee (port_chassis_arc f), id' = arc_id f,
     description = arc_description f\<rparr>"

definition erase_neighbor :: "ArcNeighbor \<Rightarrow> Neighbor" where
  "erase_neighbor n = \<lparr>Neighbor.chassis = pointee (chassis_arc n),
     port_id_subtype = arc_port_id_subtype n, port_id = arc_port_id n,
     port_description = arc_port_description n, ttl = arc_ttl n\<rparr>"

definition erase_details :: "ArcInterfaceDetails \<Rightarrow> InterfaceDetails" where
  "erase_details d = \<lparr>InterfaceDetails.name = arc_name d, alias' = arc_alias d,
     mac_address = arc_mac_address d,
     local_chassis = map_option pointee (local_chassis_arc d),
     neighbors = map erase_neighbor (arc_neighbors d)\<rparr>"

definition erase_change :: "ArcNeighborChange \<Rightarrow> NeighborChange" where
  "erase_change ch = \<lparr>interface = arc_interface ch, interface_alias = arc_interface_alias ch,
     kind = arc_kind ch, NeighborChange.neighbor = map_option erase_neighbor (arc_neighbor ch)\<rparr>"

text \<open>\<open>erases f d d'\<close>: the reader \<open>d'\<close> does what \<open>d\<close> does, up to \<open>f\<close> on its value.\<close>

definition erases :: "('a \<Rightarrow> 'b) \<Rightarrow> ('a \<times> cursor) res \<Rightarrow> ('b \<times> cursor) res \<Rightarrow> bool" where
  "erases f r r' \<longleftrightarrow> r' = map_ok (map_prod f id) r"

named_theorems erases_intros \<open>readers that agree up to the allocations\<close>

lemma erases_Ok [erases_intros]: "y = f x \<Longrightarrow> erases f (Ok (x, c)) (Ok (y, c))"
  by (simp add: erases_def)

lemma erases_Err [erases_intros]: "erases f (Err e) (Err e)"
  by (simp add: erases_def)

lemma erases_and_then:
  assumes "erases f r r'" and "\<And>x c. erases g (k (x, c)) (k' (f x, c))"
  shows "erases g (and_then r k) (and_then r' k')"
  using assms by (cases r) (auto simp: erases_def)

lemma erases_same:
  assumes "\<And>x c. erases g (k (x, c)) (k' (x, c))"
  shows "erases g (and_then r k) (and_then r k')"
  using assms by (cases r) (auto simp: erases_def)

lemma erases_res:
  assumes "\<And>x. erases g (k x) (k' x)"
  shows "erases g (and_then r k) (and_then r k')"
  using assms by (cases r) (auto simp: erases_def)

lemma erases_if:
  assumes "erases g a a'" and "erases g b b'"
  shows "erases g (if P then a else b) (if P then a' else b')"
  using assms by simp

definition erase_state :: "('a \<Rightarrow> 'b) \<Rightarrow> 'a \<times> ArcCache \<times> nat \<Rightarrow> 'b \<times> ChassisCache" where
  "erase_state f = (\<lambda>(x, cache, free). (f x, erase_cache cache))"

lemma erase_state_simp [simp]: "erase_state f (x, cache, free) = (f x, erase_cache cache)"
  by (simp add: erase_state_def)

lemma erases_state:
  assumes "erases (erase_state f) r r'"
    and "\<And>x cache free c. erases g (k ((x, cache, free), c)) (k' ((f x, erase_cache cache), c))"
  shows "erases g (and_then r k) (and_then r' k')"
  using assms by (auto intro!: erases_and_then)

lemma erase_cache_simps [simp]:
  "erase_cache Map.empty = Map.empty"
  "erase_cache (cache(p \<mapsto> a)) = (erase_cache cache)(p \<mapsto> pointee a)"
  "erase_cache cache p = map_option pointee (cache p)"
  by (auto simp: erase_cache_def)

lemma port_chassis_erases:
  "erases (erase_state (map_option pointee)) (decode_port_chassis_arcs c raw cache free)
     (decode_port_chassis c raw (erase_cache cache))"
  by (auto simp: decode_port_chassis_arcs_def decode_port_chassis_def arc_new_def
      split: option.split intro!: erases_Ok erases_same)

lemma port_fields_erases:
  "erases (erase_state erase_fields) (decode_port_fields_arcs c raw cache free)
     (decode_port_fields c raw (erase_cache cache))"
  unfolding decode_port_fields_arcs_def decode_port_fields_def
  by (rule erases_and_then [OF port_chassis_erases])
    (auto simp: erase_fields_def intro!: erases_same erases_Ok)

lemma build_neighbor_erases:
  "erases (erase_state erase_neighbor) (build_neighbor_arcs c raw cache free)
     (build_neighbor c raw (erase_cache cache))"
  unfolding build_neighbor_arcs_def build_neighbor_def
  by (rule erases_and_then [OF port_fields_erases])
    (auto simp: erase_fields_def erase_neighbor_def split: option.split intro!: erases_intros)

lemma neighbor_chain_erases:
  "erases (erase_state (map erase_neighbor)) (decode_neighbor_chain_arcs c cache free)
     (decode_neighbor_chain c (erase_cache cache))"
proof (induction c cache free rule: decode_neighbor_chain_arcs.induct)
  case (1 c cache free)
  have rest: "erases (erase_state (map erase_neighbor))
      (if RawPort.tqe_next raw \<noteq> 0 then decode_neighbor_chain_arcs c1 cache free
       else Ok (([], cache, free), c1))
      (if RawPort.tqe_next raw \<noteq> 0 then decode_neighbor_chain c1 (erase_cache cache)
       else Ok (([], erase_cache cache), c1))"
    if "read_chunk_pod RawPort_pod c = Ok (raw, c1)" for raw c1
    using "1.IH" [OF that refl] by (simp add: erases_intros del: erase_cache_simps(3))
  show ?case
  proof (cases "read_chunk_pod RawPort_pod c")
    case (Ok x)
    obtain raw c1 where x: "x = (raw, c1)" by fastforce
    show ?thesis
      by (simp only: decode_neighbor_chain_arcs.simps [of c] decode_neighbor_chain.simps [of c]
          Ok x and_then_simps prod.case,
        rule erases_and_then [OF rest [OF Ok [unfolded x]]])
      (auto intro!: erases_and_then [OF build_neighbor_erases] erases_intros)
  qed (simp_all add: decode_neighbor_chain_arcs.simps [of c] decode_neighbor_chain.simps [of c]
      erases_def)
qed

lemma hardware_body_erases:
  "erases (erase_details \<circ> fst) (decode_hardware_body_arcs P T free c)
     (decode_hardware_body P T c)"
proof -
  have fields: "erases (erase_state erase_fields)
      (decode_port_fields_arcs c raw Map.empty free) (decode_port_fields c raw Map.empty)" for c raw
    using port_fields_erases [of c raw Map.empty free] by simp
  have chain: "erases (erase_state (map erase_neighbor))
      (if h \<noteq> 0 then decode_neighbor_chain_arcs c cache free else Ok (([], cache, free), c))
      (if h \<noteq> 0 then decode_neighbor_chain c (erase_cache cache)
       else Ok (([], erase_cache cache), c))" for h :: usize and c cache free
    using neighbor_chain_erases by (simp add: erases_intros del: erase_cache_simps(3))
  have tail: "erases (erase_details \<circ> fst)
      (and_then (slice b 0 (nul_position b)) (\<lambda>nm. Ok ((\<lparr>arc_name = from_utf8_lossy nm,
        arc_alias = al, arc_mac_address = mac, local_chassis_arc = port_chassis_arc lf,
        arc_neighbors = ns\<rparr>, free), c)))
      (and_then (slice b 0 (nul_position b)) (\<lambda>nm. Ok (\<lparr>InterfaceDetails.name = from_utf8_lossy nm,
        alias' = al, mac_address = mac, local_chassis = PortFields.chassis (erase_fields lf),
        neighbors = map erase_neighbor ns\<rparr>, c)))" for b al mac lf ns free c
    by (rule erases_res, rule erases_Ok) (simp add: erase_details_def erase_fields_def)
  show ?thesis
    unfolding decode_hardware_body_arcs_def decode_hardware_body_def
    by (rule erases_same, unfold prod.case, rule erases_same, unfold prod.case,
        rule erases_if, rule erases_Err, rule erases_state [OF fields], unfold prod.case,
        rule erases_state [OF chain], unfold prod.case, rule erases_same, unfold prod.case,
        rule tail)
qed

lemma hardware_as_erased:
  "map_ok (erase_details \<circ> fst) (decode_hardware_as_arcs P T free p) = decode_hardware_as P T p"
  using hardware_body_erases [of P T free "cursor_new p"]
  by (cases "decode_hardware_body_arcs P T free (cursor_new p)")
    (auto simp: decode_hardware_as_arcs_def decode_hardware_as_def erases_def)

lemma hardware_erased:
  "map_ok (erase_details \<circ> fst) (decode_hardware_arcs free p) = decode_hardware p"
  unfolding decode_hardware_arcs_def decode_hardware_def
    hardware_as_erased [where free = free, symmetric]
  by (cases "decode_hardware_as_arcs RawHardware_pod RawHardware_impl free p";
      cases "decode_hardware_as_arcs RawHardwareWithFlagsPrevious_pod
        RawHardwareWithFlagsPrevious_impl free p") simp_all

lemma notified_neighbor_erases:
  "erases (map_option erase_neighbor \<circ> fst) (decode_notified_neighbor_arcs c p free)
     (decode_notified_neighbor c p)"
proof -
  have n: "erases (erase_state erase_neighbor) (build_neighbor_arcs c raw Map.empty free)
      (build_neighbor c raw Map.empty)" for c raw
    using build_neighbor_erases [of c raw Map.empty free] by simp
  show ?thesis
    unfolding decode_notified_neighbor_arcs_def decode_notified_neighbor_def
    by (auto intro!: erases_same erases_intros erases_and_then [OF n])
qed

lemma change_erased:
  "map_ok (erase_change \<circ> fst) (decode_neighbor_change_arcs free p) = decode_neighbor_change p"
proof -
  have n: "and_then (decode_notified_neighbor_arcs c q free)
        (\<lambda>x. Ok (erase_change \<lparr>arc_interface = i, arc_interface_alias = al, arc_kind = k,
          arc_neighbor = fst (fst x)\<rparr>)) =
      and_then (decode_notified_neighbor c q) (\<lambda>x. Ok \<lparr>interface = i, interface_alias = al,
        kind = k, NeighborChange.neighbor = fst x\<rparr>)" for c q i al k
    using notified_neighbor_erases [of c q free]
    by (cases "decode_notified_neighbor_arcs c q free") (auto simp: erases_def erase_change_def)
  show ?thesis
    by (simp add: decode_neighbor_change_arcs_def decode_neighbor_change_def map_ok_and_then
        split_def n)
qed

section \<open>Sharing\<close>

text \<open>
  The cache is a bijection between the pointers it knows and the addresses given out since the
  decoder started.
\<close>

definition allocations :: "nat \<Rightarrow> ArcCache \<Rightarrow> nat \<Rightarrow> bool" where
  "allocations start cache free \<longleftrightarrow> start \<le> free \<and>
     bij_betw (\<lambda>p. address (the (cache p))) (dom cache) {start..<free}"

lemma allocations_empty: "allocations start Map.empty start"
  by (simp add: allocations_def bij_betw_def)

lemma allocations_new:
  assumes "allocations start cache free" and "cache p = None"
  shows "allocations start (cache(p \<mapsto> Arc free x)) (Suc free)"
proof -
  let ?f = "\<lambda>q. address (the ((cache(p \<mapsto> Arc free x)) q))"
  have "bij_betw ?f (dom cache) A \<longleftrightarrow>
      bij_betw (\<lambda>q. address (the (cache q))) (dom cache) A" for A
    by (rule bij_betw_cong) (use assms(2) in auto)
  then have "bij_betw ?f (dom cache) {start..<free}"
    using assms(1) by (simp add: allocations_def)
  then have "bij_betw ?f (dom cache \<union> {p}) ({start..<free} \<union> {?f p})"
    using assms(2) by (intro notIn_Un_bij_betw) auto
  then show ?thesis
    using assms(1) by (simp add: allocations_def atLeastLessThanSuc insert_commute)
qed

lemma allocations_ptr_eq:
  assumes "allocations start cache free" and "cache p = Some a" and "cache q = Some b"
  shows "ptr_eq a b \<longleftrightarrow> p = q"
  using assms by (auto simp: allocations_def ptr_eq_def bij_betw_def
      dest!: inj_onD [of _ "dom cache" p q])

lemma allocations_card:
  assumes "allocations start cache free"
  shows "free = start + card (dom cache)"
  using assms by (auto simp: allocations_def dest!: bij_betw_same_card)


text \<open>What a decoder does to the cache and the allocator while it reads ports with pointers \<open>ps\<close>.\<close>

definition grown ::
  "nat \<Rightarrow> ArcCache \<Rightarrow> ArcCache \<Rightarrow> nat \<Rightarrow> usize list \<Rightarrow> bool" where
  "grown start cache cache' free' ps \<longleftrightarrow> allocations start cache' free' \<and>
     cache \<subseteq>\<^sub>m cache' \<and> dom cache' = dom cache \<union> (set ps - {0})"

lemma grown_refl: "allocations start cache free \<Longrightarrow> grown start cache cache free []"
  by (simp add: grown_def)

lemma grown_allocations: "grown start cache cache' free' ps \<Longrightarrow> allocations start cache' free'"
  by (simp add: grown_def)

lemma grown_trans:
  assumes "grown start c1 c2 f2 ps" and "grown start c2 c3 f3 qs"
  shows "grown start c1 c3 f3 (qs @ ps)"
  using assms unfolding grown_def by (auto intro: map_le_trans)

text \<open>The reference that a pointer gets: none for null, else the one of the cache.\<close>

definition arc_behind :: "ArcCache \<Rightarrow> usize \<Rightarrow> Chassis Arc option" where
  "arc_behind cache p = (if p = 0 then None else cache p)"

lemma arc_behind_mono:
  assumes "cache \<subseteq>\<^sub>m cache'" and "p = 0 \<or> p \<in> dom cache"
  shows "arc_behind cache' p = arc_behind cache p"
  using assms by (auto simp: arc_behind_def map_le_def) (metis domI)

lemma arc_behind_ptr_eq:
  assumes "allocations start cache free"
    and "arc_behind cache p = Some a" and "arc_behind cache q = Some b"
  shows "(ptr_eq a b \<longleftrightarrow> p = q) \<and> (ptr_eq a b \<longrightarrow> a = b)"
  using allocations_ptr_eq [OF assms(1), of p a q b] assms(2,3)
  by (auto simp: arc_behind_def split: if_splits)

lemma port_chassis_grown:
  assumes "decode_port_chassis_arcs c raw cache free = Ok ((ch, cache', free'), c')"
    and "allocations start cache free"
  shows "grown start cache cache' free' [p_chassis raw] \<and> ch = arc_behind cache' (p_chassis raw)"
proof (cases "p_chassis raw = 0 \<or> cache (p_chassis raw) \<noteq> None")
  case True
  with assms show ?thesis
    by (auto simp: decode_port_chassis_arcs_def grown_def arc_behind_def) metis
next
  case False
  with assms(1) obtain x where x: "cache' = cache(p_chassis raw \<mapsto> Arc free x)" "free' = Suc free"
    "ch = Some (Arc free x)"
    by (auto simp: decode_port_chassis_arcs_def arc_new_def and_then_eq_Ok)
  have "cache \<subseteq>\<^sub>m cache'" using False by (auto simp: x map_le_def)
  with False allocations_new [OF assms(2)] show ?thesis
    by (auto simp: grown_def arc_behind_def x)
qed

lemma port_fields_grown:
  assumes "decode_port_fields_arcs c raw cache free = Ok ((lf, cache', free'), c')"
    and "allocations start cache free"
  shows "grown start cache cache' free' [p_chassis raw] \<and>
    port_chassis_arc lf = arc_behind cache' (p_chassis raw)"
proof -
  obtain ch c1 where "decode_port_chassis_arcs c raw cache free = Ok ((ch, cache', free'), c1)"
    "port_chassis_arc lf = ch"
    using assms(1) by (auto simp: decode_port_fields_arcs_def and_then_eq_Ok)
  with port_chassis_grown [OF _ assms(2)] show ?thesis by metis
qed

lemma build_neighbor_grown:
  assumes "build_neighbor_arcs c raw cache free = Ok ((n, cache', free'), c')"
    and "allocations start cache free"
  shows "grown start cache cache' free' [p_chassis raw] \<and>
    arc_behind cache' (p_chassis raw) = Some (chassis_arc n)"
proof -
  obtain lf where "decode_port_fields_arcs c raw cache free = Ok ((lf, cache', free'), c')"
    "port_chassis_arc lf = Some (chassis_arc n)"
    using assms(1) by (auto simp: build_neighbor_arcs_def and_then_eq_Ok split: option.splits)
  with port_fields_grown [OF _ assms(2)] show ?thesis by metis
qed

text \<open>
  The structures of a chain of ports: they come first on the wire, in the order of the list; what
  belongs to each comes behind them, the last port's first.
\<close>

function ports_read :: "cursor \<Rightarrow> RawPort list" where
  "ports_read c =
     (case read_chunk_pod RawPort_pod c of
        Ok (raw, c) \<Rightarrow> raw # (if RawPort.tqe_next raw \<noteq> 0 then ports_read c else [])
      | _ \<Rightarrow> [])"
  by pat_completeness auto
termination
  by (relation "measure remaining") (auto intro: read_chunk_pod_remaining)

declare ports_read.simps [simp del]

lemma arc_behind_Some: "arc_behind cache p = Some a \<Longrightarrow> p \<noteq> 0 \<and> p \<in> dom cache"
  by (auto simp: arc_behind_def split: if_splits)

lemma neighbor_chain_grown:
  "decode_neighbor_chain_arcs c cache free = Ok ((ns, cache', free'), c') \<Longrightarrow>
   allocations start cache free \<Longrightarrow>
   grown start cache cache' free' (map p_chassis (ports_read c)) \<and>
   map (Some \<circ> chassis_arc) ns = map (arc_behind cache' \<circ> p_chassis) (ports_read c)"
proof (induction c cache free arbitrary: ns cache' free' c'
    rule: decode_neighbor_chain_arcs.induct)
  case (1 c cache free)
  from "1.prems"(1) obtain raw c1 rest cache1 free1 c2 n
    where raw: "read_chunk_pod RawPort_pod c = Ok (raw, c1)"
      and rest: "(if RawPort.tqe_next raw \<noteq> 0 then decode_neighbor_chain_arcs c1 cache free
        else Ok (([], cache, free), c1)) = Ok ((rest, cache1, free1), c2)"
      and n: "build_neighbor_arcs c2 raw cache1 free1 = Ok ((n, cache', free'), c')"
      and ns: "ns = n # rest"
    by (auto simp: decode_neighbor_chain_arcs.simps [of c] and_then_eq_Ok)
  define ports where "ports = (if RawPort.tqe_next raw \<noteq> 0 then ports_read c1 else [])"
  have c: "ports_read c = raw # ports"
    by (simp add: ports_read.simps [of c] raw ports_def)
  have g1: "grown start cache cache1 free1 (map p_chassis ports)"
    and m1: "map (Some \<circ> chassis_arc) rest = map (arc_behind cache1 \<circ> p_chassis) ports"
    using "1.IH" [OF raw refl] "1.prems"(2) rest
    by (auto simp: ports_def grown_refl o_def split: if_splits)
  have g2: "grown start cache1 cache' free' [p_chassis raw]"
    and m2: "arc_behind cache' (p_chassis raw) = Some (chassis_arc n)"
    using build_neighbor_grown [OF n grown_allocations [OF g1]] by simp_all
  have "arc_behind cache' p = arc_behind cache1 p" if "p \<in> set (map p_chassis ports)" for p
    using g1 g2 that by (intro arc_behind_mono) (auto simp: grown_def)
  with m1 have "map (Some \<circ> chassis_arc) rest = map (arc_behind cache' \<circ> p_chassis) ports"
    by simp
  with grown_trans [OF g1 g2] m2 show ?case by (simp add: c ns o_def)
qed

text \<open>The ports that the decoder of a whole reply reads, the local one first.\<close>

definition hardware_ports :: "'a pod \<Rightarrow> 'a HardwareFields \<Rightarrow> bytes \<Rightarrow> RawPort list" where
  "hardware_ports P T payload =
     (case read_chunk_pod P (cursor_new payload) of
        Ok (raw, c) \<Rightarrow>
          h_lport T raw #
          (case and_then (consume_substruct_marker c)
             (\<lambda>(_, c). decode_port_fields c (h_lport T raw) Map.empty) of
             Ok (_, c) \<Rightarrow> if h_rports_tqh_first T raw \<noteq> 0 then ports_read c else []
           | _ \<Rightarrow> [])
      | _ \<Rightarrow> [])"

text \<open>The references in a decoded interface, in the order of those ports.\<close>

definition chassis_arcs :: "ArcInterfaceDetails \<Rightarrow> Chassis Arc option list" where
  "chassis_arcs d = local_chassis_arc d # map (Some \<circ> chassis_arc) (arc_neighbors d)"

lemma hardware_as_grown:
  assumes "decode_hardware_as_arcs P T start payload = Ok (d, free)"
  obtains cache where
    "grown start Map.empty cache free (map p_chassis (hardware_ports P T payload))"
    "chassis_arcs d = map (arc_behind cache \<circ> p_chassis) (hardware_ports P T payload)"
proof -
  from assms obtain raw c1 u c2 lf cache1 free1 c3 ns cache c4 where
    raw: "read_chunk_pod P (cursor_new payload) = Ok (raw, c1)"
    and mark: "consume_substruct_marker c1 = Ok (u, c2)"
    and lf: "decode_port_fields_arcs c2 (h_lport T raw) Map.empty start =
      Ok ((lf, cache1, free1), c3)"
    and ns: "(if h_rports_tqh_first T raw \<noteq> 0 then decode_neighbor_chain_arcs c3 cache1 free1
      else Ok (([], cache1, free1), c3)) = Ok ((ns, cache, free), c4)"
    and d: "local_chassis_arc d = port_chassis_arc lf" "arc_neighbors d = ns"
    by (fastforce simp: decode_hardware_as_arcs_def decode_hardware_body_arcs_def and_then_eq_Ok
        if_Err_eq_Ok)
  let ?ports = "if h_rports_tqh_first T raw \<noteq> 0 then ports_read c3 else []"
  have "decode_port_fields c2 (h_lport T raw) Map.empty =
      Ok ((erase_fields lf, erase_cache cache1), c3)"
    using port_fields_erases [of c2 "h_lport T raw" Map.empty start] lf
    by (simp add: erases_def)
  then have ports: "hardware_ports P T payload = h_lport T raw # ?ports"
    by (simp add: hardware_ports_def raw mark)
  have g1: "grown start Map.empty cache1 free1 [p_chassis (h_lport T raw)]"
    and m1: "port_chassis_arc lf = arc_behind cache1 (p_chassis (h_lport T raw))"
    using port_fields_grown [OF lf allocations_empty] by simp_all
  have g2: "grown start cache1 cache free (map p_chassis ?ports)"
    and m2: "map (Some \<circ> chassis_arc) ns = map (arc_behind cache \<circ> p_chassis) ?ports"
    using neighbor_chain_grown [of c3 cache1 free1 ns cache free c4 start] ns g1
    by (auto simp: grown_def split: if_splits)
  have "arc_behind cache (p_chassis (h_lport T raw)) =
      arc_behind cache1 (p_chassis (h_lport T raw))"
    using g1 g2 by (intro arc_behind_mono) (auto simp: grown_def)
  with m1 m2 d have "chassis_arcs d = map (arc_behind cache \<circ> p_chassis) (hardware_ports P T payload)"
    by (simp add: chassis_arcs_def ports)
  moreover have "grown start Map.empty cache free (map p_chassis (hardware_ports P T payload))"
    using grown_trans [OF g1 g2] by (auto simp: grown_def ports)
  ultimately show thesis by (rule that [rotated])
qed

lemma hardware_as_sharing:
  assumes "decode_hardware_as_arcs P T start payload = Ok (d, free)"
  defines "ps \<equiv> map p_chassis (hardware_ports P T payload)"
  shows "length (chassis_arcs d) = length ps \<and> free = start + card (set ps - {0}) \<and>
    (\<forall>i < length ps. chassis_arcs d ! i = None \<longleftrightarrow> ps ! i = 0) \<and>
    (\<forall>i < length ps. \<forall>j < length ps. \<forall>a b.
       chassis_arcs d ! i = Some a \<longrightarrow> chassis_arcs d ! j = Some b \<longrightarrow>
       (ptr_eq a b \<longleftrightarrow> ps ! i = ps ! j) \<and> (ptr_eq a b \<longrightarrow> a = b)) \<and>
    (\<forall>i < length ps. \<forall>a. chassis_arcs d ! i = Some a \<longrightarrow> start \<le> address a \<and> address a < free)"
proof -
  obtain cache where g: "grown start Map.empty cache free ps"
    and m: "chassis_arcs d = map (arc_behind cache) ps"
    by (rule hardware_as_grown [OF assms(1)]) (simp add: ps_def)
  have a: "allocations start cache free" and dom: "dom cache = set ps - {0}"
    using g by (simp_all add: grown_def)
  have none: "arc_behind cache (ps ! i) = None \<longleftrightarrow> ps ! i = 0" if "i < length ps" for i
    using dom nth_mem [OF that] by (auto simp: arc_behind_def)
  note same = arc_behind_ptr_eq [OF a]
  have range: "start \<le> address x \<and> address x < free" if "arc_behind cache p = Some x" for p x
    using a that by (force simp: allocations_def arc_behind_def bij_betw_def split: if_splits)
  show ?thesis
    using allocations_card [OF a] none same range by (simp add: m dom)
qed


section \<open>The references in a message of the daemon\<close>

lemma ports_read_message:
  "xs \<noteq> [] \<Longrightarrow> memory_image mem \<Longrightarrow> neighbors_image xs \<Longrightarrow>
   put_neighbors m mem (b, seen) xs = (b', seen') \<Longrightarrow> prefix b' B \<Longrightarrow> length B \<le> slice_max \<Longrightarrow>
   ports_read \<lparr>buf = B, pos = length b\<rparr> = map p_raw xs"
proof (induction xs arbitrary: b b' seen seen')
  case Nil
  then show ?case by simp
next
  case (Cons x xs)
  let ?r = "p_raw x"
  have img: "RawPort.tqe_next ?r \<noteq> 0 \<longleftrightarrow> xs \<noteq> []" "neighbors_image xs" "port_image x"
    using Cons.prems(3) by (simp_all add: neighbors_image_def)
  define b1 where "b1 = put_struct m b (pod_write RawPort_pod ?r)"
  obtain b2 seen2 where n: "put_neighbors m mem (b1, seen) xs = (b2, seen2)" by fastforce
  have f: "put_port_fields m mem (b2, seen2) x = (b', seen')"
    using Cons.prems(4) n by (simp add: b1_def)
  have B: "prefix b2 B"
    using reads_prefix [OF reads_port_fields [OF Cons.prems(2) img(3) f]] Cons.prems(5)
    by (rule prefix_order.trans)
  have b1: "prefix b1 b2"
    using reads_prefix [OF reads_neighbors [OF _ Cons.prems(2) img(2) n]] n by (cases "xs = []") simp_all
  from b1 B have "prefix b1 B" by (rule prefix_order.trans)
  have s1: "reads (read_chunk_pod RawPort_pod) b ?r b1"
    unfolding b1_def by (rule port.reads_chunk_pod)
      (use img(3) in \<open>simp_all add: port_image_def Let_def pod_sizes\<close>)
  have "read_chunk_pod RawPort_pod \<lparr>buf = B, pos = length b\<rparr> = Ok (?r, \<lparr>buf = B, pos = length b1\<rparr>)"
    by (rule readsD [OF s1 \<open>prefix b1 B\<close> Cons.prems(6)])
  moreover have "xs \<noteq> [] \<Longrightarrow> ports_read \<lparr>buf = B, pos = length b1\<rparr> = map p_raw xs"
    using Cons.IH [OF _ Cons.prems(2) img(2) n B Cons.prems(6)] .
  ultimately show ?case
    using img(1) by (simp add: ports_read.simps [of "\<lparr>buf = B, pos = length b\<rparr>"])
qed

context pod_codec
begin

lemma hardware_ports_message:
  assumes "memory_image mem" and "hardware_image T r lport ns al"
    and "valid r" and "pod_size P \<le> 2 ^ 16"
    and "length (put_hardware m mem P r lport ns al) \<le> slice_max"
  shows "hardware_ports P T (put_hardware m mem P r lport ns al) = map p_raw (lport # ns)"
proof -
  note img = assms(2) [unfolded hardware_image_def]
  define msg where "msg = put_hardware m mem P r lport ns al"
  define b1 where "b1 = put_struct m [] (pod_write P r)"
  obtain b2 seen2 where f: "put_port_fields m mem (put_marker m b1, {}) lport = (b2, seen2)"
    by fastforce
  obtain b3 seen3 where n: "put_neighbors m mem (b2, seen2) ns = (b3, seen3)" by fastforce
  have "msg = put_cstring m b3 al"
    by (simp add: msg_def put_hardware_def Let_def b1_def [symmetric] f n)
  then have p3: "prefix b3 msg"
    using reads_prefix [OF reads_text_field [where m = m]] img by metis
  have s1: "reads (read_chunk_pod P) [] r b1"
    unfolding b1_def by (rule reads_chunk_pod [OF assms(3,4)])
  note s2 = reads_marker [of b1 m]
  have s3: "reads (\<lambda>c. decode_port_fields c (h_lport T r) Map.empty) (put_marker m b1)
      (fields_value mem lport, cache_of mem seen2) b2"
    using reads_port_fields [OF assms(1) _ f] img by (simp add: cache_of_empty)
  have "prefix b2 b3"
    using reads_prefix [OF reads_neighbors [OF _ assms(1) _ n]] img n by (cases "ns = []") simp_all
  then have p2: "prefix b2 msg" using p3 by (rule prefix_order.trans)
  with reads_prefix [OF s3] have p1: "prefix (put_marker m b1) msg" by (rule prefix_order.trans)
  with reads_prefix [OF s2] have p0: "prefix b1 msg" by (rule prefix_order.trans)
  have len: "length msg \<le> slice_max" using assms(5) by (simp add: msg_def)
  note steps = readsD [OF s1 p0 len] readsD [OF s2 p1 len] readsD [OF s3 p2 len]
  have "ns \<noteq> [] \<Longrightarrow> ports_read \<lparr>buf = msg, pos = length b2\<rparr> = map p_raw ns"
    using ports_read_message [OF _ assms(1) _ n p3 len] img by blast
  with img show ?thesis
    unfolding msg_def [symmetric]
    by (simp add: hardware_ports_def cursor_new_def steps [simplified] head_of_def)
qed

lemma hardware_arcs_message:
  assumes "memory_image mem" and "hardware_image T r lport ns al"
    and "valid r" and "pod_size P \<le> 2 ^ 16"
    and "length (put_hardware m mem P r lport ns al) \<le> slice_max"
  obtains d free where
    "decode_hardware_as_arcs P T start (put_hardware m mem P r lport ns al) = Ok (d, free)"
    "erase_details d = hardware_value mem T r lport ns al"
proof -
  have "map_ok (erase_details \<circ> fst)
      (decode_hardware_as_arcs P T start (put_hardware m mem P r lport ns al)) =
      Ok (hardware_value mem T r lport ns al)"
    using hardware_as_decoded [OF assms(1-4), of m "[]"] assms(5) by (simp add: hardware_as_erased)
  then show thesis using that by (auto simp: map_ok_eq_Ok)
qed

end

text \<open>The references of the neighbors alone.\<close>

lemma neighbors_sharing:
  assumes "decode_hardware_as_arcs P T start payload = Ok (d, free)"
    and "hardware_ports P T payload = map p_raw (lport # ns)"
    and "i < length ns" and "j < length ns"
  shows "ptr_eq (chassis_arc (arc_neighbors d ! i)) (chassis_arc (arc_neighbors d ! j)) \<longleftrightarrow>
    p_chassis (p_raw (ns ! i)) = p_chassis (p_raw (ns ! j))"
proof -
  obtain cache where g: "grown start Map.empty cache free (map p_chassis (map p_raw (lport # ns)))"
    and m: "chassis_arcs d = map (arc_behind cache \<circ> p_chassis) (map p_raw (lport # ns))"
    using hardware_as_grown [OF assms(1)] unfolding assms(2) .
  from m have m: "map (Some \<circ> chassis_arc) (arc_neighbors d) =
      map (\<lambda>x. arc_behind cache (p_chassis (p_raw x))) ns"
    by (simp add: chassis_arcs_def o_def)
  have "arc_behind cache (p_chassis (p_raw (ns ! k))) = Some (chassis_arc (arc_neighbors d ! k))"
    if "k < length ns" for k
    using arg_cong [OF m, of "\<lambda>l. l ! k"] map_eq_imp_length_eq [OF m] that by simp
  from arc_behind_ptr_eq [OF grown_allocations [OF g] this [OF assms(3)] this [OF assms(4)]]
  show ?thesis by simp
qed

text \<open>A message in the shorter layout, through both attempts of the decoder.\<close>

lemma hardware_message_arcs:
  assumes "memory_image mem" and "hardware_image RawHardware_impl r lport ns al"
    and "RawHardware_ok r"
    and "length (put_hardware m mem RawHardware_pod r lport ns al) \<le> slice_max"
  obtains d free where
    "decode_hardware_arcs start (put_hardware m mem RawHardware_pod r lport ns al) = Ok (d, free)"
    "erase_details d = hardware_value mem RawHardware_impl r lport ns al"
    "free = start + card (set (map (p_chassis \<circ> p_raw) (lport # ns)) - {0})"
    "\<forall>i < length ns. \<forall>j < length ns.
       ptr_eq (chassis_arc (arc_neighbors d ! i)) (chassis_arc (arc_neighbors d ! j)) \<longleftrightarrow>
       p_chassis (p_raw (ns ! i)) = p_chassis (p_raw (ns ! j))"
proof -
  let ?p = "put_hardware m mem RawHardware_pod r lport ns al"
  have size: "pod_size RawHardware_pod \<le> 2 ^ 16" by (simp add: pod_sizes)
  obtain d free where d: "decode_hardware_as_arcs RawHardware_pod RawHardware_impl start ?p = Ok (d, free)"
    "erase_details d = hardware_value mem RawHardware_impl r lport ns al"
    by (rule hardware.hardware_arcs_message [OF assms(1-3) size assms(4)])
  have ports: "hardware_ports RawHardware_pod RawHardware_impl ?p = map p_raw (lport # ns)"
    by (rule hardware.hardware_ports_message [OF assms(1-3) size assms(4)])
  show thesis
  proof (rule that)
    show "decode_hardware_arcs start ?p = Ok (d, free)" by (simp add: decode_hardware_arcs_def d(1))
    show "free = start + card (set (map (p_chassis \<circ> p_raw) (lport # ns)) - {0})"
      using hardware_as_sharing [OF d(1)] by (simp only: ports map_map)
    show "\<forall>i < length ns. \<forall>j < length ns.
       ptr_eq (chassis_arc (arc_neighbors d ! i)) (chassis_arc (arc_neighbors d ! j)) \<longleftrightarrow>
       p_chassis (p_raw (ns ! i)) = p_chassis (p_raw (ns ! j))"
      using neighbors_sharing [OF d(1) ports] by blast
  qed (rule d(2))
qed

end
