(* ===== verification/Decode_Tests.thy ===== *)
theory Decode_Tests
  imports Samples Arcs
begin

text \<open>
  The unit tests of src/wire/decode.rs. The builder \<open>Buf\<close> and each test are translated as they
  are written: a fixture is the bytes a test builds, a test is a Boolean that is true when no
  assertion of the test fails. That they pass is proved by showing that each fixture is a message
  in the sense of theories \<open>Messages\<close> and \<open>Roundtrip\<close>.

  Where a test asserts that two neighbors share one \<open>Arc\<close>, it is run on the decoder of theory
  \<open>Arcs\<close>, which has the identity of the references.
\<close>

section \<open>The builder\<close>

definition raw_bytes :: "'a pod \<Rightarrow> 'a \<Rightarrow> bytes" where
  "raw_bytes P v = pod_write P v"

definition buf_pad :: "bytes \<Rightarrow> bytes" where
  "buf_pad b = (let ptr_size = 8; pad = (ptr_size - length b mod ptr_size) mod ptr_size
     in b @ replicate pad 0)"

definition buf_chunk :: "usize \<Rightarrow> bytes \<Rightarrow> bytes \<Rightarrow> bytes" where
  "buf_chunk org body b =
     (let b = buf_pad b; header_len = 2 * 8
      in b @ word_to_le org @ word_to_le (word_of_nat (header_len + length body) :: usize) @ body)"

definition buf_chunk_pod :: "'a pod \<Rightarrow> usize \<Rightarrow> 'a \<Rightarrow> bytes \<Rightarrow> bytes" where
  "buf_chunk_pod P org v b = buf_chunk org (raw_bytes P v) b"

definition buf_marker :: "usize \<Rightarrow> bytes \<Rightarrow> bytes" where
  "buf_marker org b = buf_chunk org [] b"

definition buf_cstring :: "usize \<Rightarrow> rstring \<Rightarrow> bytes \<Rightarrow> bytes" where
  "buf_cstring org s b = buf_chunk org (s @ [0]) b"

section \<open>Lists of interfaces\<close>

definition fixture_empty_list :: bytes where
  "fixture_empty_list =
     buf_chunk_pod RawInterfaceList_pod 1 \<lparr>tqh_first = 0, tqh_last = 0\<rparr> []"

definition test_interfaces_empty_list :: bool where
  "test_interfaces_empty_list \<longleftrightarrow> decode_interfaces fixture_empty_list = Ok []"

definition entry_eth0 :: RawInterface where
  "entry_eth0 = \<lparr>next_tqe_next = 200, next_tqe_prev = 0, RawInterface.name = 300, alias' = 0\<rparr>"

definition entry_eth1 :: RawInterface where
  "entry_eth1 = \<lparr>next_tqe_next = 0, next_tqe_prev = 0, RawInterface.name = 400, alias' = 500\<rparr>"

definition fixture_two_entries :: bytes where
  "fixture_two_entries =
     (let b = buf_chunk_pod RawInterfaceList_pod 1 \<lparr>tqh_first = 100, tqh_last = 0\<rparr> [];
          b = buf_chunk_pod RawInterface_pod 2 entry_eth0 b;
          b = buf_chunk_pod RawInterface_pod 3 entry_eth1 b;
          b = buf_cstring 4 (ascii ''eth1'') b;
          b = buf_cstring 5 (ascii ''wan'') b
      in buf_cstring 6 (ascii ''eth0'') b)"

definition test_interfaces_two_entries :: bool where
  "test_interfaces_two_entries \<longleftrightarrow>
     decode_interfaces fixture_two_entries =
       Ok [\<lparr>Interface.name = ascii ''eth0'', alias' = None\<rparr>,
           \<lparr>Interface.name = ascii ''eth1'', alias' = Some (ascii ''wan'')\<rparr>]"

definition test_interfaces_capture :: bool where
  "test_interfaces_capture \<longleftrightarrow>
     length interfaces_capture = 173 \<and>
     decode_interfaces interfaces_capture =
       Ok [\<lparr>Interface.name = ascii ''eth0'', alias' = None\<rparr>,
           \<lparr>Interface.name = ascii ''wlan0'', alias' = None\<rparr>]"

section \<open>Hardware replies\<close>

definition name_eth0 :: bytes where
  "name_eth0 = ascii ''eth0'' @ zeros 12"

definition markers :: "usize list \<Rightarrow> bytes \<Rightarrow> bytes" where
  "markers os b = fold buf_marker os b"

definition fixture_local_only :: bytes where
  "fixture_local_only =
     (let b = buf_chunk_pod RawHardware_pod 1
            (empty_hardware\<lparr>RawHardware.h_ifname := name_eth0\<rparr>) []
      in markers [2, 3, 4, 5] b)"

definition fixture_flags_previous :: bytes where
  "fixture_flags_previous =
     (let b = buf_chunk_pod RawHardwareWithFlagsPrevious_pod 1
            (empty_hardware_fp\<lparr>RawHardwareWithFlagsPrevious.h_ifname := name_eth0\<rparr>) []
      in markers [2, 3, 4, 5] b)"

text \<open>The assertions of both: an interface without alias, chassis and neighbors.\<close>

definition bare_eth0 :: "InterfaceDetails res \<Rightarrow> bool" where
  "bare_eth0 r = (case r of
     Ok details \<Rightarrow> InterfaceDetails.name details = ascii ''eth0'' \<and>
       InterfaceDetails.alias' details = None \<and> local_chassis details = None \<and>
       neighbors details = []
   | _ \<Rightarrow> False)"

definition test_hardware_local_only :: bool where
  "test_hardware_local_only \<longleftrightarrow> bare_eth0 (decode_hardware fixture_local_only)"

definition test_hardware_flags_previous :: bool where
  "test_hardware_flags_previous \<longleftrightarrow> bare_eth0 (decode_hardware fixture_flags_previous)"

definition empty_mgmt :: RawMgmt where
  "empty_mgmt = RawMgmt_of_bytes (zeros 56)"

definition one_neighbor_hardware :: RawHardware where
  "one_neighbor_hardware = empty_hardware
     \<lparr>RawHardware.h_ifname := name_eth0, RawHardware.h_rports_tqh_first := 6\<rparr>"

definition one_neighbor_port :: RawPort where
  "one_neighbor_port = empty_port
     \<lparr>p_chassis := 999, p_id_subtype := 3, p_id := 700, p_descr := 800, p_ttl := 120\<rparr>"

definition one_neighbor_chassis :: RawChassis where
  "one_neighbor_chassis = empty_chassis
     \<lparr>c_id_subtype := 4, c_id := 1000, c_name := 1100, c_descr := 0, c_mgmt_tqh_first := 1200\<rparr>"

definition one_neighbor_mgmt :: RawMgmt where
  "one_neighbor_mgmt = empty_mgmt
     \<lparr>m_family := 1, m_addr := [192, 0, 2, 1] @ zeros 12, m_addrsize := 4, m_iface := 3\<rparr>"

definition fixture_one_neighbor :: bytes where
  "fixture_one_neighbor =
     (let b = buf_chunk_pod RawHardware_pod 1 one_neighbor_hardware [];
          b = markers [2, 3, 4, 5] b;
          b = buf_chunk_pod RawPort_pod 6 one_neighbor_port b;
          b = buf_chunk_pod RawChassis_pod 999 one_neighbor_chassis b;
          b = buf_chunk 1000 [0xDE, 0xAD, 0xBE, 0xEF, 0x00, 0x01] b;
          b = buf_cstring 1100 (ascii ''switch1'') b;
          b = buf_chunk_pod RawMgmt_pod 1200 one_neighbor_mgmt b;
          b = buf_chunk 700 [0xAA, 0xBB, 0xCC, 0xDD, 0xEE, 0xFF] b;
          b = buf_cstring 800 (ascii ''GigabitEthernet0/1'') b
      in markers [1300, 1301, 1302] b)"

definition test_hardware_one_neighbor :: bool where
  "test_hardware_one_neighbor =
     (case decode_hardware fixture_one_neighbor of
        Ok details \<Rightarrow>
          length (neighbors details) = 1 \<and>
          (let n = neighbors details ! 0 in
           ttl n = 120 \<and>
           port_id_subtype n = PortIdSubtype.MacAddress \<and>
           port_id n = [0xAA, 0xBB, 0xCC, 0xDD, 0xEE, 0xFF] \<and>
           port_description n = Some (ascii ''GigabitEthernet0/1'') \<and>
           id_subtype (Neighbor.chassis n) = ChassisIdSubtype.MacAddress \<and>
           Chassis.id' (Neighbor.chassis n) = [0xDE, 0xAD, 0xBE, 0xEF, 0x00, 0x01] \<and>
           Chassis.name (Neighbor.chassis n) = Some (ascii ''switch1'') \<and>
           length (management_addresses (Neighbor.chassis n)) = 1 \<and>
           ip (management_addresses (Neighbor.chassis n) ! 0) = Some (V4 192 0 2 1) \<and>
           interface_index (management_addresses (Neighbor.chassis n) ! 0) = 3)
      | _ \<Rightarrow> False)"

definition shared_port1 :: RawPort where
  "shared_port1 = empty_port
     \<lparr>RawPort.tqe_next := 100, p_chassis := 777, p_id_subtype := 5, p_id := 900, p_ttl := 60\<rparr>"

definition shared_port2 :: RawPort where
  "shared_port2 = empty_port\<lparr>p_chassis := 777, p_id_subtype := 5, p_id := 901, p_ttl := 60\<rparr>"

definition fixture_shared_chassis :: bytes where
  "fixture_shared_chassis =
     (let b = buf_chunk_pod RawHardware_pod 1 one_neighbor_hardware [];
          b = markers [2, 3, 4, 5] b;
          b = buf_chunk_pod RawPort_pod 6 shared_port1 b;
          b = buf_chunk_pod RawPort_pod 100 shared_port2 b;
          b = buf_chunk_pod RawChassis_pod 777
            (empty_chassis\<lparr>c_id_subtype := 6, c_id := 950, c_name := 0\<rparr>) b;
          b = buf_chunk 950 (ascii ''switch-1'') b;
          b = buf_cstring 901 (ascii ''eth2'') b;
          b = markers [1400, 1401, 1402] b;
          b = buf_cstring 900 (ascii ''eth1'') b
      in markers [1500, 1501, 1502] b)"

definition test_hardware_shared_chassis :: bool where
  "test_hardware_shared_chassis =
     (case decode_hardware_arcs 0 fixture_shared_chassis of
        Ok (details, _) \<Rightarrow>
          length (arc_neighbors details) = 2 \<and>
          ptr_eq (chassis_arc (arc_neighbors details ! 0)) (chassis_arc (arc_neighbors details ! 1)) \<and>
          Chassis.id' (pointee (chassis_arc (arc_neighbors details ! 0))) = ascii ''switch-1''
      | _ \<Rightarrow> False)"

definition test_hardware_truncated :: bool where
  "test_hardware_truncated =
     (case decode_hardware [0, 0, 0, 0] of Err (Protocol m) \<Rightarrow> True | _ \<Rightarrow> False)"

section \<open>Notifications\<close>

definition deleted_change :: RawNeighborChange where
  "deleted_change = \<lparr>RawNeighborChange.ifname = 100, ifalias = 0, state = -1, neighbor = 0\<rparr>"

definition fixture_deleted :: bytes where
  "fixture_deleted =
     (let b = buf_chunk_pod RawNeighborChange_pod 1 deleted_change []
      in buf_cstring 100 (ascii ''eth0'') b)"

definition test_change_deleted :: bool where
  "test_change_deleted =
     (case decode_neighbor_change fixture_deleted of
        Ok change \<Rightarrow>
          interface change = ascii ''eth0'' \<and> interface_alias change = None \<and>
          kind change = Deleted \<and> NeighborChange.neighbor change = None
      | _ \<Rightarrow> False)"

definition added_change :: RawNeighborChange where
  "added_change = \<lparr>RawNeighborChange.ifname = 100, ifalias = 0, state = 1, neighbor = 200\<rparr>"

definition added_port :: RawPort where
  "added_port = empty_port\<lparr>p_chassis := 300, p_id_subtype := 5, p_id := 400, p_ttl := 90\<rparr>"

definition added_chassis :: RawChassis where
  "added_chassis = empty_chassis\<lparr>c_id_subtype := 6, c_id := 500, c_name := 600\<rparr>"

definition fixture_added :: bytes where
  "fixture_added =
     (let b = buf_chunk_pod RawNeighborChange_pod 1 added_change [];
          b = buf_cstring 100 (ascii ''eth0'') b;
          b = buf_chunk_pod RawPort_pod 200 added_port b;
          b = buf_chunk_pod RawChassis_pod 300 added_chassis b;
          b = buf_chunk 500 (ascii ''switch-x'') b;
          b = buf_cstring 600 (ascii ''switch-x-name'') b;
          b = buf_chunk 400 (ascii ''eth5'') b
      in markers [700, 701, 702] b)"

definition test_change_added :: bool where
  "test_change_added =
     (case decode_neighbor_change fixture_added of
        Ok change \<Rightarrow>
          interface change = ascii ''eth0'' \<and> kind change = Added \<and>
          (case NeighborChange.neighbor change of
             Some n \<Rightarrow>
               ttl n = 90 \<and> port_id n = ascii ''eth5'' \<and>
               Chassis.id' (Neighbor.chassis n) = ascii ''switch-x'' \<and>
               Chassis.name (Neighbor.chassis n) = Some (ascii ''switch-x-name'')
           | None \<Rightarrow> False)
      | _ \<Rightarrow> False)"

section \<open>The fixtures are messages\<close>

text \<open>The original addresses of the chunks of a fixture, by position.\<close>

definition origins :: "(nat \<times> usize) list \<Rightarrow> marshal" where
  "origins os = \<lparr>orig = (\<lambda>p. case map_of os p of Some x \<Rightarrow> x | None \<Rightarrow> 0), nested = (\<lambda>_. 0)\<rparr>"

lemma buf_chunk_header:
  "buf_chunk org body b = put_header b org (word_of_nat (16 + length body)) @ body"
  by (simp add: buf_chunk_def buf_pad_def put_header_def Let_def align_up_def)

text \<open>Each call of the builder is one of theory \<open>Messages\<close>, where the marshalling agrees.\<close>

lemma buf_calls:
  "orig m (length b) = org \<Longrightarrow> buf_chunk org x b = put_leaf m b x"
  "orig m (length b) = org \<Longrightarrow> buf_cstring org x b = put_leaf m b (x @ [0])"
  "orig m (length b) = org \<Longrightarrow> nested m (length b) = 0 \<Longrightarrow>
     buf_chunk_pod P org v b = put_struct m b (pod_write P v)"
  "orig m (length b) = org \<Longrightarrow> nested m (length b) = 0 \<Longrightarrow> buf_marker org b = put_marker m b"
  by (simp_all add: buf_cstring_def buf_chunk_pod_def raw_bytes_def buf_marker_def buf_chunk_header
      put_leaf_def put_struct_def put_marker_def)

lemma markers_simps [simp]:
  "markers [] b = b" "markers (x # xs) b = markers xs (buf_marker x b)"
  by (simp_all add: markers_def)

lemma origins_simps [simp]:
  "orig (origins os) p = (case map_of os p of Some x \<Rightarrow> x | None \<Rightarrow> 0)"
  "nested (origins os) p = 0"
  by (simp_all add: origins_def)

lemma fixture_empty_list_message:
  "fixture_empty_list =
     put_interface_list (origins [(0, 1)]) \<lparr>tqh_first = 0, tqh_last = 0\<rparr> []"
  by (simp add: fixture_empty_list_def put_interface_list_def
      buf_calls [where m = "origins [(0, 1)]"])

lemma length_test_structs [simp]:
  "length (pod_write RawInterface_pod r) = 32"
  "length (pod_write RawInterfaceList_pod l) = 16"
  "RawMgmt_ok x \<Longrightarrow> length (pod_write RawMgmt_pod x) = 56"
  using iface.length_write [of r] iface_list.length_write [of l] mgmt.length_write [of x]
  by (simp_all add: pod_sizes)

lemma fixture_two_entries_message:
  "fixture_two_entries =
     put_interface_list (origins [(0, 1), (32, 2), (80, 3), (128, 4), (149, 5), (172, 6)])
       \<lparr>tqh_first = 100, tqh_last = 0\<rparr>
       [(entry_eth0, \<lparr>Interface.name = ascii ''eth0'', alias' = None\<rparr>),
        (entry_eth1, \<lparr>Interface.name = ascii ''eth1'', alias' = Some (ascii ''wan'')\<rparr>)]"
  by (simp add: fixture_two_entries_def put_interface_list_def entry_eth0_def entry_eth1_def
      put_cstring_def align_up_def buf_calls [where m = "origins
        [(0, 1), (32, 2), (80, 3), (128, 4), (149, 5), (172, 6)]"] cong: let_weak_cong)

text \<open>The chassis and the ports of the fixtures, in the memory of a daemon.\<close>

definition no_inventory :: MedInventory where
  "no_inventory = \<lparr>hardware_revision = None, firmware_revision = None, software_revision = None,
     serial_number = None, manufacturer = None, model = None, asset_id = None\<rparr>"

definition plain_chassis ::
  "ChassisIdSubtype \<Rightarrow> bytes \<Rightarrow> rstring option \<Rightarrow> RawMgmt list \<Rightarrow> Chassis" where
  "plain_chassis ty i nm mgmt = \<lparr>id_subtype = ty, id' = i, name = nm, description = None,
     capabilities_available = Capabilities 0, capabilities_enabled = Capabilities 0,
     management_addresses = map mgmt_value mgmt, med = no_inventory\<rparr>"

definition one_chassis :: "RawChassis \<Rightarrow> RawMgmt list \<Rightarrow> Chassis \<Rightarrow> memory" where
  "one_chassis r mgmt v = (\<lambda>_. \<lparr>c_raw = r, c_mgmt = mgmt, c_value = v\<rparr>)"

definition described_port :: "RawPort \<Rightarrow> bytes \<Rightarrow> rstring option \<Rightarrow> port_mem" where
  "described_port r i descr = (bare_port r (Some i))\<lparr>p_description := descr\<rparr>"

definition hardware_origins :: "(nat \<times> usize) list \<Rightarrow> marshal" where
  "hardware_origins os = origins ([(0, 1), (648, 2), (664, 3), (680, 4), (696, 5)] @ os)"

lemmas message_simps = put_hardware_def put_change_def put_port_fields_def put_port_chassis_def
  put_chassis_def bare_port_def described_port_def one_chassis_def plain_chassis_def
  no_inventory_def put_cstring_def put_bytes_def align_up_def

lemma hardware_name_ok [simp]:
  "RawHardware_ok (empty_hardware\<lparr>RawHardware.h_ifname := name_eth0\<rparr>)"
  "RawHardwareWithFlagsPrevious_ok
     (empty_hardware_fp\<lparr>RawHardwareWithFlagsPrevious.h_ifname := name_eth0\<rparr>)"
  "RawHardware_ok one_neighbor_hardware" "RawPort_ok one_neighbor_port" "RawPort_ok shared_port1"
  "RawPort_ok shared_port2" "RawPort_ok added_port" "RawMgmt_ok one_neighbor_mgmt"
  by (simp_all add: RawHardware_ok_def RawHardwareWithFlagsPrevious_ok_def RawPort_ok_def name_eth0_def
      one_neighbor_hardware_def one_neighbor_port_def shared_port1_def shared_port2_def
      added_port_def RawMgmt_ok_def one_neighbor_mgmt_def)

lemma fixture_local_only_message:
  "fixture_local_only = put_hardware (hardware_origins []) sample_memory RawHardware_pod
     (empty_hardware\<lparr>RawHardware.h_ifname := name_eth0\<rparr>) (bare_port empty_port None) [] None"
  by (simp add: hardware_origins_def fixture_local_only_def message_simps
      buf_calls [where m = "hardware_origins []"] cong: let_weak_cong)

lemma fixture_flags_previous_message:
  "fixture_flags_previous =
     put_hardware (origins [(0, 1), (656, 2), (672, 3), (688, 4), (704, 5)]) sample_memory
       RawHardwareWithFlagsPrevious_pod
       (empty_hardware_fp\<lparr>RawHardwareWithFlagsPrevious.h_ifname := name_eth0\<rparr>)
       (bare_port empty_port None) [] None"
  by (simp add: fixture_flags_previous_def message_simps
      buf_calls [where m = "origins [(0, 1), (656, 2), (672, 3), (688, 4), (704, 5)]"] cong: let_weak_cong)

lemma one_neighbor_fields:
  "p_chassis one_neighbor_port = 999" "p_chassis shared_port1 = 777" "p_chassis shared_port2 = 777"
  "p_chassis added_port = 300"
  "c_id one_neighbor_chassis = 1000" "c_id added_chassis = 500"
  by (simp_all add: one_neighbor_port_def shared_port1_def shared_port2_def added_port_def
      one_neighbor_chassis_def added_chassis_def)

definition one_neighbor_origins :: marshal where
  "one_neighbor_origins = hardware_origins
     [(712, 6), (1096, 999), (1256, 1000), (1278, 1100), (1304, 1200),
      (1376, 700), (1398, 800), (1435, 1300), (1456, 1301), (1472, 1302)]"

definition shared_origins :: marshal where
  "shared_origins = hardware_origins
     [(712, 6), (1096, 100), (1480, 777), (1640, 950), (1664, 901),
      (1685, 1400), (1704, 1401), (1720, 1402), (1736, 900), (1757, 1500), (1776, 1501),
      (1792, 1502)]"

definition added_origins :: marshal where
  "added_origins = origins
     [(0, 1), (48, 100), (69, 200), (456, 300), (616, 500), (640, 600),
      (670, 400), (692, 700), (712, 701), (728, 702)]"

lemmas origin_defs = hardware_origins_def one_neighbor_origins_def shared_origins_def
  added_origins_def

abbreviation one_neighbor_memory :: memory where
  "one_neighbor_memory \<equiv> one_chassis one_neighbor_chassis [one_neighbor_mgmt]
     (plain_chassis ChassisIdSubtype.MacAddress [0xDE, 0xAD, 0xBE, 0xEF, 0x00, 0x01]
       (Some (ascii ''switch1'')) [one_neighbor_mgmt])"

abbreviation one_neighbor_list :: "port_mem list" where
  "one_neighbor_list \<equiv> [described_port one_neighbor_port [0xAA, 0xBB, 0xCC, 0xDD, 0xEE, 0xFF]
     (Some (ascii ''GigabitEthernet0/1''))]"

lemma fixture_one_neighbor_message:
  "fixture_one_neighbor =
     put_hardware
       one_neighbor_origins
       one_neighbor_memory RawHardware_pod one_neighbor_hardware (bare_port empty_port None)
       one_neighbor_list None"
  by (simp add: origin_defs fixture_one_neighbor_def one_neighbor_fields message_simps
      buf_calls [where m = "one_neighbor_origins"] cong: let_weak_cong)

abbreviation shared_memory :: memory where
  "shared_memory \<equiv> one_chassis (empty_chassis\<lparr>c_id_subtype := 6, c_id := 950, c_name := 0\<rparr>) []
     (plain_chassis ChassisIdSubtype.IfName (ascii ''switch-1'') None [])"

abbreviation shared_list :: "port_mem list" where
  "shared_list \<equiv> [described_port shared_port1 (ascii ''eth1'' @ [0]) None,
     described_port shared_port2 (ascii ''eth2'' @ [0]) None]"

lemma fixture_shared_chassis_message:
  "fixture_shared_chassis =
     put_hardware
       shared_origins
       shared_memory RawHardware_pod one_neighbor_hardware (bare_port empty_port None)
       shared_list None"
  by (simp add: origin_defs fixture_shared_chassis_def one_neighbor_fields message_simps
      buf_calls [where m = "shared_origins"] cong: let_weak_cong)

lemma fixture_deleted_message:
  "fixture_deleted =
     put_change (origins [(0, 1), (48, 100)]) sample_memory deleted_change (ascii ''eth0'') None None"
  by (simp add: fixture_deleted_def deleted_change_def message_simps
      buf_calls [where m = "origins [(0, 1), (48, 100)]"] cong: let_weak_cong)

abbreviation added_memory :: memory where
  "added_memory \<equiv> one_chassis added_chassis []
     (plain_chassis ChassisIdSubtype.IfName (ascii ''switch-x'') (Some (ascii ''switch-x-name'')) [])"

lemma fixture_added_message:
  "fixture_added =
     put_change added_origins
       added_memory added_change (ascii ''eth0'') None
       (Some (described_port added_port (ascii ''eth5'') None))"
  by (simp add: origin_defs fixture_added_def added_change_def one_neighbor_fields message_simps
      buf_calls [where m = "added_origins"] cong: let_weak_cong)

section \<open>The fixtures stand for values\<close>

lemma test_texts:
  "utf8_valid (ascii ''eth1'')" "utf8_valid (ascii ''wan'')" "utf8_valid (ascii ''switch1'')"
  "utf8_valid (ascii ''GigabitEthernet0/1'')" "utf8_valid (ascii ''switch-x-name'')"
  "from_utf8_lossy (takeWhile (\<lambda>x. x \<noteq> 0) name_eth0) = ascii ''eth0''"
  by code_simp+

lemma c_texts [simp]:
  "c_text (ascii ''eth0'')" "c_text (ascii ''eth1'')" "c_text (ascii ''wan'')"
  "c_text (ascii ''switch1'')" "c_text (ascii ''GigabitEthernet0/1'')"
  "c_text (ascii ''switch-x-name'')"
  by (simp_all add: c_text_def test_texts ascii_names bounds_num)

lemma plain_chassis_image:
  assumes "ty = ChassisIdSubtype_from (c_id_subtype r)" "c_id r \<noteq> 0" "length i < 100"
    "text_field (c_name r) nm" "c_descr r = 0" "c_cap_available r = 0" "c_cap_enabled r = 0"
    "mgmt_image mgmt" "head_of (c_mgmt_tqh_first r) mgmt" "c_med_hw r = 0" "c_med_fw r = 0"
    "c_med_sw r = 0" "c_med_sn r = 0" "c_med_manuf r = 0" "c_med_model r = 0" "c_med_asset r = 0"
  shows "memory_image (one_chassis r mgmt (plain_chassis ty i nm mgmt))"
proof -
  have "blob i" using assms(3) by (simp add: blob_def bounds_num)
  with assms show ?thesis
    by (simp add: memory_image_def chassis_image_def Let_def one_chassis_def plain_chassis_def
        no_inventory_def text_field_def points_to_def)
qed

lemma one_neighbor_memory_image: "memory_image one_neighbor_memory"
  by (rule plain_chassis_image)
    (simp_all add: one_neighbor_chassis_def ChassisIdSubtype_from_def text_field_def points_to_def
      mgmt_image_def head_of_def one_neighbor_mgmt_def empty_mgmt_def RawMgmt_ok_def
      RawMgmt_of_bytes_def field_def RawMgmt_fields)

lemma shared_memory_image: "memory_image shared_memory"
  by (rule plain_chassis_image)
    (simp_all add: ChassisIdSubtype_from_def text_field_def points_to_def mgmt_image_def head_of_def)

lemma added_memory_image: "memory_image added_memory"
  by (rule plain_chassis_image)
    (simp_all add: added_chassis_def ChassisIdSubtype_from_def text_field_def points_to_def
      mgmt_image_def head_of_def)

lemma described_port_image:
  assumes "RawPort_ok r" "text_field (p_descr r) descr" "p_vlan_advertise_pattern r = 0"
    "p_med_location r = [empty_loc, empty_loc, empty_loc]"
    "p_vlans_tqh_first r = 0" "p_ppvids_tqh_first r = 0" "p_pids_tqh_first r = 0"
    "p_id r \<noteq> 0" "length i < 100"
  shows "port_image (described_port r i descr)"
proof -
  have "blob i" using assms(9) by (simp add: blob_def bounds_num)
  with assms show ?thesis
    by (simp add: port_image_def Let_def described_port_def bare_port_def blob_field_def
        text_field_def points_to_def head_of_def vlans_image_def pis_image_def)
qed

lemma p_raw_described [simp]: "p_raw (described_port r i descr) = r"
  by (simp add: described_port_def)

lemma no_text [simp]: "text_field 0 (None :: rstring option)"
  by (simp add: text_field_def points_to_def)

lemma test_port_images:
  "port_image (described_port one_neighbor_port [0xAA, 0xBB, 0xCC, 0xDD, 0xEE, 0xFF]
     (Some (ascii ''GigabitEthernet0/1'')))"
  "port_image (described_port shared_port1 (ascii ''eth1'' @ [0]) None)"
  "port_image (described_port shared_port2 (ascii ''eth2'' @ [0]) None)"
  "port_image (described_port added_port (ascii ''eth5'') None)"
  by (rule described_port_image, simp_all add: one_neighbor_port_def shared_port1_def
      shared_port2_def added_port_def text_field_def points_to_def RawPort_ok_def)+

lemma test_neighbors_image:
  "neighbors_image one_neighbor_list" "neighbors_image shared_list"
  by (simp_all add: neighbors_image_def one_neighbor_fields test_port_images)
    (simp_all add: one_neighbor_port_def shared_port1_def shared_port2_def)

lemma test_hardware_view [simp]:
  "HardwareFields.h_lport RawHardware_impl one_neighbor_hardware = empty_port"
  "HardwareFields.h_rports_tqh_first RawHardware_impl one_neighbor_hardware = 6"
  "HardwareFields.h_ifalias RawHardware_impl one_neighbor_hardware = 0"
  "HardwareFields.h_ifname RawHardware_impl one_neighbor_hardware = name_eth0"
  by (simp_all add: RawHardware_impl_def one_neighbor_hardware_def)

lemma test_hardware_image:
  "neighbors_image ns \<Longrightarrow> ns \<noteq> [] \<Longrightarrow>
   hardware_image RawHardware_impl one_neighbor_hardware (bare_port empty_port None) ns None"
  by (simp add: hardware_image_def empty_port_image head_of_def)

text \<open>A message in the shorter layout decodes by the first attempt.\<close>

lemma hardware_message_decoded:
  assumes "memory_image mem" and "hardware_image RawHardware_impl r lport ns al"
    and "RawHardware_ok r" and "p = put_hardware m mem RawHardware_pod r lport ns al"
    and "length p \<le> 10000"
  shows "decode_hardware p = Ok (hardware_value mem RawHardware_impl r lport ns al)"
proof -
  have "pod_size RawHardware_pod \<le> 2 ^ 16" by (simp add: pod_sizes)
  from hardware.hardware_as_decoded [OF assms(1-3) this, of m "[]"] assms(4,5)
  show ?thesis by (simp add: decode_hardware_def bounds_num)
qed

lemma fixture_lengths:
  "length fixture_local_only = 712" "length fixture_one_neighbor = 1488"
  "length fixture_shared_chassis = 1808" "length fixture_deleted = 69" "length fixture_added = 744"
  by (simp_all add: fixture_local_only_message fixture_one_neighbor_message
      fixture_shared_chassis_message fixture_deleted_message fixture_added_message
      one_neighbor_fields message_simps deleted_change_def added_change_def cong: let_weak_cong)

section \<open>The tests pass\<close>

lemma interfaces_tests:
  "test_interfaces_empty_list" "test_interfaces_two_entries" "test_interfaces_capture"
proof -
  have "length fixture_empty_list = 32" "length fixture_two_entries = 197"
    by (simp_all add: fixture_empty_list_message fixture_two_entries_message align_up_def
        put_interface_list_def entry_eth0_def entry_eth1_def cong: let_weak_cong)
  then have len: "length fixture_empty_list \<le> slice_max" "length fixture_two_entries \<le> slice_max"
    by (simp_all add: bounds_num)
  have "decode_interfaces fixture_empty_list = Ok []"
    using interfaces_decoded [of "[]" "\<lparr>tqh_first = 0, tqh_last = 0\<rparr>" "origins [(0, 1)]" "[]"] len(1)
    by (simp add: fixture_empty_list_message interfaces_image_def head_of_def)
  then show "test_interfaces_empty_list" by (simp add: test_interfaces_empty_list_def)
  have "interfaces_image
      [(entry_eth0, \<lparr>Interface.name = ascii ''eth0'', alias' = None\<rparr>),
       (entry_eth1, \<lparr>Interface.name = ascii ''eth1'', alias' = Some (ascii ''wan'')\<rparr>)]"
    by (simp add: interfaces_image_def interface_image_def entry_eth0_def entry_eth1_def
        points_to_def)
  from interfaces_decoded [OF this, of "\<lparr>tqh_first = 100, tqh_last = 0\<rparr>"
      "origins [(0, 1), (32, 2), (80, 3), (128, 4), (149, 5), (172, 6)]" "[]"] len(2)
  show "test_interfaces_two_entries"
    by (simp add: test_interfaces_two_entries_def fixture_two_entries_message head_of_def)
  show "test_interfaces_capture"
    by (simp add: test_interfaces_capture_def interfaces_capture_length capture_decoded
        capture_interfaces_def)
qed

lemma local_only_decoded:
  "decode_hardware fixture_local_only =
     Ok \<lparr>InterfaceDetails.name = ascii ''eth0'', alias' = None, mac_address = zeros 6,
       local_chassis = None, neighbors = []\<rparr>"
proof -
  have "hardware_image RawHardware_impl (empty_hardware\<lparr>RawHardware.h_ifname := name_eth0\<rparr>)
      (bare_port empty_port None) [] None"
    by (simp add: hardware_image_def empty_port_image RawHardware_impl_def head_of_def
        neighbors_image_def)
  moreover have "RawHardware.h_lladdr empty_hardware = zeros 6"
    by (simp add: empty_hardware_zero zeros_def)
  ultimately show ?thesis
    using hardware_message_decoded [OF sample_memory_image _ _ fixture_local_only_message]
    by (simp add: fixture_lengths hardware_value_def RawHardware_impl_def test_texts
        chassis_behind_def)
qed

lemma local_only_test: "test_hardware_local_only"
  by (simp add: test_hardware_local_only_def bare_eth0_def local_only_decoded)

text \<open>
  The message in the longer layout, as the first attempt reads it: each marker eight bytes early,
  so that the markers' addresses are taken for their sizes, which are not looked at.
\<close>

lemma reads_any_marker: "reads consume_substruct_marker b () (put_header b adr n)"
  unfolding consume_substruct_marker_def [abs_def]
  by (rule reads_and_then [OF reads_header]) (rule reads_Ok)

lemma reads_any_location:
  "reads (\<lambda>c. decode_med_location_marker c empty_loc) b () (put_header b adr n)"
  unfolding decode_med_location_marker_def [abs_def]
  by (rule reads_and_then [OF reads_any_marker [of b adr n]]) (simp add: reads_Ok)

lemma empty_port_decoded:
  "decode_port_fields c empty_port Map.empty =
     and_then (decode_med_locations c [empty_loc, empty_loc, empty_loc]) (\<lambda>(u, c).
       Ok ((\<lparr>PortFields.chassis = None, id' = None, description = None\<rparr>, Map.empty), c))"
  by (simp add: decode_port_fields_def decode_port_chassis_def read_opt_bytes_def
      read_opt_cstring_def)

definition misread_eth0 :: RawHardware where
  "misread_eth0 = empty_hardware\<lparr>RawHardware.h_ifname := zeros 4 @ ascii ''eth0'' @ zeros 8\<rparr>"

lemma misread_eth0_facts:
  "RawHardware_ok misread_eth0" "HardwareFields.h_lport RawHardware_impl misread_eth0 = empty_port"
  "HardwareFields.h_rports_tqh_first RawHardware_impl misread_eth0 = 0"
  "HardwareFields.h_ifalias RawHardware_impl misread_eth0 = 0"
  by (simp_all add: misread_eth0_def RawHardware_ok_def RawPort_ok_def RawHardware_impl_def)

lemma eth0_bytes:
  "pod_write RawHardwareWithFlagsPrevious_pod
     (empty_hardware_fp\<lparr>RawHardwareWithFlagsPrevious.h_ifname := name_eth0\<rparr>) =
   pod_write RawHardware_pod misread_eth0 @ word_to_le (0 :: usize)"
  by (simp add: pod_sizes RawHardwareWithFlagsPrevious_to_bytes_def
      RawHardwareWithFlagsPrevious_members RawHardwareWithFlagsPrevious_contents_def
      empty_hardware_fp_zero RawHardware_to_bytes_def RawHardware_members RawHardware_contents_def
      misread_eth0_def name_eth0_def empty_hardware_zero write_simps cong: let_weak_cong)

definition misread_prefix :: bytes where
  "misread_prefix =
     put_header (put_header (put_header (put_header
       (put_struct shifted_marshal [] (pod_write RawHardware_pod misread_eth0)) 0 2) 16 3) 16 4) 16 5"

lemma flags_previous_misread: "fixture_flags_previous = misread_prefix @ word_to_le (16 :: usize)"
  by (simp add: fixture_flags_previous_def misread_prefix_def buf_chunk_pod_def raw_bytes_def
      buf_marker_def buf_chunk_header eth0_bytes misread_eth0_facts(1))
    (simp add: put_header_def put_struct_def align_up_def misread_eth0_facts(1)
      shifted_marshal_def)

lemma reads_misread: "\<exists>d. reads (decode_hardware_body RawHardware_pod RawHardware_impl) [] d misread_prefix"
proof -
  define b1 where "b1 = put_struct shifted_marshal [] (pod_write RawHardware_pod misread_eth0)"
  define b2 where "b2 = put_header b1 0 2"
  have s1: "reads (read_chunk_pod RawHardware_pod) [] misread_eth0 b1"
    unfolding b1_def by (rule hardware.reads_chunk_pod) (simp_all add: misread_eth0_facts pod_sizes)
  have s2: "reads consume_substruct_marker b1 () b2" unfolding b2_def by (rule reads_any_marker)
  have "reads (\<lambda>c. decode_med_locations c [empty_loc, empty_loc, empty_loc]) b2 () misread_prefix"
    unfolding decode_med_locations.simps misread_prefix_def b1_def [symmetric] b2_def [symmetric]
    by (rule reads_and_then [OF reads_any_location], rule reads_and_then [OF reads_any_location],
        rule reads_and_then [OF reads_any_location], rule reads_Ok)
  from reads_and_then [OF this reads_Ok]
  have s3: "reads (\<lambda>c. decode_port_fields c empty_port Map.empty) b2
      (\<lparr>PortFields.chassis = None, id' = None, description = None\<rparr>, Map.empty) misread_prefix"
    unfolding empty_port_decoded .
  have "reads (decode_hardware_body RawHardware_pod RawHardware_impl) []
      \<lparr>InterfaceDetails.name = from_utf8_lossy (takeWhile (\<lambda>x. x \<noteq> 0)
         (HardwareFields.h_ifname RawHardware_impl misread_eth0)), alias' = None,
       mac_address = HardwareFields.h_lladdr RawHardware_impl misread_eth0,
       local_chassis = None, neighbors = []\<rparr> misread_prefix"
    unfolding decode_hardware_body_def [abs_def]
    by (rule reads_and_then [OF s1], rule reads_and_then [OF s2], rule reads_if_False,
        simp add: misread_eth0_facts, unfold misread_eth0_facts, rule reads_and_then [OF s3])
      (simp add: read_opt_cstring_def slice_nul_position reads_Ok)
  then show ?thesis by blast
qed

lemma flags_previous_test: "test_hardware_flags_previous"
proof -
  let ?r = "empty_hardware_fp\<lparr>RawHardwareWithFlagsPrevious.h_ifname := name_eth0\<rparr>"
  obtain d where d: "reads (decode_hardware_body RawHardware_pod RawHardware_impl) [] d misread_prefix"
    using reads_misread by blast
  have len: "length fixture_flags_previous = 720"
    by (simp add: fixture_flags_previous_message message_simps)
  have "decode_hardware_as RawHardware_pod RawHardware_impl fixture_flags_previous =
      Err layout_mismatch"
    using reads_message [OF d, of "word_to_le (16 :: usize)"] len
    by (simp add: flags_previous_misread [symmetric] decode_hardware_as_def is_exhausted_def
        bounds_num) (simp add: flags_previous_misread)
  moreover have "hardware_image RawHardwareWithFlagsPrevious_impl ?r (bare_port empty_port None) [] None"
    by (simp add: hardware_image_def empty_port_image RawHardwareWithFlagsPrevious_impl_def
        head_of_def neighbors_image_def)
  with hardware_fp.hardware_as_decoded [OF sample_memory_image this, of
      "origins [(0, 1), (656, 2), (672, 3), (688, 4), (704, 5)]" "[]"] len
  have "decode_hardware_as RawHardwareWithFlagsPrevious_pod RawHardwareWithFlagsPrevious_impl
      fixture_flags_previous = Ok (hardware_value sample_memory RawHardwareWithFlagsPrevious_impl
        ?r (bare_port empty_port None) [] None)"
    by (simp add: fixture_flags_previous_message [symmetric] bounds_num)
  ultimately show ?thesis
    by (simp add: test_hardware_flags_previous_def decode_hardware_def bare_eth0_def
        hardware_value_def RawHardwareWithFlagsPrevious_impl_def test_texts chassis_behind_def)
qed

lemma one_neighbor_test: "test_hardware_one_neighbor"
proof -
  have "mgmt_value one_neighbor_mgmt =
      \<lparr>family = 1, octets = [192, 0, 2, 1], interface_index = 3\<rparr>"
    by (simp add: mgmt_value_def one_neighbor_mgmt_def)
  moreover have "PortIdSubtype_from 3 = PortIdSubtype.MacAddress"
    by (simp add: PortIdSubtype_from_def)
  ultimately show ?thesis
    using hardware_message_decoded [OF one_neighbor_memory_image
        test_hardware_image [OF test_neighbors_image(1)] _ fixture_one_neighbor_message]
    by (simp add: fixture_lengths test_hardware_one_neighbor_def hardware_value_def
        neighbor_value_def described_port_def bare_port_def one_neighbor_port_def one_chassis_def
        plain_chassis_def or_default_def ip_def)
qed

lemma shared_chassis_test: "test_hardware_shared_chassis"
proof -
  have len: "length (put_hardware shared_origins shared_memory RawHardware_pod one_neighbor_hardware
      (bare_port empty_port None) shared_list None) \<le> slice_max"
    using fixture_lengths(3) by (simp add: fixture_shared_chassis_message bounds_num)
  obtain d free where d: "decode_hardware_arcs 0 fixture_shared_chassis = Ok (d, free)"
    "erase_details d = hardware_value shared_memory RawHardware_impl one_neighbor_hardware
       (bare_port empty_port None) shared_list None"
    "\<forall>i < length shared_list. \<forall>j < length shared_list.
       ptr_eq (chassis_arc (arc_neighbors d ! i)) (chassis_arc (arc_neighbors d ! j)) \<longleftrightarrow>
       p_chassis (p_raw (shared_list ! i)) = p_chassis (p_raw (shared_list ! j))"
    unfolding fixture_shared_chassis_message
    by (rule hardware_message_arcs [OF shared_memory_image
          test_hardware_image [OF test_neighbors_image(2)] _ len, where start = 0]) simp_all
  have n: "map erase_neighbor (arc_neighbors d) = map (neighbor_value shared_memory) shared_list"
    using arg_cong [OF d(2), of neighbors] by (simp add: erase_details_def hardware_value_def)
  then have "length (arc_neighbors d) = 2"
    by (metis length_map list.size(3,4) One_nat_def Suc_1 add.commute plus_1_eq_Suc)
  moreover have "pointee (chassis_arc (arc_neighbors d ! 0)) = c_value (shared_memory 777)"
    using arg_cong [OF n, of "\<lambda>l. Neighbor.chassis (l ! 0)"] calculation
    by (simp add: erase_neighbor_def neighbor_value_def described_port_def bare_port_def
        one_neighbor_fields)
  moreover have "ptr_eq (chassis_arc (arc_neighbors d ! 0)) (chassis_arc (arc_neighbors d ! 1))"
    using d(3) by (simp add: described_port_def bare_port_def one_neighbor_fields)
  ultimately show ?thesis
    by (simp add: test_hardware_shared_chassis_def d(1) one_chassis_def plain_chassis_def)
qed

lemma truncated_as:
  "decode_hardware_as P T [0, 0, 0, 0] = Err (truncated (cursor_new [0, 0, 0, 0]) 16)"
proof -
  have "chunk_header (cursor_new [0, 0, 0, 0]) = Err (truncated (cursor_new [0, 0, 0, 0]) 16)"
    by (simp add: chunk_header_def cursor_new_def align_up_def PTR_SIZE_def need_eq bounds_num)
  then show ?thesis
    by (simp add: decode_hardware_as_def decode_hardware_body_def read_chunk_pod_def Let_def)
qed

lemma truncated_test: "test_hardware_truncated"
  by (simp only: test_hardware_truncated_def decode_hardware_def truncated_as result.case map_err.simps)
    (simp add: truncated_def)

lemma change_tests: "test_change_deleted" "test_change_added"
proof -
  have "change_image deleted_change (ascii ''eth0'') None None"
    by (simp add: change_image_def deleted_change_def points_to_def)
  moreover have "NeighborChangeKind_from (- 1) = Deleted"
    by (simp add: NeighborChangeKind_from_def)
  ultimately show "test_change_deleted"
    using change_decoded [OF sample_memory_image, of deleted_change "ascii ''eth0''" None None
        "origins [(0, 1), (48, 100)]" "[]"] fixture_lengths(4)
    by (simp add: test_change_deleted_def fixture_deleted_message change_value_def
        deleted_change_def bounds_num)
  have "change_image added_change (ascii ''eth0'') None
      (Some (described_port added_port (ascii ''eth5'') None))"
    using test_port_images(4)
    by (simp add: change_image_def added_change_def points_to_def one_neighbor_fields)
      (simp add: added_port_def)
  moreover have "NeighborChangeKind_from 1 = Added" by (simp add: NeighborChangeKind_from_def)
  ultimately show "test_change_added"
    using change_decoded [OF added_memory_image, of added_change "ascii ''eth0''" None
        "Some (described_port added_port (ascii ''eth5'') None)" added_origins "[]"]
      fixture_lengths(5)
    by (simp add: test_change_added_def fixture_added_message change_value_def added_change_def
        neighbor_value_def described_port_def bare_port_def one_chassis_def plain_chassis_def
        added_port_def or_default_def bounds_num)
qed

end
