(* ===== verification/Wire_Properties.thy ===== *)
theory Wire_Properties
  imports Samples Layouts Decode_Tests Arcs
begin

text \<open>
  The properties of the wire format: decoders, encoders, structures and the model's accessors.
  A property is followed by its application to a concrete input, most of
  them of theory Samples.
\<close>

section \<open>Decoders read back what the daemon marshals\<close>

text \<open>
  C1: \<open>decode_interfaces\<close> returns the interfaces that the daemon marshalled, in the order of
  its list, whatever the unused fields, the addresses and the nested sizes are, and whatever
  follows the message. Applied to the reply captured from a real daemon.
\<close>

theorem interfaces_roundtrip:
  assumes "interfaces_image rs" and "head_of (tqh_first r) rs"
    and "length (put_interface_list m r rs @ rest) \<le> slice_max"
  shows "decode_interfaces (put_interface_list m r rs @ rest) = Ok (map snd rs)"
  using assms by (rule interfaces_decoded)

theorem interfaces_roundtrip_witness:
  "decode_interfaces interfaces_capture =
     Ok [\<lparr>Interface.name = ascii ''eth0'', alias' = None\<rparr>,
         \<lparr>Interface.name = ascii ''wlan0'', alias' = None\<rparr>]"
proof -
  have "length (put_interface_list capture_marshal capture_list capture_interfaces @ []) \<le> slice_max"
    using interfaces_capture_length by (simp add: interfaces_capture_built bounds_num)
  from interfaces_roundtrip [OF capture_interfaces_image capture_head this]
  show ?thesis by (simp add: interfaces_capture_built) (simp add: capture_interfaces_def)
qed

text \<open>
  C2: \<open>decode_hardware\<close> returns the interface that a daemon with the layout \<open>RawHardware\<close>
  marshalled, with its neighbors in the order of the list; a chassis is on the wire once, where
  the first port in marshalling order points to it, and every neighbor gets the one at its
  address: two neighbors hold the same \<open>Arc\<close> exactly if the daemon's ports point to the same
  chassis.
\<close>

theorem hardware_roundtrip:
  assumes "memory_image mem" and "hardware_image RawHardware_impl r lport ns al"
    and "RawHardware_ok r"
    and "length (put_hardware m mem RawHardware_pod r lport ns al) \<le> slice_max"
  defines "p \<equiv> put_hardware m mem RawHardware_pod r lport ns al"
  shows "decode_hardware p = Ok (hardware_value mem RawHardware_impl r lport ns al) \<and>
    (\<exists>d free. decode_hardware_arcs start p = Ok (d, free) \<and>
       erase_details d = hardware_value mem RawHardware_impl r lport ns al \<and>
       (\<forall>i < length ns. \<forall>j < length ns.
          ptr_eq (chassis_arc (arc_neighbors d ! i)) (chassis_arc (arc_neighbors d ! j)) \<longleftrightarrow>
          p_chassis (p_raw (ns ! i)) = p_chassis (p_raw (ns ! j))))"
proof
  show "decode_hardware p = Ok (hardware_value mem RawHardware_impl r lport ns al)"
    using hardware.hardware_as_decoded [OF assms(1-3), of m "[]"] assms(4)
    by (simp add: decode_hardware_def pod_sizes p_def)
  show "\<exists>d free. decode_hardware_arcs start p = Ok (d, free) \<and>
       erase_details d = hardware_value mem RawHardware_impl r lport ns al \<and>
       (\<forall>i < length ns. \<forall>j < length ns.
          ptr_eq (chassis_arc (arc_neighbors d ! i)) (chassis_arc (arc_neighbors d ! j)) \<longleftrightarrow>
          p_chassis (p_raw (ns ! i)) = p_chassis (p_raw (ns ! j)))"
    unfolding p_def by (rule hardware_message_arcs [OF assms(1-4), where start = start]) blast
qed

theorem hardware_roundtrip_witness:
  "\<exists>d free. decode_hardware_arcs 0 (put_hardware plain sample_memory RawHardware_pod sample_hardware
     (bare_port empty_port None) sample_neighbors None) = Ok (d, free) \<and>
   erase_details d = hardware_value sample_memory RawHardware_impl sample_hardware
     (bare_port empty_port None) sample_neighbors None \<and>
   ptr_eq (chassis_arc (arc_neighbors d ! 0)) (chassis_arc (arc_neighbors d ! 1))"
proof -
  have "length (put_hardware plain sample_memory RawHardware_pod sample_hardware
      (bare_port empty_port None) sample_neighbors None) \<le> slice_max"
    by (simp only: sample_hardware_length) (simp add: bounds_num)
  from hardware_roundtrip [OF sample_memory_image sample_hardware_image sample_hardware_ok this,
      of 0] show ?thesis by (auto simp: sample_neighbors_def)
qed

text \<open>
  C3: a message in the longer layout (with \<open>h_flags_previous\<close>) is decoded by the second
  attempt, with all its values, whenever the first layout rejects it. Applied to a message
  that the first layout reads to its end and rejects for the eight bytes left over.
\<close>

theorem hardware_fallback:
  assumes "memory_image mem"
    and "hardware_image RawHardwareWithFlagsPrevious_impl r lport ns al"
    and "RawHardwareWithFlagsPrevious_ok r"
    and "length (put_hardware m mem RawHardwareWithFlagsPrevious_pod r lport ns al) \<le> slice_max"
    and "decode_hardware_as RawHardware_pod RawHardware_impl
      (put_hardware m mem RawHardwareWithFlagsPrevious_pod r lport ns al) = Err e"
  shows "decode_hardware (put_hardware m mem RawHardwareWithFlagsPrevious_pod r lport ns al) =
    Ok (hardware_value mem RawHardwareWithFlagsPrevious_impl r lport ns al)"
  using hardware_fp.hardware_as_decoded [OF assms(1-3), of m "[]"] assms(4,5)
  by (simp add: decode_hardware_def pod_sizes)

theorem hardware_fallback_witness:
  "decode_hardware fp_message =
   Ok (hardware_value sample_memory RawHardwareWithFlagsPrevious_impl empty_hardware_fp
     (bare_port empty_port None) [] None)"
  using hardware_fallback [OF sample_memory_image fp_image(1) empty_ok(1),
      of fp_marshal layout_mismatch, folded fp_message_def, OF _ fp_message_rejected]
  by (simp add: fp_message_length bounds_num)

text \<open>
  C8: a daemon with the longer layout is understood. The reply does not say which layout it is
  in, and the shorter one is tried first; it rejects every message in the longer layout whose
  local port has an identifier (of a subtype other than the reserved 0) and whose third chunk has
  a reference number below sixteen, as the daemon's numbers are small and sequential. So \<open>decode_hardware\<close> returns the interface
  of the longer layout with all its values: the shorter layout takes the subtype of the
  identifier for the pointer to it, or something before it for the pointer to a chassis, and the
  reference number of the chunk for the size of what is there, which is smaller than a header.
\<close>

theorem longer_layout_decoded:
  assumes "memory_image mem"
    and "hardware_image RawHardwareWithFlagsPrevious_impl r lport ns al"
    and "RawHardwareWithFlagsPrevious_ok r"
    and "p_id_subtype (p_raw lport) \<noteq> 0" and "unat (orig m 672) < 16"
    and "length (put_hardware m mem RawHardwareWithFlagsPrevious_pod r lport ns al) \<le> slice_max"
  defines "p \<equiv> put_hardware m mem RawHardwareWithFlagsPrevious_pod r lport ns al"
  shows "(\<exists>e. decode_hardware_as RawHardware_pod RawHardware_impl p = Err e) \<and>
    decode_hardware p = Ok (hardware_value mem RawHardwareWithFlagsPrevious_impl r lport ns al)"
proof -
  have "numbered m lport" using assms(4,5) by (simp add: numbered_def)
  then show ?thesis
    using shorter_layout_rejects [OF _ assms(2,3,6)] longer_layout_accepted [OF assms(1) _ assms(2,3,6)]
    by (simp add: p_def)
qed

theorem longer_layout_decoded_witness:
  "decode_hardware longer_message =
   Ok \<lparr>InterfaceDetails.name = ascii ''eth0'', alias' = None, mac_address = [2, 0, 0, 0, 0, 7],
     local_chassis = None,
     neighbors = map (neighbor_value sample_memory) sample_neighbors\<rparr>"
proof -
  have "takeWhile (\<lambda>x. x \<noteq> 0) (ascii ''eth0'' @ zeros 12) = ascii ''eth0''"
    "utf8_valid (ascii ''eth0'')" by code_simp+
  then have v: "hardware_value sample_memory RawHardwareWithFlagsPrevious_impl longer_hardware
      longer_port sample_neighbors None =
    \<lparr>InterfaceDetails.name = ascii ''eth0'', alias' = None, mac_address = [2, 0, 0, 0, 0, 7],
      local_chassis = None, neighbors = map (neighbor_value sample_memory) sample_neighbors\<rparr>"
    by (simp add: hardware_value_def RawHardwareWithFlagsPrevious_impl_def longer_hardware_def
        longer_port_def chassis_behind_def from_utf8_lossy_id)
  have "length longer_message \<le> slice_max" by (simp add: longer_length bounds_num)
  with longer_layout_decoded [OF sample_memory_image longer_image longer_ok, of longer_marshal]
  show ?thesis by (simp add: longer_numbers longer_message_def [symmetric] v)
qed

text \<open>
  C4: \<open>decode_neighbor_change\<close> returns the notification that the daemon marshalled, with the
  neighbor when there is one.
\<close>

theorem notification_roundtrip:
  assumes "memory_image mem" and "change_image r nm al n"
    and "length (put_change m mem r nm al n @ rest) \<le> slice_max"
  shows "decode_neighbor_change (put_change m mem r nm al n @ rest) =
    Ok (change_value mem r nm al n)"
  using assms by (rule change_decoded)

theorem notification_roundtrip_witness:
  "decode_neighbor_change (put_change plain sample_memory sample_change (ascii ''eth0'') None
     (Some sample_notified)) =
   Ok \<lparr>interface = ascii ''eth0'', interface_alias = None, kind = Added,
     NeighborChange.neighbor = Some \<lparr>Neighbor.chassis = switch, port_id_subtype = IfName,
       port_id = ascii ''eth5'', port_description = None, ttl = 90\<rparr>\<rparr>"
proof -
  have "length (put_change plain sample_memory sample_change (ascii ''eth0'') None
      (Some sample_notified) @ []) \<le> slice_max"
    by (simp only: append_Nil2 sample_change_length) (simp add: bounds_num)
  from notification_roundtrip [OF sample_memory_image sample_change_image this]
  show ?thesis
    by (simp add: change_value_def neighbor_value_def sample_change_def sample_notified_def
        sample_memory_def NeighborChangeKind_from_def PortIdSubtype_from_def or_default_def)
      (simp add: bare_port_def)
qed

section \<open>Decoders and the bytes they are given\<close>

text \<open>
  C7: a layout accepts a payload of \<open>GET_INTERFACE\<close> exactly to its last byte: with any bytes
  appended it reports the mismatch, cut anywhere it reports a protocol error.
\<close>

theorem hardware_exact:
  assumes "length p \<le> slice_max" and "decode_hardware_as P T p = Ok d"
  shows "(x \<noteq> [] \<longrightarrow> decode_hardware_as P T (p @ x) = Err layout_mismatch) \<and>
    (k < length p \<longrightarrow> (\<exists>m. decode_hardware_as P T (take k p) = Err (Protocol m)))"
proof (intro conjI impI)
  obtain c where b: "decode_hardware_body P T (cursor_new p) = Ok (d, c)" and e: "is_exhausted c"
    using assms(2) by (auto simp: decode_hardware_as_Ok)
  have c: "buf c = p" "pos c = length p"
    using hardware_msg.used [OF assms(1) b] e by (simp_all add: is_exhausted_def)
  {
    assume "x \<noteq> []"
    have "decode_hardware_body P T (cursor_new (p @ x)) = Ok (d, c\<lparr>buf := p @ x\<rparr>)"
      using hardware_msg.extended [OF assms(1) b, of x] c by simp
    with \<open>x \<noteq> []\<close> c show "decode_hardware_as P T (p @ x) = Err layout_mismatch"
      by (simp add: decode_hardware_as_def is_exhausted_def)
  next
    assume "k < length p"
    then obtain m where "decode_hardware_body P T (cursor_new (take k p)) = Err (Protocol m)"
      using hardware_msg.truncated_fails [OF assms(1) b] c by auto
    then show "\<exists>m. decode_hardware_as P T (take k p) = Err (Protocol m)"
      by (simp add: decode_hardware_as_def)
  }
qed

lemma sample_hardware_decoded:
  "decode_hardware_as RawHardware_pod RawHardware_impl (put_hardware plain sample_memory
     RawHardware_pod sample_hardware (bare_port empty_port None) sample_neighbors None) =
   Ok (hardware_value sample_memory RawHardware_impl sample_hardware
     (bare_port empty_port None) sample_neighbors None)"
  using hardware.hardware_as_decoded [OF sample_memory_image sample_hardware_image
      sample_hardware_ok, of plain "[]"]
  by (simp add: sample_hardware_length bounds_num)

theorem hardware_exact_witness:
  "decode_hardware_as RawHardware_pod RawHardware_impl (put_hardware plain sample_memory
     RawHardware_pod sample_hardware (bare_port empty_port None) sample_neighbors None @ [0])
   = Err layout_mismatch"
  using hardware_exact [OF _ sample_hardware_decoded, of "[0]" 0]
  by (simp add: sample_hardware_length bounds_num)

text \<open>
  C9: what \<open>decode_interfaces\<close> returns belongs to a first part of the payload: every payload
  that starts with it decodes to the same list, and no payload cut short inside it decodes.
\<close>

theorem interfaces_prefix:
  assumes "length p \<le> slice_max" and "decode_interfaces p = Ok ifs"
  shows "\<exists>n \<le> length p.
    (\<forall>q. n \<le> length q \<longrightarrow> take n q = take n p \<longrightarrow> decode_interfaces q = Ok ifs) \<and>
    (\<forall>k < n. \<exists>m. decode_interfaces (take k p) = Err (Protocol m))"
proof -
  obtain c where r: "interfaces_reader (cursor_new p) = Ok (ifs, c)"
    using assms(2) by (auto simp: decode_interfaces_reader map_ok_eq_Ok)
  show ?thesis
  proof (intro exI [of _ "pos c"] conjI allI impI)
    show "pos c \<le> length p" using interfaces_msg.used [OF assms(1) r] by simp
  next
    fix q
    assume "pos c \<le> length q" "take (pos c) q = take (pos c) p"
    from interfaces_msg.same_prefix [OF assms(1) r this]
    show "decode_interfaces q = Ok ifs" by (simp add: decode_interfaces_reader)
  next
    fix k
    assume "k < pos c"
    from interfaces_msg.truncated_fails [OF assms(1) r this]
    show "\<exists>m. decode_interfaces (take k p) = Err (Protocol m)"
      by (auto simp: decode_interfaces_reader)
  qed
qed

theorem interfaces_prefix_witness:
  "\<exists>n \<le> 173. \<forall>q. n \<le> length q \<longrightarrow> take n q = take n interfaces_capture \<longrightarrow>
     decode_interfaces q = Ok (map snd capture_interfaces)"
  using interfaces_prefix [OF _ capture_decoded]
  by (auto simp: interfaces_capture_length bounds_num)

text \<open>
  C6: on every payload the decoders return a value or a protocol error: they do not panic, and
  (being functions defined by recursion on the bytes left) they return.
\<close>

theorem decoders_safe:
  assumes "length p \<le> slice_max"
  shows "ok_or_protocol (decode_interfaces p) \<and> ok_or_protocol (decode_hardware p) \<and>
    ok_or_protocol (decode_neighbor_change p)"
  using interfaces_msg.safe [OF assms] hardware_protocol [OF assms] change_msg.safe [OF assms]
  by (simp add: decode_interfaces_reader decode_neighbor_change_reader)

theorem decoders_safe_witness:
  "ok_or_protocol (decode_hardware interfaces_capture)"
  using decoders_safe [of interfaces_capture] by (simp add: interfaces_capture_length bounds_num)

text \<open>
  The work and the recursion of \<open>decode_interfaces\<close> are bounded by the payload: each
  interface takes at least 48 of its bytes, behind the 32 of the list head.
\<close>

lemma interfaces_bounded:
  assumes "length p \<le> slice_max" and "decode_interfaces p = Ok ifs"
  shows "32 + 48 * length ifs \<le> length p"
  using assms by (rule interfaces_capacity)

lemma interfaces_bounded_witness: "32 + 48 * length capture_interfaces \<le> (173 :: nat)"
  using interfaces_bounded [OF _ capture_decoded]
  by (simp add: interfaces_capture_length bounds_num)

text \<open>
  C35: the memory a list of interfaces takes is bounded by the reply: the names and aliases
  together are at most three times as long (a byte that is not UTF-8 becomes three), less 144
  for each interface and 96 for the list. So no reply within the transport's cap makes the client
  hold more than one and a half megabytes of names.
\<close>

theorem decoded_list_bounded:
  assumes "length p \<le> slice_max" and "decode_interfaces p = Ok ifs"
  shows "96 + 144 * length ifs + sum_list (map text_size ifs) \<le> 3 * length p"
  using assms by (rule interfaces_texts)

theorem decoded_list_bounded_witness:
  "96 + 144 * 2 + sum_list (map text_size (map snd capture_interfaces)) \<le> 3 * 173"
proof -
  have "length (map snd capture_interfaces) = 2" by (simp add: capture_interfaces_def)
  with decoded_list_bounded [OF _ capture_decoded] show ?thesis
    by (simp add: interfaces_capture_length bounds_num)
qed

lemma hardware_body_capacity:
  assumes "length p \<le> slice_max" and "decode_hardware_body P T (cursor_new p) = Ok (d, c)"
  shows "16 + pod_size P + 432 * length (neighbors d) \<le> length p"
  using assms(2)
proof (cases rule: decode_hardware_body_OkE)
  case (1 raw c1 c2 f cache c3 ns cache2 c4 al)
  have c0: "cursor_ok (cursor_new p)" using assms(1) by simp
  note a1 = chunk_advances [OF c0 1(1)]
  note a2 = advances [OF well_behaved_marker conjunct1 [OF conjunct2 [OF a1]] 1(2)]
  note a3 = advances [OF wb_port_fields conjunct1 [OF conjunct2 [OF a2]] 1(4)]
  have ok3: "cursor_ok c3" using a3 by simp
  have a4: "pos c3 + 432 * length ns \<le> pos c4 \<and> cursor_ok c4"
  proof (cases "h_rports_tqh_first T raw = 0")
    case True
    with 1(5) ok3 show ?thesis by auto
  next
    case False
    with 1(5) have n: "decode_neighbor_chain c3 cache = Ok ((ns, cache2), c4)" by simp
    show ?thesis
      using neighbor_chain_capacity [OF ok3 n] advances [OF wb_neighbor_chain ok3 n] by simp
  qed
  note a5 = string_advances [OF conjunct2 [OF a4] 1(6)]
  have "16 + pod_size P \<le> pos c1"
    using read_chunk_pod_progress [OF 1(1)] by (simp add: cursor_new_def)
  moreover have "pos c \<le> length p" using hardware_msg.used [OF assms] by simp
  ultimately show ?thesis using a1 a2 a3 a4 a5 by (simp add: 1(7))
qed

text \<open>
  C34: the neighbors of a decoded interface are bounded by the reply: each takes at least 432 of
  its bytes, behind 648 of the interface itself, so a reply within the transport's cap holds at
  most 1212 of them.
\<close>

theorem neighbors_bounded:
  assumes "length p \<le> slice_max" and "decode_hardware p = Ok d"
  shows "648 + 432 * length (neighbors d) \<le> length p"
proof -
  from assms(2) have "decode_hardware_as RawHardware_pod RawHardware_impl p = Ok d \<or>
      decode_hardware_as RawHardwareWithFlagsPrevious_pod RawHardwareWithFlagsPrevious_impl p = Ok d"
    unfolding decode_hardware_def
    by (cases "decode_hardware_as RawHardware_pod RawHardware_impl p";
        cases "decode_hardware_as RawHardwareWithFlagsPrevious_pod
          RawHardwareWithFlagsPrevious_impl p") simp_all
  then show ?thesis
  proof
    assume "decode_hardware_as RawHardware_pod RawHardware_impl p = Ok d"
    then show ?thesis
      by (auto simp: decode_hardware_as_Ok dest!: hardware_body_capacity [OF assms(1)])
  next
    assume "decode_hardware_as RawHardwareWithFlagsPrevious_pod
        RawHardwareWithFlagsPrevious_impl p = Ok d"
    then show ?thesis
      by (auto simp: decode_hardware_as_Ok dest!: hardware_body_capacity [OF assms(1)])
  qed
qed

lemma sample_hardware_top:
  "decode_hardware (put_hardware plain sample_memory RawHardware_pod sample_hardware
     (bare_port empty_port None) sample_neighbors None) =
   Ok (hardware_value sample_memory RawHardware_impl sample_hardware
     (bare_port empty_port None) sample_neighbors None)"
  by (simp add: decode_hardware_def sample_hardware_decoded)

theorem neighbors_bounded_witness: "648 + 432 * length sample_neighbors \<le> (1808 :: nat)"
  using neighbors_bounded [OF _ sample_hardware_top]
  by (simp add: sample_hardware_length bounds_num hardware_value_def)

text \<open>
  C10: whatever bytes the daemon sent, a decoded value is one of the source's types: every string
  in it is UTF-8, a hardware address has six bytes, a management address at most sixteen, and
  an identifier or change kind with a name of its own never appears as \<open>Other\<close>.
\<close>

theorem decoded_values_typed:
  "(decode_interfaces p = Ok ifs \<longrightarrow> list_all interface_utf8 ifs) \<and>
   (decode_hardware p = Ok d \<longrightarrow> details_ok d) \<and>
   (decode_neighbor_change p = Ok c \<longrightarrow> change_ok c)"
  using decode_interfaces_utf8 decode_hardware_ok decode_neighbor_change_ok by blast

theorem decoded_values_typed_witness:
  "details_ok (hardware_value sample_memory RawHardware_impl sample_hardware
     (bare_port empty_port None) sample_neighbors None)"
  using decoded_values_typed sample_hardware_top by blast

text \<open>
  The chassis behind a pointer is decoded once. After the first port that points to it,
  every later port with the same pointer gets the same chassis and no byte is read for it; no
  entry of the cache is ever replaced.
\<close>

lemma chassis_shared:
  assumes "decode_port_chassis c raw cache = Ok ((ch, cache'), c')" and "p_chassis raw \<noteq> 0"
  shows "ch = cache' (p_chassis raw) \<and> ch \<noteq> None \<and> cache \<subseteq>\<^sub>m cache' \<and>
    (\<forall>c2 raw2. p_chassis raw2 = p_chassis raw \<longrightarrow>
       decode_port_chassis c2 raw2 cache' = Ok ((ch, cache'), c2))"
proof (cases "cache (p_chassis raw)")
  case None
  with assms obtain v where "ch = Some v" "cache' = cache(p_chassis raw \<mapsto> v)"
    by (auto simp: decode_port_chassis_def and_then_eq_Ok)
  with assms(2) None show ?thesis by (auto simp: decode_port_chassis_def map_le_def)
next
  case (Some v)
  with assms have "ch = Some v" "cache' = cache" by (auto simp: decode_port_chassis_def)
  with assms(2) Some show ?thesis by (auto simp: decode_port_chassis_def)
qed

lemma chassis_shared_witness:
  "decode_port_chassis (cursor_new []) (empty_port\<lparr>p_chassis := 777, p_ttl := 3\<rparr>)
     (Map.empty(777 \<mapsto> switch)) = Ok ((Some switch, Map.empty(777 \<mapsto> switch)), cursor_new [])"
proof -
  have "decode_port_chassis (cursor_new [1]) (empty_port\<lparr>p_chassis := 777\<rparr>)
      (Map.empty(777 \<mapsto> switch)) = Ok ((Some switch, Map.empty(777 \<mapsto> switch)), cursor_new [1])"
    by (simp add: decode_port_chassis_def)
  from chassis_shared [OF this] show ?thesis by simp
qed

text \<open>
  C11: one allocation for each chassis pointer. Whatever bytes are decoded, the references of the
  interface (its own chassis, then those of its neighbors) are the same allocation exactly where
  the ports on the wire have the same pointer, which is then the same chassis, and absent exactly
  where it is null; the decoder makes as many allocations as there are pointers. They are all
  new, so that replies decoded one after the other share none.
\<close>

theorem chassis_allocated_once:
  assumes "decode_hardware_as_arcs P T start payload = Ok (d, free)"
  defines "ps \<equiv> map p_chassis (hardware_ports P T payload)"
  shows "length (chassis_arcs d) = length ps \<and> free = start + card (set ps - {0}) \<and>
    (\<forall>i < length ps. chassis_arcs d ! i = None \<longleftrightarrow> ps ! i = 0) \<and>
    (\<forall>i < length ps. \<forall>j < length ps. \<forall>a b.
       chassis_arcs d ! i = Some a \<longrightarrow> chassis_arcs d ! j = Some b \<longrightarrow>
       (ptr_eq a b \<longleftrightarrow> ps ! i = ps ! j) \<and> (ptr_eq a b \<longrightarrow> a = b)) \<and>
    (\<forall>i < length ps. \<forall>a. chassis_arcs d ! i = Some a \<longrightarrow> start \<le> address a \<and> address a < free)"
  using hardware_as_sharing [OF assms(1)] unfolding ps_def .

theorem chassis_allocated_once_witness:
  "\<exists>d. decode_hardware_as_arcs RawHardware_pod RawHardware_impl 5 (put_hardware plain sample_memory
     RawHardware_pod sample_hardware (bare_port empty_port None) sample_neighbors None) = Ok (d, 6) \<and>
   local_chassis_arc d = None"
proof -
  have len: "length (put_hardware plain sample_memory RawHardware_pod sample_hardware
      (bare_port empty_port None) sample_neighbors None) \<le> slice_max"
    by (simp only: sample_hardware_length) (simp add: bounds_num)
  have size: "pod_size RawHardware_pod \<le> 2 ^ 16" by simp
  obtain d free where d: "decode_hardware_as_arcs RawHardware_pod RawHardware_impl 5
      (put_hardware plain sample_memory RawHardware_pod sample_hardware
        (bare_port empty_port None) sample_neighbors None) = Ok (d, free)"
    by (rule hardware.hardware_arcs_message [OF sample_memory_image sample_hardware_image
          sample_hardware_ok size len])
  have "map p_chassis (map p_raw (bare_port empty_port None # sample_neighbors)) = [0, 777, 777]"
    by (simp add: sample_neighbors_def)
  with chassis_allocated_once [OF d] hardware.hardware_ports_message [OF sample_memory_image
      sample_hardware_image sample_hardware_ok size len]
  have "free = 5 + card (set [0, 777, 777 :: usize] - {0}) \<and>
      (\<forall>i < 3. chassis_arcs d ! i = None \<longleftrightarrow> [0, 777, 777 :: usize] ! i = 0)"
    by (simp only:) simp
  then have "free = 6 \<and> local_chassis_arc d = None"
    by (auto simp: chassis_arcs_def insert_Diff_if dest: spec [of _ 0])
  with d show ?thesis by blast
qed

text \<open>
  That an \<open>Arc\<close> can be taken for the value it holds, as everywhere else in this development:
  on every payload the decoders with allocations return, up to the identity of the references,
  what the decoders without them return, errors included.
\<close>

lemma arcs_erased:
  "map_ok (erase_details \<circ> fst) (decode_hardware_arcs free p) = decode_hardware p \<and>
   map_ok (erase_change \<circ> fst) (decode_neighbor_change_arcs free p) = decode_neighbor_change p"
  using hardware_erased change_erased by blast

text \<open>
  C36: a reply whose local port is chained to another port is rejected as such, for both
  layouts, as soon as the structure and the marker behind it are read.
\<close>

theorem chained_local_port_rejected:
  assumes "pod_codec P valid" and "valid r" and "pod_size P \<le> 2 ^ 16"
    and "RawPort.tqe_next (h_lport T r) \<noteq> 0"
    and "length (put_marker m (put_struct m [] (pod_write P r)) @ rest) \<le> slice_max"
  shows "decode_hardware_as P T (put_marker m (put_struct m [] (pod_write P r)) @ rest) =
    Err chained_lport"
proof -
  let ?B = "put_marker m (put_struct m [] (pod_write P r)) @ rest"
  note s1 = pod_codec.reads_chunk_pod [OF assms(1-3), of "[]" m]
  note s2 = reads_marker [of "put_struct m [] (pod_write P r)" m]
  have "prefix (put_struct m [] (pod_write P r)) ?B"
    using reads_prefix [OF s2] by (auto intro: prefix_order.trans)
  with readsD [OF s1 this assms(5)] readsD [OF s2 _ assms(5)] assms(4)
  show ?thesis
    by (simp add: decode_hardware_as_def decode_hardware_body_def cursor_new_def)
qed

theorem chained_local_port_rejected_witness:
  "decode_hardware_as RawHardware_pod RawHardware_impl
     (put_marker plain (put_struct plain [] (pod_write RawHardware_pod
        (sample_hardware\<lparr>RawHardware.h_lport := empty_port\<lparr>RawPort.tqe_next := 1\<rparr>\<rparr>))) @ []) =
   Err chained_lport"
proof (rule chained_local_port_rejected [OF hardware.pod_codec_axioms])
  show "RawHardware_ok (sample_hardware\<lparr>RawHardware.h_lport := empty_port\<lparr>RawPort.tqe_next := 1\<rparr>\<rparr>)"
    by (simp add: RawHardware_ok_def sample_hardware_def RawPort_ok_def)
  then show "length (put_marker plain (put_struct plain [] (pod_write RawHardware_pod
        (sample_hardware\<lparr>RawHardware.h_lport := empty_port\<lparr>RawPort.tqe_next := 1\<rparr>\<rparr>))) @ [])
      \<le> slice_max"
    by (simp add: align_up_def bounds_num)
qed (simp_all add: RawHardware_impl_def)

text \<open>
  A neighbor whose port points to no chassis is never returned: where its other fields
  decode, the error names the missing chassis.
\<close>

lemma neighbor_without_chassis_rejected:
  assumes "p_chassis raw = 0"
  shows "(decode_port_fields c raw cache = Ok f \<longrightarrow> build_neighbor c raw cache = Err no_chassis) \<and>
    build_neighbor c raw cache \<noteq> Ok n"
proof -
  have "PortFields.chassis (fst (fst f)) = None" if "decode_port_fields c raw cache = Ok f" for f
    using that assms by (auto simp: decode_port_fields_def decode_port_chassis_def and_then_eq_Ok)
  then show ?thesis
    by (cases "decode_port_fields c raw cache") (auto simp: build_neighbor_def split: prod.splits)
qed

lemma bare_port_reads:
  "reads (\<lambda>c. decode_port_fields c empty_port Map.empty) []
     (fields_value sample_memory (bare_port empty_port None), Map.empty)
     (put_locations plain [] [None, None, None])"
proof -
  have "put_port_fields plain sample_memory ([], {}) (bare_port empty_port None) =
      (put_locations plain [] [None, None, None], {})"
    by (simp add: put_port_fields_def put_port_chassis_def bare_port_def Let_def put_bytes_def
        put_cstring_def)
  from reads_port_fields [OF sample_memory_image empty_port_image this]
  show ?thesis by (simp add: cache_of_empty)
qed

lemma neighbor_without_chassis_rejected_witness:
  "build_neighbor (cursor_new (put_locations plain [] [None, None, None])) empty_port Map.empty =
   Err no_chassis"
proof -
  have "length (put_locations plain [] [None, None, None] @ []) \<le> slice_max"
    by (simp add: put_bytes_def align_up_def bounds_num)
  from reads_message [OF bare_port_reads this] neighbor_without_chassis_rejected [of empty_port]
  show ?thesis by simp
qed

section \<open>The cursor\<close>

text \<open>
  C37: \<open>leaf\<close> on every branch, for a cursor inside its buffer. The header stands at the next
  multiple of eight; a buffer too short for it, a declared size below the header's, and a
  content that reaches past the buffer are the three errors.
\<close>

theorem leaf_result:
  assumes "cursor_ok c" and "p = align_up (pos c) 8"
    and "sz = unat (snd (header_at (buf c) p))"
  shows "leaf c =
    (if length (buf c) < p + 16 then Err (truncated (c\<lparr>pos := p\<rparr>) 16)
     else if sz < 16 then Err (Protocol
       (''chunk declares '' @ dec sz @ '' bytes, smaller than its own '' @ dec 16 @
        ''-byte header''))
     else if length (buf c) < p + sz then Err (truncated (c\<lparr>pos := p + 16\<rparr>) (sz - 16))
     else Ok ((fst (header_at (buf c) p), take (sz - 16) (drop (p + 16) (buf c))),
              c\<lparr>pos := p + sz\<rparr>))"
proof (cases "length (buf c) < p + 16")
  case True
  then show ?thesis
    using chunk_header_Err [OF assms(1,2)] by (simp add: leaf_def truncated_def)
next
  case False
  have len: "length (buf c) < usize_bound" using assms(1) by (simp add: cursor_ok_def bounds_num)
  have h: "chunk_header c = Ok (header_at (buf c) p, c\<lparr>pos := p + 16\<rparr>)"
    using False len chunk_header_Ok [OF assms(2)] by simp
  obtain adr w where hw: "header_at (buf c) p = (adr, w)" by fastforce
  then have w: "sz = unat w" using assms(3) by simp
  have ok: "cursor_ok (c\<lparr>pos := p + 16\<rparr>)" using assms(1) False by (simp add: cursor_ok_def)
  have l: "leaf c = (case checked_sub sz 16 of
      None \<Rightarrow> Err (Protocol (''chunk declares '' @ dec sz @ '' bytes, smaller than its own '' @
        dec 16 @ ''-byte header''))
    | Some n \<Rightarrow> and_then (read_raw (c\<lparr>pos := p + 16\<rparr>) n) (\<lambda>(b, c). Ok ((adr, b), c)))"
    unfolding w by (simp add: leaf_def h hw PTR_SIZE_def)
  show ?thesis
  proof (cases "sz < 16")
    case True
    with False show ?thesis by (simp add: l checked_sub_def)
  next
    case big: False
    show ?thesis
    proof (cases "length (buf c) < p + sz")
      case True
      with big read_raw_Err [OF ok, of "sz - 16"] False show ?thesis
        by (simp add: l checked_sub_def truncated_def)
    next
      case fits: False
      have "read_raw (c\<lparr>pos := p + 16\<rparr>) (sz - 16) =
          Ok (take (sz - 16) (drop (p + 16) (buf c)), c\<lparr>pos := p + sz\<rparr>)"
        using read_raw_Ok [of "c\<lparr>pos := p + 16\<rparr>" "sz - 16"] big fits len by simp
      with big fits False show ?thesis by (simp add: l checked_sub_def hw)
    qed
  qed
qed

theorem leaf_result_witness:
  "leaf (cursor_new [1]) = Err (truncated (cursor_new [1]) 16)"
proof -
  have "cursor_ok (cursor_new [1])" by (simp add: bounds_num)
  from leaf_result [OF this refl refl] show ?thesis
    by (simp add: cursor_new_def align_up_def)
qed

text \<open>
  C38: \<open>read_chunk_pod\<close> on every branch. It takes exactly the size of the structure behind the
  header, however much more the chunk declares: what is nested in it is read by later calls.
\<close>

theorem chunk_pod_result:
  assumes "cursor_ok c" and "p = align_up (pos c) 8"
    and "sz = unat (snd (header_at (buf c) p))" and "n = pod_size P" and "n \<le> 2 ^ 16"
  shows "read_chunk_pod P c =
    (if length (buf c) < p + 16 then Err (truncated (c\<lparr>pos := p\<rparr>) 16)
     else if sz < 16 + n then Err (Protocol
       (''chunk declares '' @ dec sz @ '' bytes, too small for its own '' @ dec 16 @
        ''-byte header plus the '' @ dec n @ ''-byte struct it contains''))
     else if length (buf c) < p + 16 + n then Err (truncated (c\<lparr>pos := p + 16\<rparr>) n)
     else Ok (pod_read P (take n (drop (p + 16) (buf c))), c\<lparr>pos := p + 16 + n\<rparr>))"
proof (cases "length (buf c) < p + 16")
  case True
  then show ?thesis
    using chunk_header_Err [OF assms(1,2)] by (simp add: read_chunk_pod_def truncated_def)
next
  case False
  have len: "length (buf c) < usize_bound" using assms(1) by (simp add: cursor_ok_def bounds_num)
  have h: "chunk_header c = Ok (header_at (buf c) p, c\<lparr>pos := p + 16\<rparr>)"
    using False len chunk_header_Ok [OF assms(2)] by simp
  obtain adr w where hw: "header_at (buf c) p = (adr, w)" by fastforce
  then have w: "sz = unat w" using assms(3) by simp
  have ok: "cursor_ok (c\<lparr>pos := p + 16\<rparr>)" using assms(1) False by (simp add: cursor_ok_def)
  have l: "read_chunk_pod P c = (if sz < 16 + n then Err (Protocol
       (''chunk declares '' @ dec sz @ '' bytes, too small for its own '' @ dec 16 @
        ''-byte header plus the '' @ dec n @ ''-byte struct it contains''))
     else and_then (read_raw (c\<lparr>pos := p + 16\<rparr>) n) (\<lambda>(b, c).
       and_then (read_pod P b) (\<lambda>v. Ok (v, c))))"
    unfolding w assms(4) by (simp add: read_chunk_pod_def h hw PTR_SIZE_def)
  show ?thesis
  proof (cases "length (buf c) < p + 16 + n")
    case True
    with read_raw_Err [OF ok, of n] False show ?thesis by (simp add: l truncated_def)
  next
    case fits: False
    have "read_raw (c\<lparr>pos := p + 16\<rparr>) n =
        Ok (take n (drop (p + 16) (buf c)), c\<lparr>pos := p + 16 + n\<rparr>)"
      using read_raw_Ok [of "c\<lparr>pos := p + 16\<rparr>" n] fits len by simp
    with fits False assms(4) show ?thesis by (simp add: l read_pod_def)
  qed
qed

theorem chunk_pod_result_witness:
  "read_chunk_pod RawInterfaceList_pod (cursor_new [1, 2]) = Err (truncated (cursor_new [1, 2]) 16)"
proof -
  have "cursor_ok (cursor_new [1, 2])" by (simp add: bounds_num)
  from chunk_pod_result [OF this refl refl refl, of RawInterfaceList_pod] show ?thesis
    by (simp add: cursor_new_def align_up_def RawInterfaceList_pod_def)
qed

text \<open>
  A chunk appended by \<open>push_string_chunk\<close> is what \<open>leaf\<close> reads at the end of what stood in
  the buffer before, alignment padding skipped, and the cursor then stands at its end.
\<close>

lemma pushed_chunk_read:
  assumes "length (push_string_chunk b n x @ rest) \<le> slice_max"
  shows "leaf \<lparr>buf = push_string_chunk b n x @ rest, pos = length b\<rparr> =
    Ok ((word_of_nat n, x),
        \<lparr>buf = push_string_chunk b n x @ rest, pos = length (push_string_chunk b n x)\<rparr>)"
proof -
  define m where "m = \<lparr>orig = (\<lambda>_. word_of_nat n), nested = (\<lambda>_. 0)\<rparr>"
  have p: "push_string_chunk b n x = put_leaf m b x"
    by (simp add: m_def push_string_chunk_def put_leaf_def put_header_def Let_def PTR_SIZE_def)
  have "length x \<le> slice_max" using assms by (simp add: length_push_string_chunk)
  from readsD [OF reads_leaf [OF this, of b m], of "push_string_chunk b n x @ rest"] assms
  show ?thesis by (simp add: p) (simp add: m_def)
qed

lemma pushed_chunk_read_witness:
  "leaf \<lparr>buf = push_string_chunk [9] 2 [1, 0], pos = 1\<rparr> =
    Ok ((2, [1, 0]), \<lparr>buf = push_string_chunk [9] 2 [1, 0], pos = 26\<rparr>)"
  using pushed_chunk_read [of "[9]" 2 "[1, 0]" "[]"]
  by (simp add: length_push_string_chunk align_up_def bounds_num)

text \<open>
  \<open>align_up\<close> is the least multiple of the alignment that is not below its argument, less
  than one alignment above it.
\<close>

lemma align_up_least_multiple:
  assumes "0 < a"
  shows "a dvd align_up n a \<and> n \<le> align_up n a \<and> align_up n a < n + a \<and>
    (a dvd m \<longrightarrow> n \<le> m \<longrightarrow> align_up n a \<le> m)"
  using assms align_up_dvd align_up_ge align_up_less align_up_least by blast

lemma align_up_least_multiple_witness: "align_up 150 8 \<le> 152"
  using align_up_least_multiple [of 8 150 152] by simp

section \<open>The structures\<close>

text \<open>
  The layout with \<open>h_flags_previous\<close> moves the fields behind it, but not by a constant: the
  three fields up to \<open>h_ifname\<close> move by four bytes, all others (among them the embedded port
  and every pointer the decoder reads) by eight, since four bytes of padding follow
  \<open>h_ifname\<close>. The structure grows from 632 to 640 bytes.
\<close>

lemma flags_previous_layout:
  "list_all (\<lambda>(nm, off, n). map_of (placed RawHardwareWithFlagsPrevious_layout) nm =
      Some (off + (if nm \<in> {''h_ifindex'', ''h_ifindex_changed'', ''h_ifname''} then 4
                   else if off < 72 then 0 else 8), n)) (placed RawHardware_layout) \<and>
   map_of (placed RawHardwareWithFlagsPrevious_layout) ''h_flags_previous'' = Some (72, 4) \<and>
   size_of RawHardware_layout = 632 \<and> size_of RawHardwareWithFlagsPrevious_layout = 640"
  by (simp add: RawHardware_placed RawHardwareWithFlagsPrevious_placed)

context pod_codec
begin

lemma read_pod_bytes: "valid v \<Longrightarrow> read_pod P (pod_bytes P v) = Ok v"
  by (simp add: read_pod_def pod_bytes_def length_write read_write)

end





section \<open>Requests\<close>

text \<open>
  The payload of \<open>GET_INTERFACE\<close> is one string chunk: read with any non-null pointer, it
  is the name, and nothing is left over.
\<close>

lemma interface_request_read:
  assumes "utf8_valid nm" and "length nm + 17 \<le> slice_max" and "p \<noteq> 0"
  shows "read_opt_cstring (cursor_new (encode_interface_name_request nm)) p =
    Ok (Some nm, \<lparr>buf = encode_interface_name_request nm,
      pos = length (encode_interface_name_request nm)\<rparr>)"
  using assms by (rule interface_name_request_read)

lemma interface_request_read_witness:
  "read_opt_cstring (cursor_new (encode_interface_name_request (ascii ''eth0''))) 1 =
    Ok (Some (ascii ''eth0''), \<lparr>buf = encode_interface_name_request (ascii ''eth0''), pos = 21\<rparr>)"
  using interface_request_read [OF ascii_names(1), of 1]
  by (simp add: bounds_num) (simp add: encode_interface_name_request_def Let_def PTR_SIZE_def)

text \<open>
  C28: the payload of \<open>SET_PORT\<close>, read by its structure and pointers, is the interface name, the
  description and a structure with every other setting at its "unchanged" value, and the
  message ends behind the description.
\<close>

theorem set_port_request_decoded:
  assumes "utf8_valid nm" and "utf8_valid descr" and "length nm + length descr \<le> 2 ^ 31"
  shows "read_set_port (encode_set_port_description_request nm descr) =
    Ok (\<lparr>RawPortSet.ifname = 2, local_id = 0, local_descr = 3, vlan_advertise_pattern = 0,
         rxtx = 0, vlan_tx_tag = 0, vlan_tx_enabled = -1, med_policy = 0, med_location = 0,
         med_power = 0, dot3_power = 0\<rparr>, Some nm, Some descr, True)"
  using set_port_request_read [OF assms] by (simp only: port_set_pod_fields)

theorem set_port_request_decoded_witness:
  "read_set_port set_port_capture =
    Ok (\<lparr>RawPortSet.ifname = 2, local_id = 0, local_descr = 3, vlan_advertise_pattern = 0,
         rxtx = 0, vlan_tx_tag = 0, vlan_tx_enabled = -1, med_policy = 0, med_location = 0,
         med_power = 0, dot3_power = 0\<rparr>,
        Some (ascii ''eth0''), Some (ascii ''test-desc-XYZ''), True)"
proof -
  have "utf8_valid (ascii ''test-desc-XYZ'')" by code_simp
  from set_port_request_decoded [OF ascii_names(1) this] show ?thesis
    by (simp add: set_port_capture_encoded)
qed

text \<open>
  For the arguments of the captured \<open>lldpcli\<close> command, \<open>encode_set_port_description_request\<close>
  produces the captured bytes, the padding of the structure included.
\<close>

lemma set_port_matches_capture:
  "encode_set_port_description_request (ascii ''eth0'') (ascii ''test-desc-XYZ'') =
     set_port_capture"
  by (rule set_port_capture_encoded)

section \<open>The model\<close>

text \<open>
  The conversions of identifier subtypes and change kinds lose nothing: the number on the
  wire can be read off the result, so two different numbers never become the same value.
\<close>

lemma conversions_lossless:
  "ChassisIdSubtype_number (ChassisIdSubtype_from a) = a \<and>
   PortIdSubtype_number (PortIdSubtype_from a) = a \<and>
   NeighborChangeKind_number (NeighborChangeKind_from k) = sint k \<and>
   inj ChassisIdSubtype_from \<and> inj PortIdSubtype_from \<and> inj NeighborChangeKind_from"
proof (intro conjI)
  show "inj ChassisIdSubtype_from" by (metis injI ChassisIdSubtype_number_from)
  show "inj PortIdSubtype_from" by (metis injI PortIdSubtype_number_from)
  show "inj NeighborChangeKind_from"
    by (metis injI NeighborChangeKind_number_from signed_word_eqI)
qed simp_all

text \<open>
  A set of capabilities contains another exactly if it has every bit of it.\<close>

lemma capabilities_contains_bits:
  "capabilities_contains c b \<longleftrightarrow> (\<forall>n. bit b n \<longrightarrow> bit (cap_bits c) n)"
proof -
  have "n < 16" if "bit b n" for n using bit_imp_le_length [OF that] by simp
  then show ?thesis by (auto simp: capabilities_contains_def bit_eq_iff bit_and_iff)
qed

lemma capabilities_contains_bits_witness:
  "capabilities_contains (Capabilities 0x14) CAP_ROUTER"
proof -
  have "bit CAP_ROUTER n \<longrightarrow> bit (cap_bits (Capabilities 0x14)) n" for n
  proof -
    have "CAP_ROUTER = (0x14 :: u16) AND CAP_ROUTER" by (simp add: CAP_ROUTER_def)
    then show ?thesis by (metis Capabilities.sel bit_and_iff)
  qed
  then show ?thesis using capabilities_contains_bits by blast
qed

lemma prefix_take: "prefix xs ys \<longleftrightarrow> take (length xs) ys = xs"
  by (metis append_eq_conv_conj prefix_def take_is_prefix)

lemma four_octets:
  "prefix [w, x, y, z] xs \<longleftrightarrow>
   4 \<le> length xs \<and> xs ! 0 = w \<and> xs ! 1 = x \<and> xs ! 2 = y \<and> xs ! 3 = z"
proof
  assume "4 \<le> length xs \<and> xs ! 0 = w \<and> xs ! 1 = x \<and> xs ! 2 = y \<and> xs ! 3 = z"
  then show "prefix [w, x, y, z] xs" by (auto simp: numeral_eq_Suc Suc_le_length_iff)
qed (auto simp: prefix_def)

text \<open>
  A management address is an IPv4 address exactly if its family is 1 and it has at least
  four octets, which are the address, and an IPv6 address exactly if its family is 2 and it has
  at least sixteen.
\<close>

lemma ip_address:
  "(ip a = Some (V4 w x y z) \<longleftrightarrow> family a = 1 \<and> prefix [w, x, y, z] (raw_octets a)) \<and>
   (ip a = Some (V6 os) \<longleftrightarrow> family a = 2 \<and> length os = 16 \<and> prefix os (raw_octets a)) \<and>
   (ip a = None \<longleftrightarrow> \<not> (family a = 1 \<and> 4 \<le> length (raw_octets a)) \<and>
      \<not> (family a = 2 \<and> 16 \<le> length (raw_octets a)))"
proof (intro conjI)
  let ?o = "octets a"
  show "ip a = Some (V4 w x y z) \<longleftrightarrow> family a = 1 \<and> prefix [w, x, y, z] (raw_octets a)"
    unfolding raw_octets_def four_octets by (auto simp: ip_def)
  have "prefix os ?o \<longleftrightarrow> 16 \<le> length ?o \<and> take 16 ?o = os" if "length os = 16"
    using that by (auto simp: prefix_take)
  then show "ip a = Some (V6 os) \<longleftrightarrow> family a = 2 \<and> length os = 16 \<and> prefix os (raw_octets a)"
    unfolding raw_octets_def by (auto simp: ip_def)
  show "ip a = None \<longleftrightarrow> \<not> (family a = 1 \<and> 4 \<le> length (raw_octets a)) \<and>
      \<not> (family a = 2 \<and> 16 \<le> length (raw_octets a))"
    by (auto simp: ip_def raw_octets_def)
qed

text \<open>
  The address of a decoded management address is the first \<open>m_addrsize\<close> bytes of the wire
  field, or all of it where the daemon announces more than it holds: no size makes it panic.
\<close>

lemma management_address_clamped:
  "management_address r = Ok \<lparr>family = m_family r,
     octets = take (unat (m_addrsize r)) (m_addr r), interface_index = m_iface r\<rparr>"
  by (simp add: management_address_def Let_def ManagementAddress_new_def min_def)

end
