(* ===== verification/Session_Properties.thy ===== *)
theory Session_Properties
  imports Replies Wire_Properties
begin

text \<open>
  The properties of the framing and of the clients, on the standard library's stream functions
  with an arbitrary script of the system (\<open>std_io\<close>), and, for the tokio client, on any stream
  functions that keep their documented contract (\<open>byte_stream\<close>).
\<close>

section \<open>Concrete streams\<close>

text \<open>The bytes arrive in one piece, or byte by byte with interruptions.\<close>

definition one_piece :: "bytes \<Rightarrow> stream" where
  "one_piece b = \<lparr>rx = (if b = [] then [] else [Data b]), txq = [], tx = []\<rparr>"

definition byte_by_byte :: "bytes \<Rightarrow> stream" where
  "byte_by_byte b = \<lparr>rx = concat (map (\<lambda>x. [RxInterrupted, Data [x]]) b),
     txq = [TxInterrupted, Accept 3], tx = []\<rparr>"

lemma one_piece_facts [simp]:
  "std_fair (one_piece b)" "std_incoming (one_piece b) = b" "tx (one_piece b) = []"
  by (simp_all add: one_piece_def std_fair_def std_incoming_def)

lemma byte_by_byte_facts [simp]:
  "std_fair (byte_by_byte b)" "std_incoming (byte_by_byte b) = b" "tx (byte_by_byte b) = []"
proof -
  have "list_all rx_fair (concat (map (\<lambda>x. [RxInterrupted, Data [x]]) b))" by (induction b) simp_all
  then show "std_fair (byte_by_byte b)" by (simp add: byte_by_byte_def std_fair_def)
  have "concat (map event_bytes (concat (map (\<lambda>x. [RxInterrupted, Data [x]]) b))) = b"
    by (induction b) simp_all
  then show "std_incoming (byte_by_byte b) = b" by (simp add: byte_by_byte_def std_incoming_def)
qed (simp add: byte_by_byte_def)

lemmas frame_alone [simp] = frame_fields(1,2) [where rest = "[]", simplified]

section \<open>Frames\<close>

text \<open>
  C16: what \<open>read_message\<close> returns is a function of the bytes the peer sends: neither the pieces
  they arrive in nor interruptions change it. Unless the connection ends inside the frame, what
  is left in the stream is what follows the bytes it used.
\<close>

theorem read_message_any_fragmentation:
  assumes "std_fair s"
  shows "fst (read_message std_io ty s) = fst (parse_frame ty (std_incoming s)) \<and>
    (fst (read_message std_io ty s) \<noteq> Err (Io UnexpectedEof) \<longrightarrow>
      std_incoming (snd (read_message std_io ty s)) =
        drop (snd (parse_frame ty (std_incoming s))) (std_incoming s))"
  using std.read_message_frame [OF assms] by blast

theorem read_message_any_fragmentation_witness:
  "fst (read_message std_io Notification (byte_by_byte (frame 10 [7, 8] @ [9]))) = Ok [7, 8] \<and>
   std_incoming (snd (read_message std_io Notification (byte_by_byte (frame 10 [7, 8] @ [9])))) = [9]"
proof -
  have "parse_frame Notification (frame 10 [7, 8] @ [9]) = (Ok [7, 8], 18)"
    by (simp add: parse_frame_frame HMSG_MAX_SIZE_num)
  moreover have "drop 18 (frame 10 [7, 8] @ [9]) = [9]" by (simp add: frame_def)
  ultimately show ?thesis
    using read_message_any_fragmentation [of "byte_by_byte (frame 10 [7, 8] @ [9])" Notification]
    by simp
qed

text \<open>
  C17: a whole frame within the cap is used up to its last byte, whatever is decided about it:
  a frame of type \<open>NONE\<close> is a rejected request, another type than the expected one is an error
  that names both, and the expected one gives the payload.
\<close>

theorem whole_frame_drained:
  assumes "std_fair s" and "std_incoming s = frame t p @ rest" and "length p \<le> HMSG_MAX_SIZE"
  shows "fst (read_message std_io ty s) =
      (if t = 0 then Err RequestRejected
       else if t \<noteq> hmsg_number ty then Err (UnexpectedMessageType (hmsg_number ty) t)
       else Ok p) \<and>
    std_incoming (snd (read_message std_io ty s)) = rest"
proof -
  have pf: "parse_frame ty (std_incoming s) =
      (if t = 0 then Err RequestRejected
       else if t \<noteq> hmsg_number ty then Err (UnexpectedMessageType (hmsg_number ty) t)
       else Ok p, 16 + length p)"
    using parse_frame_frame [OF assms(3)] assms(2) by simp
  have used: "drop (16 + length p) (std_incoming s) = rest"
    unfolding assms(2) by (metis append_eq_conv_conj frame_fields(3))
  have r: "fst (read_message std_io ty s) =
      (if t = 0 then Err RequestRejected
       else if t \<noteq> hmsg_number ty then Err (UnexpectedMessageType (hmsg_number ty) t)
       else Ok p)"
    using std.read_message_frame(1) [OF assms(1), of ty] pf by simp
  then have "fst (read_message std_io ty s) \<noteq> Err (Io UnexpectedEof)" by simp
  from std.read_message_frame(2) [OF assms(1) this]
  have "std_incoming (snd (read_message std_io ty s)) = rest"
    by (simp only: pf snd_conv used)
  with r show ?thesis by blast
qed

theorem whole_frame_drained_witness:
  "fst (read_message std_io GetInterface (one_piece (frame 0 [1] @ [2]))) = Err RequestRejected \<and>
   std_incoming (snd (read_message std_io GetInterface (one_piece (frame 0 [1] @ [2])))) = [2]"
  using whole_frame_drained [of "one_piece (frame 0 [1] @ [2])" 0 "[1]" "[2]" GetInterface]
  by (simp add: HMSG_MAX_SIZE_num)

text \<open>
  One message never takes more than the header and the cap from the stream, whatever
  length its header announces.
\<close>

lemma read_message_bounded:
  assumes "std_fair s" and "fst (read_message std_io ty s) \<noteq> Err (Io UnexpectedEof)"
  shows "\<exists>k \<le> 16 + HMSG_MAX_SIZE.
    std_incoming (snd (read_message std_io ty s)) = drop k (std_incoming s)"
  using std.read_message_frame(2) [OF assms] parse_frame_bounded by blast

lemma read_message_bounded_witness:
  "\<exists>k \<le> 16 + HMSG_MAX_SIZE.
    std_incoming (snd (read_message std_io Subscribe (one_piece (frame 9 [])))) = drop k (frame 9 [])"
proof -
  have "fst (read_message std_io Subscribe (one_piece (frame 9 []))) = Ok []"
    using std.read_message_frame(1) [of "one_piece (frame 9 [])" Subscribe]
      parse_frame_frame [of "[]" Subscribe 9 "[]"] by simp
  with read_message_bounded [of "one_piece (frame 9 [])" Subscribe] show ?thesis by simp
qed

text \<open>
  C27: a reply whose header announces more than the cap is rejected with its payload still in
  the stream: the next read takes the first bytes of that payload for a header.
\<close>

theorem oversized_reply_left_in_stream:
  assumes "std_fair s" and "std_incoming s = word_to_le (ty :: i32) @ zeros 4 @ word_to_le n @ payload"
    and "HMSG_MAX_SIZE < unat (n :: u64)"
  shows "fst (read_message std_io expected s) = Err (oversized (unat n)) \<and>
    fst (read_message std_io expected2 (snd (read_message std_io expected s))) =
      fst (parse_frame expected2 payload)"
proof -
  have "frame_len (std_incoming s) = unat n" "length (std_incoming s) \<ge> 16"
    "drop 16 (std_incoming s) = payload"
    using assms(2) by (simp_all add: frame_len_def)
  then have pf: "parse_frame expected (std_incoming s) = (Err (oversized (unat n)), 16)"
    using assms(3) by (simp add: parse_frame_def)
  then have r: "fst (read_message std_io expected s) = Err (oversized (unat n))"
    using std.read_message_frame(1) [OF assms(1)] by simp
  then have "fst (read_message std_io expected s) \<noteq> Err (Io UnexpectedEof)"
    by (simp add: oversized_def)
  from std.read_message_frame(2) [OF assms(1) this] pf \<open>drop 16 (std_incoming s) = payload\<close>
  have "std_incoming (snd (read_message std_io expected s)) = payload"
    "std_fair (snd (read_message std_io expected s))" by simp_all
  with r show ?thesis by (simp add: std.read_message_frame(1))
qed

theorem oversized_reply_left_in_stream_witness:
  "fst (read_message std_io GetInterfaces (snd (read_message std_io GetInterfaces
     (one_piece (word_to_le (3 :: i32) @ zeros 4 @ word_to_le (600000 :: u64) @ frame 3 [5]))))) =
   Ok [5]"
  using oversized_reply_left_in_stream [of "one_piece (word_to_le (3 :: i32) @ zeros 4 @
      word_to_le (600000 :: u64) @ frame 3 [5])" 3 600000 "frame 3 [5]" GetInterfaces GetInterfaces]
    parse_frame_frame [of "[5]" GetInterfaces 3 "[]"]
  by (simp add: HMSG_MAX_SIZE_num)

text \<open>
  A request writes exactly one frame: its header decodes to the type and the length of
  the payload, and the payload follows.
\<close>

lemma request_sends_frame:
  assumes "std_fair s" and "length p < 2 ^ 64"
  shows "\<exists>header. tx (snd (request std_io ty p s)) = tx s @ header @ p \<and> length header = 16 \<and>
    decode_header header = Ok (hmsg_number ty, word_of_nat (length p)) \<and>
    unat (word_of_nat (length p) :: usize) = length p"
  using std.request_reply(2) [OF assms(1), of ty p] assms(2)
  by (intro exI [of _ "encode_header ty (length p)"])
    (simp add: frame_encode_header decode_encode_header unat_of_nat)

lemma request_sends_frame_witness:
  "\<exists>header. tx (snd (request std_io GetInterfaces [] (byte_by_byte []))) = header \<and>
     decode_header header = Ok (3, 0)"
  using request_sends_frame [of "byte_by_byte []" "[]" GetInterfaces] by auto

text \<open>
  No system behaviour (short reads and writes, interruptions, errors, a peer that closes)
  makes a request or a read panic.
\<close>

lemma transport_no_panic:
  "fst (request std_io ty p s) \<noteq> Panic \<and> fst (recv_notification std_io s) \<noteq> Panic"
  using std.request_no_panic std.read_message_no_panic by (simp add: recv_notification_def)

section \<open>The blocking client\<close>

text \<open>
  \<open>interfaces\<close>, from the daemon's list to the caller: the client sends an empty
  \<open>GET_INTERFACES\<close> frame, and the reply that marshals a list gives that list, in however many
  pieces it arrives.
\<close>

lemma interfaces_end_to_end:
  assumes "std_fair (Client.stream c)" and "interfaces_image rs" and "head_of (tqh_first r) rs"
    and "std_incoming (Client.stream c) =
      frame (hmsg_number GetInterfaces) (put_interface_list m r rs) @ rest"
    and "length (put_interface_list m r rs) \<le> HMSG_MAX_SIZE"
  shows "fst (interfaces std_io c) = Ok (map snd rs) \<and>
    tx (Client.stream (snd (interfaces std_io c))) =
      tx (Client.stream c) @ frame (hmsg_number GetInterfaces) []"
proof -
  have "fst (parse_frame GetInterfaces (std_incoming (Client.stream c))) =
      Ok (put_interface_list m r rs)"
    using parse_frame_frame [OF assms(5)] assms(4) by simp
  moreover have "decode_interfaces (put_interface_list m r rs) = Ok (map snd rs)"
    using interfaces_decoded [OF assms(2,3), of m "[]"] HMSG_MAX_SIZE_slice [OF assms(5)] by simp
  ultimately show ?thesis using std.interfaces_reply [OF assms(1)] by simp
qed

definition client_on :: "'s \<Rightarrow> 's Client" where
  "client_on s = \<lparr>Client.stream = s, socket_path = DEFAULT_SOCKET_PATH\<rparr>"

lemma client_on_stream [simp]: "Client.stream (client_on s) = s"
  by (simp add: client_on_def)

lemma interfaces_end_to_end_witness:
  "fst (interfaces std_io (client_on (byte_by_byte (frame 3 interfaces_capture)))) =
   Ok (map snd capture_interfaces)"
  using interfaces_end_to_end [of "client_on (byte_by_byte (frame 3 interfaces_capture))",
      OF _ capture_interfaces_image capture_head, of capture_marshal "[]"]
    interfaces_capture_length
  by (simp add: interfaces_capture_built [symmetric] HMSG_MAX_SIZE_num)

text \<open>
  C18: \<open>all_interfaces\<close> over a whole session. With the list and one answer per interface in the
  stream, it returns the decoded states in the order of the list, without the interfaces the
  daemon no longer has, or the first decoding error; when it returns a list it has sent
  \<open>GET_INTERFACES\<close> and one \<open>GET_INTERFACE\<close> per listed name, in order, and used exactly the
  answers.
\<close>

theorem all_interfaces_of_session:
  assumes "std_fair (Client.stream c)"
    and "std_incoming (Client.stream c) =
      frame (hmsg_number GetInterfaces) p @ concat (map answer_frame as) @ rest"
    and "length p \<le> HMSG_MAX_SIZE" and "list_all answer_fits as"
    and "decode_interfaces p = Ok ifs" and "length as = length ifs"
  shows "fst (all_interfaces std_io c) = gather as \<and>
    (is_Ok (gather as) \<longrightarrow>
      tx (Client.stream (snd (all_interfaces std_io c))) =
        tx (Client.stream c) @ frame (hmsg_number GetInterfaces) [] @
          concat (map interface_request ifs) \<and>
      std_incoming (Client.stream (snd (all_interfaces std_io c))) = rest)"
  using std.all_interfaces_session [OF assms] by blast

definition sample_reply :: bytes where
  "sample_reply = put_hardware plain sample_memory RawHardware_pod sample_hardware
     (bare_port empty_port None) sample_neighbors None"

theorem all_interfaces_of_session_witness:
  "fst (all_interfaces std_io (client_on (byte_by_byte
     (frame 3 interfaces_capture @ frame 0 [] @ frame 6 sample_reply)))) =
   Ok [hardware_value sample_memory RawHardware_impl sample_hardware
     (bare_port empty_port None) sample_neighbors None]"
proof -
  let ?s = "byte_by_byte (frame 3 interfaces_capture @ frame 0 [] @ frame 6 sample_reply)"
  have d: "decode_hardware sample_reply = Ok (hardware_value sample_memory RawHardware_impl
      sample_hardware (bare_port empty_port None) sample_neighbors None)"
    unfolding sample_reply_def by (rule sample_hardware_top)
  have l: "length sample_reply = 1808" unfolding sample_reply_def by (rule sample_hardware_length)
  have "length capture_interfaces = 2" by (simp add: capture_interfaces_def)
  with all_interfaces_of_session [of "client_on ?s" interfaces_capture
      "[Gone [], Details sample_reply]" "[]" "map snd capture_interfaces"]
  show ?thesis
    by (simp add: capture_decoded interfaces_capture_length HMSG_MAX_SIZE_num answer_fits_def l d)
qed

text \<open>
  C12: the outcome of \<open>set_port_description\<close>, decided by the bytes that arrive. The request, with
  the name and the description, is sent in every case. If a whole frame within the cap arrives,
  its type decides, whatever its payload: \<open>SET_PORT\<close> is success, \<open>NONE\<close> a rejection, any other
  type is reported with the expected one, and the stream then stands behind the frame. A frame
  above the cap is refused, and a connection that closes before the frame is complete is an error
  of the stream.
\<close>

theorem set_port_description_outcome:
  fixes nm descr :: rstring
  assumes "std_fair (Client.stream c)"
  defines "b \<equiv> std_incoming (Client.stream c)"
    and "c' \<equiv> snd (set_port_description std_io nm descr c)"
  shows "fst (set_port_description std_io nm descr c) =
      (if length b < 16 then Err (Io UnexpectedEof)
       else if HMSG_MAX_SIZE < frame_len b then Err (oversized (frame_len b))
       else if length b < 16 + frame_len b then Err (Io UnexpectedEof)
       else if frame_type b = 8 then Ok ()
       else if frame_type b = 0 then Err RequestRejected
       else Err (UnexpectedMessageType 8 (frame_type b))) \<and>
    tx (Client.stream c') =
      tx (Client.stream c) @ frame 8 (encode_set_port_description_request nm descr) \<and>
    (16 + frame_len b \<le> length b \<longrightarrow> frame_len b \<le> HMSG_MAX_SIZE \<longrightarrow>
      std_incoming (Client.stream c') = drop (16 + frame_len b) b \<and>
      std_fair (Client.stream c'))"
proof -
  let ?r = "replied SetPort (encode_set_port_description_request nm descr) (\<lambda>_. Ok ()) b"
  have f: "follows std_incoming std_fair tx (Client.stream c)
      (set_port_description std_io nm descr c) ?r"
    unfolding b_def by (rule std.methods_follow(3) [OF assms(1)])
  have "fst ?r =
      (if length b < 16 then Err (Io UnexpectedEof)
       else if HMSG_MAX_SIZE < frame_len b then Err (oversized (frame_len b))
       else if length b < 16 + frame_len b then Err (Io UnexpectedEof)
       else if frame_type b = 8 then Ok ()
       else if frame_type b = 0 then Err RequestRejected
       else Err (UnexpectedMessageType 8 (frame_type b)))"
    by (simp add: replied_def parse_frame_def)
  moreover have "snd (snd ?r) = drop (16 + frame_len b) b"
    if "16 + frame_len b \<le> length b" "frame_len b \<le> HMSG_MAX_SIZE"
    using that by (simp add: replied_def parse_frame_def)
  moreover have "fst (snd ?r) = frame 8 (encode_set_port_description_request nm descr)"
    by (simp add: replied_def)
  ultimately show ?thesis using f by (simp add: follows_def c'_def)
qed

theorem set_port_description_outcome_witness:
  "fst (set_port_description std_io (ascii ''eth0'') (ascii ''uplink'')
     (client_on (byte_by_byte (frame 8 [])))) = Ok () \<and>
   fst (set_port_description std_io (ascii ''eth9'') (ascii ''uplink'')
     (client_on (byte_by_byte (frame 0 [1, 2])))) = Err RequestRejected"
  using set_port_description_outcome [of "client_on (byte_by_byte (frame 8 []))"]
    set_port_description_outcome [of "client_on (byte_by_byte (frame 0 [1, 2]))"]
  by (simp add: HMSG_MAX_SIZE_num)

section \<open>The subscription\<close>

text \<open>
  A subscription over a whole session. After the reply to \<open>SUBSCRIBE\<close>, iterating gives one
  decoded change per notification frame, in order, errors of decoding included, and ends when
  the connection does, also inside a frame.
\<close>

lemma subscription_of_session:
  assumes "std_fair (Client.stream c)"
    and "std_incoming (Client.stream c) = frame (hmsg_number Subscribe) p @
      concat (map (frame (hmsg_number Notification)) ps) @ tail"
    and "length p \<le> HMSG_MAX_SIZE" and "list_all (\<lambda>p. length p \<le> HMSG_MAX_SIZE) ps"
    and "fst (parse_frame Notification tail) = Err (Io UnexpectedEof)" and "length ps < n"
  shows "\<exists>sub. subscribe std_io c = Ok sub \<and>
    tx (Subscription.stream sub) = tx (Client.stream c) @ frame (hmsg_number Subscribe) [] \<and>
    fst (take_changes std_io n sub) = map decode_neighbor_change ps"
proof -
  obtain sub where "subscribe std_io c = Ok sub" "std_fair (Subscription.stream sub)"
    "std_incoming (Subscription.stream sub) = concat (map (frame (hmsg_number Notification)) ps) @ tail"
    "tx (Subscription.stream sub) = tx (Client.stream c) @ frame (hmsg_number Subscribe) []"
    by (rule std.subscribe_framed [OF assms(1-3)])
  then show ?thesis
    using std.take_changes_frames [OF assms(4) _ _ assms(5,6)] by blast
qed

lemma subscription_of_session_witness:
  "\<exists>sub. subscribe std_io (client_on (byte_by_byte (frame 9 [] @ frame 10 [] @ [1]))) = Ok sub \<and>
     fst (take_changes std_io 2 sub) = [decode_neighbor_change []]"
proof -
  have "fst (parse_frame Notification [1]) = Err (Io UnexpectedEof)" by (simp add: parse_frame_def)
  then show ?thesis
    using subscription_of_session [of "client_on (byte_by_byte (frame 9 [] @ frame 10 [] @ [1]))"
        "[]" "[[]]" "[1]" 2] by (auto simp: HMSG_MAX_SIZE_num)
qed

text \<open>
  C20: the iteration ends exactly when the bytes the peer still sends hold no whole header, or
  announce a payload within the cap that does not arrive in full. So a connection that breaks
  off inside a notification ends the loop like an orderly close, without an error.
\<close>

theorem subscription_ends_iff:
  assumes "std_fair (Subscription.stream sub)"
  defines "b \<equiv> std_incoming (Subscription.stream sub)"
  shows "fst (subscription_next std_io sub) = None \<longleftrightarrow>
    length b < 16 \<or> frame_len b \<le> HMSG_MAX_SIZE \<and> length b < 16 + frame_len b"
proof -
  have "end_or_item r = None \<longleftrightarrow> r = Err (Io UnexpectedEof)" for r
    by (cases r rule: end_or_item.cases) simp_all
  moreover have "fst (parse_frame Notification b) = Err (Io UnexpectedEof) \<longleftrightarrow>
      length b < 16 \<or> frame_len b \<le> HMSG_MAX_SIZE \<and> length b < 16 + frame_len b"
    by (auto simp: parse_frame_def oversized_def)
  ultimately show ?thesis
    using std.next_of_frame(1) [OF assms(1)] by (simp add: b_def)
qed

theorem subscription_ends_iff_witness:
  "fst (subscription_next std_io \<lparr>Subscription.stream = one_piece (butlast (frame 10 [1, 2, 3]))\<rparr>) =
   None"
proof -
  have "butlast (frame 10 [1, 2, 3]) = word_to_le (10 :: i32) @ zeros 4 @ word_to_le (3 :: u64) @ [1, 2]"
    by (simp add: frame_def butlast_append)
  then show ?thesis
    using subscription_ends_iff [of "\<lparr>Subscription.stream = one_piece (butlast (frame 10 [1, 2, 3]))\<rparr>"]
    by (simp add: frame_len_def HMSG_MAX_SIZE_num)
qed

section \<open>The tokio client\<close>

text \<open>
  C31: over the same stream functions the tokio client does what the blocking client does, in
  every operation it has: connecting, the four requests, the path, subscribing, and the next
  change. The results are the same (of \<open>next_change\<close>, with the end of the stream and the error
  exchanged in the type), and the stream afterwards is the same, for every behaviour of the
  stream.
\<close>

theorem async_client_agrees:
  "connect_to dial path = map_ok blocking (async_connect_to dial path) \<and>
   connect dial = map_ok blocking (async_connect dial) \<and>
   interfaces io (blocking c) = map_prod id blocking (async_interfaces io c) \<and>
   interface_details io nm (blocking c) = map_prod id blocking (async_interface io nm c) \<and>
   all_interfaces io (blocking c) = map_prod id blocking (async_all_interfaces io c) \<and>
   set_port_description io nm descr (blocking c) =
     map_prod id blocking (async_set_port_description io nm descr c) \<and>
   client_socket_path (blocking c) = async_socket_path c \<and>
   subscribe io (blocking c) =
     map_ok (\<lambda>asub. \<lparr>Subscription.stream = changes asub\<rparr>) (async_subscribe io c) \<and>
   next_change io asub =
     map_prod transpose (\<lambda>sub. \<lparr>changes = Subscription.stream sub\<rparr>)
       (subscription_next io \<lparr>Subscription.stream = changes asub\<rparr>)"
  by (simp add: connect_to_eq connect_eq async_socket_path_eq async_interfaces_eq
      async_interface_eq async_all_interfaces_eq async_set_port_description_eq subscribe_eq
      next_change_eq)



end
