(* ===== verification/Sessions.thy ===== *)
theory Sessions
  imports AsyncClient
begin

text \<open>
  Sequences of calls on one client, in any order and with any outcome. A client is a state
  machine: a step is one call of a method, labelled with the call and what it returned, and a
  session is a sequence of steps. The lemmas inside \<open>byte_stream\<close> say that a client stays in
  step with a daemon that answers every request with a whole frame within the cap, whatever the
  frames hold; the rest bounds the steps of a subscription by what the system still delivers.
\<close>

section \<open>Calls\<close>

datatype call = List_interfaces | Query rstring | Describe rstring rstring

datatype outcome =
    Listed "Interface list res"
  | Queried "InterfaceDetails res"
  | Described "unit res"

inductive client_step :: "'s io \<Rightarrow> 's Client \<Rightarrow> call \<times> outcome \<Rightarrow> 's Client \<Rightarrow> bool"
  for io :: "'s io" where
  list_step: "interfaces io c = (r, c') \<Longrightarrow> client_step io c (List_interfaces, Listed r) c'"
| query_step: "interface_details io ifn c = (r, c') \<Longrightarrow>
    client_step io c (Query ifn, Queried r) c'"
| describe_step: "set_port_description io ifn descr c = (r, c') \<Longrightarrow>
    client_step io c (Describe ifn descr, Described r) c'"

inductive session :: "'s io \<Rightarrow> 's Client \<Rightarrow> (call \<times> outcome) list \<Rightarrow> 's Client \<Rightarrow> bool"
  for io :: "'s io" where
  no_call: "session io c [] c"
| call: "client_step io c l c1 \<Longrightarrow> session io c1 ls c' \<Longrightarrow> session io c (l # ls) c'"

inductive_simps session_simps [simp]:
  "session io c [] c'"
  "session io c (l # ls) c'"
inductive_simps client_step_simps [simp]:
  "client_step io c (List_interfaces, out) c'"
  "client_step io c (Query ifn, out) c'"
  "client_step io c (Describe ifn descr, out) c'"

text \<open>The request of a call, and the reading of its answer.\<close>

fun call_type :: "call \<Rightarrow> HmsgType" where
  "call_type List_interfaces = GetInterfaces"
| "call_type (Query ifn) = GetInterface"
| "call_type (Describe ifn descr) = SetPort"

fun call_payload :: "call \<Rightarrow> bytes" where
  "call_payload List_interfaces = []"
| "call_payload (Query ifn) = encode_interface_name_request ifn"
| "call_payload (Describe ifn descr) = encode_set_port_description_request ifn descr"

fun understood :: "call \<Rightarrow> bytes res \<Rightarrow> outcome" where
  "understood List_interfaces r = Listed (and_then r decode_interfaces)"
| "understood (Query ifn) r = Queried (and_then r decode_hardware)"
| "understood (Describe ifn descr) r = Described (and_then r (\<lambda>_. Ok ()))"

definition call_frame :: "call \<Rightarrow> bytes" where
  "call_frame cl = frame (hmsg_number (call_type cl)) (call_payload cl)"

definition answered :: "call \<Rightarrow> i32 \<times> bytes \<Rightarrow> outcome" where
  "answered cl reply = understood cl (check_reply (call_type cl) (fst reply) (snd reply))"

definition reply_frame :: "i32 \<times> bytes \<Rightarrow> bytes" where
  "reply_frame reply = frame (fst reply) (snd reply)"

lemma client_step_request:
  "client_step io c (cl, out) c' \<longleftrightarrow>
   (\<exists>r s. request io (call_type cl) (call_payload cl) (Client.stream c) = (r, s) \<and>
      out = understood cl r \<and> c' = c\<lparr>Client.stream := s\<rparr>)"
  by (cases cl)
    (auto simp: interfaces_def interface_details_def set_port_description_def split_def Let_def
      prod_eq_iff)

text \<open>No call changes the path of a client.\<close>

lemma session_socket_path: "session io c ls c' \<Longrightarrow> client_socket_path c' = client_socket_path c"
proof (induction rule: session.induct)
  case (call c l c1 ls c')
  then show ?case by (cases l) (auto simp: client_step_request client_socket_path_def)
qed simp

text \<open>Every call can be made in every state, and the state decides what it returns.\<close>

lemma client_step_total: "\<exists>out c'. client_step io c (cl, out) c'"
  unfolding client_step_request by (metis prod.exhaust)

lemma client_step_deterministic:
  "client_step io c (cl, out) c1 \<Longrightarrow> client_step io c (cl, out') c2 \<Longrightarrow> out = out' \<and> c1 = c2"
  by (auto simp: client_step_request)

lemma session_append:
  "session io c (ls @ ls') c' \<longleftrightarrow> (\<exists>c1. session io c ls c1 \<and> session io c1 ls' c')"
  by (induction ls arbitrary: c) auto

lemma session_total: "\<exists>outs c'. session io c (zip cls outs) c' \<and> length outs = length cls"
proof (induction cls arbitrary: c)
  case Nil
  then show ?case by simp
next
  case (Cons cl cls)
  obtain out c1 where "client_step io c (cl, out) c1" using client_step_total by metis
  moreover obtain outs c' where "session io c1 (zip cls outs) c'" "length outs = length cls"
    using Cons.IH by metis
  ultimately have "session io c (zip (cl # cls) (out # outs)) c'" by auto
  with \<open>length outs = length cls\<close> show ?case by (intro exI [of _ "out # outs"]) auto
qed

section \<open>In step with the daemon\<close>

lemma check_reply_framed:
  "(if t = 0 then Err RequestRejected
    else if t \<noteq> hmsg_number ty then Err (UnexpectedMessageType (hmsg_number ty) t)
    else Ok q) = check_reply ty t q"
  by (auto simp: check_reply_def hmsg_matches_def)

context byte_stream
begin

lemma step_framed:
  assumes "client_step io c (cl, out) c'" and "fair (Client.stream c)"
    and "incoming (Client.stream c) = reply_frame reply @ rest"
    and "length (snd reply) \<le> HMSG_MAX_SIZE"
  shows "out = answered cl reply \<and> fair (Client.stream c') \<and> incoming (Client.stream c') = rest \<and>
    sent (Client.stream c') = sent (Client.stream c) @ call_frame cl"
proof -
  obtain r s where s: "request io (call_type cl) (call_payload cl) (Client.stream c) = (r, s)"
      "out = understood cl r" "c' = c\<lparr>Client.stream := s\<rparr>"
    using assms(1) by (auto simp: client_step_request)
  obtain s1 where "request io (call_type cl) (call_payload cl) (Client.stream c) =
      (check_reply (call_type cl) (fst reply) (snd reply), s1)"
      "sent s1 = sent (Client.stream c) @ call_frame cl" "incoming s1 = rest" "fair s1"
    using request_framed [OF assms(2) assms(3) [unfolded reply_frame_def] assms(4),
        of "call_type cl" "call_payload cl"]
    unfolding check_reply_framed call_frame_def by metis
  with s show ?thesis by (simp add: answered_def)
qed

text \<open>The invariant of a session, by induction on its steps.\<close>

lemma session_in_step:
  assumes "session io c ls c'" and "fair (Client.stream c)"
    and "incoming (Client.stream c) = concat (map reply_frame replies) @ rest"
    and "list_all (\<lambda>reply. length (snd reply) \<le> HMSG_MAX_SIZE) replies"
    and "length replies = length ls"
  shows "map snd ls = map2 answered (map fst ls) replies \<and>
    sent (Client.stream c') = sent (Client.stream c) @ concat (map (call_frame \<circ> fst) ls) \<and>
    incoming (Client.stream c') = rest \<and> fair (Client.stream c')"
  using assms
proof (induction arbitrary: replies rule: session.induct)
  case (no_call c)
  then show ?case by simp
next
  case (call c l c1 ls c')
  obtain reply replies' where r: "replies = reply # replies'" using call.prems(4) by (cases replies) auto
  have "snd l = answered (fst l) reply \<and> fair (Client.stream c1) \<and>
      incoming (Client.stream c1) = concat (map reply_frame replies') @ rest \<and>
      sent (Client.stream c1) = sent (Client.stream c) @ call_frame (fst l)"
    using call.hyps(1) call.prems r by (intro step_framed) simp_all
  with call.IH [of replies'] call.prems r show ?case by simp
qed

end

section \<open>No method panics\<close>

text \<open>
  Whatever the system does, a payload that is returned was within the cap, so the decoders
  are run on payloads they are safe on.
\<close>

lemma decode_interfaces_protocol: "length p \<le> slice_max \<Longrightarrow> ok_or_protocol (decode_interfaces p)"
  by (simp add: decode_interfaces_reader interfaces_msg.safe)

lemma decode_neighbor_change_protocol:
  "length p \<le> slice_max \<Longrightarrow> ok_or_protocol (decode_neighbor_change p)"
  by (simp add: decode_neighbor_change_reader change_msg.safe)

lemma io_then_OkE:
  assumes "io_then r k = (Ok y, s')"
  obtains x s where "r = (Ok x, s)" "k x s = (Ok y, s')"
  using assms by (cases "(r, k)" rule: io_then.cases) auto

context byte_stream
begin

lemma read_message_Ok_length:
  assumes "read_message io ty s = (Ok p, s')"
  shows "length p \<le> HMSG_MAX_SIZE"
  using assms unfolding read_message_def
  by (elim io_then_OkE)
    (auto simp: check_reply_def lift_io_Ok dest!: read_length split: prod.splits if_splits
      elim!: io_then_OkE)

lemma request_Ok_length:
  "request io ty q s = (Ok p, s') \<Longrightarrow> length p \<le> HMSG_MAX_SIZE"
  by (auto simp: request_def Let_def elim!: io_then_OkE dest: read_message_Ok_length)

lemma request_decoded_no_panic:
  assumes "\<And>p. length p \<le> slice_max \<Longrightarrow> ok_or_protocol (d p)"
  shows "and_then (fst (request io ty q s)) d \<noteq> Panic"
proof (cases "fst (request io ty q s)")
  case (Ok p)
  then have "length p \<le> HMSG_MAX_SIZE" by (metis prod.collapse request_Ok_length)
  with assms HMSG_MAX_SIZE_slice have "ok_or_protocol (d p)" by blast
  with Ok show ?thesis by (auto simp: ok_or_protocol_iff)
qed (use request_no_panic [of ty q s] in simp_all)

lemma interfaces_no_panic: "fst (interfaces io c) \<noteq> Panic"
  using request_decoded_no_panic [OF decode_interfaces_protocol]
  by (simp add: interfaces_def split_def)

lemma interface_details_no_panic: "fst (interface_details io ifn c) \<noteq> Panic"
  using request_decoded_no_panic [OF hardware_protocol]
  by (simp add: interface_details_def split_def Let_def)

lemma set_port_description_no_panic: "fst (set_port_description io ifn descr c) \<noteq> Panic"
  using request_decoded_no_panic [of "\<lambda>_. Ok ()"]
  by (simp add: set_port_description_def split_def Let_def)

lemma fetch_each_no_panic: "fst (fetch_each io ifs out c) \<noteq> Panic"
proof (induction ifs arbitrary: out c)
  case (Cons iface rest)
  obtain r c1 where r: "interface_details io (Interface.name iface) c = (r, c1)" by fastforce
  with interface_details_no_panic have "r \<noteq> Panic" by (metis fst_conv)
  with Cons r show ?case by (auto split: result.splits error.splits)
qed simp

lemma all_interfaces_no_panic: "fst (all_interfaces io c) \<noteq> Panic"
  using interfaces_no_panic [of c] fetch_each_no_panic
  by (auto simp: all_interfaces_def split: prod.splits result.splits)

lemma subscribe_no_panic: "subscribe io c \<noteq> Panic"
  using request_no_panic [of Subscribe "[]" "Client.stream c"]
  by (auto simp: subscribe_def and_then_eq_Panic split: prod.splits)

lemma subscription_next_no_panic: "fst (subscription_next io sub) \<noteq> Some Panic"
proof -
  obtain r s where r: "read_message io Notification (Subscription.stream sub) = (r, s)"
    by fastforce
  have "end_or_item r \<noteq> Some Panic"
  proof (cases r)
    case (Ok p)
    then have "length p \<le> HMSG_MAX_SIZE" using r read_message_Ok_length by blast
    then have "ok_or_protocol (decode_neighbor_change p)"
      by (intro decode_neighbor_change_protocol HMSG_MAX_SIZE_slice)
    with Ok show ?thesis by (auto simp: ok_or_protocol_iff)
  next
    case (Err e)
    then show ?thesis by (cases "Err e :: bytes res" rule: end_or_item.cases) auto
  next
    case Panic
    with r read_message_no_panic [of Notification "Subscription.stream sub"] show ?thesis by simp
  qed
  with r show ?thesis by (simp add: subscription_next_def recv_notification_def)
qed

end

section \<open>What the system still delivers\<close>

text \<open>The weight of a script: the single reads it answers, and their bytes.\<close>

definition rx_weight :: "rx_event list \<Rightarrow> nat" where
  "rx_weight evs = sum_list (map (\<lambda>ev. Suc (length (event_bytes ev))) evs)"

lemma rx_weight_simps [simp]:
  "rx_weight [] = 0" "rx_weight (ev # evs) = Suc (length (event_bytes ev)) + rx_weight evs"
  by (simp_all add: rx_weight_def)

lemma read_events_weight: "rx_weight (snd (read_events n evs)) \<le> rx_weight evs"
proof (induction n evs rule: read_events.induct)
  case (5 n d evs)
  then show ?case by (auto split: prod.splits)
qed simp_all

lemma read_events_used:
  "0 < n \<Longrightarrow> read_events n evs = (r, evs') \<Longrightarrow> r \<noteq> Err UnexpectedEof \<Longrightarrow>
   rx_weight evs' < rx_weight evs"
proof (induction n evs arbitrary: r evs' rule: read_events.induct)
  case (5 n d evs)
  show ?case
  proof (cases "Suc n < length d \<or> d = []")
    case True
    with 5 show ?thesis by (auto split: if_splits)
  next
    case False
    with 5 have "evs' = snd (read_events (Suc n - length d) evs)"
      by (simp split: prod.splits)
    with False read_events_weight [of "Suc n - length d" evs] show ?thesis by simp
  qed
qed auto

lemma std_read_weight: "rx_weight (rx (snd (read_exact std_io n s))) \<le> rx_weight (rx s)"
  using read_events_weight [of n "rx s"]
  by (auto simp: std_io_def std_read_exact_def split: prod.splits)

lemma std_read_used:
  assumes "0 < n" and "fst (read_exact std_io n s) \<noteq> Err UnexpectedEof"
  shows "rx_weight (rx (snd (read_exact std_io n s))) < rx_weight (rx s)"
  using read_events_used [OF assms(1)] assms(2)
  by (auto simp: std_io_def std_read_exact_def split: prod.splits)

lemma io_then_weight:
  assumes "\<And>x u. rx_weight (rx (snd (k x u))) \<le> rx_weight (rx u)"
  shows "rx_weight (rx (snd (io_then r k))) \<le> rx_weight (rx (snd r))"
  by (cases "(r, k)" rule: io_then.cases) (use assms in auto)

lemma read_message_weight:
  assumes "fst (read_message std_io ty s) \<noteq> Err (Io UnexpectedEof)"
  shows "rx_weight (rx (snd (read_message std_io ty s))) < rx_weight (rx s)"
proof -
  let ?h = "read_exact std_io 16 s"
  have "fst ?h \<noteq> Err UnexpectedEof"
    using assms by (cases ?h) (auto simp: read_message_def header_len_16 lift_io_def)
  then have "rx_weight (rx (snd ?h)) < rx_weight (rx s)" by (intro std_read_used) simp_all
  moreover have "rx_weight (rx (snd (read_message std_io ty s))) \<le> rx_weight (rx (snd ?h))"
  proof -
    have payload: "rx_weight (rx (snd (io_then (lift_io (read_exact std_io n u))
        (\<lambda>p u. (check_reply ty t p, u))))) \<le> rx_weight (rx u)" for n t u
      using io_then_weight [of "\<lambda>p u. (check_reply ty t p, u)" "lift_io (read_exact std_io n u)"]
        std_read_weight [of n u] by (simp add: lift_io_def)
    have "rx_weight (rx (snd (read_message std_io ty s))) \<le> rx_weight (rx (snd (lift_io ?h)))"
      unfolding read_message_def header_len_16
    proof (rule io_then_weight)
      fix h u
      show "rx_weight (rx (snd (io_then (decode_header h, u) (\<lambda>(got_ty, len) s.
          if unat len > HMSG_MAX_SIZE then (Err (oversized (unat len)), s)
          else io_then (lift_io (read_exact std_io (unat len) s)) (\<lambda>payload s.
            (check_reply ty got_ty payload, s)))))) \<le> rx_weight (rx u)"
        using payload by (cases "decode_header h") auto
    qed
    then show ?thesis by (simp add: lift_io_def)
  qed
  ultimately show ?thesis by simp
qed

lemma end_or_item_None: "end_or_item r = None \<longleftrightarrow> r = Err (Io UnexpectedEof)"
  by (cases r rule: end_or_item.cases) simp_all

lemma subscription_next_weight:
  assumes "subscription_next std_io sub = (Some item, sub')"
  shows "rx_weight (rx (Subscription.stream sub')) < rx_weight (rx (Subscription.stream sub))"
proof -
  have "end_or_item (fst (read_message std_io Notification (Subscription.stream sub))) = Some item"
    and s: "Subscription.stream sub' =
      snd (read_message std_io Notification (Subscription.stream sub))"
    using assms
    by (auto simp: subscription_next_def recv_notification_def split: prod.splits)
  then have "fst (read_message std_io Notification (Subscription.stream sub)) \<noteq>
      Err (Io UnexpectedEof)"
    using end_or_item_None by (metis option.distinct(1))
  from read_message_weight [OF this] s show ?thesis by simp
qed

end
