(* ===== verification/Format.thy ===== *)
theory Format
  imports Model
begin

text \<open>
  What the example programs use of the standard library's formatting: decimal and hexadecimal
  integers, lists of bytes in the debug format, internet addresses and strings in the debug
  format. A line is its UTF-8 bytes.

  Which characters beyond ASCII the debug format prints as they are is a table of the standard
  library (Unicode's printable characters without the combining ones): a parameter, \<open>printable\<close>,
  on code points.
\<close>

section \<open>Integers\<close>

definition signed_dec :: "i32 \<Rightarrow> string" where
  "signed_dec v =
     (if sint v < 0 then ''-'' @ dec (nat (- sint v)) else dec (nat (sint v)))"

definition hex_char :: "nat \<Rightarrow> char" where
  "hex_char d = char_of (if d < 10 then 48 + d else 87 + d)"

fun hex :: "nat \<Rightarrow> string" where
  "hex n = (if n < 16 then [hex_char n] else hex (n div 16) @ [hex_char (n mod 16)])"

declare hex.simps [simp del]

text \<open>\<open>{:02x}\<close> of a byte\<close>

definition hex2 :: "u8 \<Rightarrow> string" where
  "hex2 b = [hex_char (unat b div 16), hex_char (unat b mod 16)]"

section \<open>Sequences\<close>

fun join :: "string \<Rightarrow> string list \<Rightarrow> string" where
  "join sep [] = []"
| "join sep [x] = x"
| "join sep (x # y # ys) = x @ sep @ join sep (y # ys)"

text \<open>\<open>{:02x?}\<close> of an array or a slice of bytes\<close>

definition debug_hex :: "bytes \<Rightarrow> string" where
  "debug_hex bs = ''['' @ join '', '' (map hex2 bs) @ '']''"

section \<open>Internet addresses\<close>

definition ipv4_text :: "u8 \<Rightarrow> u8 \<Rightarrow> u8 \<Rightarrow> u8 \<Rightarrow> string" where
  "ipv4_text a b c d = join ''.'' (map (\<lambda>x. dec (unat x)) [a, b, c, d])"

text \<open>The 16-bit segments, most significant byte first.\<close>

fun segments :: "bytes \<Rightarrow> nat list" where
  "segments (a # b # bs) = (256 * unat a + unat b) # segments bs"
| "segments bs = []"

text \<open>
  The first of the longest runs of zeros, as start and length: \<open>current\<close> is the run that the
  position is in, \<open>longest\<close> the best so far.
\<close>

fun zero_run :: "nat \<Rightarrow> nat \<times> nat \<Rightarrow> nat \<times> nat \<Rightarrow> nat list \<Rightarrow> nat \<times> nat" where
  "zero_run i current longest [] = longest"
| "zero_run i current longest (s # ss) =
     (if s = 0 then
        (let start = (if snd current = 0 then i else fst current);
             current = (start, snd current + 1)
         in zero_run (i + 1) current (if snd current > snd longest then current else longest) ss)
      else zero_run (i + 1) (0, 0) longest ss)"

definition hex_segments :: "nat list \<Rightarrow> string" where
  "hex_segments ss = join '':'' (map hex ss)"

text \<open>An address that maps an IPv4 address ends in it; otherwise the run of zeros is left out.\<close>

definition ipv6_text :: "bytes \<Rightarrow> string" where
  "ipv6_text os =
     (if take 12 os = replicate 10 0 @ [255, 255] \<and> length os = 16 then
        ''::ffff:'' @ ipv4_text (os ! 12) (os ! 13) (os ! 14) (os ! 15)
      else
        let ss = segments os; (start, n) = zero_run 0 (0, 0) (0, 0) ss in
        if n > 1 then hex_segments (take start ss) @ ''::'' @ hex_segments (drop (start + n) ss)
        else hex_segments ss)"

fun ip_text :: "IpAddr \<Rightarrow> string" where
  "ip_text (V4 a b c d) = ipv4_text a b c d"
| "ip_text (V6 os) = ipv6_text os"

section \<open>Strings in the debug format\<close>

text \<open>The characters of a string and their code points, for a string that is UTF-8.\<close>

function chars :: "rstring \<Rightarrow> rstring list" where
  "chars s =
     (if s = [] then []
      else case utf8_step s of (ok, n) \<Rightarrow> take n s # chars (drop n s))"
  by pat_completeness auto
termination
  by (relation "measure length") (auto dest!: utf8_step_bounds [OF sym])

declare chars.simps [simp del]

fun code_point :: "rstring \<Rightarrow> nat" where
  "code_point [a] = unat a"
| "code_point [a, b] = (unat a mod 32) * 64 + unat b mod 64"
| "code_point [a, b, c] = ((unat a mod 16) * 64 + unat b mod 64) * 64 + unat c mod 64"
| "code_point [a, b, c, d] =
     (((unat a mod 8) * 64 + unat b mod 64) * 64 + unat c mod 64) * 64 + unat d mod 64"
| "code_point s = 0"

definition shown_as_is :: "(nat \<Rightarrow> bool) \<Rightarrow> nat \<Rightarrow> bool" where
  "shown_as_is printable p \<longleftrightarrow> (if p < 128 then 32 \<le> p \<and> p < 127 else printable p)"

text \<open>Escapes: NUL, tab, newline, carriage return, the double quote, the backslash, others by number.\<close>

definition debug_char :: "(nat \<Rightarrow> bool) \<Rightarrow> rstring \<Rightarrow> rstring" where
  "debug_char printable ch =
     (let p = code_point ch in
      if p = 0 then [92, 48]
      else if p = 9 then [92, 116]
      else if p = 10 then [92, 110]
      else if p = 13 then [92, 114]
      else if p = 34 then [92, 34]
      else if p = 92 then [92, 92]
      else if shown_as_is printable p then ch
      else [92, 117, 123] @ ascii (hex p) @ [125])"

definition debug_str :: "(nat \<Rightarrow> bool) \<Rightarrow> rstring \<Rightarrow> rstring" where
  "debug_str printable s = [34] @ concat (map (debug_char printable) (chars s)) @ [34]"

end
