(* ===== verification/Examples.thy ===== *)
theory Examples
  imports Sessions Replies Format "HOL-Library.Sublist"
begin

text \<open>
  src/examples and the documentation of src/lib.rs: the four command line programs and the
  example of the crate's documentation, which drive the public interface of the crate as an
  application does. A program is what it prints, line by line, and what \<open>main\<close> returns;
  its arguments, the opening of the socket and the stream functions are parameters. Standard
  output accepts every line.

  The watching programs loop until the daemon closes the connection, so their loops are
  partial functions: \<open>None\<close> is a run that never ends. The lemmas say exactly when a run ends, over
  any stream, what is printed until then, and that the tokio programs do the same.
\<close>

type_synonym line = rstring

text \<open>\<open>std::env::args().nth(1)\<close>; the name of the program is the first argument.\<close>

definition first_argument :: "string list \<Rightarrow> string option" where
  "first_argument args = (if length args > 1 then Some (args ! 1) else None)"

definition connect_as_told ::
  "(string \<Rightarrow> ('s, io_error) result) \<Rightarrow> string list \<Rightarrow> 's Client res" where
  "connect_as_told dial args =
     (case first_argument args of Some path \<Rightarrow> connect_to dial path | None \<Rightarrow> connect dial)"

definition async_connect_as_told ::
  "(string \<Rightarrow> ('s, io_error) result) \<Rightarrow> string list \<Rightarrow> 's AsyncClient res" where
  "async_connect_as_told dial args =
     (case first_argument args of
        Some path \<Rightarrow> async_connect_to dial path | None \<Rightarrow> async_connect dial)"

section \<open>Showing the neighbors\<close>

definition name_or_id :: "Chassis \<Rightarrow> rstring" where
  "name_or_id ch =
     (case Chassis.name ch of
        Some nm \<Rightarrow> nm
      | None \<Rightarrow> (case id_str ch of Some i \<Rightarrow> i | None \<Rightarrow> ascii ''?''))"

definition neighbor_line :: "(nat \<Rightarrow> bool) \<Rightarrow> Neighbor \<Rightarrow> line" where
  "neighbor_line printable n =
     ascii ''  neighbor: '' @ name_or_id (Neighbor.chassis n) @ ascii '' port='' @
     debug_str printable
       (case port_id_str n of Some i \<Rightarrow> i | None \<Rightarrow> ascii ''<binary>'') @
     ascii '' ttl='' @ ascii (dec (unat (ttl n))) @ ascii ''s''"

definition address_line :: "ManagementAddress \<Rightarrow> line" where
  "address_line a =
     (case ip a of
        Some i \<Rightarrow> ascii (''      management address: '' @ ip_text i)
      | None \<Rightarrow> ascii (''      management address: '' @ debug_hex (raw_octets a) @
          '' (unknown family)''))"

definition neighbor_lines :: "(nat \<Rightarrow> bool) \<Rightarrow> Neighbor \<Rightarrow> line list" where
  "neighbor_lines printable n =
     [neighbor_line printable n] @
     (case Chassis.description (Neighbor.chassis n) of
        Some descr \<Rightarrow> [ascii ''      '' @ descr] | None \<Rightarrow> []) @
     map address_line (management_addresses (Neighbor.chassis n))"

definition interface_line :: "InterfaceDetails \<Rightarrow> line" where
  "interface_line d =
     InterfaceDetails.name d @ ascii ('' ('' @ debug_hex (mac_address d) @ '')'')"

definition details_lines :: "(nat \<Rightarrow> bool) \<Rightarrow> InterfaceDetails \<Rightarrow> line list" where
  "details_lines printable d =
     [interface_line d] @
     (case local_chassis d of
        Some ch \<Rightarrow> [ascii ''  local chassis: '' @
          (case Chassis.name ch of Some nm \<Rightarrow> nm | None \<Rightarrow> ascii ''?'')]
      | None \<Rightarrow> []) @
     (if neighbors d = [] then [ascii ''  (no neighbors)''] else []) @
     concat (map (neighbor_lines printable) (neighbors d))"

fun show_each :: "(nat \<Rightarrow> bool) \<Rightarrow> 's io \<Rightarrow> Interface list \<Rightarrow> line list \<Rightarrow> 's Client \<Rightarrow>
    unit res \<times> line list" where
  "show_each printable io [] out c = (Ok (), out)"
| "show_each printable io (iface # rest) out c =
     (case interface_details io (Interface.name iface) c of
        (Ok details, c) \<Rightarrow> show_each printable io rest (out @ details_lines printable details) c
      | (Err e, c) \<Rightarrow> (Err e, out)
      | (Panic, c) \<Rightarrow> (Panic, out))"

definition show_neighbors ::
  "(nat \<Rightarrow> bool) \<Rightarrow> (string \<Rightarrow> ('s, io_error) result) \<Rightarrow> 's io \<Rightarrow> string list \<Rightarrow>
   unit res \<times> line list" where
  "show_neighbors printable dial io args =
     (case connect_as_told dial args of
        Ok c \<Rightarrow>
          (case interfaces io c of
             (Ok ifs, c) \<Rightarrow> show_each printable io ifs [] c
           | (Err e, c) \<Rightarrow> (Err e, [])
           | (Panic, c) \<Rightarrow> (Panic, []))
      | Err e \<Rightarrow> (Err e, [])
      | Panic \<Rightarrow> (Panic, []))"

text \<open>The tokio program, which prints less of each interface.\<close>

definition async_details_lines :: "(nat \<Rightarrow> bool) \<Rightarrow> InterfaceDetails \<Rightarrow> line list" where
  "async_details_lines printable d =
     [interface_line d] @
     (if neighbors d = [] then [ascii ''  (no neighbors)''] else []) @
     map (neighbor_line printable) (neighbors d)"

fun async_show_each :: "(nat \<Rightarrow> bool) \<Rightarrow> 's io \<Rightarrow> Interface list \<Rightarrow> line list \<Rightarrow>
    's AsyncClient \<Rightarrow> unit res \<times> line list" where
  "async_show_each printable io [] out c = (Ok (), out)"
| "async_show_each printable io (iface # rest) out c =
     (case async_interface io (Interface.name iface) c of
        (Ok details, c) \<Rightarrow>
          async_show_each printable io rest (out @ async_details_lines printable details) c
      | (Err e, c) \<Rightarrow> (Err e, out)
      | (Panic, c) \<Rightarrow> (Panic, out))"

definition show_neighbors_async ::
  "(nat \<Rightarrow> bool) \<Rightarrow> (string \<Rightarrow> ('s, io_error) result) \<Rightarrow> 's io \<Rightarrow> string list \<Rightarrow>
   unit res \<times> line list" where
  "show_neighbors_async printable dial io args =
     (case async_connect_as_told dial args of
        Ok c \<Rightarrow>
          (case async_interfaces io c of
             (Ok ifs, c) \<Rightarrow> async_show_each printable io ifs [] c
           | (Err e, c) \<Rightarrow> (Err e, [])
           | (Panic, c) \<Rightarrow> (Panic, []))
      | Err e \<Rightarrow> (Err e, [])
      | Panic \<Rightarrow> (Panic, []))"

section \<open>The example of the documentation\<close>

text \<open>
  The program in the documentation of the crate (src/lib.rs), which is compiled with it. \<open>{:?}\<close>
  of an optional string is that of the string inside the name of the constructor.
\<close>

definition debug_opt_str :: "(nat \<Rightarrow> bool) \<Rightarrow> rstring option \<Rightarrow> line" where
  "debug_opt_str printable v =
     (case v of None \<Rightarrow> ascii ''None''
      | Some s \<Rightarrow> ascii ''Some('' @ debug_str printable s @ ascii '')'')"

definition doc_line :: "(nat \<Rightarrow> bool) \<Rightarrow> Interface \<Rightarrow> Neighbor \<Rightarrow> line" where
  "doc_line printable iface n =
     Interface.name iface @ ascii '': '' @
     (case Chassis.name (Neighbor.chassis n) of Some nm \<Rightarrow> nm | None \<Rightarrow> ascii ''?'') @
     ascii '' ('' @ debug_opt_str printable (port_id_str n) @ ascii '')''"

fun doc_each :: "(nat \<Rightarrow> bool) \<Rightarrow> 's io \<Rightarrow> Interface list \<Rightarrow> line list \<Rightarrow> 's Client \<Rightarrow>
    unit res \<times> line list" where
  "doc_each printable io [] out c = (Ok (), out)"
| "doc_each printable io (iface # rest) out c =
     (case interface_details io (Interface.name iface) c of
        (Ok details, c) \<Rightarrow>
          doc_each printable io rest (out @ map (doc_line printable iface) (neighbors details)) c
      | (Err e, c) \<Rightarrow> (Err e, out)
      | (Panic, c) \<Rightarrow> (Panic, out))"

definition doc_example ::
  "(nat \<Rightarrow> bool) \<Rightarrow> (string \<Rightarrow> ('s, io_error) result) \<Rightarrow> 's io \<Rightarrow> unit res \<times> line list" where
  "doc_example printable dial io =
     (case connect dial of
        Ok c \<Rightarrow>
          (case interfaces io c of
             (Ok ifs, c) \<Rightarrow> doc_each printable io ifs [] c
           | (Err e, c) \<Rightarrow> (Err e, [])
           | (Panic, c) \<Rightarrow> (Panic, []))
      | Err e \<Rightarrow> (Err e, [])
      | Panic \<Rightarrow> (Panic, []))"

section \<open>Watching for changes\<close>

text \<open>The neighbor of a change: the name of its chassis, else its identifier, else a mark.\<close>

definition who :: "NeighborChange \<Rightarrow> rstring" where
  "who change =
     (case NeighborChange.neighbor change of
        Some n \<Rightarrow> name_or_id (Neighbor.chassis n) | None \<Rightarrow> ascii ''?'')"

definition change_line :: "NeighborChange \<Rightarrow> line" where
  "change_line change =
     interface change @
     (case kind change of
        Added \<Rightarrow> ascii '': added '' @ who change
      | Updated \<Rightarrow> ascii '': updated '' @ who change
      | Deleted \<Rightarrow> ascii '': deleted '' @ who change
      | Other v \<Rightarrow> ascii ('': unrecognized change kind '' @ signed_dec v))"

definition subscribed_line :: line where
  "subscribed_line = ascii ''subscribed - waiting for neighbor changes (Ctrl-C to stop)''"

definition closed_line :: line where
  "closed_line = ascii ''lldpd closed the subscription''"

partial_function (option) watch_each ::
  "'s io \<Rightarrow> 's Subscription \<Rightarrow> line list \<Rightarrow> (unit res \<times> line list) option" where
  "watch_each io sub out =
     (case subscription_next io sub of (item, sub) \<Rightarrow>
        (case item of
           None \<Rightarrow> Some (Ok (), out @ [closed_line])
         | Some r \<Rightarrow>
             (case r of
                Ok change \<Rightarrow> watch_each io sub (out @ [change_line change])
              | Err e \<Rightarrow> Some (Err e, out)
              | Panic \<Rightarrow> Some (Panic, out))))"

definition watch_neighbors ::
  "(string \<Rightarrow> ('s, io_error) result) \<Rightarrow> 's io \<Rightarrow> string list \<Rightarrow> (unit res \<times> line list) option" where
  "watch_neighbors dial io args =
     (case connect_as_told dial args of
        Ok c \<Rightarrow>
          (case subscribe io c of
             Ok sub \<Rightarrow> watch_each io sub [subscribed_line]
           | Err e \<Rightarrow> Some (Err e, [subscribed_line])
           | Panic \<Rightarrow> Some (Panic, [subscribed_line]))
      | Err e \<Rightarrow> Some (Err e, [])
      | Panic \<Rightarrow> Some (Panic, []))"

partial_function (option) async_watch_each ::
  "'s io \<Rightarrow> 's AsyncSubscription \<Rightarrow> line list \<Rightarrow> (unit res \<times> line list) option" where
  "async_watch_each io sub out =
     (case next_change io sub of (r, sub) \<Rightarrow>
        (case r of
           Ok item \<Rightarrow>
             (case item of
                Some change \<Rightarrow> async_watch_each io sub (out @ [change_line change])
              | None \<Rightarrow> Some (Ok (), out @ [closed_line]))
         | Err e \<Rightarrow> Some (Err e, out)
         | Panic \<Rightarrow> Some (Panic, out)))"

definition watch_neighbors_async ::
  "(string \<Rightarrow> ('s, io_error) result) \<Rightarrow> 's io \<Rightarrow> string list \<Rightarrow> (unit res \<times> line list) option" where
  "watch_neighbors_async dial io args =
     (case async_connect_as_told dial args of
        Ok c \<Rightarrow>
          (case async_subscribe io c of
             Ok sub \<Rightarrow> async_watch_each io sub [subscribed_line]
           | Err e \<Rightarrow> Some (Err e, [subscribed_line])
           | Panic \<Rightarrow> Some (Panic, [subscribed_line]))
      | Err e \<Rightarrow> Some (Err e, [])
      | Panic \<Rightarrow> Some (Panic, []))"

declare watch_each.simps [simp del] async_watch_each.simps [simp del]

section \<open>When the watching program ends, and how\<close>

lemmas watch_each_induct = watch_each.raw_induct [rotated, consumes 1, case_names step]

text \<open>The first \<open>n\<close> steps of the subscription bring changes, \<open>chs\<close>.\<close>

definition changes_first ::
  "'s io \<Rightarrow> 's Subscription \<Rightarrow> NeighborChange list \<Rightarrow> 's Subscription \<Rightarrow> bool" where
  "changes_first io sub chs sub' \<longleftrightarrow> take_changes io (length chs) sub = (map Ok chs, sub')"

lemma changes_first_Nil: "changes_first io sub [] sub' \<longleftrightarrow> sub' = sub"
  by (auto simp: changes_first_def)

lemma changes_first_Cons:
  "changes_first io sub (ch # chs) sub' \<longleftrightarrow>
   (\<exists>sub1. subscription_next io sub = (Some (Ok ch), sub1) \<and> changes_first io sub1 chs sub')"
  by (auto simp: changes_first_def split: prod.splits option.splits)

lemma changes_first_longer:
  "changes_first io sub chs sub' \<Longrightarrow> changes_first io sub chs' sub'' \<Longrightarrow>
   length chs < length chs' \<Longrightarrow> \<exists>ch. fst (subscription_next io sub') = Some (Ok ch)"
proof (induction chs arbitrary: sub chs')
  case Nil
  then show ?case by (cases chs') (auto simp: changes_first_Nil changes_first_Cons)
next
  case (Cons ch chs)
  then show ?case by (cases chs') (auto simp: changes_first_Cons)
qed

lemma watch_each_after:
  "changes_first io sub chs sub' \<Longrightarrow>
   watch_each io sub out = watch_each io sub' (out @ map change_line chs)"
proof (induction chs arbitrary: sub out)
  case (Cons ch chs)
  then obtain sub1 where "subscription_next io sub = (Some (Ok ch), sub1)"
    "changes_first io sub1 chs sub'" by (auto simp: changes_first_Cons)
  with Cons.IH [of sub1 "out @ [change_line ch]"] show ?case
    by (subst watch_each.simps) simp
qed (simp add: changes_first_Nil)

lemma watch_each_Some:
  assumes "watch_each io sub out = Some r"
  shows "\<exists>chs sub'. changes_first io sub chs sub' \<and>
    (\<nexists>ch. fst (subscription_next io sub') = Some (Ok ch))"
  using assms
proof (induction rule: watch_each_induct)
  case (step f io sub out r)
  obtain item sub1 where n: "subscription_next io sub = (item, sub1)" by fastforce
  show ?case
  proof (cases "\<exists>ch. item = Some (Ok ch)")
    case True
    then obtain ch where ch: "item = Some (Ok ch)" by blast
    with step.hyps n have "f io sub1 (out @ [change_line ch]) = Some r" by simp
    from step.IH [OF this] obtain chs sub' where "changes_first io sub1 chs sub'"
      "\<nexists>ch. fst (subscription_next io sub') = Some (Ok ch)" by blast
    then show ?thesis
      using n ch by (intro exI [of _ "ch # chs"] exI [of _ sub']) (simp add: changes_first_Cons)
  next
    case False
    with n show ?thesis by (intro exI [of _ "[]"]) (simp add: changes_first_Nil)
  qed
qed

lemma watch_each_None:
  "watch_each io sub out = None \<longleftrightarrow> (\<forall>n. \<exists>chs sub'. length chs = n \<and> changes_first io sub chs sub')"
proof
  assume none: "watch_each io sub out = None"
  show "\<forall>n. \<exists>chs sub'. length chs = n \<and> changes_first io sub chs sub'"
  proof
    fix n
    show "\<exists>chs sub'. length chs = n \<and> changes_first io sub chs sub'"
      using none
    proof (induction n arbitrary: sub out)
      case (Suc n)
      obtain item sub1 where i: "subscription_next io sub = (item, sub1)" by fastforce
      with Suc.prems obtain ch where ch: "item = Some (Ok ch)"
        "watch_each io sub1 (out @ [change_line ch]) = None"
        by (auto simp: watch_each.simps [of io sub] split: option.splits result.splits)
      from Suc.IH [OF ch(2)] obtain chs sub' where "length chs = n" "changes_first io sub1 chs sub'"
        by blast
      then show ?case
        using i ch(1) by (intro exI [of _ "ch # chs"] exI [of _ sub']) (simp add: changes_first_Cons)
    qed (auto simp: changes_first_Nil)
  qed
next
  assume all: "\<forall>n. \<exists>chs sub'. length chs = n \<and> changes_first io sub chs sub'"
  show "watch_each io sub out = None"
  proof (rule ccontr)
    assume "watch_each io sub out \<noteq> None"
    then obtain r where "watch_each io sub out = Some r" by blast
    then obtain chs sub' where c: "changes_first io sub chs sub'"
      "\<nexists>ch. fst (subscription_next io sub') = Some (Ok ch)"
      using watch_each_Some by blast
    obtain chs' sub'' where c': "length chs' = Suc (length chs)" "changes_first io sub chs' sub''"
      using all by blast
    from changes_first_longer [OF c(1) c'(2)] c'(1)
    have "\<exists>ch. fst (subscription_next io sub') = Some (Ok ch)" by simp
    with c(2) show False by blast
  qed
qed

section \<open>Over a finite script every run of the watching program ends\<close>

lemma watch_each_ends: "\<exists>r. watch_each std_io sub out = Some r"
proof (induction "rx_weight (rx (Subscription.stream sub))" arbitrary: sub out rule: less_induct)
  case less
  obtain item sub' where n: "subscription_next std_io sub = (item, sub')" by fastforce
  show ?case
  proof (cases item)
    case None
    with n show ?thesis by (simp add: watch_each.simps)
  next
    case (Some r)
    with n have "rx_weight (rx (Subscription.stream sub')) < rx_weight (rx (Subscription.stream sub))"
      by (simp add: subscription_next_weight)
    with less n Some show ?thesis by (cases r) (simp_all add: watch_each.simps [of std_io sub])
  qed
qed

section \<open>What the watching program prints\<close>

text \<open>The report on a sequence of notification payloads, up to the first that is malformed.\<close>

fun report :: "bytes list \<Rightarrow> unit res \<times> line list" where
  "report [] = (Ok (), [closed_line])"
| "report (p # ps) =
     (case decode_neighbor_change p of
        Ok change \<Rightarrow> (case report ps of (r, ls) \<Rightarrow> (r, change_line change # ls))
      | Err e \<Rightarrow> (Err e, [])
      | Panic \<Rightarrow> (Panic, []))"

context byte_stream
begin

lemma next_notification:
  assumes "fair (Subscription.stream sub)" and "length p \<le> HMSG_MAX_SIZE"
    and "incoming (Subscription.stream sub) = frame (hmsg_number Notification) p @ rest"
  obtains sub' where "subscription_next io sub = (Some (decode_neighbor_change p), sub')"
    "fair (Subscription.stream sub')" "incoming (Subscription.stream sub') = rest"
proof -
  let ?s = "snd (subscription_next io sub)"
  have pf: "parse_frame Notification (incoming (Subscription.stream sub)) = (Ok p, 16 + length p)"
    using assms(2,3) by (simp add: parse_frame_frame)
  have i: "fst (subscription_next io sub) = Some (decode_neighbor_change p)"
    using next_of_frame(1) [OF assms(1)] pf by simp
  have "drop (16 + length p) (incoming (Subscription.stream sub)) = rest"
    unfolding assms(3) by (metis append_eq_conv_conj frame_fields(3))
  with next_of_frame(2) [OF assms(1)] i pf
  have "incoming (Subscription.stream ?s) = rest" "fair (Subscription.stream ?s)" by simp_all
  with i show ?thesis by (intro that [of ?s]) (simp_all add: prod_eq_iff)
qed

lemma watch_each_reports:
  assumes "list_all (\<lambda>p. length p \<le> HMSG_MAX_SIZE) ps"
    and "fair (Subscription.stream sub)"
    and "incoming (Subscription.stream sub) =
      concat (map (frame (hmsg_number Notification)) ps) @ tail"
    and "fst (parse_frame Notification tail) = Err (Io UnexpectedEof)"
  shows "watch_each io sub out = Some (fst (report ps), out @ snd (report ps))"
  using assms
proof (induction ps arbitrary: sub out)
  case Nil
  have "fst (subscription_next io sub) = None"
    using next_of_frame(1) [OF Nil.prems(2)] Nil.prems by simp
  then show ?case by (cases "subscription_next io sub") (simp add: watch_each.simps)
next
  case (Cons p ps)
  obtain sub' where n: "subscription_next io sub = (Some (decode_neighbor_change p), sub')"
    "fair (Subscription.stream sub')"
    "incoming (Subscription.stream sub') = concat (map (frame (hmsg_number Notification)) ps) @ tail"
    by (rule next_notification [OF Cons.prems(2), of p]) (use Cons.prems in simp_all)
  then have "watch_each io sub' out' = Some (fst (report ps), out' @ snd (report ps))" for out'
    using Cons.prems by (intro Cons.IH) simp_all
  with n(1) show ?case
    by (cases "decode_neighbor_change p")
      (simp_all add: watch_each.simps [of io sub] split: prod.splits)
qed

end

section \<open>The programs and their tokio twins\<close>

lemma connect_twin:
  "connect_as_told dial args = map_ok blocking (async_connect_as_told dial args)"
  by (simp add: connect_as_told_def async_connect_as_told_def connect_to_eq connect_eq
      split: option.split)

lemma one_field_eta [simp]:
  "\<lparr>Subscription.stream = Subscription.stream sub\<rparr> = sub"
  "\<lparr>changes = changes asub\<rparr> = asub"
  by simp_all

lemma next_twin:
  "next_change io \<lparr>changes = Subscription.stream sub\<rparr> =
     (transpose (fst (subscription_next io sub)),
      \<lparr>changes = Subscription.stream (snd (subscription_next io sub))\<rparr>)"
  by (simp add: next_change_eq map_prod_def split_def)

lemmas async_watch_each_induct = async_watch_each.raw_induct [rotated, consumes 1, case_names step]

lemma watch_each_twin:
  "watch_each io sub out = Some r \<Longrightarrow>
   async_watch_each io \<lparr>changes = Subscription.stream sub\<rparr> out = Some r"
proof (induction rule: watch_each_induct)
  case (step f io sub out r)
  obtain item sub' where n: "subscription_next io sub = (item, sub')" by fastforce
  with next_twin [of io sub]
  have a: "next_change io \<lparr>changes = Subscription.stream sub\<rparr> =
      (transpose item, \<lparr>changes = Subscription.stream sub'\<rparr>)" by simp
  show ?case
    using step.hyps n by (subst async_watch_each.simps)
      (auto simp: a step.IH split: option.splits result.splits)
qed

lemma async_watch_each_twin:
  "async_watch_each io asub out = Some r \<Longrightarrow>
   watch_each io \<lparr>Subscription.stream = changes asub\<rparr> out = Some r"
proof (induction rule: async_watch_each_induct)
  case (step f io asub out r)
  let ?sub = "\<lparr>Subscription.stream = changes asub\<rparr>"
  obtain item sub' where n: "subscription_next io ?sub = (item, sub')" by fastforce
  with next_twin [of io ?sub]
  have a: "next_change io asub = (transpose item, \<lparr>changes = Subscription.stream sub'\<rparr>)"
    by simp
  have i: "f io \<lparr>changes = Subscription.stream sub'\<rparr> o' = Some r \<Longrightarrow>
      watch_each io sub' o' = Some r" for o'
    using step.IH [of io "\<lparr>changes = Subscription.stream sub'\<rparr>" o' r] by simp
  show ?case
    using step.hyps a n
    by (subst watch_each.simps; cases item; cases "the item") (simp_all add: i)
qed

lemma watch_each_async:
  "async_watch_each io \<lparr>changes = Subscription.stream sub\<rparr> out = watch_each io sub out"
proof (cases "watch_each io sub out")
  case (Some r)
  then show ?thesis by (simp add: watch_each_twin)
next
  case None
  then show ?thesis
    using async_watch_each_twin [of io "\<lparr>changes = Subscription.stream sub\<rparr>" out]
    by (cases "async_watch_each io \<lparr>changes = Subscription.stream sub\<rparr> out") auto
qed

section \<open>What the showing programs print\<close>

lemma show_each_out:
  "show_each printable io ifs out c =
     (fst (show_each printable io ifs [] c), out @ snd (show_each printable io ifs [] c))"
proof (induction ifs arbitrary: out c)
  case (Cons iface ifs)
  obtain r c1 where r: "interface_details io (Interface.name iface) c = (r, c1)" by fastforce
  show ?case
  proof (cases r)
    case (Ok d)
    show ?thesis
      using Cons.IH [of "out @ details_lines printable d" c1]
        Cons.IH [of "details_lines printable d" c1]
      by (simp add: r Ok)
  qed (simp_all add: r)
qed simp

text \<open>The lines of each interface, up to the first one that is gone or malformed.\<close>

fun shown :: "(nat \<Rightarrow> bool) \<Rightarrow> answer list \<Rightarrow> unit res \<times> line list" where
  "shown printable [] = (Ok (), [])"
| "shown printable (Gone p # as) = (Err RequestRejected, [])"
| "shown printable (Details p # as) =
     (case decode_hardware p of
        Ok d \<Rightarrow> (case shown printable as of (r, ls) \<Rightarrow> (r, details_lines printable d @ ls))
      | Err e \<Rightarrow> (Err e, [])
      | Panic \<Rightarrow> (Panic, []))"

context byte_stream
begin

lemma show_each_answered:
  assumes "length as = length ifs" "list_all answer_fits as"
    and "fair (Client.stream c)"
    and "incoming (Client.stream c) = concat (map answer_frame as) @ rest"
  shows "show_each printable io ifs [] c = shown printable as"
  using assms
proof (induction as ifs arbitrary: c rule: list_induct2)
  case Nil
  then show ?case by simp
next
  case (Cons a as iface ifs)
  obtain c1 where c1: "interface_details io (Interface.name iface) c =
      (case a of Details p \<Rightarrow> decode_hardware p | Gone p \<Rightarrow> Err RequestRejected, c1)"
    "fair (Client.stream c1)" "incoming (Client.stream c1) = concat (map answer_frame as) @ rest"
    by (rule interface_details_answered [of c a "concat (map answer_frame as) @ rest"
          "Interface.name iface"]) (use Cons.prems in simp_all)
  then have "show_each printable io ifs [] c1 = shown printable as"
    using Cons.prems by (intro Cons.IH) simp_all
  with c1(1) show_each_out [of printable io ifs "details_lines printable d" c1 for d]
  show ?case by (cases a) (simp_all split: result.split prod.split)
qed

lemma show_neighbors_session:
  assumes "connect_as_told dial args = Ok c" and "fair (Client.stream c)"
    and "incoming (Client.stream c) =
      frame (hmsg_number GetInterfaces) p @ concat (map answer_frame as) @ rest"
    and "length p \<le> HMSG_MAX_SIZE" "list_all answer_fits as"
    and "decode_interfaces p = Ok ifs" "length as = length ifs"
  shows "show_neighbors printable dial io args = shown printable as"
proof -
  obtain s1 where s1: "request io GetInterfaces [] (Client.stream c) = (Ok p, s1)"
    "incoming s1 = concat (map answer_frame as) @ rest" "fair s1"
    using request_framed [OF assms(2-4), of GetInterfaces "[]"] by auto
  have "show_neighbors printable dial io args =
      show_each printable io ifs [] (c\<lparr>Client.stream := s1\<rparr>)"
    using assms(1,6) by (simp add: show_neighbors_def interfaces_def s1(1))
  with show_each_answered [OF assms(7,5), of "c\<lparr>Client.stream := s1\<rparr>" rest] s1
  show ?thesis by simp
qed

end

text \<open>The example of the documentation: one line per neighbor, under the name in the list.\<close>

fun documented :: "(nat \<Rightarrow> bool) \<Rightarrow> (Interface \<times> answer) list \<Rightarrow> unit res \<times> line list" where
  "documented printable [] = (Ok (), [])"
| "documented printable ((iface, Gone p) # as) = (Err RequestRejected, [])"
| "documented printable ((iface, Details p) # as) =
     (case decode_hardware p of
        Ok d \<Rightarrow> (case documented printable as of
            (r, ls) \<Rightarrow> (r, map (doc_line printable iface) (neighbors d) @ ls))
      | Err e \<Rightarrow> (Err e, [])
      | Panic \<Rightarrow> (Panic, []))"

lemma doc_each_out:
  "doc_each printable io ifs out c =
     (fst (doc_each printable io ifs [] c), out @ snd (doc_each printable io ifs [] c))"
proof (induction ifs arbitrary: out c)
  case (Cons iface ifs)
  obtain r c1 where r: "interface_details io (Interface.name iface) c = (r, c1)" by fastforce
  show ?case
  proof (cases r)
    case (Ok d)
    show ?thesis
      using Cons.IH [of "out @ map (doc_line printable iface) (neighbors d)" c1]
        Cons.IH [of "map (doc_line printable iface) (neighbors d)" c1]
      by (simp add: r Ok)
  qed (simp_all add: r)
qed simp

context byte_stream
begin

lemma doc_each_answered:
  assumes "length as = length ifs" "list_all answer_fits as"
    and "fair (Client.stream c)"
    and "incoming (Client.stream c) = concat (map answer_frame as) @ rest"
  shows "doc_each printable io ifs [] c = documented printable (zip ifs as)"
  using assms
proof (induction as ifs arbitrary: c rule: list_induct2)
  case Nil
  then show ?case by simp
next
  case (Cons a as iface ifs)
  obtain c1 where c1: "interface_details io (Interface.name iface) c =
      (case a of Details p \<Rightarrow> decode_hardware p | Gone p \<Rightarrow> Err RequestRejected, c1)"
    "fair (Client.stream c1)" "incoming (Client.stream c1) = concat (map answer_frame as) @ rest"
    by (rule interface_details_answered [of c a "concat (map answer_frame as) @ rest"
          "Interface.name iface"]) (use Cons.prems in simp_all)
  then have "doc_each printable io ifs [] c1 = documented printable (zip ifs as)"
    using Cons.prems by (intro Cons.IH) simp_all
  with c1(1) doc_each_out [of printable io ifs
      "map (doc_line printable iface) (neighbors d)" c1 for d]
  show ?case by (cases a) (auto split: result.split prod.split)
qed

lemma doc_example_session:
  assumes "connect dial = Ok c" and "fair (Client.stream c)"
    and "incoming (Client.stream c) =
      frame (hmsg_number GetInterfaces) p @ concat (map answer_frame as) @ rest"
    and "length p \<le> HMSG_MAX_SIZE" "list_all answer_fits as"
    and "decode_interfaces p = Ok ifs" "length as = length ifs"
  shows "doc_example printable dial io = documented printable (zip ifs as)"
proof -
  obtain s1 where s1: "request io GetInterfaces [] (Client.stream c) = (Ok p, s1)"
    "incoming s1 = concat (map answer_frame as) @ rest" "fair s1"
    using request_framed [OF assms(2-4), of GetInterfaces "[]"] by auto
  have "doc_example printable dial io =
      doc_each printable io ifs [] (c\<lparr>Client.stream := s1\<rparr>)"
    using assms(1,6) by (simp add: doc_example_def interfaces_def s1(1))
  with doc_each_answered [OF assms(7,5), of "c\<lparr>Client.stream := s1\<rparr>" rest] s1
  show ?thesis by simp
qed

end

text \<open>The tokio program prints some of the lines, in the same order.\<close>

lemma subseq_concat_map:
  "(\<And>x. subseq [f x] (g x)) \<Longrightarrow> subseq (map f xs) (concat (map g xs))"
proof (induction xs)
  case (Cons x xs)
  then have "subseq ([f x] @ map f xs) (g x @ concat (map g xs))"
    by (intro list_emb_append_mono) simp_all
  then show ?case by simp
qed simp

lemma async_details_lines_subseq:
  "subseq (async_details_lines printable d) (details_lines printable d)"
proof -
  have "subseq (map (neighbor_line printable) (neighbors d))
      (concat (map (neighbor_lines printable) (neighbors d)))"
    by (rule subseq_concat_map) (simp add: neighbor_lines_def)
  then show ?thesis
    unfolding async_details_lines_def details_lines_def
    by (intro list_emb_append_mono list_emb_append2) simp_all
qed

lemma async_show_each_subseq:
  "subseq out' out \<Longrightarrow>
   fst (async_show_each printable io ifs out' c) = fst (show_each printable io ifs out (blocking c)) \<and>
   subseq (snd (async_show_each printable io ifs out' c))
     (snd (show_each printable io ifs out (blocking c)))"
proof (induction ifs arbitrary: out out' c)
  case (Cons iface ifs)
  obtain r c1 where r: "async_interface io (Interface.name iface) c = (r, c1)" by fastforce
  then have b: "interface_details io (Interface.name iface) (blocking c) = (r, blocking c1)"
    by (simp add: async_interface_eq)
  show ?case
  proof (cases r)
    case (Ok d)
    have "subseq (out' @ async_details_lines printable d) (out @ details_lines printable d)"
      by (rule list_emb_append_mono [OF Cons.prems async_details_lines_subseq])
    from Cons.IH [OF this] show ?thesis by (simp add: r b Ok)
  qed (use Cons.prems r b in simp_all)
qed simp

lemma show_neighbors_async_subseq:
  "fst (show_neighbors_async printable dial io args) = fst (show_neighbors printable dial io args) \<and>
   subseq (snd (show_neighbors_async printable dial io args))
     (snd (show_neighbors printable dial io args))"
proof (cases "async_connect_as_told dial args")
  case (Ok c)
  obtain r c1 where r: "async_interfaces io c = (r, c1)" by fastforce
  then have "interfaces io (blocking c) = (r, blocking c1)" by (simp add: async_interfaces_eq)
  with r Ok async_show_each_subseq [of "[]" "[]"] show ?thesis
    by (cases r) (simp_all add: show_neighbors_def show_neighbors_async_def connect_twin)
qed (simp_all add: show_neighbors_def show_neighbors_async_def connect_twin)

lemma watch_neighbors_async_eq:
  "watch_neighbors_async dial io args = watch_neighbors dial io args"
proof (cases "async_connect_as_told dial args")
  case (Ok c)
  have "async_watch_each io sub out = watch_each io \<lparr>Subscription.stream = changes sub\<rparr> out"
    for sub :: "'a AsyncSubscription" and out
    using watch_each_async [of io "\<lparr>Subscription.stream = changes sub\<rparr>" out] by simp
  then show ?thesis
    by (cases "async_subscribe io c")
      (simp_all add: watch_neighbors_def watch_neighbors_async_def connect_twin Ok subscribe_eq)
qed (simp_all add: watch_neighbors_def watch_neighbors_async_def connect_twin)

section \<open>No program panics\<close>

lemma connect_no_panic:
  assumes "\<And>path. dial path \<noteq> Panic"
  shows "connect_as_told dial args \<noteq> Panic"
proof -
  have "connect_to dial path \<noteq> Panic" for path
    using assms [of path] by (cases "dial path") (simp_all add: connect_to_def)
  then show ?thesis by (simp add: connect_as_told_def connect_def split: option.split)
qed

context byte_stream
begin

lemma show_each_no_panic: "fst (show_each printable io ifs out c) \<noteq> Panic"
proof (induction ifs arbitrary: out c)
  case (Cons iface ifs)
  obtain r c1 where r: "interface_details io (Interface.name iface) c = (r, c1)" by fastforce
  with interface_details_no_panic have "r \<noteq> Panic" by (metis fst_conv)
  with Cons r show ?case by (auto split: result.splits)
qed simp

lemma doc_each_no_panic: "fst (doc_each printable io ifs out c) \<noteq> Panic"
proof (induction ifs arbitrary: out c)
  case (Cons iface ifs)
  obtain r c1 where r: "interface_details io (Interface.name iface) c = (r, c1)" by fastforce
  with interface_details_no_panic have "r \<noteq> Panic" by (metis fst_conv)
  with Cons r show ?case by (auto split: result.splits)
qed simp

lemma show_neighbors_no_panic:
  assumes "\<And>path. dial path \<noteq> Panic"
  shows "fst (show_neighbors printable dial io args) \<noteq> Panic"
  using connect_no_panic [OF assms, where args = args] interfaces_no_panic show_each_no_panic
  by (auto simp: show_neighbors_def split: result.splits prod.splits) (metis fst_conv)+

lemma watch_each_no_panic: "watch_each io' sub out = Some r \<Longrightarrow> io' = io \<Longrightarrow> fst r \<noteq> Panic"
proof (induction rule: watch_each_induct)
  case (step f io' sub out r)
  with subscription_next_no_panic [of sub] show ?case
    by (auto split: prod.splits option.splits result.splits)
qed

lemma watch_neighbors_no_panic:
  assumes "\<And>path. dial path \<noteq> Panic" and "watch_neighbors dial io args = Some r"
  shows "fst r \<noteq> Panic"
  using connect_no_panic [OF assms(1), where args = args] subscribe_no_panic assms(2)
    watch_each_no_panic
  by (auto simp: watch_neighbors_def split: result.splits)

end

end
