(* ===== verification/Cancellation.thy ===== *)
theory Cancellation
  imports Sessions
begin

text \<open>
  A tokio future may be dropped at an \<open>await\<close> instead of being awaited to its end (a timeout, a
  branch of \<open>select!\<close>). Of the calls of src/async_client.rs, the states the stream can then be
  left in are \<open>dropped_read_message\<close> and \<open>dropped_request\<close>: they follow the text of
  \<open>read_message\<close> and \<open>request\<close> up to the \<open>await\<close> at which the future is dropped.

  What a dropped \<open>read_exact\<close> or \<open>write_all\<close> leaves behind is tokio's: a parameter, with the
  documented contract that some of the data may have been moved (\<open>droppable_stream\<close>).
\<close>

section \<open>Dropping a stream function\<close>

record 's drops =
  read_dropped :: "nat \<Rightarrow> 's \<Rightarrow> 's list"
  write_dropped :: "bytes \<Rightarrow> 's \<Rightarrow> 's list"

locale droppable_stream = byte_stream io incoming fair sent
  for io :: "'s io" and incoming fair sent +
  fixes drops :: "'s drops"
  assumes read_dropped_prefix: "fair s \<Longrightarrow> s' \<in> set (read_dropped drops n s) \<Longrightarrow>
      \<exists>k < n. k \<le> length (incoming s) \<and> incoming s' = drop k (incoming s) \<and>
        sent s' = sent s \<and> fair s'"
    and write_dropped_prefix: "fair s \<Longrightarrow> s' \<in> set (write_dropped drops b s) \<Longrightarrow>
      \<exists>k < length b. sent s' = sent s @ take k b \<and> incoming s' = incoming s \<and> fair s'"

section \<open>Dropping a call\<close>

inductive dropped_read_message :: "'s io \<Rightarrow> 's drops \<Rightarrow> 's \<Rightarrow> 's \<Rightarrow> bool"
  for io :: "'s io" and drops :: "'s drops" where
  at_header: "s' \<in> set (read_dropped drops header_len s) \<Longrightarrow> dropped_read_message io drops s s'"
| at_payload: "read_exact io header_len s = (Ok header, s1) \<Longrightarrow>
    decode_header header = Ok (got_ty, len) \<Longrightarrow> unat len \<le> HMSG_MAX_SIZE \<Longrightarrow>
    s' \<in> set (read_dropped drops (unat len) s1) \<Longrightarrow> dropped_read_message io drops s s'"

inductive dropped_request :: "'s io \<Rightarrow> 's drops \<Rightarrow> HmsgType \<Rightarrow> bytes \<Rightarrow> 's \<Rightarrow> 's \<Rightarrow> bool"
  for io :: "'s io" and drops :: "'s drops" and ty :: HmsgType and payload :: bytes where
  at_write: "s' \<in> set (write_dropped drops (encode_header ty (length payload) @ payload) s) \<Longrightarrow>
    dropped_request io drops ty payload s s'"
| at_reply: "write_all io (encode_header ty (length payload) @ payload) s = (Ok (), s1) \<Longrightarrow>
    dropped_read_message io drops s1 s' \<Longrightarrow> dropped_request io drops ty payload s s'"

text \<open>
  \<open>next_change\<close> dropped: what is left of the subscription. A frame that arrived in part has
  lost the bytes the future had taken.
\<close>

definition dropped_next_change ::
  "'s io \<Rightarrow> 's drops \<Rightarrow> 's AsyncSubscription \<Rightarrow> 's AsyncSubscription \<Rightarrow> bool" where
  "dropped_next_change io drops sub sub' \<longleftrightarrow>
     dropped_read_message io drops (changes sub) (changes sub')"

context droppable_stream
begin

lemma dropped_read_message_prefix:
  assumes "dropped_read_message io drops s s'" and "fair s"
  shows "\<exists>k < 16 + HMSG_MAX_SIZE. k \<le> length (incoming s) \<and> incoming s' = drop k (incoming s) \<and>
    sent s' = sent s \<and> fair s'"
  using assms(1)
proof cases
  case at_header
  from read_dropped_prefix [OF assms(2) this] show ?thesis
    unfolding header_len_16 by (meson trans_less_add1)
next
  case (at_payload header s1 got_ty len)
  have long: "16 \<le> length (incoming s)"
    using at_payload(1) read_eof [OF assms(2), of 16]
    by (force simp: header_len_16 intro: leI)
  then have s1: "incoming s1 = drop 16 (incoming s)" "fair s1"
    using read_enough [OF assms(2) long] at_payload(1) by (auto simp: header_len_16)
  have "sent s1 = sent s" using read_keeps [of header_len s] at_payload(1) by simp
  with read_dropped_prefix [OF s1(2) at_payload(4)] s1(1)
  obtain k where "k < unat len" "k \<le> length (incoming s) - 16"
    "incoming s' = drop k (drop 16 (incoming s))" "sent s' = sent s" "fair s'" by auto
  with at_payload(3) long show ?thesis by (intro exI [of _ "16 + k"]) (simp add: add.commute)
qed

lemma dropped_request_prefix:
  assumes "dropped_request io drops ty p s s'" and "fair s"
  shows "\<exists>j k. sent s' = sent s @ take j (frame (hmsg_number ty) p) \<and>
    incoming s' = drop k (incoming s) \<and> k < 16 + HMSG_MAX_SIZE \<and>
    (0 < k \<longrightarrow> j = 16 + length p) \<and> j \<le> 16 + length p \<and> fair s'"
  using assms(1)
proof cases
  case at_write
  from write_dropped_prefix [OF assms(2) this] obtain j where
    "j < 16 + length p" "sent s' = sent s @ take j (frame (hmsg_number ty) p)"
    "incoming s' = incoming s" "fair s'" by (auto simp: frame_encode_header)
  then show ?thesis by (intro exI [of _ j] exI [of _ 0]) simp
next
  case (at_reply s1)
  have s1: "sent s1 = sent s @ frame (hmsg_number ty) p" "incoming s1 = incoming s" "fair s1"
    using write_fair [OF assms(2), of "encode_header ty (length p) @ p"] at_reply(1)
    by (simp_all add: frame_encode_header)
  with dropped_read_message_prefix [OF at_reply(2) s1(3)] obtain k where
    "k < 16 + HMSG_MAX_SIZE" "incoming s' = drop k (incoming s)"
    "sent s' = sent s @ frame (hmsg_number ty) p" "fair s'" by auto
  then show ?thesis by (intro exI [of _ "16 + length p"] exI [of _ k]) simp
qed

lemma next_change_after_drop:
  assumes "dropped_next_change io drops sub sub'" and "fair (changes sub)"
  shows "\<exists>k < 16 + HMSG_MAX_SIZE. incoming (changes sub') = drop k (incoming (changes sub)) \<and>
    fst (next_change io sub') =
      end_or_change (fst (parse_frame Notification (drop k (incoming (changes sub)))))"
proof -
  obtain k where k: "k < 16 + HMSG_MAX_SIZE"
    "incoming (changes sub') = drop k (incoming (changes sub))" "fair (changes sub')"
    using dropped_read_message_prefix [OF _ assms(2)] assms(1)
    by (auto simp: dropped_next_change_def)
  have "fst (next_change io sub') =
      end_or_change (fst (parse_frame Notification (incoming (changes sub'))))"
    using read_message_frame(1) [OF k(3), of Notification]
    by (simp add: next_change_def async_recv_notification_eq recv_notification_def split_def)
  with k show ?thesis by auto
qed

end

section \<open>A stream that can be dropped\<close>

text \<open>
  The scripts of theory \<open>Stream\<close> once more: a function is dropped between two answers of the
  system. A read or write that can complete does so.
\<close>

fun read_pending :: "nat \<Rightarrow> rx_event list \<Rightarrow> rx_event list list" where
  "read_pending 0 evs = []"
| "read_pending (Suc n) [] = [[]]"
| "read_pending (Suc n) (RxInterrupted # evs) =
     (RxInterrupted # evs) # read_pending (Suc n) evs"
| "read_pending (Suc n) (RxError e # evs) = [RxError e # evs]"
| "read_pending (Suc n) (Data d # evs) =
     (Data d # evs) #
     (if d = [] \<or> Suc n < length d then [] else read_pending (Suc n - length d) evs)"

fun write_pending :: "bytes \<Rightarrow> tx_event list \<Rightarrow> (tx_event list \<times> bytes) list" where
  "write_pending b [] = []"
| "write_pending b (ev # evs) =
     (if b = [] then []
      else (ev # evs, []) #
        (case ev of
           Accept n \<Rightarrow>
             if n = 0 then []
             else map (\<lambda>(evs', w). (evs', take n b @ w)) (write_pending (drop n b) evs)
         | TxInterrupted \<Rightarrow> write_pending b evs
         | TxError e \<Rightarrow> []))"

definition script_drops :: "stream drops" where
  "script_drops =
     \<lparr>read_dropped = (\<lambda>n s. map (\<lambda>evs. s\<lparr>rx := evs\<rparr>) (read_pending n (rx s))),
      write_dropped = (\<lambda>b s. map (\<lambda>(evs, w). s\<lparr>txq := evs, tx := tx s @ w\<rparr>)
        (write_pending b (txq s)))\<rparr>"

lemma read_pending_prefix:
  "evs' \<in> set (read_pending n evs) \<Longrightarrow> list_all rx_fair evs \<Longrightarrow>
   \<exists>k < n. k \<le> length (concat (map event_bytes evs)) \<and>
     concat (map event_bytes evs') = drop k (concat (map event_bytes evs)) \<and> list_all rx_fair evs'"
proof (induction n evs rule: read_pending.induct)
  case (5 n d evs)
  show ?case
  proof (cases "evs' = Data d # evs")
    case True
    with 5 show ?thesis by (intro exI [of _ 0]) simp
  next
    case False
    with 5 have d: "d \<noteq> []" "\<not> Suc n < length d" "evs' \<in> set (read_pending (Suc n - length d) evs)"
      by (auto split: if_splits)
    with 5 obtain k where "k < Suc n - length d" "k \<le> length (concat (map event_bytes evs))"
      "concat (map event_bytes evs') = drop k (concat (map event_bytes evs))" "list_all rx_fair evs'"
      by auto
    then show ?thesis by (intro exI [of _ "length d + k"]) simp
  qed
qed (auto intro: exI [of _ "0 :: nat"])

lemma write_pending_prefix:
  "(evs', w) \<in> set (write_pending b evs) \<Longrightarrow> list_all tx_fair evs \<Longrightarrow>
   \<exists>k < length b. w = take k b \<and> list_all tx_fair evs'"
proof (induction b evs arbitrary: w rule: write_pending.induct)
  case (2 b ev evs)
  show ?case
  proof (cases "(evs', w) = (ev # evs, [])")
    case True
    with 2 show ?thesis by (intro exI [of _ 0]) (auto split: if_splits)
  next
    case False
    with "2.prems" have b: "b \<noteq> []" by auto
    show ?thesis
    proof (cases ev)
      case (Accept n)
      with False "2.prems" b obtain w' where w: "(evs', w') \<in> set (write_pending (drop n b) evs)"
        "w = take n b @ w'" and n: "n \<noteq> 0" by (auto split: if_splits)
      with "2.IH"(1) [OF b Accept n] "2.prems"(2) obtain k where
        k: "k < length (drop n b)" "w' = take k (drop n b)" "list_all tx_fair evs'" by auto
      then have "w = take (n + k) b" using w(2) by (simp add: take_add)
      with k show ?thesis by (intro exI [of _ "n + k"]) auto
    next
      case TxInterrupted
      with 2 False b show ?thesis by auto
    next
      case (TxError e)
      with "2.prems" False b show ?thesis by auto
    qed
  qed
qed simp

interpretation script: droppable_stream std_io std_incoming std_fair tx script_drops
proof
  fix s s' n b
  show "std_fair s \<Longrightarrow> s' \<in> set (read_dropped script_drops n s) \<Longrightarrow>
      \<exists>k < n. k \<le> length (std_incoming s) \<and> std_incoming s' = drop k (std_incoming s) \<and>
        tx s' = tx s \<and> std_fair s'"
    using read_pending_prefix [of _ n "rx s"]
    by (auto simp: script_drops_def std_fair_def std_incoming_def)
  show "std_fair s \<Longrightarrow> s' \<in> set (write_dropped script_drops b s) \<Longrightarrow>
      \<exists>k < length b. tx s' = tx s @ take k b \<and> std_incoming s' = std_incoming s \<and> std_fair s'"
    using write_pending_prefix [of _ _ b "txq s"]
    by (auto simp: script_drops_def std_fair_def std_incoming_def)
qed

end
