(* ===== verification/Unit_Tests.thy ===== *)
theory Unit_Tests
  imports AsyncClient Samples
begin

text \<open>
  The unit tests of src/wire/cursor.rs, src/wire/raw.rs, src/wire/mod.rs, src/transport.rs,
  src/subscription.rs and src/async_client.rs, translated as they are written: a test is a
  Boolean that is true when no assertion of the test fails.

  In the tests over a pair of sockets the other end is what it sends and what it asserts of the
  bytes it receives. The client's stream is a parameter of the test: the system decides in which
  pieces the bytes arrive.
\<close>

section \<open>src/wire/cursor.rs\<close>

definition chunk_bytes :: "usize \<Rightarrow> bytes \<Rightarrow> bytes" where
  "chunk_bytes org body =
     (let header_len = 2 * Cursor.PTR_SIZE;
          out = word_to_le org;
          out = out @ word_to_le (word_of_nat (header_len + length body) :: usize)
      in out @ body)"

definition test_single_chunk :: bool where
  "test_single_chunk =
     (let buf = chunk_bytes 1 (ascii ''hi''); c = cursor_new buf in
      case leaf c of Ok ((org, body), c) \<Rightarrow> org = 1 \<and> body = ascii ''hi'' | _ \<Rightarrow> False)"

definition test_pads_between_chunks :: bool where
  "test_pads_between_chunks =
     (let second = chunk_bytes 2 (ascii ''second'');
          padded = chunk_bytes 1 (ascii ''x'');
          pad = (Cursor.PTR_SIZE - length padded mod Cursor.PTR_SIZE) mod Cursor.PTR_SIZE;
          padded = padded @ replicate pad 0;
          padded = padded @ second;
          c = cursor_new padded in
      case leaf c of
        Ok ((orig1, body1), c) \<Rightarrow> orig1 = 1 \<and> body1 = ascii ''x'' \<and>
          (case leaf c of
             Ok ((orig2, body2), c) \<Rightarrow> orig2 = 2 \<and> body2 = ascii ''second'' | _ \<Rightarrow> False)
      | _ \<Rightarrow> False)"

definition test_cstring_strips_nul :: bool where
  "test_cstring_strips_nul =
     (let buf = chunk_bytes 1 (ascii ''hello'' @ [0]); c = cursor_new buf in
      map_ok fst (read_opt_cstring c 42) = Ok (Some (ascii ''hello'')))"

definition test_cstring_null_pointer :: bool where
  "test_cstring_null_pointer =
     (let c = cursor_new [] in map_ok fst (read_opt_cstring c 0) = Ok None)"

definition test_truncated_is_protocol_error :: bool where
  "test_truncated_is_protocol_error =
     (let c = cursor_new [0, 0, 0] in case leaf c of Err e \<Rightarrow> True | _ \<Rightarrow> False)"

section \<open>src/wire/raw.rs\<close>

definition test_sizes_aligned :: bool where
  "test_sizes_aligned \<longleftrightarrow>
     size_of RawMedPolicy_layout mod align_of RawMedPolicy_layout = 0 \<and>
     size_of RawMedLoc_layout mod align_of RawMedLoc_layout = 0 \<and>
     size_of RawMgmt_layout mod align_of RawMgmt_layout = 0 \<and>
     size_of RawPort_layout mod align_of RawPort_layout = 0 \<and>
     size_of RawHardware_layout mod align_of RawHardware_layout = 0 \<and>
     size_of RawHardwareWithFlagsPrevious_layout mod
       align_of RawHardwareWithFlagsPrevious_layout = 0"

definition test_flags_previous_one_step_bigger :: bool where
  "test_flags_previous_one_step_bigger \<longleftrightarrow>
     size_of RawHardware_layout = 632 \<and> size_of RawHardwareWithFlagsPrevious_layout = 640"

definition test_port_set_eighty_bytes :: bool where
  "test_port_set_eighty_bytes \<longleftrightarrow> size_of RawPortSet_layout = 80"

section \<open>src/wire/mod.rs\<close>

definition test_interface_name_request :: bool where
  "test_interface_name_request =
     (let payload = encode_interface_name_request (ascii ''eth0''); cursor = cursor_new payload in
      map_ok fst (read_opt_cstring cursor 1) = Ok (Some (ascii ''eth0'')))"

definition test_set_port_capture :: bool where
  "test_set_port_capture \<longleftrightarrow>
     length set_port_capture = 150 \<and>
     encode_set_port_description_request (ascii ''eth0'') (ascii ''test-desc-XYZ'') =
       set_port_capture"

section \<open>src/transport.rs\<close>

definition test_header_len :: bool where
  "test_header_len \<longleftrightarrow> header_len = 2 * Transport.PTR_SIZE"

definition test_header_roundtrips :: bool where
  "test_header_roundtrips =
     (let buf = encode_header GetInterface 42 in
      decode_header buf = Ok (hmsg_number GetInterface, 42))"

definition test_align_up_examples :: bool where
  "test_align_up_examples \<longleftrightarrow>
     align_up 0 8 = 0 \<and> align_up 1 8 = 8 \<and> align_up 8 8 = 8 \<and> align_up 9 8 = 16"

text \<open>What the server of the test asserts of the bytes it received, and what it sends.\<close>

definition server_asserts :: "bytes \<Rightarrow> bool" where
  "server_asserts received =
     (case decode_header (take header_len received) of
        Ok (ty, len) \<Rightarrow> ty = hmsg_number GetInterfaces \<and> len = 0 | _ \<Rightarrow> False)"

definition server_reply :: bytes where
  "server_reply = encode_header GetInterfaces 3 @ ascii ''abc''"

definition test_request_over_socketpair :: "stream \<Rightarrow> bool" where
  "test_request_over_socketpair client =
     (case request std_io GetInterfaces [] client of
        (Ok reply, client) \<Rightarrow> reply = ascii ''abc'' \<and> server_asserts (tx client) | _ \<Rightarrow> False)"

section \<open>src/subscription.rs\<close>

definition test_subscription_ends :: "stream \<Rightarrow> bool" where
  "test_subscription_ends client =
     (case subscription_next std_io \<lparr>Subscription.stream = client\<rparr> of
        (None, sub) \<Rightarrow> True | _ \<Rightarrow> False)"

definition empty_notification :: bytes where
  "empty_notification =
     (let ptr_size = 8;
          frame = zeros 4;
          frame = copy_into frame 0 (word_to_le (10 :: i32));
          pad = (ptr_size - 4 mod ptr_size) mod ptr_size;
          frame = frame @ replicate pad 0
      in frame @ word_to_le (0 :: usize))"

definition test_subscription_decode_error :: "stream \<Rightarrow> bool" where
  "test_subscription_decode_error client =
     (case subscription_next std_io \<lparr>Subscription.stream = client\<rparr> of
        (Some (Err e), sub) \<Rightarrow> True | _ \<Rightarrow> False)"

section \<open>src/async\_client.rs\<close>

definition test_async_request_over_socketpair :: "'s io \<Rightarrow> ('s \<Rightarrow> bytes) \<Rightarrow> 's \<Rightarrow> bool" where
  "test_async_request_over_socketpair tokio written client =
     (case async_request tokio GetInterfaces [] client of
        (Ok reply, client) \<Rightarrow> reply = ascii ''abc'' \<and> server_asserts (written client)
      | _ \<Rightarrow> False)"

definition test_async_not_found :: "'s io \<Rightarrow> 's \<Rightarrow> bool" where
  "test_async_not_found tokio client =
     (case async_request tokio GetInterface (ascii ''nope'' @ [0]) client of
        (Err RequestRejected, client) \<Rightarrow> True | _ \<Rightarrow> False)"

definition test_async_subscription_ends :: "'s io \<Rightarrow> 's \<Rightarrow> bool" where
  "test_async_subscription_ends tokio client \<longleftrightarrow>
     fst (next_change tokio \<lparr>changes = client\<rparr>) = Ok None"

section \<open>The tests without a stream pass\<close>

definition test_marshal :: marshal where
  "test_marshal = \<lparr>orig = (\<lambda>p. if p = 0 then 1 else 2), nested = (\<lambda>_. 0)\<rparr>"

lemma chunk_bytes_leaf: "chunk_bytes 1 x = put_leaf test_marshal [] x"
  by (simp add: chunk_bytes_def put_leaf_def put_header_def test_marshal_def Let_def
      Cursor.PTR_SIZE_def align_up_def)

lemma leaf_at_start:
  assumes "length x < 1000" and "length (chunk_bytes 1 x @ rest) \<le> slice_max"
  shows "leaf (cursor_new (chunk_bytes 1 x @ rest)) =
    Ok ((1, x), \<lparr>buf = chunk_bytes 1 x @ rest, pos = 16 + length x\<rparr>)"
  using reads_message [OF reads_leaf [of x "[]" test_marshal]] assms
  by (simp add: chunk_bytes_leaf test_marshal_def bounds_num align_up_def)

lemma cursor_tests:
  "test_single_chunk" "test_pads_between_chunks" "test_cstring_strips_nul"
  "test_cstring_null_pointer" "test_truncated_is_protocol_error"
proof -
  show "test_single_chunk"
    using leaf_at_start [of "ascii ''hi''" "[]"]
    by (simp add: test_single_chunk_def Let_def bounds_num chunk_bytes_leaf align_up_def)
  let ?b1 = "put_leaf test_marshal [] (ascii ''x'')"
  let ?b2 = "put_leaf test_marshal ?b1 (ascii ''second'')"
  have l1: "length ?b1 = 17" by (simp add: align_up_def)
  have b2: "?b2 = ?b1 @ replicate 7 0 @ chunk_bytes 2 (ascii ''second'')"
    unfolding put_leaf_def [of test_marshal ?b1] put_header_def [of ?b1] l1
    by (simp add: align_up_def test_marshal_def chunk_bytes_def Let_def Cursor.PTR_SIZE_def)
  have "prefix ?b1 ?b2" by (simp add: put_leaf_def [of _ ?b1] put_header_def)
  have len: "length ?b2 \<le> slice_max" by (simp add: align_up_def bounds_num)
  have x: "length (ascii ''x'') \<le> slice_max" "length (ascii ''second'') \<le> slice_max"
    by (simp_all add: bounds_num)
  have "leaf (cursor_new ?b2) = Ok ((1, ascii ''x''), \<lparr>buf = ?b2, pos = length ?b1\<rparr>)"
    using readsD [OF reads_leaf [OF x(1), of "[]" test_marshal] \<open>prefix ?b1 ?b2\<close> len]
    by (simp add: cursor_new_def test_marshal_def)
  moreover have "leaf \<lparr>buf = ?b2, pos = length ?b1\<rparr> =
      Ok ((2, ascii ''second''), \<lparr>buf = ?b2, pos = length ?b2\<rparr>)"
    using readsD [OF reads_leaf [OF x(2), of ?b1 test_marshal] prefix_order.refl len] l1
    by (simp add: test_marshal_def)
  moreover have "length (chunk_bytes 1 (ascii ''x'')) = 17" by (simp add: chunk_bytes_leaf align_up_def)
  ultimately show "test_pads_between_chunks"
    by (simp add: test_pads_between_chunks_def Let_def Cursor.PTR_SIZE_def b2 chunk_bytes_leaf)
  have hello: "utf8_valid (ascii ''hello'')" by code_simp
  have "reads (\<lambda>c. read_opt_cstring c 42) [] (Some (ascii ''hello''))
      (put_cstring test_marshal [] (Some (ascii ''hello'')))"
    by (rule reads_text) (simp_all add: points_to_def c_text_def hello bounds_num)
  from reads_message [OF this, of "[]"] show "test_cstring_strips_nul"
    by (simp add: test_cstring_strips_nul_def chunk_bytes_leaf put_cstring_def Let_def bounds_num
        align_up_def)
  show "test_cstring_null_pointer"
    by (simp add: test_cstring_null_pointer_def read_opt_cstring_def)
  have "chunk_header (cursor_new [0, 0, 0]) = Err (truncated (cursor_new [0, 0, 0]) 16)"
    by (simp add: chunk_header_def cursor_new_def align_up_def Cursor.PTR_SIZE_def need_eq bounds_num)
  then show "test_truncated_is_protocol_error"
    by (simp add: test_truncated_is_protocol_error_def leaf_def)
qed

lemma structure_tests:
  "test_sizes_aligned" "test_flags_previous_one_step_bigger" "test_port_set_eighty_bytes"
  by (code_simp, code_simp, code_simp)

lemma request_tests: "test_interface_name_request" "test_set_port_capture"
proof -
  show "test_interface_name_request"
    using interface_name_request_read [OF ascii_names(1), of 1]
    by (simp add: test_interface_name_request_def Let_def bounds_num)
  have "length set_port_capture = 150" by (simp add: set_port_capture_def)
  then show "test_set_port_capture"
    by (simp add: test_set_port_capture_def set_port_capture_encoded)
qed

lemma framing_tests: "test_header_len" "test_header_roundtrips" "test_align_up_examples"
  by (simp_all add: test_header_len_def header_len_16 Transport.PTR_SIZE_def
      test_header_roundtrips_def decode_encode_header test_align_up_examples_def align_up_def)

section \<open>The tests over sockets pass, however the bytes arrive\<close>

lemma headers_frames:
  "encode_header GetInterfaces 3 @ ascii ''abc'' = frame 3 (ascii ''abc'')"
  "encode_header GetInterfaces 0 = frame 3 []"
  "encode_header None' 0 = frame 0 []"
  using frame_encode_header [of GetInterfaces "ascii ''abc''"]
    frame_encode_header [of GetInterfaces "[]"] frame_encode_header [of None' "[]"]
  by (simp_all add: numeral_3_eq_3)

lemma server_asserts_request: "server_asserts (frame 3 [])"
  unfolding headers_frames(2) [symmetric]
  by (simp add: server_asserts_def decode_encode_header header_len_16)

lemma server_reply_frame: "server_reply = frame 3 (ascii ''abc'')"
  by (simp add: server_reply_def headers_frames)

lemma parse_short_frame:
  "length p < 1000 \<Longrightarrow> parse_frame ty (frame t p) =
     (check_reply ty t p, 16 + length p)"
  using parse_frame_frame [of p ty t "[]"]
  by (auto simp: check_reply_def hmsg_matches_def HMSG_MAX_SIZE_num)

lemma empty_notification_frame: "empty_notification = frame 10 []"
  by (simp add: empty_notification_def frame_def Let_def copy_into_def zeros_def)

context byte_stream
begin

lemma socketpair_request:
  assumes "fair s" and "incoming s = server_reply" and "sent s = []"
  shows "fst (request io GetInterfaces [] s) = Ok (ascii ''abc'')"
    and "server_asserts (sent (snd (request io GetInterfaces [] s)))"
  using request_reply(1,2) [OF assms(1), of GetInterfaces "[]"] assms(2,3)
  by (simp_all add: server_reply_frame parse_short_frame check_reply_def hmsg_matches_def
      server_asserts_request)

lemma socketpair_rejected:
  assumes "fair s" and "incoming s = encode_header None' 0"
  shows "fst (request io ty p s) = Err RequestRejected"
  using request_reply(1) [OF assms(1)] assms(2)
  by (simp add: headers_frames parse_short_frame check_reply_def)

lemma hung_up:
  assumes "fair (Subscription.stream sub)" and "incoming (Subscription.stream sub) = []"
  shows "fst (subscription_next io sub) = None"
  using next_of_frame(1) [OF assms(1)] assms(2) by (simp add: parse_frame_def)

end

lemma socket_tests:
  assumes "std_fair client" and "tx client = []"
  shows "std_incoming client = server_reply \<Longrightarrow> test_request_over_socketpair client"
    and "std_incoming client = [] \<Longrightarrow> test_subscription_ends client"
    and "std_incoming client = empty_notification \<Longrightarrow> test_subscription_decode_error client"
proof -
  show "std_incoming client = server_reply \<Longrightarrow> test_request_over_socketpair client"
    using std.socketpair_request [OF assms(1) _ assms(2)]
    by (auto simp: test_request_over_socketpair_def split: prod.split)
  show "std_incoming client = [] \<Longrightarrow> test_subscription_ends client"
    using std.hung_up [of "\<lparr>Subscription.stream = client\<rparr>"] assms(1)
    by (auto simp: test_subscription_ends_def split: prod.split)
  assume "std_incoming client = empty_notification"
  then have "fst (subscription_next std_io \<lparr>Subscription.stream = client\<rparr>) =
      Some (decode_neighbor_change [])"
    using std.next_of_frame(1) [of "\<lparr>Subscription.stream = client\<rparr>"] assms(1)
    by (simp add: empty_notification_frame parse_short_frame check_reply_def hmsg_matches_def)
  moreover have "\<exists>e. decode_neighbor_change [] = Err e"
    by (simp add: decode_neighbor_change_def read_chunk_pod_def Let_def chunk_header_def
        cursor_new_def align_up_def Cursor.PTR_SIZE_def need_eq bounds_num)
  ultimately show "test_subscription_decode_error client"
    by (auto simp: test_subscription_decode_error_def split: prod.split)
qed

lemma async_socket_tests:
  assumes "byte_stream tokio incoming fair written" and "fair client" and "written client = []"
  shows "incoming client = server_reply \<Longrightarrow>
      test_async_request_over_socketpair tokio written client"
    and "incoming client = encode_header None' 0 \<Longrightarrow> test_async_not_found tokio client"
    and "incoming client = [] \<Longrightarrow> test_async_subscription_ends tokio client"
proof -
  show "incoming client = server_reply \<Longrightarrow> test_async_request_over_socketpair tokio written client"
    using byte_stream.socketpair_request [OF assms(1,2) _ assms(3)]
    by (auto simp: test_async_request_over_socketpair_def async_request_eq split: prod.split)
  show "incoming client = encode_header None' 0 \<Longrightarrow> test_async_not_found tokio client"
    using byte_stream.socketpair_rejected [OF assms(1,2), of GetInterface "ascii ''nope'' @ [0]"]
    by (auto simp: test_async_not_found_def async_request_eq split: prod.split)
  show "incoming client = [] \<Longrightarrow> test_async_subscription_ends tokio client"
    using byte_stream.hung_up [OF assms(1), of "\<lparr>Subscription.stream = client\<rparr>"] assms(2)
    by (auto simp: test_async_subscription_ends_def next_change_def async_recv_notification_eq
        subscription_next_def end_or_change_transpose split: prod.split)
qed

end
