(* ===== verification/Daemon.thy ===== *)
theory Daemon
  imports Sessions "HOL-Library.Sublist"
begin

text \<open>
  The client and the daemon together, as two processes over one socket. The daemon is a
  parameter: a function of its state and of one request, to the reply and its next state. It
  reads whole request frames and answers them in order; the bytes it writes reach the client in
  pieces. A schedule fixes how the daemon's work and the client's reads are interleaved, and the
  lemmas hold for every schedule: a call over the socket is a call of the daemon's function.
\<close>

section \<open>The socket\<close>

type_synonym 'd daemon = "'d \<Rightarrow> i32 \<times> bytes \<Rightarrow> (i32 \<times> bytes) \<times> 'd"

record 'd link =
  to_daemon :: bytes \<comment> \<open>written by the client, not yet read by the daemon\<close>
  to_client :: bytes \<comment> \<open>written by the daemon, not yet read by the client\<close>
  daemon_state :: 'd
  sched :: "nat list"

definition whole_frame :: "bytes \<Rightarrow> bool" where
  "whole_frame b \<longleftrightarrow> 16 \<le> length b \<and> 16 + frame_len b \<le> length b"

text \<open>The daemon handles one request, if it has arrived in full.\<close>

definition daemon_turn :: "'d daemon \<Rightarrow> 'd link \<Rightarrow> 'd link" where
  "daemon_turn d l =
     (let b = to_daemon l in
      if whole_frame b then
        (case d (daemon_state l) (frame_type b, take (frame_len b) (drop 16 b)) of (reply, st) \<Rightarrow>
           l\<lparr>to_daemon := drop (16 + frame_len b) b,
             to_client := to_client l @ reply_frame reply, daemon_state := st\<rparr>)
      else l)"

function daemon_turns :: "'d daemon \<Rightarrow> 'd link \<Rightarrow> 'd link" where
  "daemon_turns d l =
     (if whole_frame (to_daemon l) then daemon_turns d (daemon_turn d l) else l)"
  by pat_completeness auto
termination
  by (relation "measure (\<lambda>(d, l). length (to_daemon l))")
    (auto simp: daemon_turn_def whole_frame_def Let_def split: prod.split)

declare daemon_turns.simps [simp del]

text \<open>
  The client's \<open>read_exact\<close>: at each point of the schedule either the daemon handles a request
  (\<open>0\<close>) or at most the given number of bytes is read. Behind the schedule the daemon handles
  all it has, and a read that is still short will never be served: it is the end of the stream.
\<close>

fun link_read :: "'d daemon \<Rightarrow> nat \<Rightarrow> nat list \<Rightarrow> 'd link \<Rightarrow>
    (bytes, io_error) result \<times> 'd link" where
  "link_read d n [] l =
     (let l = daemon_turns d (l\<lparr>sched := []\<rparr>) in
      if n \<le> length (to_client l) then
        (Ok (take n (to_client l)), l\<lparr>to_client := drop n (to_client l)\<rparr>)
      else (Err UnexpectedEof, l))"
| "link_read d n (k # ks) l =
     (if n = 0 then (Ok [], l\<lparr>sched := k # ks\<rparr>)
      else if k = 0 then link_read d n ks (daemon_turn d l)
      else
        (let m = min k (min n (length (to_client l))) in
         case link_read d (n - m) ks (l\<lparr>to_client := drop m (to_client l)\<rparr>) of
           (r, l') \<Rightarrow> (map_ok (\<lambda>b. take m (to_client l) @ b) r, l')))"

definition link_io :: "'d daemon \<Rightarrow> 'd link io" where
  "link_io d =
     \<lparr>read_exact = (\<lambda>n l. link_read d n (sched l) l),
      write_all = (\<lambda>b l. (Ok (), l\<lparr>to_daemon := to_daemon l @ b\<rparr>))\<rparr>"

section \<open>No schedule changes what arrives\<close>

text \<open>What the daemon will have done when it has handled all it has.\<close>

definition link_incoming :: "'d daemon \<Rightarrow> 'd link \<Rightarrow> bytes" where
  "link_incoming d l = to_client (daemon_turns d l)"

definition link_settled :: "'d daemon \<Rightarrow> 'd link \<Rightarrow> bytes \<times> 'd" where
  "link_settled d l = (to_daemon (daemon_turns d l), daemon_state (daemon_turns d l))"

lemma turns_turn: "daemon_turns d (daemon_turn d l) = daemon_turns d l"
proof (cases "whole_frame (to_daemon l)")
  case False
  then show ?thesis by (simp add: daemon_turn_def Let_def)
qed (simp add: daemon_turns.simps [of d l])

lemma turn_update:
  "daemon_turn d (l\<lparr>sched := ks\<rparr>) = (daemon_turn d l)\<lparr>sched := ks\<rparr>"
  "m \<le> length (to_client l) \<Longrightarrow>
   daemon_turn d (l\<lparr>to_client := drop m (to_client l)\<rparr>) =
     (daemon_turn d l)\<lparr>to_client := drop m (to_client (daemon_turn d l))\<rparr>"
  by (simp_all add: daemon_turn_def Let_def split: prod.split)

lemma turn_prefix: "prefix (to_client l) (to_client (daemon_turn d l))"
  by (simp add: daemon_turn_def Let_def split: prod.split)

lemma turns_sched: "daemon_turns d (l\<lparr>sched := ks\<rparr>) = (daemon_turns d l)\<lparr>sched := ks\<rparr>"
proof (induction d l rule: daemon_turns.induct)
  case (1 d l)
  then show ?case
    by (cases "whole_frame (to_daemon l)")
      (simp_all add: daemon_turns.simps [of d l] daemon_turns.simps [of d "l\<lparr>sched := ks\<rparr>"]
        turn_update)
qed

lemma turns_read:
  "m \<le> length (to_client l) \<Longrightarrow>
   daemon_turns d (l\<lparr>to_client := drop m (to_client l)\<rparr>) =
     (daemon_turns d l)\<lparr>to_client := drop m (to_client (daemon_turns d l))\<rparr>"
proof (induction d l rule: daemon_turns.induct)
  case (1 d l)
  let ?l = "l\<lparr>to_client := drop m (to_client l)\<rparr>"
  have "m \<le> length (to_client (daemon_turn d l))"
    using 1(2) prefix_length_le [OF turn_prefix [of l d]] by linarith
  with 1 show ?case
    by (cases "whole_frame (to_daemon l)")
      (simp_all add: daemon_turns.simps [of d l] daemon_turns.simps [of d ?l] turn_update)
qed

lemma turns_prefix: "prefix (to_client l) (to_client (daemon_turns d l))"
proof (induction d l rule: daemon_turns.induct)
  case (1 d l)
  then show ?case
    using turn_prefix [of l d] prefix_order.trans
    by (cases "whole_frame (to_daemon l)") (auto simp: daemon_turns.simps [of d l])
qed

lemma turns_idem: "daemon_turns d (daemon_turns d l) = daemon_turns d l"
proof (induction d l rule: daemon_turns.induct)
  case (1 d l)
  then show ?case
    by (cases "whole_frame (to_daemon l)") (simp_all add: daemon_turns.simps [of d l])
qed

text \<open>An exact read takes the next bytes of all that will arrive, for every schedule.\<close>

lemma link_read_incoming:
  "(n \<le> length (link_incoming d l) \<longrightarrow>
     fst (link_read d n ks l) = Ok (take n (link_incoming d l)) \<and>
     link_incoming d (snd (link_read d n ks l)) = drop n (link_incoming d l)) \<and>
   (length (link_incoming d l) < n \<longrightarrow> fst (link_read d n ks l) = Err UnexpectedEof) \<and>
   link_settled d (snd (link_read d n ks l)) = link_settled d l"
proof (induction d n ks l rule: link_read.induct)
  case (1 d n l)
  have "daemon_turns d (daemon_turns d l \<lparr>sched := ks, to_client := drop n (to_client (daemon_turns d l))\<rparr>) =
      daemon_turns d l \<lparr>sched := ks, to_client := drop n (to_client (daemon_turns d l))\<rparr>"
    if "n \<le> length (to_client (daemon_turns d l))" for ks
    using turns_read [of n "daemon_turns d l \<lparr>sched := ks\<rparr>" d] that
    by (simp add: turns_sched turns_idem)
  then show ?case
    by (auto simp: Let_def link_incoming_def link_settled_def turns_sched turns_idem)
next
  case (2 d n k ks l)
  show ?case
  proof (cases "n = 0 \<or> k = 0")
    case True
    with 2(1) show ?thesis
      by (cases "n = 0")
        (auto simp: link_incoming_def link_settled_def turns_sched turns_turn)
  next
    case False
    let ?m = "min k (min n (length (to_client l)))"
    let ?l = "l\<lparr>to_client := drop ?m (to_client l)\<rparr>"
    obtain r l' where r: "link_read d (n - ?m) ks ?l = (r, l')" by fastforce
    have t: "daemon_turns d ?l =
        (daemon_turns d l)\<lparr>to_client := drop ?m (to_client (daemon_turns d l))\<rparr>"
      by (rule turns_read) simp
    have i: "link_incoming d ?l = drop ?m (link_incoming d l)"
      "link_settled d ?l = link_settled d l"
      by (simp_all add: link_incoming_def link_settled_def t)
    have p: "take ?m (to_client l) = take ?m (link_incoming d l)"
      using turns_prefix [of l d] by (auto simp: link_incoming_def prefix_def)
    have s: "link_read d n (k # ks) l = (map_ok (\<lambda>b. take ?m (to_client l) @ b) r, l')"
      using False r by (simp add: Let_def)
    have m: "?m \<le> n" "?m \<le> length (link_incoming d l)"
      using prefix_length_le [OF turns_prefix [of l d]] by (auto simp: link_incoming_def)
    have "\<not> n = 0" "\<not> k = 0" using False by simp_all
    from 2(2) [OF this refl, unfolded r fst_conv snd_conv i length_drop drop_drop]
    have IH: "n - ?m \<le> length (link_incoming d l) - ?m \<longrightarrow>
        r = Ok (take (n - ?m) (drop ?m (link_incoming d l))) \<and>
        link_incoming d l' = drop (n - ?m + ?m) (link_incoming d l)"
      "length (link_incoming d l) - ?m < n - ?m \<longrightarrow> r = Err UnexpectedEof"
      "link_settled d l' = link_settled d l" by blast+
    show ?thesis
    proof (cases "n \<le> length (link_incoming d l)")
      case True
      with m have "n - ?m \<le> length (link_incoming d l) - ?m" "n - ?m + ?m = n" by linarith+
      with IH(1) have "r = Ok (take (n - ?m) (drop ?m (link_incoming d l)))"
        "link_incoming d l' = drop n (link_incoming d l)" by simp_all
      moreover have "take n (link_incoming d l) =
          take ?m (link_incoming d l) @ take (n - ?m) (drop ?m (link_incoming d l))"
        using m(1) by (metis le_add_diff_inverse take_add)
      ultimately have "map_ok (\<lambda>b. take ?m (to_client l) @ b) r = Ok (take n (link_incoming d l))"
        "link_incoming d l' = drop n (link_incoming d l)"
        by (simp_all only: p map_ok.simps)
      with True IH(3) show ?thesis unfolding s fst_conv snd_conv by (simp only: not_less) simp
    next
      case short: False
      with m have "length (link_incoming d l) - ?m < n - ?m" by linarith
      with IH(2,3) short show ?thesis unfolding s fst_conv snd_conv by simp
    qed
  qed
qed

interpretation link: byte_source "link_io d" "link_incoming d" "\<lambda>_. True" for d :: "'d daemon"
proof
  fix n b
  fix l l' :: "'d link"
  note r = link_read_incoming [of n d l "sched l"]
  show "read_exact (link_io d) n l = (Ok b, l') \<Longrightarrow> length b = n"
    using r by (cases "n \<le> length (link_incoming d l)") (auto simp: link_io_def)
  show "fst (read_exact (link_io d) n l) \<noteq> Panic"
    using r by (cases "n \<le> length (link_incoming d l)") (auto simp: link_io_def)
  show "n \<le> length (link_incoming d l) \<Longrightarrow>
      \<exists>s'. read_exact (link_io d) n l = (Ok (take n (link_incoming d l)), s') \<and>
        link_incoming d s' = drop n (link_incoming d l) \<and> True"
    using r by (cases "link_read d n (sched l) l") (auto simp: link_io_def)
  show "length (link_incoming d l) < n \<Longrightarrow> fst (read_exact (link_io d) n l) = Err UnexpectedEof"
    using r by (auto simp: link_io_def)
qed

interpretation link_end: read_preserves "link_io d" "link_settled d" for d :: "'d daemon"
  by unfold_locales (simp add: link_io_def link_read_incoming)

section \<open>A call over the socket\<close>

definition link_idle :: "'d link \<Rightarrow> bool" where
  "link_idle l \<longleftrightarrow> to_daemon l = [] \<and> to_client l = []"

lemma whole_frame_frame:
  assumes "length p < 2 ^ 64"
  shows "whole_frame (frame t p)" "frame_len (frame t p) = length p" "frame_type (frame t p) = t"
    "take (length p) (drop 16 (frame t p)) = p" "drop (16 + length p) (frame t p) = []"
proof -
  show n: "frame_len (frame t p) = length p"
    using assms by (simp add: frame_len_def frame_def unat_of_nat)
  show "frame_type (frame t p) = t" using frame_fields(1) [of t p "[]"] by simp
  show "whole_frame (frame t p)" using n by (simp add: whole_frame_def)
  show "take (length p) (drop 16 (frame t p)) = p" by (simp add: frame_def)
  show "drop (16 + length p) (frame t p) = []" by simp
qed

lemma nothing_arrives:
  assumes "link_incoming d l = []"
  shows "daemon_turns d l = l"
proof (rule ccontr)
  assume "daemon_turns d l \<noteq> l"
  then have w: "whole_frame (to_daemon l)" and t: "daemon_turns d l = daemon_turns d (daemon_turn d l)"
    using daemon_turns.simps [of d l] by (auto split: if_splits)
  have "to_client (daemon_turn d l) = []"
    using turns_prefix [of "daemon_turn d l" d] assms t by (simp add: link_incoming_def)
  moreover have "16 \<le> length (to_client (daemon_turn d l))"
    using w by (simp add: daemon_turn_def Let_def reply_frame_def split: prod.split)
  ultimately show False by simp
qed

lemma link_request:
  assumes "link_idle l" and "length p < 2 ^ 64"
    and "d (daemon_state l) (hmsg_number ty, p) = (reply, st)"
    and "length (snd reply) \<le> HMSG_MAX_SIZE"
  shows "\<exists>l'. request (link_io d) ty p l = (check_reply ty (fst reply) (snd reply), l') \<and>
    link_idle l' \<and> daemon_state l' = st"
proof -
  let ?l = "l\<lparr>to_daemon := frame (hmsg_number ty) p\<rparr>"
  let ?done = "l\<lparr>to_daemon := [], to_client := reply_frame reply, daemon_state := st\<rparr>"
  note f = whole_frame_frame [OF assms(2), of "hmsg_number ty"]
  have "daemon_turn d ?l = ?done"
    using assms(1,3) f by (simp add: daemon_turn_def Let_def link_idle_def)
  moreover have "daemon_turns d ?done = ?done"
    by (simp add: daemon_turns.simps [of d ?done] whole_frame_def)
  ultimately have "daemon_turns d ?l = ?done" using turns_turn [of d ?l] by simp
  then have i: "link_incoming d ?l = reply_frame reply" "link_settled d ?l = ([], st)"
    by (simp_all add: link_incoming_def link_settled_def)
  let ?r = "read_message (link_io d) ty ?l"
  have pf: "parse_frame ty (reply_frame reply) =
      (check_reply ty (fst reply) (snd reply), length (reply_frame reply))"
    using parse_frame_frame [OF assms(4), of ty "fst reply" "[]"] check_reply_framed
    by (simp add: reply_frame_def)
  have r: "fst ?r = check_reply ty (fst reply) (snd reply)"
    using link.read_message_frame(1) [where expected = ty and s = ?l and d = d] pf i by simp
  then have "fst ?r \<noteq> Err (Io UnexpectedEof)" by (simp add: check_reply_def)
  with link.read_message_frame(2) [where expected = ty and s = ?l and d = d] pf i have e: "link_incoming d (snd ?r) = []" by simp
  have "link_settled d (snd ?r) = ([], st)"
    using link_end.read_message_keeps [of d ty ?l] i by simp
  with nothing_arrives [OF e] e have "link_idle (snd ?r)" "daemon_state (snd ?r) = st"
    by (simp_all add: link_settled_def link_idle_def link_incoming_def)
  moreover have "request (link_io d) ty p l = ?r"
    using assms(1) by (simp add: request_def link_io_def lift_io_def frame_encode_header link_idle_def)
  ultimately show ?thesis using r by (metis prod.collapse)
qed

section \<open>Sessions over the socket are sessions of the daemon's function\<close>

fun served :: "'d daemon \<Rightarrow> 'd \<Rightarrow> call list \<Rightarrow> outcome list \<times> 'd" where
  "served d st [] = ([], st)"
| "served d st (cl # cls) =
     (case d st (hmsg_number (call_type cl), call_payload cl) of (reply, st) \<Rightarrow>
        (case served d st cls of (outs, st) \<Rightarrow> (answered cl reply # outs, st)))"

definition daemon_fits :: "'d daemon \<Rightarrow> bool" where
  "daemon_fits d \<longleftrightarrow> (\<forall>st req. length (snd (fst (d st req))) \<le> HMSG_MAX_SIZE)"

definition call_fits :: "call \<Rightarrow> bool" where
  "call_fits cl \<longleftrightarrow> length (call_payload cl) < 2 ^ 64"

lemma link_call:
  assumes "link_idle l" and "daemon_fits d" and "length p < 2 ^ 64"
    and "d (daemon_state l) (hmsg_number ty, p) = (reply, st)"
  obtains l' where "request (link_io d) ty p l = (check_reply ty (fst reply) (snd reply), l')"
    "link_idle l'" "daemon_state l' = st" "length (snd reply) \<le> HMSG_MAX_SIZE"
proof -
  have "length (snd reply) \<le> HMSG_MAX_SIZE"
    using assms(2,4) unfolding daemon_fits_def by (metis fst_conv)
  with link_request [where d = d, OF assms(1,3,4)] that show ?thesis by blast
qed

lemma session_served:
  assumes "session (link_io d) c ls c'" and "link_idle (Client.stream c)" and "daemon_fits d"
    and "list_all (call_fits \<circ> fst) ls"
  shows "served d (daemon_state (Client.stream c)) (map fst ls) =
      (map snd ls, daemon_state (Client.stream c')) \<and> link_idle (Client.stream c')"
  using assms
proof (induction rule: session.induct)
  case (call c l c1 ls c')
  obtain cl out where l: "l = (cl, out)" by fastforce
  obtain reply st where d: "d (daemon_state (Client.stream c))
      (hmsg_number (call_type cl), call_payload cl) = (reply, st)" by fastforce
  have "length (call_payload cl) < 2 ^ 64" using call.prems(3) l by (simp add: call_fits_def)
  then obtain l' where "request (link_io d) (call_type cl) (call_payload cl) (Client.stream c) =
      (check_reply (call_type cl) (fst reply) (snd reply), l')" "link_idle l'" "daemon_state l' = st"
    by (rule link_call [OF call.prems(1,2) _ d])
  with call.hyps(1) l have "out = answered cl reply" "link_idle (Client.stream c1)"
    "daemon_state (Client.stream c1) = st"
    by (auto simp: client_step_request answered_def)
  with call.IH call.prems l d show ?case by simp
qed simp

section \<open>The batch of all interfaces over the socket\<close>

text \<open>
  \<open>all_interfaces\<close> decides what it asks from what it was answered. Its reference is the same
  batch on the daemon's function: the daemon's state moves on with each request, so an
  interface may be gone, or have other neighbors, by the time it is asked for.
\<close>

fun collect :: "'d daemon \<Rightarrow> 'd \<Rightarrow> Interface list \<Rightarrow> InterfaceDetails list \<Rightarrow>
    InterfaceDetails list res \<times> 'd" where
  "collect d st [] out = (Ok out, st)"
| "collect d st (iface # rest) out =
     (case d st (6, encode_interface_name_request (Interface.name iface)) of (reply, st) \<Rightarrow>
        (case and_then (check_reply GetInterface (fst reply) (snd reply)) decode_hardware of
           Ok details \<Rightarrow> collect d st rest (out @ [details])
         | Err e \<Rightarrow> if e = RequestRejected then collect d st rest out else (Err e, st)
         | Panic \<Rightarrow> (Panic, st)))"

definition collect_all :: "'d daemon \<Rightarrow> 'd \<Rightarrow> InterfaceDetails list res \<times> 'd" where
  "collect_all d st =
     (case d st (3, []) of (reply, st) \<Rightarrow>
        (case and_then (check_reply GetInterfaces (fst reply) (snd reply)) decode_interfaces of
           Ok ifs \<Rightarrow> collect d st ifs []
         | Err e \<Rightarrow> (Err e, st)
         | Panic \<Rightarrow> (Panic, st)))"

lemma fetch_each_collects:
  assumes "link_idle (Client.stream c)" and "daemon_fits d"
    and "list_all (\<lambda>i. length (Interface.name i) \<le> 2 ^ 32) ifs"
    and "fetch_each (link_io d) ifs out c = (r, c')"
  shows "collect d (daemon_state (Client.stream c)) ifs out =
      (r, daemon_state (Client.stream c')) \<and> link_idle (Client.stream c')"
  using assms
proof (induction ifs arbitrary: out c)
  case (Cons iface ifs)
  let ?p = "encode_interface_name_request (Interface.name iface)"
  obtain reply st where d: "d (daemon_state (Client.stream c)) (hmsg_number GetInterface, ?p) =
      (reply, st)" by fastforce
  have "length ?p < 2 ^ 64"
    using Cons.prems(3) by (simp add: encode_interface_name_request_def Let_def Cursor.PTR_SIZE_def)
  then obtain l' where l': "request (link_io d) GetInterface ?p (Client.stream c) =
      (check_reply GetInterface (fst reply) (snd reply), l')" "link_idle l'" "daemon_state l' = st"
    by (rule link_call [OF Cons.prems(1,2) _ d])
  let ?x = "and_then (check_reply GetInterface (fst reply) (snd reply)) decode_hardware"
  let ?c = "c\<lparr>Client.stream := l'\<rparr>"
  have i: "interface_details (link_io d) (Interface.name iface) c = (?x, ?c)"
    using l'(1) by (simp add: interface_details_def)
  have IH: "fetch_each (link_io d) ifs out' ?c = (r, c') \<Longrightarrow>
      collect d st ifs out' = (r, daemon_state (Client.stream c')) \<and> link_idle (Client.stream c')"
    for out'
    using Cons.IH [of ?c out'] Cons.prems(2,3) l'(2,3) by simp
  show ?case
  proof (cases ?x)
    case (Ok details)
    then show ?thesis using Cons.prems(4) IH i d by simp
  next
    case (Err e)
    then show ?thesis using Cons.prems(4) IH i d l'(2,3) by (cases e) auto
  next
    case Panic
    then show ?thesis using Cons.prems(4) i d l'(2,3) by auto
  qed
qed auto

lemma all_interfaces_collects:
  assumes "link_idle (Client.stream c)" and "daemon_fits d"
    and "all_interfaces (link_io d) c = (r, c')"
  shows "collect_all d (daemon_state (Client.stream c)) =
      (r, daemon_state (Client.stream c')) \<and> link_idle (Client.stream c')"
proof -
  obtain reply st where d: "d (daemon_state (Client.stream c)) (hmsg_number GetInterfaces, []) =
      (reply, st)" by fastforce
  obtain l' where l': "request (link_io d) GetInterfaces [] (Client.stream c) =
      (check_reply GetInterfaces (fst reply) (snd reply), l')" "link_idle l'" "daemon_state l' = st"
    and fits: "length (snd reply) \<le> HMSG_MAX_SIZE"
    by (rule link_call [OF assms(1,2) _ d]) simp_all
  let ?x = "and_then (check_reply GetInterfaces (fst reply) (snd reply)) decode_interfaces"
  have i: "interfaces (link_io d) c = (?x, c\<lparr>Client.stream := l'\<rparr>)"
    using l'(1) by (simp add: interfaces_def)
  show ?thesis
  proof (cases ?x)
    case (Ok ifs)
    then have "decode_interfaces (snd reply) = Ok ifs"
      by (auto simp: and_then_eq_Ok check_reply_def split: if_splits)
    then have "length (Interface.name i) \<le> 2 ^ 32" if "i \<in> set ifs" for i
      using interfaces_name_length [OF HMSG_MAX_SIZE_slice [OF fits] _ that] fits
      by (simp add: HMSG_MAX_SIZE_num)
    with Ok assms(2,3) i d l'(2,3) fetch_each_collects [of "c\<lparr>Client.stream := l'\<rparr>" d ifs "[]" r c']
    show ?thesis by (simp add: all_interfaces_def collect_all_def list_all_iff)
  qed (use assms(3) i d l'(2,3) in \<open>auto simp: all_interfaces_def collect_all_def\<close>)
qed

end
