(* ===== verification/Integration_Tests.thy ===== *)
theory Integration_Tests
  imports Daemon Decode_Tests
begin

text \<open>
  tests/integration.rs and tests/async\_integration.rs: the clients against a fake daemon over a
  socket. The thread of the server is a daemon in the sense of theory \<open>Daemon\<close>, whose state is
  whether its assertions hold so far; a test is a Boolean that is true when no assertion on
  either side fails. How the two threads are interleaved is the schedule, a parameter of the
  tests. The two files have the same helpers; the tests of the second are run over the same
  socket, as far as the model is concerned.
\<close>

section \<open>The helpers\<close>

definition mock_pad :: "bytes \<Rightarrow> bytes" where
  "mock_pad b = (let p = (8 - length b mod 8) mod 8 in b @ replicate p 0)"

definition mock_push_usize :: "bytes \<Rightarrow> usize \<Rightarrow> bytes" where
  "mock_push_usize b v = b @ word_to_le v"

definition mock_push_chunk :: "bytes \<Rightarrow> usize \<Rightarrow> bytes \<Rightarrow> bytes" where
  "mock_push_chunk b org body =
     (let b = mock_pad b;
          header_len = 2 * 8;
          b = b @ word_to_le org;
          b = b @ word_to_le (word_of_nat (header_len + length body) :: usize)
      in b @ body)"

definition mock_frame :: "i32 \<Rightarrow> bytes \<Rightarrow> bytes" where
  "mock_frame ty payload =
     (let out = zeros 4;
          out = copy_into out 0 (word_to_le ty);
          out = mock_pad out;
          out = mock_push_usize out (word_of_nat (length payload))
      in out @ payload)"

text \<open>What the server reads from the bytes of the client, of which a whole frame has arrived.\<close>

definition mock_read_frame :: "bytes \<Rightarrow> i32 \<times> bytes" where
  "mock_read_frame b =
     (let header_len = 4 + (8 - 4 mod 8) mod 8 + 8;
          header = take header_len b;
          ty = word_from_le (take 4 header);
          len_off = header_len - 8;
          len = unat (word_from_le (drop len_off header) :: usize)
      in (ty, take len (drop header_len b)))"

section \<open>The servers\<close>

definition mock_list_body :: bytes where
  "mock_list_body = mock_push_usize (mock_push_usize [] 2) 0"

definition mock_if_body :: bytes where
  "mock_if_body =
     mock_push_usize (mock_push_usize (mock_push_usize (mock_push_usize [] 0) 0) 3) 0"

definition mock_interfaces_payload :: bytes where
  "mock_interfaces_payload =
     (let payload = mock_push_chunk [] 1 mock_list_body;
          payload = mock_push_chunk payload 2 mock_if_body
      in mock_push_chunk payload 3 (ascii ''eth0'' @ [0]))"

definition mock_interfaces :: "bool daemon" where
  "mock_interfaces ok = (\<lambda>(ty, req_payload).
     ((3, mock_interfaces_payload), ok \<and> ty = 3 \<and> req_payload = []))"

definition mock_rejected :: "bool daemon" where
  "mock_rejected ok = (\<lambda>(ty, req_payload). ((0, []), ok))"

definition mock_set_port :: "bool daemon" where
  "mock_set_port ok = (\<lambda>(ty, req_payload).
     ((8, []), ok \<and> ty = 8 \<and> req_payload = set_port_capture))"

definition mock_socket :: "nat list \<Rightarrow> bool link" where
  "mock_socket ks = \<lparr>to_daemon = [], to_client = [], daemon_state = True, sched = ks\<rparr>"

section \<open>tests/integration.rs\<close>

definition test_connect_missing :: "(string \<Rightarrow> ('s, io_error) result) \<Rightarrow> bool" where
  "test_connect_missing dial =
     (case connect_to dial ''/nonexistent/rlldpctl-test.sock'' of Err (Io e) \<Rightarrow> True | _ \<Rightarrow> False)"

definition test_interfaces_round_trip :: "string \<Rightarrow> nat list \<Rightarrow> bool" where
  "test_interfaces_round_trip path ks =
     (case connect_to (\<lambda>_. Ok (mock_socket ks)) path of
        Ok client \<Rightarrow>
          (case interfaces (link_io mock_interfaces) client of
             (Ok ifs, client) \<Rightarrow>
               length ifs = 1 \<and> Interface.name (ifs ! 0) = ascii ''eth0'' \<and>
               Interface.alias' (ifs ! 0) = None \<and> daemon_state (Client.stream client)
           | _ \<Rightarrow> False)
      | _ \<Rightarrow> False)"

definition test_interface_not_found :: "string \<Rightarrow> nat list \<Rightarrow> bool" where
  "test_interface_not_found path ks =
     (case connect_to (\<lambda>_. Ok (mock_socket ks)) path of
        Ok client \<Rightarrow>
          (case interface_details (link_io mock_rejected) (ascii ''does-not-exist'') client of
             (Err RequestRejected, client) \<Rightarrow> daemon_state (Client.stream client)
           | _ \<Rightarrow> False)
      | _ \<Rightarrow> False)"

definition test_set_port_sent :: "string \<Rightarrow> nat list \<Rightarrow> bool" where
  "test_set_port_sent path ks =
     (case connect_to (\<lambda>_. Ok (mock_socket ks)) path of
        Ok client \<Rightarrow>
          (case set_port_description (link_io mock_set_port) (ascii ''eth0'')
              (ascii ''test-desc-XYZ'') client of
             (Ok u, client) \<Rightarrow> daemon_state (Client.stream client)
           | _ \<Rightarrow> False)
      | _ \<Rightarrow> False)"

definition test_set_port_rejected :: "string \<Rightarrow> nat list \<Rightarrow> bool" where
  "test_set_port_rejected path ks =
     (case connect_to (\<lambda>_. Ok (mock_socket ks)) path of
        Ok client \<Rightarrow>
          (case set_port_description (link_io mock_rejected) (ascii ''does-not-exist'')
              (ascii ''x'') client of
             (Err RequestRejected, client) \<Rightarrow> daemon_state (Client.stream client)
           | _ \<Rightarrow> False)
      | _ \<Rightarrow> False)"

section \<open>tests/async\_integration.rs\<close>

definition test_async_connect_missing :: "(string \<Rightarrow> ('s, io_error) result) \<Rightarrow> bool" where
  "test_async_connect_missing dial =
     (case async_connect_to dial ''/nonexistent/rlldpctl-async-test.sock'' of
        Err (Io e) \<Rightarrow> True | _ \<Rightarrow> False)"

definition test_async_interfaces_round_trip :: "string \<Rightarrow> nat list \<Rightarrow> bool" where
  "test_async_interfaces_round_trip path ks =
     (case async_connect_to (\<lambda>_. Ok (mock_socket ks)) path of
        Ok client \<Rightarrow>
          (case async_interfaces (link_io mock_interfaces) client of
             (Ok ifs, client) \<Rightarrow>
               length ifs = 1 \<and> Interface.name (ifs ! 0) = ascii ''eth0'' \<and>
               daemon_state (AsyncClient.stream client)
           | _ \<Rightarrow> False)
      | _ \<Rightarrow> False)"

definition test_async_set_port_sent :: "string \<Rightarrow> nat list \<Rightarrow> bool" where
  "test_async_set_port_sent path ks =
     (case async_connect_to (\<lambda>_. Ok (mock_socket ks)) path of
        Ok client \<Rightarrow>
          (case async_set_port_description (link_io mock_set_port) (ascii ''eth0'')
              (ascii ''test-desc-XYZ'') client of
             (Ok u, client) \<Rightarrow> daemon_state (AsyncClient.stream client)
           | _ \<Rightarrow> False)
      | _ \<Rightarrow> False)"

definition test_async_set_port_rejected :: "string \<Rightarrow> nat list \<Rightarrow> bool" where
  "test_async_set_port_rejected path ks =
     (case async_connect_to (\<lambda>_. Ok (mock_socket ks)) path of
        Ok client \<Rightarrow>
          (case async_set_port_description (link_io mock_rejected) (ascii ''does-not-exist'')
              (ascii ''x'') client of
             (Err RequestRejected, client) \<Rightarrow> daemon_state (AsyncClient.stream client)
           | _ \<Rightarrow> False)
      | _ \<Rightarrow> False)"

section \<open>The helpers agree with the transport\<close>

lemma mock_frame_eq: "mock_frame ty p = frame ty p"
  by (simp add: mock_frame_def frame_def copy_into_def mock_pad_def mock_push_usize_def Let_def
      zeros_def)

lemma mock_read_frame_eq:
  "16 \<le> length b \<Longrightarrow> mock_read_frame b = (frame_type b, take (frame_len b) (drop 16 b))"
  by (simp add: mock_read_frame_def frame_type_def frame_len_def Let_def drop_take min_def)

lemma mock_push_chunk_eq: "mock_push_chunk b org body = buf_chunk org body b"
  by (simp add: mock_push_chunk_def buf_chunk_def mock_pad_def buf_pad_def Let_def)

text \<open>One turn of a mock is one pass of its server: it reads a frame, and writes one.\<close>

lemma mock_turn:
  assumes "whole_frame (to_daemon l)"
    and "d (daemon_state l) (mock_read_frame (to_daemon l)) = ((ty, p), st)"
  shows "to_client (daemon_turn d l) = to_client l @ mock_frame ty p \<and>
    daemon_state (daemon_turn d l) = st"
  using assms mock_read_frame_eq [of "to_daemon l"]
  by (auto simp: daemon_turn_def Let_def whole_frame_def mock_frame_eq reply_frame_def)

section \<open>The tests pass, for every schedule\<close>

lemma mock_interfaces_message:
  "mock_interfaces_payload =
     put_interface_list (origins [(0, 1), (32, 2), (80, 3)])
       \<lparr>tqh_first = 2, tqh_last = 0\<rparr>
       [(\<lparr>next_tqe_next = 0, next_tqe_prev = 0, RawInterface.name = 3, alias' = 0\<rparr>,
         \<lparr>Interface.name = ascii ''eth0'', alias' = None\<rparr>)]"
proof -
  have l: "mock_list_body = pod_write RawInterfaceList_pod \<lparr>tqh_first = 2, tqh_last = 0\<rparr>"
    by (simp add: mock_list_body_def mock_push_usize_def RawInterfaceList_pod_def
        RawInterfaceList_to_bytes_def RawInterfaceList_contents_def RawInterfaceList_layout_def
        write_simps)
  have i: "mock_if_body = pod_write RawInterface_pod
      \<lparr>next_tqe_next = 0, next_tqe_prev = 0, RawInterface.name = 3, alias' = 0\<rparr>"
    by (simp add: mock_if_body_def mock_push_usize_def RawInterface_pod_def
        RawInterface_to_bytes_def RawInterface_contents_def RawInterface_layout_def write_simps)
  show ?thesis
    unfolding mock_interfaces_payload_def mock_push_chunk_eq l i
      raw_bytes_def [symmetric] buf_chunk_pod_def [symmetric] buf_cstring_def [symmetric]
    by (simp add: put_interface_list_def put_cstring_def align_up_def
        buf_calls [where m = "origins [(0, 1), (32, 2), (80, 3)]"] cong: let_weak_cong)
qed

lemma mock_interfaces_decoded:
  "decode_interfaces mock_interfaces_payload =
     Ok [\<lparr>Interface.name = ascii ''eth0'', alias' = None\<rparr>]"
  "length mock_interfaces_payload \<le> HMSG_MAX_SIZE"
proof -
  have "length mock_interfaces_payload = 101"
    by (simp add: mock_interfaces_message put_interface_list_def put_cstring_def align_up_def
        cong: let_weak_cong)
  moreover have "interfaces_image
      [(\<lparr>next_tqe_next = 0, next_tqe_prev = 0, RawInterface.name = 3, alias' = 0\<rparr>,
        \<lparr>Interface.name = ascii ''eth0'', alias' = None\<rparr>)]"
    by (simp add: interfaces_image_def interface_image_def points_to_def)
  ultimately show "decode_interfaces mock_interfaces_payload =
      Ok [\<lparr>Interface.name = ascii ''eth0'', alias' = None\<rparr>]"
    "length mock_interfaces_payload \<le> HMSG_MAX_SIZE"
    using interfaces_decoded [of _ "\<lparr>tqh_first = 2, tqh_last = 0\<rparr>"
        "origins [(0, 1), (32, 2), (80, 3)]" "[]"]
    by (simp_all add: mock_interfaces_message head_of_def bounds_num HMSG_MAX_SIZE_num)
qed

lemma mock_request:
  assumes "length p < 2 ^ 64" and "d True (hmsg_number ty, p) = (reply, True)"
    and "length (snd reply) \<le> HMSG_MAX_SIZE"
  obtains l where "request (link_io d) ty p (mock_socket ks) =
      (check_reply ty (fst reply) (snd reply), l)" "daemon_state l"
  using link_request [of "mock_socket ks" p d ty reply True] assms
  by (auto simp: mock_socket_def link_idle_def)

lemma request_lengths:
  "length (encode_interface_name_request nm) = 17 + length nm"
  "length (encode_set_port_description_request nm descr) = align_up (97 + length nm) 8 + 33 + length descr"
  by (simp_all add: encode_interface_name_request_def encode_set_port_description_request_def Let_def
      Cursor.PTR_SIZE_def length_push_string_chunk length_port_set_bytes align_up_def)

lemma connect_mock:
  "connect_to (\<lambda>_. Ok s) path = Ok \<lparr>Client.stream = s, socket_path = path\<rparr>"
  "async_connect_to (\<lambda>_. Ok s) path = Ok \<lparr>AsyncClient.stream = s, socket_path = path\<rparr>"
  by (simp_all add: connect_to_def async_connect_to_def)

lemma integration_tests:
  "dial ''/nonexistent/rlldpctl-test.sock'' = Err e \<Longrightarrow> test_connect_missing dial"
  "test_interfaces_round_trip path ks" "test_interface_not_found path ks"
  "test_set_port_sent path ks" "test_set_port_rejected path ks"
proof -
  show "dial ''/nonexistent/rlldpctl-test.sock'' = Err e \<Longrightarrow> test_connect_missing dial"
    by (simp add: test_connect_missing_def connect_to_def)
  obtain l where "request (link_io mock_interfaces) GetInterfaces [] (mock_socket ks) =
      (check_reply GetInterfaces 3 mock_interfaces_payload, l)" "daemon_state l"
    by (rule mock_request [of "[]" mock_interfaces GetInterfaces "(3, mock_interfaces_payload)"])
      (simp_all add: mock_interfaces_def mock_interfaces_decoded)
  then show "test_interfaces_round_trip path ks"
    by (simp add: test_interfaces_round_trip_def connect_mock interfaces_def check_reply_def
        hmsg_matches_def mock_interfaces_decoded)
  have rejected: "\<exists>l. request (link_io mock_rejected) ty p (mock_socket ks) = (Err RequestRejected, l) \<and>
      daemon_state l" if "length p < 2 ^ 64" for ty p
    using that by (rule mock_request [of p mock_rejected ty "(0, [])" ks])
      (simp_all add: mock_rejected_def check_reply_def)
  have n: "length (encode_interface_name_request (ascii ''does-not-exist'')) < 2 ^ 64"
    "length (encode_set_port_description_request (ascii ''does-not-exist'') (ascii ''x'')) < 2 ^ 64"
    by (simp_all add: request_lengths align_up_def)
  show "test_interface_not_found path ks"
    using rejected [OF n(1), of GetInterface]
    by (auto simp: test_interface_not_found_def connect_mock interface_details_def)
  show "test_set_port_rejected path ks"
    using rejected [OF n(2), of SetPort]
    by (auto simp: test_set_port_rejected_def connect_mock set_port_description_def)
  obtain l where "request (link_io mock_set_port) SetPort set_port_capture (mock_socket ks) =
      (check_reply SetPort 8 [], l)" "daemon_state l"
    by (rule mock_request [of set_port_capture mock_set_port SetPort "(8, [])"])
      (simp_all add: mock_set_port_def set_port_capture_def)
  then show "test_set_port_sent path ks"
    by (simp add: test_set_port_sent_def connect_mock set_port_description_def check_reply_def
        hmsg_matches_def set_port_capture_encoded)
qed

text \<open>The tests of the tokio client follow, since over one socket it does what the other does.\<close>

lemma async_integration_tests:
  "dial ''/nonexistent/rlldpctl-async-test.sock'' = Err e \<Longrightarrow> test_async_connect_missing dial"
  "test_async_interfaces_round_trip path ks" "test_async_set_port_sent path ks"
  "test_async_set_port_rejected path ks"
proof -
  show "dial ''/nonexistent/rlldpctl-async-test.sock'' = Err e \<Longrightarrow> test_async_connect_missing dial"
    by (simp add: test_async_connect_missing_def async_connect_to_def)
  let ?c = "\<lparr>AsyncClient.stream = mock_socket ks, socket_path = path\<rparr>"
  have b: "blocking ?c = \<lparr>Client.stream = mock_socket ks, socket_path = path\<rparr>"
    by (simp add: blocking_def)
  show "test_async_interfaces_round_trip path ks"
    using integration_tests(2) [of path ks] async_interfaces_eq [of "link_io mock_interfaces" ?c]
    by (cases "async_interfaces (link_io mock_interfaces) ?c")
      (auto simp: test_interfaces_round_trip_def test_async_interfaces_round_trip_def connect_mock b
        split: result.splits)
  show "test_async_set_port_sent path ks"
    using integration_tests(4) [of path ks]
      async_set_port_description_eq [of "link_io mock_set_port" "ascii ''eth0''"
        "ascii ''test-desc-XYZ''" ?c]
    by (cases "async_set_port_description (link_io mock_set_port) (ascii ''eth0'')
        (ascii ''test-desc-XYZ'') ?c")
      (auto simp: test_set_port_sent_def test_async_set_port_sent_def connect_mock b
        split: result.splits)
  show "test_async_set_port_rejected path ks"
    using integration_tests(5) [of path ks]
      async_set_port_description_eq [of "link_io mock_rejected" "ascii ''does-not-exist''"
        "ascii ''x''" ?c]
    by (cases "async_set_port_description (link_io mock_rejected) (ascii ''does-not-exist'')
        (ascii ''x'') ?c")
      (auto simp: test_set_port_rejected_def test_async_set_port_rejected_def connect_mock b
        split: result.splits error.splits)
qed

end
