(* ===== verification/Real_Daemon_Tests.thy ===== *)
theory Real_Daemon_Tests
  imports Sessions Format Layouts
begin

text \<open>
  tests/real\_lldpd.rs: the tests against two lldpd processes, which ask again and again until a
  neighbor is known or five seconds are over. The environment variables, the files of sysfs, the
  opening of the sockets and the time that passes are parameters. A failed assertion,
  \<open>expect\<close> or \<open>panic!\<close> is \<open>Panic\<close>.

  The loops of the tests ask the clock, so they are partial functions; the interface \<open>timer\<close> is
  what they need of it. The last part has the daemons the tests are run against, with what they
  know of each other in their memory, and shows that the tests decide just that.
\<close>

section \<open>Settings\<close>

definition enabled :: "(string \<Rightarrow> string option) \<Rightarrow> bool" where
  "enabled env \<longleftrightarrow> env ''RLLDPCTL_REAL_LLDPD'' \<noteq> None"

definition env_or :: "(string \<Rightarrow> string option) \<Rightarrow> string \<Rightarrow> string \<Rightarrow> string" where
  "env_or env nm dflt = (case env nm of Some v \<Rightarrow> v | None \<Rightarrow> dflt)"

section \<open>The address of a network device\<close>

text \<open>
  The standard library's \<open>trim\<close> and \<open>split\<close>, on ASCII text, and \<open>u8::from_str_radix\<close>, base 16: a
  leading plus sign is allowed, the value must fit.
\<close>

definition is_space :: "char \<Rightarrow> bool" where
  "is_space ch \<longleftrightarrow> 9 \<le> (of_char ch :: nat) \<and> (of_char ch :: nat) \<le> 13 \<or> (of_char ch :: nat) = 32"

definition trim :: "string \<Rightarrow> string" where
  "trim s = rev (dropWhile is_space (rev (dropWhile is_space s)))"

fun split_on :: "char \<Rightarrow> string \<Rightarrow> string list" where
  "split_on sep [] = [[]]"
| "split_on sep (ch # s) =
     (if ch = sep then [] # split_on sep s
      else case split_on sep s of [] \<Rightarrow> [[ch]] | p # ps \<Rightarrow> (ch # p) # ps)"

definition hex_digit :: "char \<Rightarrow> nat option" where
  "hex_digit ch =
     (let n = of_char ch :: nat in
      if 48 \<le> n \<and> n \<le> 57 then Some (n - 48)
      else if 97 \<le> n \<and> n \<le> 102 then Some (n - 87)
      else if 65 \<le> n \<and> n \<le> 70 then Some (n - 55)
      else None)"

fun hex_value :: "nat \<Rightarrow> string \<Rightarrow> nat option" where
  "hex_value acc [] = Some acc"
| "hex_value acc (ch # s) =
     (case hex_digit ch of
        None \<Rightarrow> None
      | Some v \<Rightarrow> if acc * 16 + v < 256 then hex_value (acc * 16 + v) s else None)"

definition u8_from_hex :: "string \<Rightarrow> u8 option" where
  "u8_from_hex s =
     (if s = [] \<or> s = ''+'' then None
      else map_option word_of_nat
        (hex_value 0 (if hd s = CHR ''+'' then tl s else s)))"

fun set_octets :: "nat \<Rightarrow> string list \<Rightarrow> bytes \<Rightarrow> bytes res" where
  "set_octets i [] mac = Ok mac"
| "set_octets i (part # parts) mac =
     (case u8_from_hex part of
        None \<Rightarrow> Panic
      | Some v \<Rightarrow>
          if i < length mac then set_octets (Suc i) parts (mac[i := v]) else Panic)"

definition real_mac_address :: "(string \<Rightarrow> (string, io_error) result) \<Rightarrow> string \<Rightarrow> bytes res" where
  "real_mac_address files iface =
     (case files (''/sys/class/net/'' @ iface @ ''/address'') of
        Ok raw \<Rightarrow> set_octets 0 (split_on (CHR '':'') (trim raw)) (replicate 6 0)
      | _ \<Rightarrow> Panic)"

definition neighbor_matches_peer :: "InterfaceDetails \<Rightarrow> bytes \<Rightarrow> bool" where
  "neighbor_matches_peer details peer_mac \<longleftrightarrow>
     neighbors details \<noteq> [] \<and>
     id_subtype (Neighbor.chassis (neighbors details ! 0)) = ChassisIdSubtype.MacAddress \<and>
     Chassis.id' (Neighbor.chassis (neighbors details ! 0)) = peer_mac \<and>
     port_id (neighbors details ! 0) = peer_mac"

section \<open>Asking until there is a neighbor\<close>

text \<open>Times are in milliseconds.\<close>

definition POLL_TIMEOUT :: nat where
  "POLL_TIMEOUT = 5000"

definition POLL_INTERVAL :: nat where
  "POLL_INTERVAL = 100"

partial_function (option) poll_loop ::
  "('w \<Rightarrow> nat) \<Rightarrow> (nat \<Rightarrow> 'w \<Rightarrow> 'w) \<Rightarrow> ('w \<Rightarrow> InterfaceDetails res \<times> 'w) \<Rightarrow> nat \<Rightarrow> 'w \<Rightarrow>
   (InterfaceDetails res \<times> 'w) option" where
  "poll_loop now sleep fetch deadline w =
     (case fetch w of (outcome, w) \<Rightarrow>
        let timed_out = deadline \<le> now w in
        case outcome of
          Ok details \<Rightarrow>
            if neighbors details \<noteq> [] then Some (Ok details, w)
            else if timed_out then Some (Ok details, w)
            else poll_loop now sleep fetch deadline (sleep POLL_INTERVAL w)
        | Err e \<Rightarrow>
            if timed_out then Some (Panic, w)
            else poll_loop now sleep fetch deadline (sleep POLL_INTERVAL w)
        | Panic \<Rightarrow> Some (Panic, w))"

definition poll_until_neighbor ::
  "('w \<Rightarrow> nat) \<Rightarrow> (nat \<Rightarrow> 'w \<Rightarrow> 'w) \<Rightarrow> ('w \<Rightarrow> InterfaceDetails res \<times> 'w) \<Rightarrow> 'w \<Rightarrow>
   (InterfaceDetails res \<times> 'w) option" where
  "poll_until_neighbor now sleep fetch w =
     (let deadline = now w + POLL_TIMEOUT in poll_loop now sleep fetch deadline w)"

declare poll_loop.simps [simp del]

text \<open>The reference: the attempts one after the other, and when an attempt is the last.\<close>

definition next_attempt ::
  "(nat \<Rightarrow> 'w \<Rightarrow> 'w) \<Rightarrow> ('w \<Rightarrow> InterfaceDetails res \<times> 'w) \<Rightarrow> 'w \<Rightarrow> 'w" where
  "next_attempt sleep fetch w = sleep POLL_INTERVAL (snd (fetch w))"

definition last_attempt ::
  "('w \<Rightarrow> nat) \<Rightarrow> ('w \<Rightarrow> InterfaceDetails res \<times> 'w) \<Rightarrow> nat \<Rightarrow> 'w \<Rightarrow> bool" where
  "last_attempt now fetch deadline w \<longleftrightarrow>
     (case fst (fetch w) of Ok details \<Rightarrow> neighbors details \<noteq> [] | Err e \<Rightarrow> False | Panic \<Rightarrow> True) \<or>
     deadline \<le> now (snd (fetch w))"

fun polled :: "InterfaceDetails res \<times> 'w \<Rightarrow> InterfaceDetails res \<times> 'w" where
  "polled (Err e, w) = (Panic, w)"
| "polled r = r"

lemma poll_loop_step:
  "poll_loop now sleep fetch deadline w =
     (if last_attempt now fetch deadline w then Some (polled (fetch w))
      else poll_loop now sleep fetch deadline (next_attempt sleep fetch w))"
  by (subst poll_loop.simps)
    (auto simp: last_attempt_def next_attempt_def Let_def split: prod.split result.split)

lemma poll_loop_attempts:
  assumes "last_attempt now fetch deadline ((next_attempt sleep fetch ^^ k) w)"
    and "\<forall>i < k. \<not> last_attempt now fetch deadline ((next_attempt sleep fetch ^^ i) w)"
  shows "poll_loop now sleep fetch deadline w =
    Some (polled (fetch ((next_attempt sleep fetch ^^ k) w)))"
  using assms
proof (induction k arbitrary: w)
  case 0
  then show ?case by (simp add: poll_loop_step [of now sleep fetch deadline w])
next
  case (Suc k)
  let ?w = "next_attempt sleep fetch w"
  have "\<not> last_attempt now fetch deadline w" using Suc.prems(2) by force
  moreover have "poll_loop now sleep fetch deadline ?w =
      Some (polled (fetch ((next_attempt sleep fetch ^^ k) ?w)))"
  proof (rule Suc.IH)
    show "last_attempt now fetch deadline ((next_attempt sleep fetch ^^ k) ?w)"
      using Suc.prems(1) by (simp add: funpow_swap1)
    show "\<forall>i < k. \<not> last_attempt now fetch deadline ((next_attempt sleep fetch ^^ i) ?w)"
      using Suc.prems(2) by (metis Suc_less_eq funpow_Suc_right o_apply)
  qed
  ultimately show ?case
    by (simp add: poll_loop_step [of now sleep fetch deadline w] funpow_swap1)
qed

section \<open>The loop ends\<close>

text \<open>A clock that a call does not turn back, and that a sleep moves on by at least its length.\<close>

locale timer =
  fixes now :: "'w \<Rightarrow> nat" and sleep :: "nat \<Rightarrow> 'w \<Rightarrow> 'w"
    and fetch :: "'w \<Rightarrow> InterfaceDetails res \<times> 'w"
  assumes fetch_forward: "now w \<le> now (snd (fetch w))"
    and sleep_forward: "now w + n \<le> now (sleep n w)"
begin

lemma attempts_forward: "now w + 100 * k \<le> now ((next_attempt sleep fetch ^^ k) w)"
proof (induction k)
  case (Suc k)
  let ?w = "(next_attempt sleep fetch ^^ k) w"
  have "now (snd (fetch ?w)) + POLL_INTERVAL \<le> now (next_attempt sleep fetch ?w)"
    by (simp add: next_attempt_def sleep_forward)
  with Suc fetch_forward [of ?w] show ?case by (simp add: POLL_INTERVAL_def)
qed simp

lemma attempts_end:
  "\<exists>k \<le> 50. last_attempt now fetch (now w + POLL_TIMEOUT) ((next_attempt sleep fetch ^^ k) w) \<and>
    (\<forall>i < k. \<not> last_attempt now fetch (now w + POLL_TIMEOUT) ((next_attempt sleep fetch ^^ i) w))"
proof -
  let ?P = "\<lambda>k. last_attempt now fetch (now w + POLL_TIMEOUT) ((next_attempt sleep fetch ^^ k) w)"
  have "?P 50"
    using attempts_forward [of w 50] fetch_forward [of "(next_attempt sleep fetch ^^ 50) w"]
    by (auto simp: last_attempt_def POLL_TIMEOUT_def)
  then have "?P (LEAST k. ?P k)" "(LEAST k. ?P k) \<le> 50"
    by (rule LeastI, rule Least_le)
  with not_less_Least [where P = ?P] show ?thesis by blast
qed

lemma poll_ends:
  "\<exists>k \<le> 50. poll_until_neighbor now sleep fetch w =
      Some (polled (fetch ((next_attempt sleep fetch ^^ k) w))) \<and>
    last_attempt now fetch (now w + POLL_TIMEOUT) ((next_attempt sleep fetch ^^ k) w) \<and>
    (\<forall>i < k. \<not> last_attempt now fetch (now w + POLL_TIMEOUT) ((next_attempt sleep fetch ^^ i) w))"
  using attempts_end [of w]
    poll_loop_attempts [where now = now and fetch = fetch
      and sleep = sleep and deadline = "now w + POLL_TIMEOUT" and w = w]
  by (auto simp: poll_until_neighbor_def)

end

section \<open>A client and the time\<close>

text \<open>
  \<open>delays\<close> is how long the calls to come take, \<open>oversleeps\<close> how much longer the sleeps to come last
  than they were asked to; behind their ends nothing is added.
\<close>

record 'c timed =
  client :: 'c
  time :: nat
  delays :: "nat list"
  oversleeps :: "nat list"

definition timed_now :: "'c timed \<Rightarrow> nat" where
  "timed_now w = time w"

definition timed_sleep :: "nat \<Rightarrow> 'c timed \<Rightarrow> 'c timed" where
  "timed_sleep n w = w\<lparr>time := time w + n + (case oversleeps w of [] \<Rightarrow> 0 | x # xs \<Rightarrow> x),
     oversleeps := tl (oversleeps w)\<rparr>"

definition timed_fetch ::
  "('c \<Rightarrow> InterfaceDetails res \<times> 'c) \<Rightarrow> 'c timed \<Rightarrow> InterfaceDetails res \<times> 'c timed" where
  "timed_fetch fetch w =
     (case fetch (client w) of (r, c) \<Rightarrow>
        (r, w\<lparr>client := c, time := time w + (case delays w of [] \<Rightarrow> 0 | x # xs \<Rightarrow> x),
          delays := tl (delays w)\<rparr>))"

interpretation timed: timer timed_now timed_sleep "timed_fetch fetch"
  for fetch :: "'c \<Rightarrow> InterfaceDetails res \<times> 'c"
  by unfold_locales
    (simp_all add: timed_now_def timed_sleep_def timed_fetch_def split: prod.split)

definition poll_client ::
  "('c \<Rightarrow> InterfaceDetails res \<times> 'c) \<Rightarrow> 'c timed \<Rightarrow> (InterfaceDetails res \<times> 'c timed) option" where
  "poll_client fetch = poll_until_neighbor timed_now timed_sleep (timed_fetch fetch)"

definition poll_until_neighbor_async ::
  "'s io \<Rightarrow> rstring \<Rightarrow> 's AsyncClient timed \<Rightarrow>
   (InterfaceDetails res \<times> 's AsyncClient timed) option" where
  "poll_until_neighbor_async io ifn w = poll_client (async_interface io ifn) w"

section \<open>The tests\<close>

text \<open>The time, with what it will bring, goes on from one client to the next.\<close>

definition at_time :: "'c timed \<Rightarrow> 'd \<Rightarrow> 'd timed" where
  "at_time w c = \<lparr>client = c, time = time w, delays = delays w, oversleeps = oversleeps w\<rparr>"

definition test_real_lldpd ::
  "(string \<Rightarrow> string option) \<Rightarrow> (string \<Rightarrow> (string, io_error) result) \<Rightarrow>
   (string \<Rightarrow> ('s, io_error) result) \<Rightarrow> 's io \<Rightarrow> unit timed \<Rightarrow> bool" where
  "test_real_lldpd env files dial io start =
     (if \<not> enabled env then True
      else
        let sock_a = env_or env ''RLLDPCTL_SOCK_A'' ''/run/lldpd-a.sock'';
            sock_b = env_or env ''RLLDPCTL_SOCK_B'' ''/run/lldpd-b.sock'';
            iface_a = env_or env ''RLLDPCTL_IFACE_A'' ''veth-a'';
            iface_b = env_or env ''RLLDPCTL_IFACE_B'' ''veth-b''
        in case (real_mac_address files iface_a, real_mac_address files iface_b,
             connect_to dial sock_a, connect_to dial sock_b) of
          (Ok mac_a, Ok mac_b, Ok client_a, Ok client_b) \<Rightarrow>
            (case poll_client (interface_details io (ascii iface_a)) (at_time start client_a) of
               Some (Ok details_a, w) \<Rightarrow>
                 (case poll_client (interface_details io (ascii iface_b)) (at_time w client_b) of
                    Some (Ok details_b, w) \<Rightarrow>
                      neighbor_matches_peer details_a mac_b \<and> neighbor_matches_peer details_b mac_a
                  | _ \<Rightarrow> False)
             | _ \<Rightarrow> False)
        | _ \<Rightarrow> False)"

definition test_async_real_lldpd ::
  "(string \<Rightarrow> string option) \<Rightarrow> (string \<Rightarrow> (string, io_error) result) \<Rightarrow>
   (string \<Rightarrow> ('s, io_error) result) \<Rightarrow> 's io \<Rightarrow> unit timed \<Rightarrow> bool" where
  "test_async_real_lldpd env files dial io start =
     (if \<not> enabled env then True
      else
        let sock_a = env_or env ''RLLDPCTL_SOCK_A'' ''/run/lldpd-a.sock'';
            sock_b = env_or env ''RLLDPCTL_SOCK_B'' ''/run/lldpd-b.sock'';
            iface_a = env_or env ''RLLDPCTL_IFACE_A'' ''veth-a'';
            iface_b = env_or env ''RLLDPCTL_IFACE_B'' ''veth-b''
        in case (real_mac_address files iface_a, real_mac_address files iface_b,
             async_connect_to dial sock_a, async_connect_to dial sock_b) of
          (Ok mac_a, Ok mac_b, Ok client_a, Ok client_b) \<Rightarrow>
            (case poll_until_neighbor_async io (ascii iface_a) (at_time start client_a) of
               Some (Ok details_a, w) \<Rightarrow>
                 (case poll_until_neighbor_async io (ascii iface_b) (at_time w client_b) of
                    Some (Ok details_b, w) \<Rightarrow>
                      neighbor_matches_peer details_a mac_b \<and> neighbor_matches_peer details_b mac_a
                  | _ \<Rightarrow> False)
             | _ \<Rightarrow> False)
        | _ \<Rightarrow> False)"

section \<open>An address as the kernel writes it is read back\<close>

lemma hex_char_code: "n < 16 \<Longrightarrow> of_char (hex_char n) = (if n < 10 then 48 + n else 87 + n)"
  by (simp add: hex_char_def)

lemma hex_chars:
  assumes "n < 16"
  shows "hex_digit (hex_char n) = Some n" "\<not> is_space (hex_char n)" "hex_char n \<noteq> CHR '':''"
    "hex_char n \<noteq> CHR ''+''"
proof -
  note code = hex_char_code [OF assms]
  show "hex_digit (hex_char n) = Some n" "\<not> is_space (hex_char n)"
    using assms by (auto simp: hex_digit_def is_space_def code)
  have "of_char (CHR '':'') = (58 :: nat)" "of_char (CHR ''+'') = (43 :: nat)" by simp_all
  with code assms show "hex_char n \<noteq> CHR '':''" "hex_char n \<noteq> CHR ''+''"
    by (auto split: if_splits dest: arg_cong [of _ _ "of_char :: char \<Rightarrow> nat"])
qed

lemma octet_digits: "unat (b :: u8) div 16 < 16" "unat b mod 16 < 16" "unat b < 256"
proof -
  have "unat b < 2 ^ LENGTH(8)" by (rule unsigned_less)
  then show "unat b div 16 < 16" "unat b mod 16 < 16" "unat b < 256" by simp_all
qed

lemma u8_from_hex2: "u8_from_hex (hex2 b) = Some b"
proof -
  have "unat b div 16 * 16 + unat b mod 16 = unat b" by simp
  then show ?thesis
    using octet_digits [of b] hex_chars [OF octet_digits(1) [of b]] hex_chars [OF octet_digits(2) [of b]]
    by (simp add: u8_from_hex_def hex2_def)
qed

lemma split_on_simple:
  "sep \<notin> set x \<Longrightarrow> split_on sep x = [x]"
  "sep \<notin> set x \<Longrightarrow> split_on sep (x @ sep # y) = x # split_on sep y"
  by (induction x) auto

definition mac_text :: "bytes \<Rightarrow> string" where
  "mac_text mac = join '':'' (map hex2 mac) @ [CHR 0x0A]"

lemma hex2_chars: "ch \<in> set (hex2 b) \<Longrightarrow> \<not> is_space ch \<and> ch \<noteq> CHR '':''"
  using hex_chars [OF octet_digits(1) [of b]] hex_chars [OF octet_digits(2) [of b]]
  by (auto simp: hex2_def)

lemma real_mac_address_read:
  assumes "files (''/sys/class/net/'' @ iface @ ''/address'') = Ok (mac_text mac)" and "length mac = 6"
  shows "real_mac_address files iface = Ok mac"
proof -
  from assms(2) obtain a b c d e f where mac: "mac = [a, b, c, d, e, f]"
    by (auto simp: numeral_eq_Suc length_Suc_conv)
  let ?t = "join '':'' (map hex2 mac)"
  have col: "CHR '':'' \<notin> set (hex2 x)" for x using hex2_chars by blast
  have "split_on (CHR '':'') ?t = map hex2 mac"
    using split_on_simple [OF col] by (simp add: mac)
  moreover have "trim (?t @ [CHR 0x0A]) = ?t"
  proof -
    obtain h1 h2 t1 t2 rest where h: "hex2 a = [h1, h2]" and t: "hex2 f = [t1, t2]"
      by (simp add: hex2_def)
    then have "\<not> is_space h1" "\<not> is_space t2" using hex2_chars [of h1 a] hex2_chars [of t2 f] by auto
    moreover have "is_space (CHR 0x0A)" by code_simp
    ultimately show ?thesis by (simp add: trim_def mac h t)
  qed
  ultimately show ?thesis
    using assms(1) by (simp add: real_mac_address_def mac_text_def) (simp add: mac u8_from_hex2 numeral_eq_Suc)
qed

section \<open>The daemons behind the tests\<close>

text \<open>
  What lldpd has about the peer in its memory: the first neighbor of the interface has the
  address as identifier of its port, and its chassis has it as an identifier of the subtype for
  addresses, 4.
\<close>

fun heard :: "memory \<Rightarrow> port_mem list \<Rightarrow> bytes \<Rightarrow> bool" where
  "heard mem [] mac \<longleftrightarrow> False"
| "heard mem (x # xs) mac \<longleftrightarrow> p_ident x = Some mac \<and>
     (let ch = mem (p_chassis (p_raw x)) in
      c_id_subtype (c_raw ch) = 4 \<and> Chassis.id' (c_value ch) = mac)"

text \<open>An answer before the daemons have heard of each other.\<close>

inductive quiet :: "answer \<Rightarrow> bool" where
  no_interface: "quiet (Gone p)"
| no_neighbor: "hardware_message mem [] p d \<Longrightarrow> quiet (Details p)"

text \<open>Whether \<open>n\<close> such answers are read before the time is over, whatever the calls take.\<close>

definition in_time :: "'c timed \<Rightarrow> nat \<Rightarrow> bool" where
  "in_time w n \<longleftrightarrow> n = 0 \<or>
     sum_list (delays w) + sum_list (oversleeps w) + POLL_INTERVAL * n \<le> POLL_TIMEOUT"

lemma ChassisIdSubtype_from_4: "ChassisIdSubtype_from v = ChassisIdSubtype.MacAddress \<longleftrightarrow> v = 4"
  by (simp add: ChassisIdSubtype_from_def)

lemma heard_matches:
  assumes "hardware_message mem ns p d" and "mac \<noteq> []"
  shows "neighbor_matches_peer d mac \<longleftrightarrow> heard mem ns mac"
proof (cases ns)
  case Nil
  with hardware_message_neighbors [OF assms(1)] show ?thesis by (simp add: neighbor_matches_peer_def)
next
  case (Cons x xs)
  have "memory_image mem" "neighbors_image ns"
    using assms(1) by (auto elim: hardware_message.cases simp: hardware_image_def)
  with Cons have "chassis_image (mem (p_chassis (p_raw x)))"
    by (simp add: memory_image_def neighbors_image_def)
  then have st: "id_subtype (c_value (mem (p_chassis (p_raw x)))) =
      ChassisIdSubtype_from (c_id_subtype (c_raw (mem (p_chassis (p_raw x)))))"
    by (simp add: chassis_image_def Let_def)
  show ?thesis
    using assms(2) Cons
    by (cases "p_ident x")
      (auto simp: neighbor_matches_peer_def hardware_message_neighbors [OF assms(1)]
        neighbor_value_def st ChassisIdSubtype_from_4 or_default_def Let_def)
qed

lemma quiet_answer:
  assumes "quiet a" and "answer_fits a"
  shows "case a of Gone p \<Rightarrow> True | Details p \<Rightarrow> \<exists>d. decode_hardware p = Ok d \<and> neighbors d = []"
  using assms
proof cases
  case (no_neighbor mem p d)
  have "decode_hardware p = Ok d"
    using assms(2) no_neighbor
    by (intro hardware_reply_decoded HMSG_MAX_SIZE_slice) (simp_all add: answer_fits_def)
  with hardware_message_neighbors [OF no_neighbor(2)] no_neighbor(1) show ?thesis by simp
qed simp

section \<open>The tests decide whether the daemons have heard of each other\<close>

text \<open>
  A method of either client: \<open>view\<close> is the blocking client with the same state. The loop reads
  the answers without a neighbor one by one, and returns the first one with a neighbor.
\<close>

definition time_left :: "'c timed \<Rightarrow> nat" where
  "time_left w = sum_list (delays w) + sum_list (oversleeps w)"

lemma timed_round:
  assumes "fetch (client w) = (r, c1)"
  shows "timed_fetch fetch w = (r, w\<lparr>client := c1, time := time w + (case delays w of [] \<Rightarrow> 0 | x # xs \<Rightarrow> x),
      delays := tl (delays w)\<rparr>)"
    and "time (snd (timed_fetch fetch w)) \<le> time w + time_left w"
    and "client (next_attempt timed_sleep (timed_fetch fetch) w) = c1"
    and "time (next_attempt timed_sleep (timed_fetch fetch) w) +
      time_left (next_attempt timed_sleep (timed_fetch fetch) w) =
      time w + time_left w + POLL_INTERVAL"
    and "time_left (next_attempt timed_sleep (timed_fetch fetch) w) \<le> time_left w"
    and "time_left (snd (timed_fetch fetch w)) \<le> time_left w"
  using assms
  by (cases "delays w"; cases "oversleeps w";
      simp add: timed_fetch_def next_attempt_def timed_sleep_def time_left_def)+

context byte_stream
begin

lemma poll_rounds:
  assumes view: "\<And>c. interface_details io ifn (view c) = map_prod id view (fetch c)"
    and "decode_hardware p = Ok d" "neighbors d \<noteq> []" "length p \<le> HMSG_MAX_SIZE"
  shows "fair (Client.stream (view (client w))) \<Longrightarrow>
    incoming (Client.stream (view (client w))) = concat (map answer_frame early) @ frame 6 p @ rest \<Longrightarrow>
    list_all quiet early \<Longrightarrow> list_all answer_fits early \<Longrightarrow>
    early = [] \<or> time w + time_left w + POLL_INTERVAL * length early \<le> deadline \<Longrightarrow>
    \<exists>w'. poll_loop timed_now timed_sleep (timed_fetch fetch) deadline w = Some (Ok d, w') \<and>
      time_left w' \<le> time_left w"
proof (induction early arbitrary: w)
  case Nil
  obtain c1 where "interface_details io ifn (view (client w)) = (Ok d, c1)"
    using interface_details_answered [of "view (client w)" "Details p" rest ifn] Nil assms
    by (auto simp: answer_fits_def)
  then obtain c2 where c2: "fetch (client w) = (Ok d, c2)"
    using view [of "client w"] by (cases "fetch (client w)") auto
  have "last_attempt timed_now (timed_fetch fetch) deadline w"
    using assms(3) by (simp add: last_attempt_def timed_round(1) [of fetch, OF c2])
  with timed_round(6) [of fetch, OF c2] show ?case
    by (simp add: poll_loop_step timed_round(1) [of fetch, OF c2])
next
  case (Cons a early)
  let ?w = "next_attempt timed_sleep (timed_fetch fetch) w"
  define r where "r = (case a of Details p \<Rightarrow> decode_hardware p | Gone p \<Rightarrow> Err RequestRejected)"
  obtain c1 where c1: "interface_details io ifn (view (client w)) = (r, c1)"
    "fair (Client.stream c1)"
    "incoming (Client.stream c1) = concat (map answer_frame early) @ frame 6 p @ rest"
    by (rule interface_details_answered [of "view (client w)" a
        "concat (map answer_frame early) @ frame 6 p @ rest" ifn, folded r_def])
      (use Cons.prems in simp_all)
  obtain c2 where c2: "fetch (client w) = (r, c2)" and v: "view c2 = c1"
    using view [of "client w"] c1(1) by (cases "fetch (client w)") auto
  note round = timed_round [of fetch, OF c2]
  have "time (snd (timed_fetch fetch w)) < deadline"
    using round(2) Cons.prems(5) by (simp add: POLL_INTERVAL_def)
  moreover have "(\<exists>d. r = Ok d \<and> neighbors d = []) \<or> (\<exists>e. r = Err e)"
    using quiet_answer [of a] Cons.prems(3,4) by (cases a) (auto simp: r_def)
  ultimately have "\<not> last_attempt timed_now (timed_fetch fetch) deadline w"
    using round(1) by (auto simp: last_attempt_def timed_now_def)
  then have step: "poll_loop timed_now timed_sleep (timed_fetch fetch) deadline w =
      poll_loop timed_now timed_sleep (timed_fetch fetch) deadline ?w"
    by (simp add: poll_loop_step [of _ _ _ _ w])
  have "early = [] \<or> time ?w + time_left ?w + POLL_INTERVAL * length early \<le> deadline"
    using round(4) Cons.prems(5) by (simp add: algebra_simps)
  then have "\<exists>w'. poll_loop timed_now timed_sleep (timed_fetch fetch) deadline ?w = Some (Ok d, w') \<and>
      time_left w' \<le> time_left ?w"
    using Cons.prems c1(2,3) by (intro Cons.IH) (simp_all add: round(3) v)
  with step round(5) show ?case by fastforce
qed

lemma poll_served:
  assumes "\<And>c. interface_details io ifn (view c) = map_prod id view (fetch c)"
    and "fair (Client.stream (view c))"
    and "incoming (Client.stream (view c)) = concat (map answer_frame early) @ frame 6 p @ rest"
    and "list_all quiet early" and "list_all answer_fits early" and "in_time t (length early)"
    and "hardware_message mem ns p d" "ns \<noteq> []" "length p \<le> HMSG_MAX_SIZE"
  obtains w where "poll_client fetch (at_time t c) = Some (Ok d, w)" "time_left w \<le> time_left t"
proof -
  have "decode_hardware p = Ok d" "neighbors d \<noteq> []"
    using assms(7-9) by (auto dest: hardware_reply_decoded hardware_message_neighbors
        HMSG_MAX_SIZE_slice)
  then have "\<exists>w'. poll_loop timed_now timed_sleep (timed_fetch fetch) (time t + POLL_TIMEOUT)
      (at_time t c) = Some (Ok d, w') \<and> time_left w' \<le> time_left (at_time t c)"
    using assms(2-6)
    by (intro poll_rounds [where view = view and ifn = ifn and early = early and rest = rest,
          OF assms(1) _ _ assms(9)])
      (auto simp: at_time_def in_time_def time_left_def)
  then show thesis
    by (auto simp: at_time_def poll_client_def poll_until_neighbor_def Let_def timed_now_def
        time_left_def intro: that [unfolded at_time_def time_left_def])
qed

lemma real_tests_decide:
  assumes "enabled env"
    and "real_mac_address files (env_or env ''RLLDPCTL_IFACE_A'' ''veth-a'') = Ok mac_a" "mac_a \<noteq> []"
    and "real_mac_address files (env_or env ''RLLDPCTL_IFACE_B'' ''veth-b'') = Ok mac_b" "mac_b \<noteq> []"
    and "dial (env_or env ''RLLDPCTL_SOCK_A'' ''/run/lldpd-a.sock'') = Ok sa"
    and "dial (env_or env ''RLLDPCTL_SOCK_B'' ''/run/lldpd-b.sock'') = Ok sb"
    and a: "fair sa" "incoming sa = concat (map answer_frame early_a) @ frame 6 pa @ ra"
      "list_all quiet early_a" "list_all answer_fits early_a" "in_time start (length early_a)"
      "hardware_message mem_a ns_a pa da" "ns_a \<noteq> []" "length pa \<le> HMSG_MAX_SIZE"
    and b: "fair sb" "incoming sb = concat (map answer_frame early_b) @ frame 6 pb @ rb"
      "list_all quiet early_b" "list_all answer_fits early_b" "in_time start (length early_b)"
      "hardware_message mem_b ns_b pb db" "ns_b \<noteq> []" "length pb \<le> HMSG_MAX_SIZE"
  shows "(test_real_lldpd env files dial io start \<longleftrightarrow>
      heard mem_a ns_a mac_b \<and> heard mem_b ns_b mac_a) \<and>
    (test_async_real_lldpd env files dial io start \<longleftrightarrow>
      heard mem_a ns_a mac_b \<and> heard mem_b ns_b mac_a)"
proof -
  let ?path_a = "env_or env ''RLLDPCTL_SOCK_A'' ''/run/lldpd-a.sock''"
  let ?path_b = "env_or env ''RLLDPCTL_SOCK_B'' ''/run/lldpd-b.sock''"
  let ?if_a = "ascii (env_or env ''RLLDPCTL_IFACE_A'' ''veth-a'')"
  let ?if_b = "ascii (env_or env ''RLLDPCTL_IFACE_B'' ''veth-b'')"
  let ?ca = "\<lparr>Client.stream = sa, socket_path = ?path_a\<rparr>"
  let ?cb = "\<lparr>Client.stream = sb, socket_path = ?path_b\<rparr>"
  let ?aa = "\<lparr>AsyncClient.stream = sa, socket_path = ?path_a\<rparr>"
  let ?ab = "\<lparr>AsyncClient.stream = sb, socket_path = ?path_b\<rparr>"
  have later: "in_time w n" if "in_time start n" "time_left w \<le> time_left start" for w :: "'z timed" and n
    using that by (auto simp: in_time_def time_left_def)
  have same: "interface_details io ifn (id c) = map_prod id id (interface_details io ifn c)" for ifn c
    by (simp add: map_prod.id)
  have m: "neighbor_matches_peer da mac_b \<longleftrightarrow> heard mem_a ns_a mac_b"
      "neighbor_matches_peer db mac_a \<longleftrightarrow> heard mem_b ns_b mac_a"
    by (rule heard_matches [OF a(6) assms(5)], rule heard_matches [OF b(6) assms(3)])
  obtain w where w: "poll_client (interface_details io ?if_a) (at_time start ?ca) = Some (Ok da, w)"
    "time_left w \<le> time_left start"
    by (rule poll_served [of ?if_a id _ ?ca early_a pa ra start mem_a ns_a da, OF same])
      (use a in simp_all)
  obtain w' where w': "poll_client (interface_details io ?if_b) (at_time w ?cb) = Some (Ok db, w')"
    by (rule poll_served [of ?if_b id _ ?cb early_b pb rb w mem_b ns_b db, OF same])
      (use b later [OF _ w(2)] in simp_all)
  obtain v where v: "poll_until_neighbor_async io ?if_a (at_time start ?aa) = Some (Ok da, v)"
    "time_left v \<le> time_left start"
    unfolding poll_until_neighbor_async_def
    by (rule poll_served [of ?if_a blocking _ ?aa early_a pa ra start mem_a ns_a da, OF async_interface_eq])
      (use a in \<open>simp_all add: blocking_def\<close>)
  obtain v' where v': "poll_until_neighbor_async io ?if_b (at_time v ?ab) = Some (Ok db, v')"
    unfolding poll_until_neighbor_async_def
    by (rule poll_served [of ?if_b blocking _ ?ab early_b pb rb v mem_b ns_b db, OF async_interface_eq])
      (use b later [OF _ v(2)] in \<open>simp_all add: blocking_def\<close>)
  show ?thesis
    by (simp add: test_real_lldpd_def test_async_real_lldpd_def connect_to_def
        async_connect_to_def Let_def assms(1,2,4,6,7) w w' v v' m)
qed

end

end
