(* ===== verification/Program_Properties.thy ===== *)
theory Program_Properties
  imports Session_Properties Examples Cancellation Unit_Tests Integration_Tests Real_Daemon_Tests
begin

text \<open>
  The properties of whole runs: a client and the daemon's messages from one end to the other,
  sequences of calls, errors of the system, dropped futures, the example programs and the
  repository's own tests. As in theory \<open>Session_Properties\<close> the streams are arbitrary scripts of
  the system, or, where it says so, any streams.
\<close>

section \<open>All interfaces, from the daemon's memory to the caller\<close>

text \<open>
  What the daemon answers to one \<open>GET_INTERFACE\<close>, and the value that belongs to it: nothing if
  it no longer has the interface, else what is in its memory, in the layout of its version.
\<close>

inductive daemon_answer :: "answer \<Rightarrow> InterfaceDetails option \<Rightarrow> bool" where
  gone: "daemon_answer (Gone p) None"
| present: "hardware_message mem ns p d \<Longrightarrow> daemon_answer (Details p) (Some d)"

lemma daemon_answer_decoded:
  assumes "daemon_answer a v" and "answer_fits a"
  shows "case a of Gone p \<Rightarrow> v = None | Details p \<Rightarrow> \<exists>d. v = Some d \<and> decode_hardware p = Ok d"
  using assms(1)
proof cases
  case (present mem ns p d)
  then have "length p \<le> slice_max"
    using assms(2) by (intro HMSG_MAX_SIZE_slice) (simp add: answer_fits_def)
  with present hardware_reply_decoded [OF present(3)] show ?thesis by simp
qed simp

lemma gather_daemon:
  assumes "list_all2 daemon_answer as vs" and "list_all answer_fits as"
  shows "gather as = Ok (map the (filter (\<lambda>v. v \<noteq> None) vs))"
  using assms
proof (induction rule: list_all2_induct)
  case (Cons a as v vs)
  with daemon_answer_decoded [OF Cons.hyps(1)] show ?case by (cases a) auto
qed simp

text \<open>
  C5: \<open>all_interfaces\<close> from the daemon's memory to the caller. Whatever list the daemon
  marshals, and for every listed interface either its state in the daemon's memory or that it
  is gone: the client returns exactly those states, in the order of the list, has asked once for
  every listed name in that order, and has used exactly the daemon's answers, in however many
  pieces they arrived. A state may come in the shorter layout, or in the longer one under the
  conditions of C8: the local port has an identifier, and the third chunk a reference number
  below sixteen. That the shorter layout rejects it is not assumed.
\<close>

theorem all_interfaces_end_to_end:
  assumes "std_fair (Client.stream c)" and "interfaces_image rs" and "head_of (tqh_first r) rs"
    and "std_incoming (Client.stream c) =
      frame (hmsg_number GetInterfaces) (put_interface_list m r rs) @
      concat (map answer_frame as) @ rest"
    and "length (put_interface_list m r rs) \<le> HMSG_MAX_SIZE" and "list_all answer_fits as"
    and "list_all2 daemon_answer as vs" and "length as = length rs"
  shows "fst (all_interfaces std_io c) = Ok (map the (filter (\<lambda>v. v \<noteq> None) vs)) \<and>
    tx (Client.stream (snd (all_interfaces std_io c))) = tx (Client.stream c) @
      frame (hmsg_number GetInterfaces) [] @ concat (map (interface_request \<circ> snd) rs) \<and>
    std_incoming (Client.stream (snd (all_interfaces std_io c))) = rest"
proof -
  have "decode_interfaces (put_interface_list m r rs) = Ok (map snd rs)"
    using interfaces_decoded [OF assms(2,3), of m "[]"] HMSG_MAX_SIZE_slice [OF assms(5)] by simp
  from std.all_interfaces_session [OF assms(1,4,5,6) this] assms(8)
    gather_daemon [OF assms(7,6)]
  show ?thesis by (simp add: comp_assoc)
qed

theorem all_interfaces_end_to_end_witness:
  "fst (all_interfaces std_io (client_on (byte_by_byte
     (frame 3 interfaces_capture @ frame 0 [] @ frame 6 sample_reply)))) =
   Ok [hardware_value sample_memory RawHardware_impl sample_hardware
     (bare_port empty_port None) sample_neighbors None] \<and>
   fst (all_interfaces std_io (client_on (byte_by_byte
     (frame 3 interfaces_capture @ frame 6 longer_message @ frame 6 sample_reply)))) =
   Ok [hardware_value sample_memory RawHardwareWithFlagsPrevious_impl longer_hardware longer_port
       sample_neighbors None,
     hardware_value sample_memory RawHardware_impl sample_hardware
     (bare_port empty_port None) sample_neighbors None]"
proof -
  let ?t = "byte_by_byte (frame 3 interfaces_capture @ frame 6 longer_message @ frame 6 sample_reply)"
  let ?u = "hardware_value sample_memory RawHardwareWithFlagsPrevious_impl longer_hardware
     longer_port sample_neighbors None"
  have u: "daemon_answer (Details longer_message) (Some ?u)"
    unfolding longer_message_def
    by (rule present [OF hardware_message.longer [OF sample_memory_image longer_image longer_ok]])
      (simp_all add: longer_numbers)
  let ?s = "byte_by_byte (frame 3 interfaces_capture @ frame 0 [] @ frame 6 sample_reply)"
  let ?v = "hardware_value sample_memory RawHardware_impl sample_hardware
     (bare_port empty_port None) sample_neighbors None"
  have d: "daemon_answer (Details sample_reply) (Some ?v)"
    unfolding sample_reply_def
    by (rule present [OF hardware_message.shorter [OF sample_memory_image sample_hardware_image
          sample_hardware_ok]])
  have l: "length sample_reply = 1808" unfolding sample_reply_def by (rule sample_hardware_length)
  have "length capture_interfaces = 2" by (simp add: capture_interfaces_def)
  with all_interfaces_end_to_end [of "client_on ?s", OF _ capture_interfaces_image capture_head,
      of capture_marshal "[Gone [], Details sample_reply]" "[]" "[None, Some ?v]"]
    all_interfaces_end_to_end [of "client_on ?t", OF _ capture_interfaces_image capture_head,
      of capture_marshal "[Details longer_message, Details sample_reply]" "[]" "[Some ?u, Some ?v]"]
    d l u
  show ?thesis
    by (simp add: interfaces_capture_built [symmetric] interfaces_capture_length
        HMSG_MAX_SIZE_num answer_fits_def gone longer_length)
qed

section \<open>Sequences of calls\<close>

lemma session_of_two: "\<exists>out1 out2 c'. session io c [(cl1, out1), (cl2, out2)] c'"
  using client_step_total by (metis session.intros)

text \<open>
  C13: a call over the socket is a call of the daemon's function. For every daemon whose replies
  are within the cap, and every interleaving of its work with the reads of the client, any
  sequence of calls returns what the daemon's function, applied to the requests one after the
  other, answers to them, and leaves the daemon in the same state; no byte is left on the socket
  in either direction.
\<close>

theorem calls_served:
  assumes "session (link_io d) c ls c'" and "link_idle (Client.stream c)" and "daemon_fits d"
    and "list_all (call_fits \<circ> fst) ls"
  shows "served d (daemon_state (Client.stream c)) (map fst ls) =
      (map snd ls, daemon_state (Client.stream c')) \<and> link_idle (Client.stream c')"
  using assms by (rule session_served)

text \<open>A daemon that counts its requests and answers the first list it is asked for.\<close>

definition counting_daemon :: "nat daemon" where
  "counting_daemon n req =
     ((if fst req = 3 then (3, interfaces_capture) else (0, [])), n + 1)"

lemma counting_daemon_fits: "daemon_fits counting_daemon"
  by (simp add: daemon_fits_def counting_daemon_def interfaces_capture_length HMSG_MAX_SIZE_num)

theorem calls_served_witness:
  "\<exists>out1 out2 c'. session (link_io counting_daemon)
     (client_on \<lparr>to_daemon = [], to_client = [], daemon_state = 0, sched = [3, 0, 7, 1, 0, 5]\<rparr>)
     [(List_interfaces, out1), (Query (ascii ''eth9''), out2)] c' \<and>
   out1 = Listed (Ok (map snd capture_interfaces)) \<and> out2 = Queried (Err RequestRejected) \<and>
   daemon_state (Client.stream c') = 2"
proof -
  let ?c = "client_on
    \<lparr>to_daemon = [], to_client = [], daemon_state = 0 :: nat, sched = [3, 0, 7, 1, 0, 5]\<rparr>"
  obtain out1 out2 c' where s: "session (link_io counting_daemon) ?c
      [(List_interfaces, out1), (Query (ascii ''eth9''), out2)] c'"
    using session_of_two by metis
  have "call_fits List_interfaces" "call_fits (Query (ascii ''eth9''))"
    by (simp_all add: call_fits_def request_lengths)
  with calls_served [OF s _ counting_daemon_fits]
  have "out1 = Listed (Ok (map snd capture_interfaces)) \<and> out2 = Queried (Err RequestRejected) \<and>
      daemon_state (Client.stream c') = 2"
    by (simp add: link_idle_def counting_daemon_def answered_def check_reply_def hmsg_matches_def
        capture_decoded)
  with s show ?thesis by blast
qed

text \<open>
  C14: \<open>all_interfaces\<close> over the socket is the same batch on the daemon's function, for every
  daemon and every interleaving, errors included: each interface is as the daemon had it when it
  was asked for, although the daemon's state moves on between the requests, and the socket is
  left empty in both directions. Applied to a daemon that loses the first interface after it
  listed both.
\<close>

theorem batch_served:
  assumes "link_idle (Client.stream c)" and "daemon_fits d"
    and "all_interfaces (link_io d) c = (r, c')"
  shows "collect_all d (daemon_state (Client.stream c)) =
      (r, daemon_state (Client.stream c')) \<and> link_idle (Client.stream c')"
  using assms by (rule all_interfaces_collects)

definition losing_daemon :: "nat daemon" where
  "losing_daemon n req =
     ((if fst req = 3 then (3, interfaces_capture)
       else if n = 1 then (0, []) else (6, sample_reply)), n + 1)"

lemma sample_reply_facts:
  "length sample_reply = 1808"
  "decode_hardware sample_reply = Ok (hardware_value sample_memory RawHardware_impl sample_hardware
     (bare_port empty_port None) sample_neighbors None)"
  unfolding sample_reply_def by (rule sample_hardware_length, rule sample_hardware_top)

theorem batch_served_witness:
  "\<exists>c'. all_interfaces (link_io losing_daemon)
     (client_on \<lparr>to_daemon = [], to_client = [], daemon_state = 0, sched = [1, 0, 9, 0, 0, 2]\<rparr>) =
   (Ok [hardware_value sample_memory RawHardware_impl sample_hardware
      (bare_port empty_port None) sample_neighbors None], c') \<and>
   daemon_state (Client.stream c') = 3"
proof -
  let ?c = "client_on
    \<lparr>to_daemon = [], to_client = [], daemon_state = 0 :: nat, sched = [1, 0, 9, 0, 0, 2]\<rparr>"
  obtain r c' where a: "all_interfaces (link_io losing_daemon) ?c = (r, c')" by fastforce
  have "daemon_fits losing_daemon"
    by (simp add: daemon_fits_def losing_daemon_def interfaces_capture_length sample_reply_facts
        HMSG_MAX_SIZE_num)
  from batch_served [OF _ this a]
  have "collect_all losing_daemon 0 = (r, daemon_state (Client.stream c'))"
    by (simp add: link_idle_def)
  then have "r = Ok [hardware_value sample_memory RawHardware_impl sample_hardware
      (bare_port empty_port None) sample_neighbors None] \<and> daemon_state (Client.stream c') = 3"
    by (simp add: collect_all_def losing_daemon_def check_reply_def hmsg_matches_def capture_decoded
        capture_interfaces_def sample_reply_facts)
  with a show ?thesis by blast
qed

text \<open>
  C15: a client stays in step with the daemon. After any sequence of calls, answered by as many
  whole frames within the cap, the outcome of every call is a function of its own answer, an
  error included, the requests were written once each and in order, and the stream stands
  behind the last answer; the path it reports is still the one it connected to.
\<close>

theorem calls_stay_in_step:
  assumes "session std_io c ls c'" and "std_fair (Client.stream c)"
    and "std_incoming (Client.stream c) = concat (map reply_frame replies) @ rest"
    and "list_all (\<lambda>reply. length (snd reply) \<le> HMSG_MAX_SIZE) replies"
    and "length replies = length ls"
  shows "map snd ls = map2 answered (map fst ls) replies \<and>
    tx (Client.stream c') = tx (Client.stream c) @ concat (map (call_frame \<circ> fst) ls) \<and>
    std_incoming (Client.stream c') = rest \<and> std_fair (Client.stream c') \<and>
    client_socket_path c' = client_socket_path c"
  using std.session_in_step [OF assms] session_socket_path [OF assms(1)] by blast

theorem calls_stay_in_step_witness:
  "\<exists>out1 out2 c'. session std_io
     (client_on (byte_by_byte (frame 0 [] @ frame 3 interfaces_capture @ [7])))
     [(Query (ascii ''eth9''), out1), (List_interfaces, out2)] c' \<and>
   out1 = Queried (Err RequestRejected) \<and> out2 = Listed (Ok (map snd capture_interfaces)) \<and>
   std_incoming (Client.stream c') = [7]"
proof -
  let ?c = "client_on (byte_by_byte (frame 0 [] @ frame 3 interfaces_capture @ [7]))"
  obtain out1 out2 c' where s: "session std_io ?c
      [(Query (ascii ''eth9''), out1), (List_interfaces, out2)] c'"
    using session_of_two by metis
  from calls_stay_in_step [OF s, of "[(0, []), (3, interfaces_capture)]" "[7]"]
  have "out1 = Queried (Err RequestRejected) \<and> out2 = Listed (Ok (map snd capture_interfaces)) \<and>
      std_incoming (Client.stream c') = [7]"
    by (simp add: reply_frame_def interfaces_capture_length HMSG_MAX_SIZE_num answered_def
        check_reply_def hmsg_matches_def capture_decoded)
  with s show ?thesis by blast
qed

section \<open>Notifications\<close>

context byte_stream
begin

lemma notifications_taken:
  assumes "list_all (\<lambda>p. length p \<le> HMSG_MAX_SIZE) ps" and "fair (Subscription.stream sub)"
    and "incoming (Subscription.stream sub) =
      concat (map (frame (hmsg_number Notification)) ps) @ tail"
  shows "\<exists>sub'. take_changes io (length ps) sub = (map decode_neighbor_change ps, sub') \<and>
    incoming (Subscription.stream sub') = tail"
  using assms
proof (induction ps arbitrary: sub)
  case (Cons p ps)
  obtain sub1 where n: "subscription_next io sub = (Some (decode_neighbor_change p), sub1)"
    "fair (Subscription.stream sub1)"
    "incoming (Subscription.stream sub1) = concat (map (frame (hmsg_number Notification)) ps) @ tail"
    by (rule next_notification [OF Cons.prems(2), of p]) (use Cons.prems in simp_all)
  with Cons.IH [of sub1] Cons.prems(1) show ?case by auto
qed simp

end

text \<open>
  C19: every notification the daemon pushes is delivered, in order and exactly once: after the
  reply to \<open>SUBSCRIBE\<close> the first \<open>n\<close> steps of the iteration return the \<open>n\<close> notifications that
  have arrived, decoded, also when one of them is malformed, and whatever comes later stays in
  the stream. The iteration does not wait for bytes behind the notification it returns.
\<close>

theorem notifications_delivered:
  assumes "std_fair (Client.stream c)"
    and "std_incoming (Client.stream c) = frame (hmsg_number Subscribe) p @
      concat (map (frame (hmsg_number Notification)) ps) @ tail"
    and "length p \<le> HMSG_MAX_SIZE" and "list_all (\<lambda>p. length p \<le> HMSG_MAX_SIZE) ps"
  shows "\<exists>sub sub'. subscribe std_io c = Ok sub \<and>
    take_changes std_io (length ps) sub = (map decode_neighbor_change ps, sub') \<and>
    std_incoming (Subscription.stream sub') = tail"
proof -
  obtain sub where "subscribe std_io c = Ok sub" "std_fair (Subscription.stream sub)"
    "std_incoming (Subscription.stream sub) = concat (map (frame (hmsg_number Notification)) ps) @ tail"
    by (rule std.subscribe_framed [OF assms(1-3)])
  with std.notifications_taken [OF assms(4)] show ?thesis by metis
qed

lemma decoded_fixture_added:
  obtains change where "decode_neighbor_change fixture_added = Ok change"
    and "change_line change = ascii ''eth0: added switch-x-name''"
proof -
  obtain change where d: "decode_neighbor_change fixture_added = Ok change"
    using change_tests(2) by (auto simp: test_change_added_def split: result.splits)
  have "ascii ''eth0'' @ ascii '': added '' @ ascii ''switch-x-name'' =
      ascii ''eth0: added switch-x-name''"
    by (simp flip: ascii_append)
  with change_tests(2) d show ?thesis
    by (intro that [OF d])
      (auto simp: test_change_added_def change_line_def who_def name_or_id_def
        split: option.splits)
qed

theorem notifications_delivered_witness:
  "\<exists>sub sub'. subscribe std_io (client_on
      (byte_by_byte (frame 9 [] @ frame 10 fixture_added @ frame 10 [] @ [10]))) = Ok sub \<and>
     take_changes std_io 2 sub =
       ([decode_neighbor_change fixture_added, decode_neighbor_change []], sub') \<and>
     std_incoming (Subscription.stream sub') = [10]"
  using notifications_delivered [of "client_on
      (byte_by_byte (frame 9 [] @ frame 10 fixture_added @ frame 10 [] @ [10]))" "[]"
      "[fixture_added, []]" "[10]"]
  by (simp add: fixture_lengths HMSG_MAX_SIZE_num numeral_2_eq_2)

text \<open>
  Over the standard library's loops, where the scripts of the system are finite, every run ends.
\<close>

lemma watch_neighbors_returns: "\<exists>r. watch_neighbors dial std_io args = Some r"
  using watch_each_ends
  by (simp add: watch_neighbors_def split: result.split)

text \<open>
  C21: when the watching program ends, and how, over any stream, one that never ends included.
  Once subscribed it never returns exactly if every step of the subscription, for ever, brings a
  change. Otherwise the first step that brings none decides: the end of the iteration ends it
  with success and the closing line, an error of the stream or a malformed notification ends it
  with that error; in both cases it has printed one line for each of the changes before, in
  their order, and no other. Applied to a daemon that pushes a change over and over, and to one
  whose second notification is malformed.
\<close>

theorem watch_neighbors_ends:
  assumes "connect_as_told dial args = Ok c" and "subscribe io c = Ok sub"
  shows "(watch_neighbors dial io args = None \<longleftrightarrow>
      (\<forall>n. \<exists>chs sub'. length chs = n \<and> take_changes io n sub = (map Ok chs, sub'))) \<and>
    (\<forall>chs sub'. take_changes io (length chs) sub = (map Ok chs, sub') \<longrightarrow>
      (fst (subscription_next io sub') = None \<longrightarrow> watch_neighbors dial io args =
        Some (Ok (), subscribed_line # map change_line chs @ [closed_line])) \<and>
      (\<forall>e. fst (subscription_next io sub') = Some (Err e) \<longrightarrow> watch_neighbors dial io args =
        Some (Err e, subscribed_line # map change_line chs)))"
proof -
  have w: "watch_neighbors dial io args = watch_each io sub [subscribed_line]"
    using assms by (simp add: watch_neighbors_def)
  have "watch_neighbors dial io args = watch_each io sub' (subscribed_line # map change_line chs)"
    if "take_changes io (length chs) sub = (map Ok chs, sub')" for chs sub'
    using watch_each_after [of io sub chs sub'] that by (simp add: changes_first_def w)
  moreover have "watch_neighbors dial io args = None \<longleftrightarrow>
      (\<forall>n. \<exists>chs sub'. length chs = n \<and> take_changes io n sub = (map Ok chs, sub'))"
    unfolding w watch_each_None changes_first_def by metis
  ultimately show ?thesis
    by (auto simp: watch_each.simps [of io sub' for sub'] split: prod.splits)
qed

text \<open>A peer that never closes: its bytes are a function of their position in the stream.\<close>

definition endless_io :: "(nat \<Rightarrow> u8) io" where
  "endless_io = \<lparr>read_exact = (\<lambda>n f. (Ok (map f [0..<n]), \<lambda>i. f (n + i))),
     write_all = (\<lambda>b f. (Ok (), f))\<rparr>"

definition over_and_over :: "bytes \<Rightarrow> nat \<Rightarrow> u8" where
  "over_and_over b i = b ! (i mod length b)"

definition pushing :: "nat \<Rightarrow> u8" where
  "pushing i = (if i < 16 then frame 9 [] ! i else over_and_over (frame 10 fixture_deleted) (i - 16))"

lemma map_upt_prefix:
  "\<forall>i < length b. f i = b ! i \<Longrightarrow> n \<le> length b \<Longrightarrow> map f [0..<n] = take n b"
  by (intro nth_equalityI) auto

lemma endless_read_message:
  assumes "\<forall>i < 16 + length p. f i = frame (hmsg_number ty) p ! i" and "length p \<le> HMSG_MAX_SIZE"
    and "ty \<noteq> None'"
  shows "read_message endless_io ty f = (Ok p, \<lambda>i. f (16 + length p + i))"
proof -
  have l: "length (frame (hmsg_number ty) p) = 16 + length p" by (simp add: frame_def)
  have "take header_len (frame (hmsg_number ty) p) = encode_header ty (length p)"
    by (simp add: frame_encode_header header_len_16)
  moreover have "map f [0..<header_len] = take header_len (frame (hmsg_number ty) p)"
    by (rule map_upt_prefix) (use assms(1) l in \<open>auto simp: header_len_16\<close>)
  ultimately have h: "map f [0..<header_len] = encode_header ty (length p)" by (rule trans [rotated])
  have "f (16 + i) = p ! i" if "i < length p" for i
    using assms(1) that by (simp add: frame_encode_header nth_append)
  then have b: "map (\<lambda>i. f (16 + i)) [0..<length p] = p"
    using map_upt_prefix [of p "\<lambda>i. f (16 + i)" "length p"] by simp
  have n: "unat (word_of_nat (length p) :: usize) = length p"
    using assms(2) by (simp add: HMSG_MAX_SIZE_num unat_of_nat)
  have "hmsg_number ty \<noteq> 0" using assms(3) by (cases ty) simp_all
  with h b n assms(2) show ?thesis
    by (simp only: read_message_def endless_io_def lift_io_def io.simps fst_conv snd_conv
        map_err.simps io_then.simps decode_encode_header)
      (simp add: check_reply_def hmsg_matches_def header_len_16 add.assoc)
qed

lemma pushing_steps:
  obtains change where "decode_neighbor_change fixture_deleted = Ok change"
    "\<And>n. take_changes endless_io n \<lparr>Subscription.stream = over_and_over (frame 10 fixture_deleted)\<rparr> =
      (replicate n (Ok change), \<lparr>Subscription.stream = over_and_over (frame 10 fixture_deleted)\<rparr>)"
proof -
  let ?f = "over_and_over (frame 10 fixture_deleted)"
  obtain change where d: "decode_neighbor_change fixture_deleted = Ok change"
    using change_tests(1) by (auto simp: test_change_deleted_def split: result.splits)
  have l: "length (frame 10 fixture_deleted) = 16 + length fixture_deleted" by (simp add: frame_def)
  have "?f (length (frame 10 fixture_deleted) + i) = ?f i" for i
    unfolding over_and_over_def mod_add_self1 by (rule refl)
  then have "(\<lambda>i. ?f (16 + length fixture_deleted + i)) = ?f" unfolding l by (rule ext)
  moreover have "\<forall>i < 16 + length fixture_deleted. ?f i = frame 10 fixture_deleted ! i"
    unfolding over_and_over_def l by simp
  ultimately have "read_message endless_io Notification ?f = (Ok fixture_deleted, ?f)"
    using endless_read_message [of fixture_deleted ?f Notification]
    by (simp add: fixture_lengths HMSG_MAX_SIZE_num)
  then have "subscription_next endless_io \<lparr>Subscription.stream = ?f\<rparr> =
      (Some (Ok change), \<lparr>Subscription.stream = ?f\<rparr>)"
    by (simp add: subscription_next_def recv_notification_def d)
  then have "take_changes endless_io n \<lparr>Subscription.stream = ?f\<rparr> =
      (replicate n (Ok change), \<lparr>Subscription.stream = ?f\<rparr>)" for n
    by (induction n) simp_all
  with d show thesis by (rule that)
qed

lemma pushing_subscribed:
  "subscribe endless_io \<lparr>Client.stream = pushing, socket_path = path\<rparr> =
     Ok \<lparr>Subscription.stream = over_and_over (frame 10 fixture_deleted)\<rparr>"
proof -
  have "\<forall>i < 16. pushing i = frame 9 [] ! i" by (simp add: pushing_def)
  then have "read_message endless_io Subscribe pushing = (Ok [], \<lambda>i. pushing (16 + i))"
    using endless_read_message [of "[]" pushing Subscribe] by simp
  moreover have "(\<lambda>i. pushing (16 + i)) = over_and_over (frame 10 fixture_deleted)"
    by (simp add: pushing_def)
  moreover have "write_all endless_io b pushing = (Ok (), pushing)" for b
    by (simp add: endless_io_def)
  ultimately show ?thesis by (simp add: subscribe_def request_def lift_io_def)
qed

text \<open>A peer that sends a change and a malformed notification.\<close>

lemma malformed_second:
  obtains sub sub1 change where
    "subscribe std_io (client_on (byte_by_byte (frame 9 [] @ frame 10 fixture_added @ frame 10 []))) = Ok sub"
    "take_changes std_io 1 sub = ([Ok change], sub1)"
    "change_line change = ascii ''eth0: added switch-x-name''"
    "fst (subscription_next std_io sub1) = Some (Err (truncated \<lparr>buf = [], pos = 0\<rparr> 16))"
proof -
  let ?c = "client_on (byte_by_byte (frame 9 [] @ frame 10 fixture_added @ frame 10 []))"
  obtain sub where sub: "subscribe std_io ?c = Ok sub" "std_fair (Subscription.stream sub)"
    "std_incoming (Subscription.stream sub) = frame 10 fixture_added @ frame 10 []"
    by (rule std.subscribe_framed [of ?c "[]" "frame 10 fixture_added @ frame 10 []"]) simp_all
  obtain sub1 where sub1: "subscription_next std_io sub = (Some (decode_neighbor_change fixture_added), sub1)"
    "std_fair (Subscription.stream sub1)" "std_incoming (Subscription.stream sub1) = frame 10 []"
    by (rule std.next_notification [OF sub(2), of fixture_added "frame 10 []"])
      (simp_all add: sub fixture_lengths HMSG_MAX_SIZE_num)
  obtain sub2 where sub2: "subscription_next std_io sub1 = (Some (decode_neighbor_change []), sub2)"
    by (rule std.next_notification [OF sub1(2), of "[]" "[]"]) (simp_all add: sub1)
  have "chunk_header \<lparr>buf = [], pos = 0\<rparr> = Err (truncated \<lparr>buf = [], pos = 0\<rparr> 16)"
    by (subst chunk_header_Err [OF _ refl]) (simp_all add: cursor_ok_def align_up_def bounds_num)
  then have "decode_neighbor_change [] = Err (truncated \<lparr>buf = [], pos = 0\<rparr> 16)"
    by (simp add: decode_neighbor_change_def read_chunk_pod_def cursor_new_def)
  moreover obtain change where "decode_neighbor_change fixture_added = Ok change"
    "change_line change = ascii ''eth0: added switch-x-name''" by (rule decoded_fixture_added)
  ultimately show thesis using sub sub1 sub2 by (intro that [of sub change sub1]) simp_all
qed

theorem watch_neighbors_ends_witness:
  "watch_neighbors (\<lambda>_. Ok pushing) endless_io [''watch_neighbors''] = None \<and>
   watch_neighbors (\<lambda>_. Ok (byte_by_byte (frame 9 [] @ frame 10 fixture_added @ frame 10 []))) std_io
     [''watch_neighbors''] =
   Some (Err (truncated \<lparr>buf = [], pos = 0\<rparr> 16), [subscribed_line, ascii ''eth0: added switch-x-name''])"
proof
  let ?f = "over_and_over (frame 10 fixture_deleted)"
  obtain path where c: "connect_as_told (\<lambda>_. Ok pushing) [''watch_neighbors''] =
      Ok \<lparr>Client.stream = pushing, socket_path = path\<rparr>"
    by (simp add: connect_as_told_def first_argument_def connect_def connect_to_def)
  obtain change where "\<And>n. take_changes endless_io n \<lparr>Subscription.stream = ?f\<rparr> =
      (replicate n (Ok change), \<lparr>Subscription.stream = ?f\<rparr>)"
    using pushing_steps by metis
  then have "\<forall>n. \<exists>chs sub'. length chs = n \<and>
      take_changes endless_io n \<lparr>Subscription.stream = ?f\<rparr> = (map Ok chs, sub')"
    by (metis length_replicate map_replicate)
  with watch_neighbors_ends [OF c pushing_subscribed]
  show "watch_neighbors (\<lambda>_. Ok pushing) endless_io [''watch_neighbors''] = None" by simp
next
  let ?s = "byte_by_byte (frame 9 [] @ frame 10 fixture_added @ frame 10 [])"
  have "connect_as_told (\<lambda>_. Ok ?s) [''watch_neighbors''] = Ok (client_on ?s)"
    by (simp add: connect_as_told_def first_argument_def connect_def connect_to_def client_on_def)
  moreover obtain sub sub1 change where "subscribe std_io (client_on ?s) = Ok sub"
    "take_changes std_io 1 sub = ([Ok change], sub1)"
    "change_line change = ascii ''eth0: added switch-x-name''"
    "fst (subscription_next std_io sub1) = Some (Err (truncated \<lparr>buf = [], pos = 0\<rparr> 16))"
    by (rule malformed_second)
  ultimately show "watch_neighbors (\<lambda>_. Ok ?s) std_io [''watch_neighbors''] =
     Some (Err (truncated \<lparr>buf = [], pos = 0\<rparr> 16), [subscribed_line, ascii ''eth0: added switch-x-name''])"
    using conjunct2 [OF watch_neighbors_ends [of "\<lambda>_. Ok ?s" "[''watch_neighbors'']" "client_on ?s"
          std_io sub], rule_format, of "[change]" sub1]
    by (simp del: take_changes.simps)
qed

text \<open>
  C22: what the watching program prints: after the line that it has subscribed, one line per
  notification in the order of the daemon, each a function of the decoded change, and a last
  line when the daemon closes the connection; a malformed notification ends the program with
  its error, without that line.
\<close>

theorem watch_neighbors_prints:
  assumes "connect_as_told dial args = Ok c" and "std_fair (Client.stream c)"
    and "std_incoming (Client.stream c) = frame (hmsg_number Subscribe) p @
      concat (map (frame (hmsg_number Notification)) ps) @ tail"
    and "length p \<le> HMSG_MAX_SIZE" and "list_all (\<lambda>p. length p \<le> HMSG_MAX_SIZE) ps"
    and "fst (parse_frame Notification tail) = Err (Io UnexpectedEof)"
  shows "watch_neighbors dial std_io args =
    Some (fst (report ps), subscribed_line # snd (report ps))"
proof -
  obtain sub where "subscribe std_io c = Ok sub" "std_fair (Subscription.stream sub)"
    "std_incoming (Subscription.stream sub) = concat (map (frame (hmsg_number Notification)) ps) @ tail"
    by (rule std.subscribe_framed [OF assms(2-4)])
  with std.watch_each_reports [OF assms(5) _ _ assms(6)] assms(1) show ?thesis
    by (simp add: watch_neighbors_def)
qed

theorem watch_neighbors_prints_witness:
  "watch_neighbors (\<lambda>_. Ok (byte_by_byte (frame 9 [] @ frame 10 fixture_added))) std_io
     [''watch_neighbors''] =
   Some (Ok (), [ascii ''subscribed - waiting for neighbor changes (Ctrl-C to stop)'',
     ascii ''eth0: added switch-x-name'', ascii ''lldpd closed the subscription''])"
proof -
  let ?s = "byte_by_byte (frame 9 [] @ frame 10 fixture_added)"
  obtain change where "decode_neighbor_change fixture_added = Ok change"
    "change_line change = ascii ''eth0: added switch-x-name''"
    by (rule decoded_fixture_added)
  moreover have "connect_as_told (\<lambda>_. Ok ?s) [''watch_neighbors''] = Ok (client_on ?s)"
    by (simp add: connect_as_told_def first_argument_def connect_def connect_to_def client_on_def)
  ultimately show ?thesis
    using watch_neighbors_prints [of "\<lambda>_. Ok ?s" "[''watch_neighbors'']" "client_on ?s" "[]"
        "[fixture_added]" "[]"]
    by (simp add: fixture_lengths HMSG_MAX_SIZE_num parse_frame_def subscribed_line_def
        closed_line_def)
qed

section \<open>Asking until there is a neighbor\<close>

text \<open>
  C23: the loop of the tests against a real daemon ends, whatever the daemon answers and however
  long the calls and sleeps last: after at most 51 attempts, at the first that has a neighbor or
  is over at the deadline. It returns that attempt's answer, or panics if that was an error.
\<close>

theorem polling_ends:
  "\<exists>k \<le> 50. poll_client fetch w =
      Some (polled (timed_fetch fetch ((next_attempt timed_sleep (timed_fetch fetch) ^^ k) w))) \<and>
    last_attempt timed_now (timed_fetch fetch) (time w + POLL_TIMEOUT)
      ((next_attempt timed_sleep (timed_fetch fetch) ^^ k) w) \<and>
    (\<forall>i < k. \<not> last_attempt timed_now (timed_fetch fetch) (time w + POLL_TIMEOUT)
      ((next_attempt timed_sleep (timed_fetch fetch) ^^ i) w))"
  using timed.poll_ends [of fetch w] by (simp add: poll_client_def timed_now_def)

theorem polling_ends_witness:
  "\<exists>w'. poll_client (interface_details std_io (ascii ''veth-a''))
     \<lparr>client = client_on (byte_by_byte (frame 0 [] @ frame 6 sample_reply)), time = 0,
       delays = [7, 20], oversleeps = []\<rparr> =
   Some (Ok (hardware_value sample_memory RawHardware_impl sample_hardware
      (bare_port empty_port None) sample_neighbors None), w') \<and> time w' = 127"
proof -
  let ?f = "interface_details std_io (ascii ''veth-a'')"
  let ?c = "client_on (byte_by_byte (frame 0 [] @ frame 6 sample_reply))"
  let ?w = "\<lparr>client = ?c, time = 0, delays = [7, 20], oversleeps = []\<rparr>"
  let ?v = "hardware_value sample_memory RawHardware_impl sample_hardware
      (bare_port empty_port None) sample_neighbors None"
  let ?next = "next_attempt timed_sleep (timed_fetch ?f)"
  let ?last = "last_attempt timed_now (timed_fetch ?f) POLL_TIMEOUT"
  obtain c1 where c1: "?f ?c = (Err RequestRejected, c1)" "std_fair (Client.stream c1)"
    "std_incoming (Client.stream c1) = frame 6 sample_reply"
    by (rule std.interface_details_answered [of ?c "Gone []" "frame 6 sample_reply" "ascii ''veth-a''"])
      (simp_all add: answer_fits_def)
  obtain c2 where c2: "?f c1 = (Ok ?v, c2)"
    by (rule std.interface_details_answered [of c1 "Details sample_reply" "[]" "ascii ''veth-a''"])
      (use c1 in \<open>simp_all add: answer_fits_def sample_reply_facts HMSG_MAX_SIZE_num\<close>)
  have n: "neighbors ?v \<noteq> []" by (simp add: hardware_value_def sample_neighbors_def)
  have w1: "?next ?w = \<lparr>client = c1, time = 107, delays = [20], oversleeps = []\<rparr>"
    by (simp add: next_attempt_def timed_fetch_def timed_sleep_def c1(1) POLL_INTERVAL_def)
  have "\<not> ?last ?w"
    by (simp add: last_attempt_def timed_fetch_def c1(1) timed_now_def POLL_TIMEOUT_def)
  moreover have "?last (?next ?w)"
    unfolding w1 using n by (simp add: last_attempt_def timed_fetch_def c2)
  moreover obtain k where k: "poll_client ?f ?w = Some (polled (timed_fetch ?f ((?next ^^ k) ?w)))"
    "?last ((?next ^^ k) ?w)" "\<forall>i < k. \<not> ?last ((?next ^^ i) ?w)"
    using polling_ends [of ?f ?w] by auto
  moreover have "(?next ^^ 0) ?w = ?w" "(?next ^^ 1) ?w = ?next ?w" by simp_all
  ultimately have "k = 1" by (metis less_one linorder_neqE_nat)
  with k(1) have "poll_client ?f ?w = Some (polled (timed_fetch ?f (?next ?w)))" by simp
  then show ?thesis unfolding w1 by (simp add: timed_fetch_def c2)
qed

text \<open>
  C24: what the tests against two real daemons decide, over either client: exactly whether each
  daemon has heard of the other, that is whether the first neighbor in its memory has the address
  of the other device, as the kernel writes it into sysfs, as port identifier and as chassis
  identifier of the subtype for addresses. The daemons may first answer any number of times that
  the interface is not there or has no neighbor, as long as the time allows: the tests ask again
  until a neighbor is listed, in however many pieces the answers arrive. An answer comes in the
  shorter layout, or in the longer one under the conditions of C8.
\<close>

theorem real_tests_verdict:
  defines "iface_a env \<equiv> env_or env ''RLLDPCTL_IFACE_A'' ''veth-a''"
    and "iface_b env \<equiv> env_or env ''RLLDPCTL_IFACE_B'' ''veth-b''"
  assumes "enabled env"
    and "files (''/sys/class/net/'' @ iface_a env @ ''/address'') = Ok (mac_text mac_a)"
    and "files (''/sys/class/net/'' @ iface_b env @ ''/address'') = Ok (mac_text mac_b)"
    and "length mac_a = 6" "length mac_b = 6"
    and "dial (env_or env ''RLLDPCTL_SOCK_A'' ''/run/lldpd-a.sock'') = Ok sa"
    and "dial (env_or env ''RLLDPCTL_SOCK_B'' ''/run/lldpd-b.sock'') = Ok sb"
    and a: "std_fair sa" "std_incoming sa = concat (map answer_frame early_a) @ frame 6 pa @ ra"
      "list_all quiet early_a" "list_all answer_fits early_a" "in_time start (length early_a)"
      "hardware_message mem_a ns_a pa da" "ns_a \<noteq> []" "length pa \<le> HMSG_MAX_SIZE"
    and b: "std_fair sb" "std_incoming sb = concat (map answer_frame early_b) @ frame 6 pb @ rb"
      "list_all quiet early_b" "list_all answer_fits early_b" "in_time start (length early_b)"
      "hardware_message mem_b ns_b pb db" "ns_b \<noteq> []" "length pb \<le> HMSG_MAX_SIZE"
  shows "(test_real_lldpd env files dial std_io start \<longleftrightarrow>
      heard mem_a ns_a mac_b \<and> heard mem_b ns_b mac_a) \<and>
    (test_async_real_lldpd env files dial std_io start \<longleftrightarrow>
      heard mem_a ns_a mac_b \<and> heard mem_b ns_b mac_a)"
proof (rule std.real_tests_decide [OF _ _ _ _ _ _ _ a b])
  show "real_mac_address files (env_or env ''RLLDPCTL_IFACE_A'' ''veth-a'') = Ok mac_a"
    "real_mac_address files (env_or env ''RLLDPCTL_IFACE_B'' ''veth-b'') = Ok mac_b"
    using assms by (simp_all add: real_mac_address_read)
  show "mac_a \<noteq> []" "mac_b \<noteq> []" using assms(6,7) by auto
qed (use assms in simp_all)

definition veth_port :: "bytes \<Rightarrow> port_mem" where
  "veth_port mac = bare_port (empty_port\<lparr>p_chassis := 777, p_id_subtype := 3, p_id := 900,
     p_ttl := 120\<rparr>) (Some mac)"

definition veth_memory :: "bytes \<Rightarrow> memory" where
  "veth_memory mac = (\<lambda>_. \<lparr>c_raw = empty_chassis\<lparr>c_id_subtype := 4, c_id := 950\<rparr>, c_mgmt = [],
     c_value = switch\<lparr>id_subtype := ChassisIdSubtype.MacAddress, Chassis.id' := mac\<rparr>\<rparr>)"

definition veth_reply :: "bytes \<Rightarrow> bytes" where
  "veth_reply mac = put_hardware plain (veth_memory mac) RawHardware_pod sample_hardware
     (bare_port empty_port None) [veth_port mac] None"

definition veth_details :: "bytes \<Rightarrow> InterfaceDetails" where
  "veth_details mac = hardware_value (veth_memory mac) RawHardware_impl sample_hardware
     (bare_port empty_port None) [veth_port mac] None"

lemma veth_images:
  assumes "length mac = 6"
  shows "memory_image (veth_memory mac)"
    "hardware_image RawHardware_impl sample_hardware (bare_port empty_port None) [veth_port mac] None"
proof -
  show "memory_image (veth_memory mac)" using assms
    by (simp add: memory_image_def chassis_image_def Let_def veth_memory_def switch_def
        text_field_def points_to_def blob_def mgmt_image_def head_of_def bounds_num
        ChassisIdSubtype_from_def)
  have "port_image (veth_port mac)"
    using assms by (simp add: veth_port_def bare_port_image RawPort_ok_def points_to_def)
  then have "neighbors_image [veth_port mac]"
    by (simp add: neighbors_image_def points_to_def) (simp add: veth_port_def)
  moreover have "head_of 6 [veth_port mac]" by (simp add: head_of_def)
  moreover have "text_field 0 (None :: rstring option)" by (simp add: text_field_def points_to_def)
  ultimately show "hardware_image RawHardware_impl sample_hardware (bare_port empty_port None)
      [veth_port mac] None"
    unfolding hardware_image_def sample_hardware_view by (simp add: empty_port_image)
qed

lemma veth_facts:
  assumes "length mac = 6"
  shows "length (veth_reply mac) \<le> HMSG_MAX_SIZE"
    "hardware_message (veth_memory mac) [veth_port mac] (veth_reply mac) (veth_details mac)"
    "heard (veth_memory mac) [veth_port mac] mac"
proof -
  show "length (veth_reply mac) \<le> HMSG_MAX_SIZE"
    using assms by (simp add: veth_reply_def put_hardware_def put_port_fields_def put_port_chassis_def
        bare_port_def veth_port_def veth_memory_def put_chassis_def switch_def Let_def align_up_def
        sample_hardware_ok RawPort_ok_def HMSG_MAX_SIZE_num)
  show "hardware_message (veth_memory mac) [veth_port mac] (veth_reply mac) (veth_details mac)"
    unfolding veth_reply_def veth_details_def
    by (rule hardware_message.shorter [OF veth_images [OF assms] sample_hardware_ok])
qed (simp_all add: veth_port_def bare_port_def veth_memory_def)

text \<open>An interface that has no neighbor yet.\<close>

definition alone_reply :: bytes where
  "alone_reply = put_hardware plain sample_memory RawHardware_pod empty_hardware
     (bare_port empty_port None) [] None"

lemma alone_facts:
  "quiet (Details alone_reply)" "answer_fits (Details alone_reply)" "answer_fits (Gone [])"
proof -
  show "answer_fits (Gone [])" by (simp add: answer_fits_def)
  show "quiet (Details alone_reply)"
    unfolding alone_reply_def
    by (rule no_neighbor [OF hardware_message.shorter [OF sample_memory_image fp_image(2)
          empty_ok(2)]])
  have "length alone_reply = 712"
    by (simp add: alone_reply_def put_hardware_def put_port_fields_def put_port_chassis_def
        bare_port_def Let_def align_up_def)
  then show "answer_fits (Details alone_reply)" by (simp add: answer_fits_def HMSG_MAX_SIZE_num)
qed

definition veth_files :: "u8 \<Rightarrow> string \<Rightarrow> (string, io_error) result" where
  "veth_files v path = Ok (mac_text (if path = ''/sys/class/net/veth-a/address''
     then [2, 0, 0, 0, 0, 0x0A] else [2, 0, 0, 0, 0, v]))"

definition veth_dial :: "string \<Rightarrow> (stream, io_error) result" where
  "veth_dial path = Ok (if path = ''/run/lldpd-a.sock''
     then one_piece (frame 0 [] @ frame 6 alone_reply @ frame 6 (veth_reply [2, 0, 0, 0, 0, 0xFB]))
     else byte_by_byte (frame 6 (veth_reply [2, 0, 0, 0, 0, 0x0A])))"

theorem real_tests_verdict_witness:
  "let env = [''RLLDPCTL_REAL_LLDPD'' \<mapsto> ''1''];
       start = \<lparr>client = (), time = 0, delays = [30, 2000, 70], oversleeps = [100]\<rparr>
   in test_real_lldpd env (veth_files 0xFB) veth_dial std_io start \<and>
     test_async_real_lldpd env (veth_files 0xFB) veth_dial std_io start \<and>
     \<not> test_real_lldpd env (veth_files 0xFC) veth_dial std_io start"
proof -
  let ?env = "[''RLLDPCTL_REAL_LLDPD'' \<mapsto> ''1''] :: string \<Rightarrow> string option"
  let ?start = "\<lparr>client = (), time = 0, delays = [30, 2000, 70], oversleeps = [100]\<rparr> :: unit timed"
  let ?b = "[2, 0, 0, 0, 0, 0xFB] :: bytes"
  let ?a = "[2, 0, 0, 0, 0, 0x0A] :: bytes"
  have verdict: "(test_real_lldpd ?env (veth_files v) veth_dial std_io ?start \<longleftrightarrow>
      heard (veth_memory ?b) [veth_port ?b] [2, 0, 0, 0, 0, v] \<and>
      heard (veth_memory ?a) [veth_port ?a] ?a) \<and>
    (test_async_real_lldpd ?env (veth_files v) veth_dial std_io ?start \<longleftrightarrow>
      heard (veth_memory ?b) [veth_port ?b] [2, 0, 0, 0, 0, v] \<and>
      heard (veth_memory ?a) [veth_port ?a] ?a)" for v
    by (rule real_tests_verdict [where mac_a = ?a
          and sa = "one_piece (frame 0 [] @ frame 6 alone_reply @ frame 6 (veth_reply ?b))"
          and sb = "byte_by_byte (frame 6 (veth_reply ?a))" and early_a = "[Gone [], Details alone_reply]" and early_b = "[]"
          and pa = "veth_reply ?b" and pb = "veth_reply ?a" and da = "veth_details ?b"
          and db = "veth_details ?a" and ra = "[]" and rb = "[]"])
      (simp_all add: veth_facts alone_facts enabled_def env_or_def veth_files_def veth_dial_def
        no_interface in_time_def POLL_INTERVAL_def POLL_TIMEOUT_def)
  have "heard (veth_memory ?b) [veth_port ?b] ?b" "heard (veth_memory ?a) [veth_port ?a] ?a"
    by (rule veth_facts; simp)+
  moreover have "\<not> heard (veth_memory ?b) [veth_port ?b] [2, 0, 0, 0, 0, 0xFC]"
    by (simp add: veth_port_def bare_port_def)
  ultimately show ?thesis
    using verdict [of "0xFB"] verdict [of "0xFC"] by simp
qed

section \<open>Panics and errors of the system\<close>

text \<open>
  C25: no method of a client or of a subscription panics, whatever the system does and whatever
  bytes the daemon sends: a payload that reaches a decoder is within the cap of a frame, and
  there the decoders are safe.
\<close>

theorem clients_never_panic:
  "fst (interfaces std_io c) \<noteq> Panic \<and> fst (interface_details std_io ifn c) \<noteq> Panic \<and>
   fst (all_interfaces std_io c) \<noteq> Panic \<and> fst (set_port_description std_io ifn descr c) \<noteq> Panic \<and>
   subscribe std_io c \<noteq> Panic \<and> fst (subscription_next std_io sub) \<noteq> Some Panic \<and>
   fst (show_each printable std_io ifs out c) \<noteq> Panic \<and>
   fst (doc_each printable std_io ifs out c) \<noteq> Panic"
  using std.interfaces_no_panic std.interface_details_no_panic std.all_interfaces_no_panic
    std.set_port_description_no_panic std.subscribe_no_panic std.subscription_next_no_panic
    std.show_each_no_panic std.doc_each_no_panic
  by blast

lemma read_events_failed:
  "list_all rx_fair evs \<Longrightarrow> length (concat (map event_bytes evs)) < n \<Longrightarrow>
   read_events n (evs @ RxError e # later) = (Err e, later)"
proof (induction n evs rule: read_events.induct)
  case (2 n)
  then show ?case by (cases n) simp_all
next
  case (5 n d evs)
  then have "\<not> Suc n < length d" "d \<noteq> []"
    and "read_events (Suc n - length d) (evs @ RxError e # later) = (Err e, later)"
    by auto
  then show ?case by simp
qed (use gr0_conv_Suc in auto)

lemma read_events_before:
  "list_all rx_fair evs \<Longrightarrow> n \<le> length (concat (map event_bytes evs)) \<Longrightarrow>
   \<exists>evs'. read_events n (evs @ later) = (Ok (take n (concat (map event_bytes evs))), evs' @ later) \<and>
     concat (map event_bytes evs') = drop n (concat (map event_bytes evs)) \<and> list_all rx_fair evs'"
proof (induction n evs rule: read_events.induct)
  case (5 n d evs)
  show ?case
  proof (cases "Suc n < length d")
    case True
    with 5 show ?thesis by (intro exI [of _ "Data (drop (Suc n) d) # evs"]) simp
  next
    case False
    have d: "d \<noteq> []" using "5.prems" by simp
    have "Suc n - length d \<le> length (concat (map event_bytes evs))" "list_all rx_fair evs"
      using "5.prems" by simp_all
    from "5.IH" [OF d False this(2,1)] d False show ?thesis by auto
  qed
qed auto

lemma read_message_failed:
  assumes "rx s = evs @ RxError e # later" and "list_all rx_fair evs"
    and b: "b = concat (map event_bytes evs)"
    and "length b < 16 \<or> frame_len b \<le> HMSG_MAX_SIZE \<and> length b < 16 + frame_len b"
  shows "read_message std_io ty s = (Err (Io e), s\<lparr>rx := later\<rparr>)"
proof (cases "length b < 16")
  case True
  then show ?thesis
    using read_events_failed [OF assms(2), of 16 e later] assms(1) b
    by (simp add: read_message_def header_len_16 std_io_def std_read_exact_def lift_io_def)
next
  case False
  then obtain evs' where r: "read_events 16 (rx s) = (Ok (take 16 b), evs' @ RxError e # later)"
    "concat (map event_bytes evs') = drop 16 b" "list_all rx_fair evs'"
    using read_events_before [OF assms(2), of 16 "RxError e # later"] assms(1) b by auto
  have "decode_header (take 16 b) = Ok (frame_type b, word_from_le (take 8 (drop 8 b)))"
    using False by (simp add: decode_header_Ok frame_type_def min_def drop_take)
  moreover have "length b - 16 < frame_len b" using False assms(4) by linarith
  then have "read_events (frame_len b) (evs' @ RxError e # later) = (Err e, later)"
    using read_events_failed [OF r(3)] r(2) by simp
  ultimately show ?thesis
    using r(1) assms(4) False
    by (simp add: read_message_def header_len_16 std_io_def std_read_exact_def lift_io_def
        frame_len_def)
qed

lemma write_events_failed:
  "list_all tx_fair evs \<Longrightarrow>
   sum_list (map (\<lambda>ev. case ev of Accept n \<Rightarrow> n | _ \<Rightarrow> 0) evs) < length b \<Longrightarrow>
   write_events b (evs @ TxError e # later) =
     (Err e, later, take (sum_list (map (\<lambda>ev. case ev of Accept n \<Rightarrow> n | _ \<Rightarrow> 0) evs)) b)"
proof (induction evs arbitrary: b)
  case (Cons ev evs)
  then have "b \<noteq> []" by auto
  with Cons show ?case by (cases ev) (simp_all add: take_add)
qed auto

text \<open>
  C26: an error of the system in the middle of a message is returned as it is, as \<open>Error::Io\<close>,
  with nothing read behind it: by every read of a message, and as an item of the subscription,
  unless it is of the kind \<open>UnexpectedEof\<close>, which ends the iteration. An error while the request
  is written is returned with no read attempted, after what the system accepted of the request.
\<close>

theorem system_errors_surface:
  assumes "rx s = evs @ RxError e # later" and "list_all rx_fair evs"
    and b: "b = concat (map event_bytes evs)"
    and "length b < 16 \<or> frame_len b \<le> HMSG_MAX_SIZE \<and> length b < 16 + frame_len b"
    and "txq s' = tevs @ TxError e' # tlater" and "list_all tx_fair tevs"
    and k: "k = sum_list (map (\<lambda>ev. case ev of Accept n \<Rightarrow> n | _ \<Rightarrow> 0) tevs)"
    and "k < 16 + length p"
  shows "read_message std_io ty s = (Err (Io e), s\<lparr>rx := later\<rparr>) \<and>
    subscription_next std_io \<lparr>Subscription.stream = s\<rparr> =
      (if e = UnexpectedEof then None else Some (Err (Io e)),
       \<lparr>Subscription.stream = s\<lparr>rx := later\<rparr>\<rparr>) \<and>
    request std_io ty p s' =
      (Err (Io e'),
       s'\<lparr>txq := tlater, tx := tx s' @ take k (frame (hmsg_number ty) p)\<rparr>)"
proof -
  have r: "read_message std_io ty s = (Err (Io e), s\<lparr>rx := later\<rparr>)" for ty
    by (rule read_message_failed [OF assms(1,2) b assms(4)])
  moreover have "end_or_item (Err (Io e)) = (if e = UnexpectedEof then None else Some (Err (Io e)))"
    by (cases e) simp_all
  moreover have "write_events (frame (hmsg_number ty) p) (txq s') =
      (Err e', tlater, take k (frame (hmsg_number ty) p))"
    using write_events_failed [OF assms(6)] assms(5,8) k by simp
  ultimately show ?thesis
    by (simp add: subscription_next_def recv_notification_def request_def Let_def
        frame_encode_header [symmetric] std_io_def std_write_all_def lift_io_def)
qed

lemma frame_start: "take 2 (frame 3 []) = [3, 0]"
  by code_simp

theorem system_errors_surface_witness:
  "fst (subscription_next std_io
     \<lparr>Subscription.stream = \<lparr>rx = [Data [10, 0], RxInterrupted, RxError (OsError 104)],
       txq = [], tx = []\<rparr>\<rparr>) = Some (Err (Io (OsError 104))) \<and>
   request std_io GetInterfaces [] \<lparr>rx = [Data [1]], txq = [Accept 2, TxError (OsError 32)], tx = []\<rparr> =
     (Err (Io (OsError 32)), \<lparr>rx = [Data [1]], txq = [], tx = [3, 0]\<rparr>)"
  using system_errors_surface [of "\<lparr>rx = [Data [10, 0], RxInterrupted, RxError (OsError 104)],
        txq = [], tx = []\<rparr>" "[Data [10, 0], RxInterrupted]" "OsError 104" "[]" "[10, 0]"
      "\<lparr>rx = [Data [1]], txq = [Accept 2, TxError (OsError 32)], tx = []\<rparr>" "[Accept 2]"
      "OsError 32" "[]" 2 "[]" GetInterfaces]
  by (simp add: frame_start)

section \<open>The showing programs\<close>

text \<open>
  C29: what the showing program prints: the lines of each listed interface, in the order of the
  list, each a function of its decoded state. The program stops with an error at the first
  interface the daemon no longer has, with the lines of the interfaces before it. So does the
  example of the crate's documentation, which prints one line per neighbor.
\<close>

theorem show_neighbors_prints:
  assumes "connect_as_told dial args = Ok c" and "std_fair (Client.stream c)"
    and "std_incoming (Client.stream c) =
      frame (hmsg_number GetInterfaces) p @ concat (map answer_frame as) @ rest"
    and "length p \<le> HMSG_MAX_SIZE" and "list_all answer_fits as"
    and "decode_interfaces p = Ok ifs" and "length as = length ifs"
  shows "show_neighbors printable dial std_io args = shown printable as \<and>
    (first_argument args = None \<longrightarrow>
      doc_example printable dial std_io = documented printable (zip ifs as))"
proof -
  have "connect dial = Ok c" if "first_argument args = None"
    using assms(1) that by (simp add: connect_as_told_def)
  then show ?thesis
    using std.show_neighbors_session [OF assms] std.doc_example_session [OF _ assms(2-7)] by blast
qed

theorem show_neighbors_prints_witness:
  "show_neighbors (\<lambda>x. x < 127) (\<lambda>_. Ok (byte_by_byte
     (frame 3 interfaces_capture @ frame 6 fixture_local_only @ frame 0 []))) std_io
     [''show_neighbors''] =
   (Err RequestRejected,
    [ascii ''eth0 ([00, 00, 00, 00, 00, 00])'', ascii ''  (no neighbors)''])"
proof -
  let ?s = "byte_by_byte (frame 3 interfaces_capture @ frame 6 fixture_local_only @ frame 0 [])"
  have "connect_as_told (\<lambda>_. Ok ?s) [''show_neighbors''] = Ok (client_on ?s)"
    by (simp add: connect_as_told_def first_argument_def connect_def connect_to_def client_on_def)
  moreover have "length (map snd capture_interfaces) = 2" by (simp add: capture_interfaces_def)
  moreover have "ascii ''eth0'' @ ascii ('' ('' @ debug_hex (zeros 6) @ '')'') =
      ascii ''eth0 ([00, 00, 00, 00, 00, 00])''"
    by code_simp
  ultimately show ?thesis
    using show_neighbors_prints [of "\<lambda>_. Ok ?s" "[''show_neighbors'']" "client_on ?s"
        interfaces_capture "[Details fixture_local_only, Gone []]" "[]" "map snd capture_interfaces"]
    by (simp add: interfaces_capture_length fixture_lengths HMSG_MAX_SIZE_num answer_fits_def
        capture_decoded local_only_decoded details_lines_def interface_line_def)
qed

text \<open>
  C30: the tokio programs against the blocking ones, for the same arguments and the same
  behaviour of the system: the watching programs print the same lines, return the same result
  and end in the same runs; the showing programs return the same result, and the lines of the
  tokio one are some of the lines of the other, in the same order.
\<close>

theorem programs_agree:
  "watch_neighbors_async dial io args = watch_neighbors dial io args \<and>
   fst (show_neighbors_async printable dial io args) = fst (show_neighbors printable dial io args) \<and>
   subseq (snd (show_neighbors_async printable dial io args))
     (snd (show_neighbors printable dial io args))"
  using watch_neighbors_async_eq show_neighbors_async_subseq by blast

section \<open>A dropped future\<close>

text \<open>A frame that arrives in two pieces, with the future dropped between them.\<close>

definition in_two :: "bytes \<Rightarrow> stream" where
  "in_two p = \<lparr>rx = [Data (encode_header Notification (length p)), Data p], txq = [], tx = []\<rparr>"

lemma in_two_facts:
  "p \<noteq> [] \<Longrightarrow> std_fair (in_two p)" "std_incoming (in_two p) = frame 10 p"
  using length_encode_header [of Notification "length p"] frame_encode_header [of Notification p]
  by (auto simp: in_two_def std_fair_def std_incoming_def simp del: length_encode_header)

lemma in_two_dropped:
  assumes "p \<noteq> []" and "length p \<le> HMSG_MAX_SIZE"
  shows "dropped_read_message std_io script_drops (in_two p) (one_piece p)"
proof (rule at_payload)
  let ?h = "encode_header Notification (length p)"
  have "?h \<noteq> []" using length_encode_header [of Notification "length p"] by force
  then have "read_events 16 (rx (in_two p)) = (Ok ?h, [Data p])"
    using read_events.simps(5) [of 15 ?h "[Data p]"] by (simp add: in_two_def)
  then show "read_exact std_io header_len (in_two p) = (Ok ?h, one_piece p)"
    using assms(1) by (simp add: std_io_def std_read_exact_def header_len_16 in_two_def one_piece_def)
  show "decode_header ?h = Ok (hmsg_number Notification, word_of_nat (length p))"
    by (rule decode_encode_header)
  have n: "unat (word_of_nat (length p) :: usize) = length p"
    using assms(2) by (simp add: unat_of_nat HMSG_MAX_SIZE_num)
  with assms(2) show "unat (word_of_nat (length p) :: usize) \<le> HMSG_MAX_SIZE" by simp
  show "one_piece p \<in> set (read_dropped script_drops (unat (word_of_nat (length p) :: usize)) (one_piece p))"
    unfolding n using assms(1) by (cases "length p") (simp_all add: script_drops_def one_piece_def)
qed

lemma deleted_as_frame: "parse_frame Notification fixture_deleted = (Err (UnexpectedMessageType 10 1), 64)"
proof -
  let ?body = "raw_bytes RawNeighborChange_pod deleted_change"
  have "length ?body = 32"
    using change.length_write [of deleted_change] by (simp add: raw_bytes_def pod_sizes)
  then have fixture: "fixture_deleted = word_to_le (1 :: usize) @ word_to_le (48 :: usize) @ ?body @
      word_to_le (100 :: usize) @ word_to_le (21 :: usize) @ ascii ''eth0'' @ [0]"
    by (simp add: fixture_deleted_def buf_chunk_pod_def buf_cstring_def buf_chunk_def buf_pad_def)
  have "word_from_le (take 4 (word_to_le (1 :: usize))) = (1 :: i32)" by code_simp
  then have "frame_type fixture_deleted = 1" "frame_len fixture_deleted = 48"
    by (simp_all add: frame_type_def frame_len_def fixture)
  then show ?thesis using fixture_lengths(4) by (simp add: parse_frame_def HMSG_MAX_SIZE_num)
qed

text \<open>
  C33: \<open>next_change\<close> dropped before it is finished (a timeout, a branch of \<open>select!\<close>) may have
  taken the first bytes of a notification. They are lost: the next call reads what follows them
  as a frame. At the witness a notification that the daemon sent whole, and that an undisturbed
  call returns, is never returned: the next call fails with an unexpected message type.
\<close>

theorem dropped_change_lost:
  assumes "droppable_stream tokio incoming fair written drops" and "fair (changes sub)"
    and "dropped_next_change tokio drops sub sub'"
  shows "\<exists>k < 16 + HMSG_MAX_SIZE. incoming (changes sub') = drop k (incoming (changes sub)) \<and>
    fst (next_change tokio sub') =
      end_or_change (fst (parse_frame Notification (drop k (incoming (changes sub)))))"
  using droppable_stream.next_change_after_drop [OF assms(1,3,2)] .

theorem dropped_change_lost_witness:
  "\<exists>sub sub' change. std_incoming (changes sub) = frame 10 fixture_deleted \<and>
     fst (next_change std_io sub) = Ok (Some change) \<and> kind change = Deleted \<and>
     dropped_next_change std_io script_drops sub sub' \<and>
     fst (next_change std_io sub') = Err (UnexpectedMessageType 10 1)"
proof -
  let ?sub = "\<lparr>changes = in_two fixture_deleted\<rparr>"
  let ?sub' = "\<lparr>changes = one_piece fixture_deleted\<rparr>"
  have i: "std_incoming (in_two fixture_deleted) = frame 10 fixture_deleted" "std_fair (in_two fixture_deleted)"
    using in_two_facts [of fixture_deleted] fixture_lengths(4) by force+
  obtain change where c: "decode_neighbor_change fixture_deleted = Ok change" "kind change = Deleted"
    using change_tests(1) by (auto simp: test_change_deleted_def split: result.splits)
  have d: "dropped_next_change std_io script_drops ?sub ?sub'"
    using in_two_dropped [of fixture_deleted] fixture_lengths(4)
    by (force simp: dropped_next_change_def HMSG_MAX_SIZE_num)
  obtain sub1 where "subscription_next std_io \<lparr>Subscription.stream = in_two fixture_deleted\<rparr> =
      (Some (decode_neighbor_change fixture_deleted), sub1)"
    by (rule std.next_notification [of "\<lparr>Subscription.stream = in_two fixture_deleted\<rparr>"
          fixture_deleted "[]"]) (simp_all add: i fixture_lengths HMSG_MAX_SIZE_num)
  with next_twin [of std_io "\<lparr>Subscription.stream = in_two fixture_deleted\<rparr>"] c
  have n: "fst (next_change std_io ?sub) = Ok (Some change)" by simp
  obtain k where "std_incoming (changes ?sub') = drop k (std_incoming (changes ?sub))"
    "fst (next_change std_io ?sub') =
      end_or_change (fst (parse_frame Notification (drop k (std_incoming (changes ?sub)))))"
    using dropped_change_lost [OF script.droppable_stream_axioms _ d] i by auto
  then have "fst (next_change std_io ?sub') = Err (UnexpectedMessageType 10 1)"
    by (simp add: deleted_as_frame)
  with i c n d show ?thesis by (intro exI [of _ ?sub] exI [of _ ?sub'] exI [of _ change]) simp
qed

section \<open>The tests of the repository\<close>

text \<open>
  C40: the tests of the crate pass. The unit tests over a pair of sockets pass in whatever pieces
  the bytes arrive, those of the tokio client for any stream functions that keep the contract;
  the integration tests pass for every interleaving of the client with the fake daemon.
\<close>

theorem tests_pass:
  "test_interfaces_empty_list \<and> test_interfaces_two_entries \<and> test_interfaces_capture \<and>
   test_hardware_local_only \<and> test_hardware_flags_previous \<and> test_hardware_one_neighbor \<and>
   test_hardware_shared_chassis \<and> test_hardware_truncated \<and> test_change_deleted \<and>
   test_change_added \<and>
   test_single_chunk \<and> test_pads_between_chunks \<and> test_cstring_strips_nul \<and>
   test_cstring_null_pointer \<and> test_truncated_is_protocol_error \<and>
   test_sizes_aligned \<and> test_flags_previous_one_step_bigger \<and> test_port_set_eighty_bytes \<and>
   test_interface_name_request \<and> test_set_port_capture \<and>
   test_header_len \<and> test_header_roundtrips \<and> test_align_up_examples \<and>
   test_interfaces_round_trip path ks \<and> test_interface_not_found path ks \<and>
   test_set_port_sent path ks \<and> test_set_port_rejected path ks \<and>
   test_async_interfaces_round_trip path ks \<and> test_async_set_port_sent path ks \<and>
   test_async_set_port_rejected path ks \<and>
   (\<forall>dial :: string \<Rightarrow> (stream, io_error) result. (\<forall>path. \<exists>e. dial path = Err e) \<longrightarrow>
      test_connect_missing dial \<and> test_async_connect_missing dial) \<and>
   (\<forall>client. std_fair client \<and> tx client = [] \<longrightarrow>
      (std_incoming client = server_reply \<longrightarrow> test_request_over_socketpair client) \<and>
      (std_incoming client = [] \<longrightarrow> test_subscription_ends client) \<and>
      (std_incoming client = empty_notification \<longrightarrow> test_subscription_decode_error client)) \<and>
   (\<forall>incoming fair written client.
      byte_stream tokio incoming fair written \<and> fair client \<and> written client = [] \<longrightarrow>
      (incoming client = server_reply \<longrightarrow>
         test_async_request_over_socketpair tokio written client) \<and>
      (incoming client = encode_header None' 0 \<longrightarrow> test_async_not_found tokio client) \<and>
      (incoming client = [] \<longrightarrow> test_async_subscription_ends tokio client))"
proof -
  note decoding = interfaces_tests local_only_test flags_previous_test one_neighbor_test
    shared_chassis_test truncated_test change_tests
  have missing: "test_connect_missing dial" "test_async_connect_missing dial"
    if "\<forall>path. \<exists>e. dial path = Err e" for dial :: "string \<Rightarrow> (stream, io_error) result"
    using that integration_tests(1) async_integration_tests(1) by metis+
  note other = cursor_tests structure_tests request_tests framing_tests
  show ?thesis
    by (intro conjI allI impI decoding other integration_tests(2-5) async_integration_tests(2-4))
      (simp_all add: missing socket_tests, (elim conjE, erule (3) async_socket_tests)+)
qed

theorem tests_pass_witness:
  "test_request_over_socketpair (byte_by_byte server_reply) \<and>
   test_subscription_decode_error (one_piece empty_notification) \<and>
   test_async_request_over_socketpair std_io tx (one_piece server_reply)"
proof (intro conjI)
  note tests = tests_pass [where tokio = std_io and path = "''/run/x.sock''" and ks = "[]"]
  show "test_request_over_socketpair (byte_by_byte server_reply)" using tests by simp
  show "test_subscription_decode_error (one_piece empty_notification)" using tests by simp
  show "test_async_request_over_socketpair std_io tx (one_piece server_reply)"
    using tests std.byte_stream_axioms one_piece_facts [of server_reply] by blast
qed

end
