(* ===== verification/Spec2Isabelle.thy ===== *)
theory Spec2Isabelle
  imports Program_Properties
begin

text \<open>
  A model of rlldpctl, a client of the control socket of lldpd, and what makes it correct.

  \<^bold>\<open>The program.\<close> A client opens the daemon's Unix socket, sends requests and decodes replies
  that are the daemon's own C structures, marshalled chunk by chunk. The parts, bottom up:

    \<^item> src/error.rs: the error type (theory \<open>Errors\<close>).
    \<^item> src/transport.rs: frames on the stream. A frame is a header (type, padding, length) and a
      payload; \<open>request\<close> writes one and reads the reply, \<open>recv_notification\<close> reads one.
      Theory \<open>Transport\<close>, over the stream functions of theory \<open>Stream\<close>.
    \<^item> src/wire/raw.rs: the C structures. Theory \<open>Raw\<close> has for each a record with the source's
      fields, its layout, reader and writer, over the layout rules of theory \<open>Layout\<close>.
    \<^item> src/wire/cursor.rs: the reader of chunks. Theory \<open>Cursor\<close>; the standard library's UTF-8
      conversions it calls are in theory \<open>Utf8\<close>.
    \<^item> src/model.rs: the values the crate returns. Theory \<open>Model\<close>.
    \<^item> src/wire/mod.rs and src/wire/decode.rs: the payloads of requests and the decoders of
      replies. Theories \<open>Encode\<close> and \<open>Decode\<close>; the decoders that share a chassis once more in theory
      \<open>Arcs\<close>, with the identity of the shared references. Why a reply in the longer of its two
      layouts is understood is in theory \<open>Layouts\<close>.
    \<^item> src/client.rs, src/subscription.rs, src/async_client.rs: the blocking client, its feed of
      notifications and their tokio twins. Theories \<open>Client\<close>, \<open>Subscription\<close>, \<open>AsyncClient\<close>; each
      method as a function of the bytes the peer sends, and the agreement of the two clients, in
      theory \<open>Replies\<close>; what a dropped future leaves behind in theory \<open>Cancellation\<close>.
    \<^item> examples, and the example in the documentation of src/lib.rs: five command line programs, as
      the lines they print and what \<open>main\<close> returns. Theory \<open>Examples\<close>; the standard library's
      formatting they use is in theory \<open>Format\<close>.
    \<^item> the tests: the unit tests of each module and tests/integration.rs with its tokio twin, as
      Booleans. Theories \<open>Decode_Tests\<close>, \<open>Unit_Tests\<close>, \<open>Integration_Tests\<close>. tests/real_lldpd.rs,
      which asks two real daemons again and again until each reports the other: theory
      \<open>Real_Daemon_Tests\<close>.

  \<^bold>\<open>How state and effects are modelled.\<close> A fallible function returns \<open>Ok\<close>, \<open>Err\<close> or \<open>Panic\<close>
  (theory \<open>Prelude\<close>): every slice, checked operation and overflow that could end the thread is
  a branch. The cursor is passed on by the decoders, the chassis cache below
  \<open>decode_hardware_as\<close> too. A method of a client takes the client and returns it with its
  stream advanced, also after an error. A stream is the script of what the system answers to
  each single read and write, so that every fragmentation, interruption and failure is some
  script; \<open>read_exact\<close> and \<open>write_all\<close> are the standard library's loops over it. Opening the
  socket and the stream functions of tokio are parameters. Integers have their widths; the
  target is a 64-bit little-endian machine. A shared \<open>Arc\<close> is the value it holds, except in theory
  \<open>Arcs\<close>, where it is an allocation made by \<open>Arc::new\<close> and compared by \<open>Arc::ptr_eq\<close>; that theory
  also proves that the simpler view is right (\<open>hardware_erased\<close>, \<open>change_erased\<close>).

  \<^bold>\<open>How the parts run together.\<close> Theory \<open>Sessions\<close>: a client is a state machine whose steps are
  calls, a session a sequence of steps. Theory \<open>Daemon\<close>: the client and a daemon (any function of
  a state and a request) as two processes over a socket, interleaved by a schedule.

  \<^bold>\<open>Interfaces.\<close> \<open>pod_codec\<close> and \<open>c_struct\<close> (theory \<open>Layout\<close>) are the contract of plain data and of
  a C structure, interpreted on all eighteen structures; \<open>message_reader\<close> (theory
  \<open>Decode_Safety\<close>) is what a decoder owes to the payload it is run on, interpreted on the three
  decoders; \<open>byte_source\<close>, \<open>read_preserves\<close> and \<open>byte_stream\<close> (theory \<open>Stream\<close>) are the
  documented contract of a stream's functions, interpreted on the standard library's and, where
  only reads matter, on the socket of theory \<open>Daemon\<close>; \<open>droppable_stream\<close> (theory
  \<open>Cancellation\<close>) adds what dropping a stream function may do, interpreted on the scripts;
  \<open>timer\<close> (theory \<open>Real_Daemon_Tests\<close>) is what a loop with a deadline needs of the clock,
  interpreted on a client with arbitrary delays. The transport and the clients are verified once
  against these.

  \<^bold>\<open>Specifications.\<close> \<open>parse_frame\<close> says what one read does to the bytes that arrive. Theories
  \<open>Messages\<close> and \<open>Roundtrip\<close> say what a message of the daemon is: any structures in its memory,
  with the chunks their pointers announce behind them, any addresses and nested sizes;
  \<open>hardware_message\<close> (theory \<open>Layouts\<close>) is a reply to \<open>GET_INTERFACE\<close> in either layout.
  \<open>hardware_ports\<close> (theory \<open>Arcs\<close>) is the ports of a payload, whose pointers say what is shared.
  \<open>gather\<close> is what a session of \<open>all_interfaces\<close> returns for the daemon's answers, \<open>served\<close> what
  calls return that are applied to the daemon's function directly, \<open>collect_all\<close> the same for
  \<open>all_interfaces\<close>, \<open>report\<close>, \<open>shown\<close> and \<open>documented\<close> what the programs print, \<open>polled\<close> what
  asking until a deadline returns; \<open>replied\<close>, \<open>fetched\<close> and \<open>all_fetched\<close> (theory \<open>Replies\<close>) what a
  method returns, writes and leaves for any bytes of the peer, \<open>heard\<close> what the daemons know of
  each other.

  \<^bold>\<open>What is proved.\<close>
    \<^item> Theory \<open>Wire_Properties\<close>: the decoders return the values that were marshalled, for every
      message of the daemon, including neighbors that share a chassis and the fallback between
      two layouts (C1 to C4), which is taken whenever it should be (C8). They are total and do not
      panic (C6), accept a message exactly to its last byte (C7), depend on the bytes they use only (C9), return values of the source's
      types (C10) and no more than the payload pays for (C34, C35). Each chassis pointer is one
      allocation (C11). A chained local port (C36), the cursor on every branch (C37, C38), the
      place of every field of the structures (C39), the request that changes a port, also against
      captured traffic (C28).
    \<^item> Theory \<open>Session_Properties\<close>: frames under every fragmentation, drained whatever is decided
      about them, and the oversized one that is not (C16, C17, C27); the
      outcome of changing a port (C12); whole sessions of the blocking client (C18); the end of a
      subscription (C20); the agreement of the tokio client in every operation, over one stream
      and over two streams of one peer (C31, C32).
    \<^item> Theory \<open>Program_Properties\<close>: all interfaces from the daemon's memory to the caller (C5);
      calls, and the batch of all interfaces, as calls of the daemon's function, for every interleaving (C13, C14), and in step with any framed
      answers (C15); every notification is delivered (C19); when and how the watching
      program ends, over any stream (C21), and what the programs print (C22, C29, C30); asking
      until a deadline ends (C23), and the tests against real daemons decide whether the daemons
      have heard of each other (C24); no method panics (C25); errors
      of the system (C26); what a dropped future loses (C33); the other tests pass (C40).
  Each property with a hypothesis is applied to a concrete input, most of them messages of the
  repository's own tests (theories \<open>Requests\<close>, \<open>Samples\<close>, \<open>Decode_Tests\<close>).

  \<^bold>\<open>Bounds.\<close> Every decoder stops because a call reads a chunk header first; no fuel is used. The
  loops of the watching programs are partial functions: they run for ever exactly if every step
  brings a change (C21). A peer that never stops pushing makes them do so; no finite script does,
  since each item uses up a part of it. The loop that asks until a deadline is one too: it ends within
  51 attempts, as many sleeps of 100 ms as fit into five seconds. \<open>slice_max\<close> is the largest slice
  Rust can have. The nested size of a chunk in a message of theory \<open>Messages\<close> is a 32-bit number,
  far above the cap of a frame. \<open>take_changes\<close> takes the number of steps, and any
  number above that of the notifications gives them all. A reply in the longer layout is told from
  the shorter one under two conditions on the message, which C5, C8 and C24 state: the local port
  has an identifier (its subtype is not the reserved 0), and the third chunk has a reference number
  below sixteen, where src/wire/cursor.rs says that the daemon's numbers are small and sequential.

  \<^bold>\<open>Not modelled.\<close> No function of the crate, of its examples or of its tests is left out. What
  is left of the sources does nothing at run time: the prose and re-exports of src/lib.rs, module
  and \<open>use\<close> lines, \<open>assert_futures_are_send\<close> of src/async_client.rs, which is a check of the
  compiler, and \<open>Debug\<close>, \<open>Clone\<close> and the other derived instances of data types. Targets other than
  64-bit little-endian ones would have other layouts. The stack is not modelled: a recursive
  decoder goes as deep as a chain is long, which is at most the number of its elements that fit
  into a payload (C34, C35). Inside the crate the scripts of the standard library's streams are
  finite and end with the peer closing. The text of system errors, opening a socket
  and its file, the environment and sysfs of the tests, the Unicode table behind \<open>{:?}\<close>, tokio and
  the daemon itself are parameters or outside.
\<close>

end
